(* ===== verification/Prelude.thy ===== *)
theory Prelude
  imports Main "HOL-Library.State_Monad" "HOL-Library.Sublist" "HOL-Library.Word"
begin

text \<open>
  Shared ground of the development: the Go string functions the program calls, and a small
  program logic for code that talks to the outside world.

  Effectful Go code is modelled in the state monad of \<^verbatim>\<open>HOL-Library.State_Monad\<close>
  over a history: the list of the calls made so far, each recorded together with the reply it
  got.  A call is \<open>io f c\<close>: the reply is \<open>f h\<close>, a function of the whole history, so the outside
  world (the Kubernetes API server, the clock, the random source, other writers) is as arbitrary as
  it can be.  \<open>wp\<close> evaluates a program exactly; \<open>emits P m Q h\<close> says that every call
  that \<open>m\<close>, started at history \<open>h\<close>, makes satisfies \<open>P\<close> at the moment it is made, and that the
  result satisfies \<open>Q\<close>.
\<close>

named_theorems wp_simps
named_theorems emits_intros

section \<open>Go strings\<close>

text \<open>\<open>strings.HasPrefix\<close>, \<open>strings.TrimPrefix\<close>, \<open>strings.TrimSuffix\<close>.\<close>

definition has_prefix :: "string \<Rightarrow> string \<Rightarrow> bool" where
  "has_prefix s p \<longleftrightarrow> take (length p) s = p"

definition trim_prefix :: "string \<Rightarrow> string \<Rightarrow> string" where
  "trim_prefix s p = (if has_prefix s p then drop (length p) s else s)"

definition trim_suffix :: "string \<Rightarrow> string \<Rightarrow> string" where
  "trim_suffix s p =
     (if length p \<le> length s \<and> drop (length s - length p) s = p
      then take (length s - length p) s else s)"

text \<open>\<open>strings.Join\<close> and \<open>strings.ContainsAny\<close>.\<close>

fun join :: "string list \<Rightarrow> string \<Rightarrow> string" where
  "join [] sep = []"
| "join [x] sep = x"
| "join (x # y # zs) sep = x @ sep @ join (y # zs) sep"

definition contains_any :: "string \<Rightarrow> string \<Rightarrow> bool" where
  "contains_any s cs \<longleftrightarrow> list_ex (\<lambda>c. c \<in> set cs) s"

lemma has_prefix_iff: "has_prefix s p \<longleftrightarrow> (\<exists>r. s = p @ r)"
  by (auto simp: has_prefix_def) (metis append_take_drop_id)

lemma has_prefix_refl [simp]: "has_prefix s s"
  by (simp add: has_prefix_def)

lemma has_prefix_append [simp]: "has_prefix (p @ r) p"
  by (simp add: has_prefix_def)

text \<open>The loops \<open>for \_, x := range xs \{ if p(x) \{ return f(x) \} \}\<close>: the first hit.\<close>

fun first_some :: "('a \<Rightarrow> 'b option) \<Rightarrow> 'a list \<Rightarrow> 'b option" where
  "first_some f [] = None"
| "first_some f (x # xs) = (case f x of Some y \<Rightarrow> Some y | None \<Rightarrow> first_some f xs)"

lemma first_some_None [simp]: "first_some f xs = None \<longleftrightarrow> (\<forall>x\<in>set xs. f x = None)"
  by (induction xs) (auto split: option.splits)

lemma first_some_SomeD: "first_some f xs = Some y \<Longrightarrow> \<exists>x\<in>set xs. f x = Some y"
  by (induction xs) (auto split: option.splits)

lemma first_some_cong [fundef_cong]:
  "xs = ys \<Longrightarrow> (\<And>x. x \<in> set ys \<Longrightarrow> f x = g x) \<Longrightarrow> first_some f xs = first_some g ys"
  by (induction ys arbitrary: xs) (auto split: option.splits)

text \<open>A chain of checks, each returning its error, passes when every check does.\<close>

lemma chain_None: "(case x of Some e \<Rightarrow> Some e | None \<Rightarrow> y) = None \<longleftrightarrow> x = None \<and> y = None"
  by (cases x) auto

section \<open>Programs over a history of calls\<close>

definition wp :: "('s, 'a) state \<Rightarrow> ('a \<Rightarrow> 's \<Rightarrow> bool) \<Rightarrow> 's \<Rightarrow> bool" where
  "wp m Q s = (case run_state m s of (a, s') \<Rightarrow> Q a s')"

lemma wp_return [simp, wp_simps]: "wp (State_Monad.return a) Q s = Q a s"
  by (simp add: wp_def)

lemma wp_bind [simp, wp_simps]: "wp (State_Monad.bind m k) Q s = wp m (\<lambda>a. wp (k a) Q) s"
  by (simp add: wp_def split: prod.split)

lemma wp_mono: "wp m Q s \<Longrightarrow> (\<And>a s'. Q a s' \<Longrightarrow> R a s') \<Longrightarrow> wp m R s"
  by (auto simp: wp_def split: prod.splits)

lemma wp_run: "wp m Q s \<Longrightarrow> run_state m s = (a, s') \<Longrightarrow> Q a s'"
  by (simp add: wp_def)

definition io :: "('c list \<Rightarrow> 'r) \<Rightarrow> ('r \<Rightarrow> 'c) \<Rightarrow> ('c list, 'r) state" where
  "io f c = State (\<lambda>h. (f h, h @ [c (f h)]))"

lemma wp_io [simp, wp_simps]: "wp (io f c) Q h = Q (f h) (h @ [c (f h)])"
  by (simp add: wp_def io_def)

lemma run_state_io [simp]: "run_state (io f c) h = (f h, h @ [c (f h)])"
  by (simp add: io_def)

text \<open>Every call of \<open>t\<close> satisfies \<open>P\<close> at the history it was made at.\<close>

primrec trace_ok :: "('c list \<Rightarrow> 'c \<Rightarrow> bool) \<Rightarrow> 'c list \<Rightarrow> 'c list \<Rightarrow> bool" where
  "trace_ok P h [] = True"
| "trace_ok P h (c # t) = (P h c \<and> trace_ok P (h @ [c]) t)"

lemma trace_ok_append [simp]:
  "trace_ok P h (t @ u) \<longleftrightarrow> trace_ok P h t \<and> trace_ok P (h @ t) u"
  by (induction t arbitrary: h) auto

lemma trace_ok_mono:
  "trace_ok P h t \<Longrightarrow> (\<And>h c. P h c \<Longrightarrow> P' h c) \<Longrightarrow> trace_ok P' h t"
  by (induction t arbitrary: h) auto

lemma trace_ok_nth:
  "trace_ok P h t \<Longrightarrow> t = u @ c # v \<Longrightarrow> P (h @ u) c"
  by auto

lemma trace_ok_ball: "trace_ok (\<lambda>_. P) h t \<longleftrightarrow> (\<forall>c\<in>set t. P c)"
  by (induction t arbitrary: h) auto

definition emits :: "('c list \<Rightarrow> 'c \<Rightarrow> bool) \<Rightarrow> ('c list, 'a) state \<Rightarrow>
    ('a \<Rightarrow> 'c list \<Rightarrow> bool) \<Rightarrow> 'c list \<Rightarrow> bool" where
  "emits P m Q h \<longleftrightarrow> wp m (\<lambda>a h'. \<exists>t. h' = h @ t \<and> trace_ok P h t \<and> Q a h') h"

lemma emits_return [simp]: "emits P (State_Monad.return a) Q h = Q a h"
  by (simp add: emits_def)

lemma emits_io [simp]: "emits P (io f c) Q h \<longleftrightarrow> P h (c (f h)) \<and> Q (f h) (h @ [c (f h)])"
  by (simp add: emits_def)

lemma emits_bind [emits_intros]:
  assumes "emits P m (\<lambda>a. emits P (k a) Q) h"
  shows "emits P (State_Monad.bind m k) Q h"
  using assms by (fastforce simp: emits_def wp_def split: prod.splits)

lemma emits_mono:
  assumes "emits P m Q h" and "\<And>a t. Q a (h @ t) \<Longrightarrow> R a (h @ t)"
  shows "emits P m R h"
  using assms by (fastforce simp: emits_def wp_def split: prod.splits)

lemma emits_mono_trace:
  assumes "emits P m Q h" and "\<And>h c. P h c \<Longrightarrow> P' h c"
  shows "emits P' m Q h"
  using assms unfolding emits_def wp_def by (fastforce split: prod.splits intro: trace_ok_mono)

lemma trace_ok_mono_from:
  "trace_ok P h t \<Longrightarrow> (\<And>u c. P (h @ u) c \<Longrightarrow> P' (h @ u) c) \<Longrightarrow> trace_ok P' h t"
proof (induction t arbitrary: h)
  case Nil
  then show ?case by simp
next
  case (Cons c t)
  from Cons.prems(2) [of "[]"] Cons.prems(2) [of "c # u" for u] Cons.prems(1) show ?case
    by (auto intro: Cons.IH)
qed

lemma emits_mono2:
  assumes "emits P m Q h" and "\<And>t c. P (h @ t) c \<Longrightarrow> P' (h @ t) c"
    and "\<And>a t. Q a (h @ t) \<Longrightarrow> R a (h @ t)"
  shows "emits P' m R h"
  using assms unfolding emits_def wp_def by (fastforce split: prod.splits intro: trace_ok_mono_from)

lemma emits_conj:
  assumes "emits P m Q h" and "emits P' m Q' h"
  shows "emits (\<lambda>h c. P h c \<and> P' h c) m (\<lambda>a h. Q a h \<and> Q' a h) h"
proof -
  have "trace_ok P h t \<Longrightarrow> trace_ok P' h t \<Longrightarrow> trace_ok (\<lambda>h c. P h c \<and> P' h c) h t" for h t
    by (induction t arbitrary: h) auto
  with assms show ?thesis by (auto simp: emits_def wp_def split: prod.splits)
qed

text \<open>What a finished run shows: the calls made are \<open>t\<close>, each was allowed, the result holds.\<close>

lemma emits_run:
  assumes "emits P m Q h" and "run_state m h = (a, h')"
  obtains t where "h' = h @ t" and "trace_ok P h t" and "Q a h'"
  using assms by (auto simp: emits_def wp_def)

lemma emits_runI:
  assumes "\<And>a h'. run_state m h = (a, h') \<Longrightarrow> \<exists>t. h' = h @ t \<and> trace_ok P h t \<and> Q a h'"
  shows "emits P m Q h"
  using assms by (auto simp: emits_def wp_def split: prod.split)

end
