(* ===== verification/Types.thy ===== *)
theory Types
  imports Prelude
begin

text \<open>
  The data of \<^verbatim>\<open>types.go\<close>: the SudoRequest resource (metadata, spec, status), the
  constants, and the Kubernetes objects the controller builds and reads, with the fields the code
  uses.  String-valued enumerations become datatypes whose last constructor keeps every other
  string, so no value of the Go type is lost.  Times are nanoseconds since the Unix epoch, a
  duration is a difference of times, and pointers to plain values are options.
\<close>

section \<open>Constants\<close>

definition second :: int where
  "second = 1000000000"

definition PendingRequestTTL :: int where "PendingRequestTTL = 60 * 60"
definition ApprovalTokenTTL :: int where "ApprovalTokenTTL = PendingRequestTTL"
definition ExecutorJobTTL :: int where "ExecutorJobTTL = 60 * 60"
definition DefaultPostApproval :: int where "DefaultPostApproval = 3600"
definition ExecutorStartDeadline :: int where "ExecutorStartDeadline = 600"
definition ExecutorJobTTLFloor :: int where "ExecutorJobTTLFloor = 120"
definition MaxStdinBytes :: nat where "MaxStdinBytes = 1024 * 1024 - 4096"
definition MaxOutputBytes :: nat where "MaxOutputBytes = 1024 * 1024 - 4096"

definition DefaultControllerNamespace :: string where
  "DefaultControllerNamespace = ''sudo-service''"

definition ExecutorSAName :: string where
  "ExecutorSAName = ''sudo-service-executor-sa''"

definition executorCleanupFinalizer :: string where
  "executorCleanupFinalizer = ''sudo.andrewgarrett.dev/executor-cleanup''"

definition configuredControllerNamespace :: "string \<Rightarrow> string" where
  "configuredControllerNamespace namespace =
     (if namespace = '''' then DefaultControllerNamespace else namespace)"

section \<open>The SudoRequest resource\<close>

datatype phase =
    NoPhase | Pending | Approved | Denied | Executed | Failed | Expired | OtherPhase string

primrec phase_name :: "phase \<Rightarrow> string" where
  "phase_name NoPhase = ''''"
| "phase_name Pending = ''Pending''"
| "phase_name Approved = ''Approved''"
| "phase_name Denied = ''Denied''"
| "phase_name Executed = ''Executed''"
| "phase_name Failed = ''Failed''"
| "phase_name Expired = ''Expired''"
| "phase_name (OtherPhase s) = s"

datatype notif_state = NotifNone | NotifPending | NotifDelivered | NotifOther string

datatype assess_state = AssessNone | AssessPending | AssessGenerated | AssessFailed | AssessOther string

datatype capture_state =
    CaptureNone | CaptureComplete | CaptureTruncated | CaptureFailed | CaptureOther string

datatype delivery_state = DeliveryNone | DeliveryAvailable | DeliveryFailed | DeliveryOther string

datatype effect =
    ReadOnly | ChangesCluster | CreatesResource | RestartsWorkload | DeletesResource
  | ExportsData | ReadsSecret | UsesCredentials | ExternalEgress | HostAccess
  | SecurityConfig | BroadScope | CleanupIncluded | NonDefaultImage | OtherEffect string

record permission_assessment =
  pa_Request :: string
  pa_Effects :: "effect list"
  pa_SchemaVersion :: string
  pa_PromptVersion :: string
  pa_Model :: string
  pa_GeneratedAt :: int

record playbook =
  pb_Name :: string
  pb_Parameters :: "(string \<times> string) list"

text \<open>
  \<open>pb_Parameters\<close> is a Go map: an association list with distinct keys.  The raw JSON items of the
  widened pod fields stay raw strings, as \<^verbatim>\<open>runtime.RawExtension\<close> keeps them.
\<close>

record sudo_request_spec =
  Requester :: string
  SubmittedBy :: string
  RetryOfUID :: string
  Reason :: string
  Command :: string
  Playbook :: "playbook option"
  SpecImage :: string
  Profile :: string
  TTLSecondsAfterApproval :: "int option"
  SpecNamespace :: string
  Stdin :: string
  Env :: "string list"
  EnvFrom :: "string list"
  Volumes :: "string list"
  VolumeMounts :: "string list"
  InitContainers :: "string list"
  ImagePullSecrets :: "string list"
  ClusterAdmin :: "bool option"

record sudo_request_status =
  Phase :: phase
  ApprovedBy :: string
  ApprovedAt :: "int option"
  DeniedBy :: string
  DeniedAt :: "int option"
  DenialReason :: string
  FailureReason :: string
  ResolvedProfile :: string
  ResolvedImage :: string
  PreflightWarnings :: "string list"
  PlaybookAutoApproved :: bool
  PlaybookTargetUID :: string
  PlaybookTargetAbsent :: bool
  SupersededByUID :: string
  ExitCode :: "int option"
  OutputSecretRef :: string
  OutputCaptureState :: capture_state
  OutputDeliveryState :: delivery_state
  OutputFailureReason :: string
  OutputTotalBytes :: "int option"
  OutputRetainedBytes :: "int option"
  OutputSHA256 :: string
  StdinSecretName :: string
  Summary :: string
  PermissionAssessment :: "permission_assessment option"
  PermissionAssessmentState :: assess_state
  ExecutorJobName :: string
  ExecutorJobUID :: string
  PushoverRequestID :: string
  NotificationState :: notif_state
  NotificationAttempts :: "32 word"
  NotificationLastAttemptAt :: "int option"
  NotificationNextAttemptAt :: "int option"
  NotificationDeliveredAt :: "int option"
  NotificationLastError :: string
  ApprovalTokenHash :: string
  ApprovalTokenExpiresAt :: "int option"
  ApprovalTokenSecretName :: string

record sudo_request =
  Name :: string
  Namespace :: string
  UID :: string
  ResourceVersion :: string
  CreationTimestamp :: int
  DeletionTimestamp :: "int option"
  Finalizers :: "string list"
  Spec :: sudo_request_spec
  Status :: sudo_request_status

text \<open>The zero value of a status: what an object has when it is created.\<close>

definition zero_status :: sudo_request_status where
  "zero_status = \<lparr>Phase = NoPhase, ApprovedBy = '''', ApprovedAt = None, DeniedBy = '''', DeniedAt = None,
     DenialReason = '''', FailureReason = '''', ResolvedProfile = '''', ResolvedImage = '''',
     PreflightWarnings = [], PlaybookAutoApproved = False, PlaybookTargetUID = '''',
     PlaybookTargetAbsent = False, SupersededByUID = '''', ExitCode = None, OutputSecretRef = '''',
     OutputCaptureState = CaptureNone, OutputDeliveryState = DeliveryNone, OutputFailureReason = '''',
     OutputTotalBytes = None, OutputRetainedBytes = None, OutputSHA256 = '''', StdinSecretName = '''',
     Summary = '''', PermissionAssessment = None, PermissionAssessmentState = AssessNone,
     ExecutorJobName = '''', ExecutorJobUID = '''', PushoverRequestID = '''', NotificationState = NotifNone,
     NotificationAttempts = 0, NotificationLastAttemptAt = None, NotificationNextAttemptAt = None,
     NotificationDeliveredAt = None, NotificationLastError = '''', ApprovalTokenHash = '''',
     ApprovalTokenExpiresAt = None, ApprovalTokenSecretName = ''''\<rparr>"

end
