(* ===== verification/Errors.thy ===== *)
theory Errors
  imports Prelude
begin

text \<open>
  Go errors.  Every error the program builds is a constructor with the arguments of its format
  string; \<open>error_text\<close> is its \<^verbatim>\<open>Error()\<close> text.  Errors of the Kubernetes
  API carry the reason that \<^verbatim>\<open>apierrors.IsNotFound\<close> and its kin read; \<open>Wrap\<close> is
  \<^verbatim>\<open>fmt.Errorf("...: %w", err)\<close>, which those tests and \<^verbatim>\<open>errors.Is\<close> see
  through, while \<^verbatim>\<open>%v\<close> keeps only the text.
\<close>

section \<open>Formatting\<close>

fun show_digits :: "nat \<Rightarrow> string" where
  "show_digits n =
     (if n < 10 then [char_of (48 + n)] else show_digits (n div 10) @ [char_of (48 + n mod 10)])"

declare show_digits.simps [simp del]

definition show_int :: "int \<Rightarrow> string" where
  "show_int i = (if i < 0 then ''-'' @ show_digits (nat (- i)) else show_digits (nat i))"

definition hex_digit :: "nat \<Rightarrow> char" where
  "hex_digit n = (if n < 10 then char_of (48 + n) else char_of (87 + n))"

text \<open>
  \<^verbatim>\<open>%q\<close>, that is \<^verbatim>\<open>strconv.Quote\<close>: printable ASCII and the bytes of non-ASCII
  text are kept, quote and backslash are escaped, control characters get their escape.
\<close>

definition quote_char :: "char \<Rightarrow> string" where
  "quote_char c =
     (let n = (of_char c :: nat) in
      if n = 34 then [char_of (92::nat), c]
      else if n = 92 then [c, c]
      else if n = 7 then char_of (92::nat) # ''a''
      else if n = 8 then char_of (92::nat) # ''b''
      else if n = 9 then char_of (92::nat) # ''t''
      else if n = 10 then char_of (92::nat) # ''n''
      else if n = 11 then char_of (92::nat) # ''v''
      else if n = 12 then char_of (92::nat) # ''f''
      else if n = 13 then char_of (92::nat) # ''r''
      else if n < 32 \<or> n = 127 then char_of (92::nat) # ''x'' @ [hex_digit (n div 16), hex_digit (n mod 16)]
      else [c])"

definition go_quote :: "string \<Rightarrow> string" where
  "go_quote s = CHR 0x22 # concat (map quote_char s) @ [CHR 0x22]"

section \<open>The errors of the components\<close>

datatype spec_error =
    ClusterAdminOffNamespace string string
  | StdinTooLarge nat nat
  | DecodeField string nat string
  | VolumeNameReserved string string
  | VolumeUnnamed
  | VolumeHostPath string
  | VolumeProjected string
  | VolumeSourceNotPermitted string
  | MountNameReserved string string
  | MountPathReserved string
  | MountNoVolume string string string
  | MountFields string string
  | MountDuplicatePath string string
  | InitNameImage
  | InitNoCommand string
  | InitFields string
  | InitMountReserved string string string
  | PullSecretNoName nat

datatype profile_error =
    ProfileAndImage
  | UnknownProfile string "string list"
  | AbsentExecutable string string
  | NoPipefail string string

datatype playbook_error =
    UnsupportedPlaybook string
  | ParameterKeys "string list"
  | ParameterNames
  | ParameterNamespace string "string list"
  | ParameterJobName string "string list"
  | CommandNotCanonical string
  | PlaybookExtras
  | RuleRequester
  | RuleNamespace string "string list"
  | RuleNoFamilies
  | RuleCronJob string "string list"
  | RulePrefixLength string
  | RulePrefix string "string list"

datatype retry_error =
    SourceNoUID
  | PhaseNotEligible string bool
  | SuccessorUnavailable string
  | NameOccupiedUnrelated
  | NameOccupiedFields
  | SourceReplaced string
  | AlreadySuperseded string

datatype api_reason = NotFound | Conflict | Invalid | Forbidden | AlreadyExists | OtherReason string

datatype gerr =
    ApiError api_reason string
  | Text string
  | SpecError spec_error
  | ProfileError profile_error
  | PlaybookError playbook_error
  | RetryError retry_error
  | ForeignChildObject
  | DisallowedSecret string bool
  | ApprovalTokenExpired
  | PendingDuplicate string
  | Wrap string gerr

text \<open>\<open>DisallowedSecret n missing\<close> wraps \<^verbatim>\<open>errDisallowedSecret\<close>, with the name and the reason.\<close>

type_synonym 'a res = "gerr + 'a"

fun api_reason_of :: "gerr \<Rightarrow> api_reason option" where
  "api_reason_of (ApiError r _) = Some r"
| "api_reason_of (Wrap _ e) = api_reason_of e"
| "api_reason_of _ = None"

definition is_not_found :: "gerr \<Rightarrow> bool" where "is_not_found e \<longleftrightarrow> api_reason_of e = Some NotFound"
definition is_conflict :: "gerr \<Rightarrow> bool" where "is_conflict e \<longleftrightarrow> api_reason_of e = Some Conflict"
definition is_invalid :: "gerr \<Rightarrow> bool" where "is_invalid e \<longleftrightarrow> api_reason_of e = Some Invalid"
definition is_forbidden :: "gerr \<Rightarrow> bool" where "is_forbidden e \<longleftrightarrow> api_reason_of e = Some Forbidden"
definition is_already_exists :: "gerr \<Rightarrow> bool" where
  "is_already_exists e \<longleftrightarrow> api_reason_of e = Some AlreadyExists"

text \<open>\<open>errors.Is(err, errX)\<close> and \<open>errors.As\<close> for the sentinels.\<close>

fun root_error :: "gerr \<Rightarrow> gerr" where
  "root_error (Wrap _ e) = root_error e"
| "root_error e = e"

definition is_foreign :: "gerr \<Rightarrow> bool" where "is_foreign e \<longleftrightarrow> root_error e = ForeignChildObject"
definition is_token_expired :: "gerr \<Rightarrow> bool" where
  "is_token_expired e \<longleftrightarrow> root_error e = ApprovalTokenExpired"
definition is_disallowed :: "gerr \<Rightarrow> bool" where
  "is_disallowed e \<longleftrightarrow> (case root_error e of DisallowedSecret _ _ \<Rightarrow> True | _ \<Rightarrow> False)"

lemma api_reason_of_root: "api_reason_of (root_error e) = api_reason_of e"
  by (induction e) auto

section \<open>Error texts\<close>

primrec spec_error_text :: "spec_error \<Rightarrow> string" where
  "spec_error_text (ClusterAdminOffNamespace cns ns) =
     ''privileges.clusterAdmin is only available when the executor runs in the '' @ go_quote cns @
     '' namespace; it cannot be combined with spec.namespace='' @ go_quote ns"
| "spec_error_text (StdinTooLarge n limit) =
     ''stdin is '' @ show_digits n @ '' bytes; the limit is '' @ show_digits limit @
     '' (it is stored in a Secret, which Kubernetes caps at 1 MiB)''"
| "spec_error_text (DecodeField field i err) =
     field @ '': item '' @ show_digits i @ '': '' @ err"
| "spec_error_text (VolumeNameReserved n why) =
     ''volume name '' @ go_quote n @ '' is reserved for '' @ why"
| "spec_error_text VolumeUnnamed = ''volume must have a name''"
| "spec_error_text (VolumeHostPath n) =
     ''volume '' @ go_quote n @ '': hostPath is not permitted (it would require an explicit privilege toggle, which does not exist yet)''"
| "spec_error_text (VolumeProjected n) =
     ''volume '' @ go_quote n @ '': projected volumes are not permitted (a serviceAccountToken source could mint an API/cloud token for the namespace default ServiceAccount, bypassing the no-privileges guarantee)''"
| "spec_error_text (VolumeSourceNotPermitted n) =
     ''volume '' @ go_quote n @ '': only emptyDir, secret, configMap and persistentVolumeClaim sources are permitted''"
| "spec_error_text (MountNameReserved n why) =
     ''volumeMount name '' @ go_quote n @ '' is reserved for '' @ why"
| "spec_error_text (MountPathReserved p) =
     ''volumeMount path '' @ go_quote p @ '' is reserved for the stdin payload''"
| "spec_error_text (MountNoVolume at p n) =
     at @ '': volumeMount '' @ go_quote p @ '' references no volume named '' @ go_quote n"
| "spec_error_text (MountFields at p) =
     at @ '': volumeMount '' @ go_quote p @ '' may only set name, mountPath, subPath and readOnly''"
| "spec_error_text (MountDuplicatePath at p) = at @ '': duplicate mountPath '' @ go_quote p"
| "spec_error_text InitNameImage = ''initContainer must set both name and image''"
| "spec_error_text (InitNoCommand n) =
     ''initContainer '' @ go_quote n @ '': an explicit command is required (the image's default entrypoint is not shown to the reviewer)''"
| "spec_error_text (InitFields n) =
     ''initContainer '' @ go_quote n @ '': only name, image, command, args, env, envFrom and volumeMounts are permitted''"
| "spec_error_text (InitMountReserved c n why) =
     ''initContainer '' @ go_quote c @ '': volumeMount name '' @ go_quote n @ '' is reserved for '' @ why"
| "spec_error_text (PullSecretNoName i) =
     ''imagePullSecrets['' @ show_digits i @ '']: name is required''"

definition in_ticks :: "string \<Rightarrow> string" where
  "in_ticks s = CHR 0x27 # s @ [CHR 0x27]"

primrec profile_error_text :: "profile_error \<Rightarrow> string" where
  "profile_error_text ProfileAndImage =
     ''profile and image are mutually exclusive; use a profile alias or an arbitrary raw image''"
| "profile_error_text (UnknownProfile n names) =
     ''unknown executor profile '' @ go_quote n @ '' (available: '' @ join names '', '' @ '')''"
| "profile_error_text (AbsentExecutable p x) =
     ''executor profile '' @ go_quote p @ '' is known not to include directly invoked executable '' @ go_quote x @
     ''; choose another profile or an explicit image''"
| "profile_error_text (NoPipefail p d) =
     ''executor profile '' @ go_quote p @ '' uses '' @ d @
     '', whose catalog metadata does not support '' @ in_ticks ''set -o pipefail''"

primrec playbook_error_text :: "playbook_error \<Rightarrow> string" where
  "playbook_error_text (UnsupportedPlaybook n) = ''unsupported playbook '' @ go_quote n"
| "playbook_error_text (ParameterKeys ks) =
     ''playbook job.cleanup-terminal/v1 requires exactly namespace and name parameters (got ['' @ join ks '' '' @ ''])''"
| "playbook_error_text ParameterNames =
     ''playbook job.cleanup-terminal/v1 requires exactly namespace and name parameters''"
| "playbook_error_text (ParameterNamespace ns ps) =
     ''playbook namespace '' @ go_quote ns @ '' is invalid: '' @ join ps ''; ''"
| "playbook_error_text (ParameterJobName n ps) =
     ''playbook Job name '' @ go_quote n @ '' is invalid: '' @ join ps ''; ''"
| "playbook_error_text (CommandNotCanonical c) =
     ''playbook command must equal canonical rendering '' @ go_quote c"
| "playbook_error_text PlaybookExtras =
     ''playbook requests cannot set image, profile, namespace, stdin, env, volumes, init containers, image pull secrets, or privilege overrides''"
| "playbook_error_text RuleRequester = ''requester is required''"
| "playbook_error_text (RuleNamespace ns ps) =
     ''namespace '' @ go_quote ns @ '' is invalid: '' @ join ps ''; ''"
| "playbook_error_text RuleNoFamilies =
     ''at least one cronJobs or standaloneNamePrefixes entry is required''"
| "playbook_error_text (RuleCronJob n ps) =
     ''CronJob name '' @ go_quote n @ '' is invalid: '' @ join ps ''; ''"
| "playbook_error_text (RulePrefixLength p) =
     ''standalone name prefix '' @ go_quote p @ '' must contain 1-63 characters''"
| "playbook_error_text (RulePrefix p ps) =
     ''standalone name prefix '' @ go_quote p @ '' is invalid: '' @ join ps ''; ''"

primrec retry_error_text :: "retry_error \<Rightarrow> string" where
  "retry_error_text SourceNoUID = ''source request has no UID''"
| "retry_error_text (PhaseNotEligible p admin) =
     ''request phase '' @ go_quote p @ '' is not eligible for '' @
     (if admin then ''administrator'' else ''requester'') @ '' resubmission''"
| "retry_error_text (SuccessorUnavailable u) =
     ''source already superseded by '' @ u @ '', but that successor is unavailable''"
| "retry_error_text NameOccupiedUnrelated =
     ''deterministic retry name is occupied by an unrelated request''"
| "retry_error_text NameOccupiedFields =
     ''deterministic retry name is occupied by a request with different execution fields''"
| "retry_error_text (SourceReplaced n) = ''source request '' @ go_quote n @ '' was replaced''"
| "retry_error_text (AlreadySuperseded u) = ''source already superseded by '' @ u"

primrec error_text :: "gerr \<Rightarrow> string" where
  "error_text (ApiError r t) = t"
| "error_text (Text t) = t"
| "error_text (SpecError e) = spec_error_text e"
| "error_text (ProfileError e) = profile_error_text e"
| "error_text (PlaybookError e) = playbook_error_text e"
| "error_text (RetryError e) = retry_error_text e"
| "error_text ForeignChildObject =
     ''pre-existing child object is not controller-created; refusing to adopt it''"
| "error_text (DisallowedSecret n missing) =
     ''referenced secret has a disallowed type: '' @ go_quote n @
     (if missing
      then '' does not exist (a non-privileged executor requires every referenced secret to exist and not be a service-account-token)''
      else '' is a service-account-token secret'')"
| "error_text ApprovalTokenExpired = ''approval token expired''"
| "error_text (PendingDuplicate u) = ''equivalent request is already pending''"
| "error_text (Wrap ctx e) = ctx @ '': '' @ error_text e"

end
