(* ===== verification/Objects.thy ===== *)
theory Objects
  imports Types Errors
begin

text \<open>
  The Kubernetes objects the controller builds, reads and compares (\<^verbatim>\<open>corev1\<close>,
  \<^verbatim>\<open>batchv1\<close>), with the fields the code uses.  Where the code compares a whole struct
  (\<^verbatim>\<open>reflect.DeepEqual\<close> against a permitted copy) an \<open>other\<close> field lists the names of the
  remaining fields that are set.
\<close>

record owner_ref =
  or_APIVersion :: string
  or_Kind :: string
  or_Name :: string
  or_UID :: string
  or_Controller :: "bool option"
  or_BlockOwnerDeletion :: "bool option"

section \<open>Pods\<close>

text \<open>\<open>EnvVarSource\<close>: four pointers, each with the parts the reviewer is shown.\<close>

record env_source =
  es_FieldRef :: "string option"
  es_ResourceFieldRef :: "string option"
  es_ConfigMapKeyRef :: "(string \<times> string) option"
  es_SecretKeyRef :: "(string \<times> string) option"

record env_var =
  ev_Name :: string
  ev_Value :: string
  ev_ValueFrom :: "env_source option"

record env_from =
  ef_Prefix :: string
  ef_ConfigMapRef :: "string option"
  ef_SecretRef :: "string option"

record key_to_path =
  kp_Key :: string
  kp_Path :: string

record secret_source =
  ss_SecretName :: string
  ss_Items :: "key_to_path list"
  ss_DefaultMode :: "int option"

record configmap_source =
  cs_Name :: string
  cs_Items :: "key_to_path list"

record pvc_source =
  pv_ClaimName :: string
  pv_ReadOnly :: bool

text \<open>\<open>v_EmptyDir = Some limit\<close>: an emptyDir with its optional \<open>sizeLimit\<close> as a string.\<close>

record volume =
  v_Name :: string
  v_EmptyDir :: "string option option"
  v_Secret :: "secret_source option"
  v_ConfigMap :: "configmap_source option"
  v_PVC :: "pvc_source option"
  v_Projected :: bool
  v_HostPath :: "string option"
  v_other :: "string list"

record volume_mount =
  m_Name :: string
  m_MountPath :: string
  m_SubPath :: string
  m_ReadOnly :: bool
  m_other :: "string list"

record security_context =
  sc_AllowPrivilegeEscalation :: "bool option"
  sc_ReadOnlyRootFilesystem :: "bool option"
  sc_DropCapabilities :: "string list"
  sc_other :: "string list"

record resources =
  rs_Requests :: "(string \<times> string) list"
  rs_Limits :: "(string \<times> string) list"

record k8s_container =
  c_Name :: string
  c_Image :: string
  c_Command :: "string list"
  c_Args :: "string list"
  c_Env :: "env_var list"
  c_EnvFrom :: "env_from list"
  c_VolumeMounts :: "volume_mount list"
  c_SecurityContext :: "security_context option"
  c_Resources :: resources
  c_other :: "string list"

record pod_spec =
  ps_RestartPolicy :: string
  ps_ServiceAccountName :: string
  ps_AutomountServiceAccountToken :: "bool option"
  ps_ImagePullSecrets :: "string list"
  ps_RunAsNonRoot :: "bool option"
  ps_RunAsUser :: "int option"
  ps_SeccompProfile :: "string option"
  ps_InitContainers :: "k8s_container list"
  ps_Containers :: "k8s_container list"
  ps_Volumes :: "volume list"

datatype container_state = Waiting string string | Running | Terminated int int | Unknown

text \<open>\<open>Waiting reason message\<close>, \<open>Terminated exitCode finishedAt\<close>.\<close>

record container_status =
  st_Name :: string
  st_State :: container_state

record pod =
  p_Name :: string
  p_Namespace :: string
  p_Owners :: "owner_ref list"
  p_InitContainerStatuses :: "container_status list"
  p_ContainerStatuses :: "container_status list"

section \<open>Jobs and Secrets\<close>

record job =
  j_Name :: string
  j_Namespace :: string
  j_UID :: string
  j_Labels :: "(string \<times> string) list"
  j_Owners :: "owner_ref list"
  j_CreationTimestamp :: int
  j_DeletionTimestamp :: "int option"
  j_BackoffLimit :: "int option"
  j_TTLSecondsAfterFinished :: "int option"
  j_TemplateLabels :: "(string \<times> string) list"
  j_PodSpec :: pod_spec
  j_Succeeded :: int
  j_Failed :: int
  j_Conditions :: "(string \<times> string) list"

text \<open>\<open>j_Conditions\<close> lists the type and status of each condition.\<close>

record secret =
  s_Name :: string
  s_GenerateName :: string
  s_Namespace :: string
  s_Labels :: "(string \<times> string) list"
  s_Owners :: "owner_ref list"
  s_Type :: string
  s_Data :: "(string \<times> string) list"

text \<open>
  Identities: what a TokenReview says of a bearer token, the question of a SubjectAccessReview and its
  answer, and the claims of a verified ID token.
\<close>

record user_info =
  u_Username :: string
  u_UID :: string
  u_Groups :: "string list"
  u_Extra :: "(string \<times> string list) list"

record token_review =
  tr_Authenticated :: bool
  tr_Error :: string
  tr_Audiences :: "string list"
  tr_User :: user_info

record access_review =
  sar_User :: string
  sar_UID :: string
  sar_Groups :: "string list"
  sar_Extra :: "(string \<times> string list) list"
  sar_Namespace :: string
  sar_Verb :: string
  sar_Group :: string
  sar_Version :: string
  sar_Resource :: string
  sar_Subresource :: string

record access_decision =
  ad_Allowed :: bool
  ad_Reason :: string
  ad_EvaluationError :: string

record human_claims =
  hc_Subject :: string
  hc_PreferredUsername :: string
  hc_Email :: string
  hc_Groups :: "string list"

text \<open>\<open>m[k]\<close> on a Go map of strings: the empty string for a missing key.\<close>

definition map_get :: "(string \<times> string) list \<Rightarrow> string \<Rightarrow> string" where
  "map_get m k = (case map_of m k of Some v \<Rightarrow> v | None \<Rightarrow> '''')"

text \<open>\<open>metav1.IsControlledBy\<close>: the controlling owner reference has the owner's UID.\<close>

definition controlled_by :: "owner_ref list \<Rightarrow> string \<Rightarrow> bool" where
  "controlled_by os uid \<longleftrightarrow>
     (case find (\<lambda>r. or_Controller r = Some True) os of
        Some r \<Rightarrow> or_UID r = uid
      | None \<Rightarrow> False)"

definition no_resources :: resources where
  "no_resources = \<lparr>rs_Requests = [], rs_Limits = []\<rparr>"

section \<open>The decoded pod fields\<close>

record pod_extras =
  px_Env :: "env_var list"
  px_EnvFrom :: "env_from list"
  px_Volumes :: "volume list"
  px_VolumeMounts :: "volume_mount list"
  px_InitContainers :: "k8s_container list"
  px_ImagePullSecrets :: "string list"

end
