(* ===== verification/Decode.thy ===== *)
theory Decode
  imports Objects
begin

text \<open>
  \<^verbatim>\<open>decode.go\<close>: the raw JSON items of the widened pod fields become concrete values,
  item by item, so one malformed item is an error of its own request.  The JSON decoders of the
  \<^verbatim>\<open>corev1\<close> types are parameters (\<open>lib\<close>), as are the other libraries the program calls.
\<close>

section \<open>Libraries\<close>

text \<open>The shell syntax tree of \<^verbatim>\<open>mvdan.cc/sh\<close>, as the code walks it.\<close>

datatype word_part = Lit string | OtherPart

datatype sh_kind = CallExpr "word_part list list" | TestClause | ProcSubst | OtherSyntax

datatype sh_node = ShNode sh_kind "sh_node list"

text \<open>A parsed URL: everything before the path, the query parameters and the fragment with its \<open>#\<close>.\<close>

record parsed_url =
  pu_origin :: string
  pu_query :: "(string \<times> string list) list"
  pu_fragment :: string

text \<open>The body of a submission: the fields of the spec the requester may set.\<close>

record create_body =
  cb_Reason :: string
  cb_Command :: string
  cb_Image :: string
  cb_Profile :: string
  cb_Playbook :: "playbook option"
  cb_TTLSecondsAfterApproval :: "int option"
  cb_Namespace :: string
  cb_Stdin :: string
  cb_Env :: "string list"
  cb_EnvFrom :: "string list"
  cb_Volumes :: "string list"
  cb_VolumeMounts :: "string list"
  cb_InitContainers :: "string list"
  cb_ImagePullSecrets :: "string list"
  cb_ClusterAdmin :: "bool option"

record lib =
  sh_parse :: "string \<Rightarrow> string + sh_node"
  shlex_split :: "string \<Rightarrow> string list option"
  json_env :: "string \<Rightarrow> string + env_var"
  json_env_from :: "string \<Rightarrow> string + env_from"
  json_volume :: "string \<Rightarrow> string + volume"
  json_mount :: "string \<Rightarrow> string + volume_mount"
  json_container :: "string \<Rightarrow> string + k8s_container"
  json_secret_ref :: "string \<Rightarrow> string + string"
  dns1123_label :: "string \<Rightarrow> string list"
  dns1123_subdomain :: "string \<Rightarrow> string list"
  yaml_pod :: "pod_spec \<Rightarrow> string res"
  spec_json :: "sudo_request_spec \<Rightarrow> string \<Rightarrow> string res"
  sha256_hex :: "string \<Rightarrow> string"
  json_permission :: "string \<Rightarrow> string + (string \<times> effect list)"
  json_pushover :: "string \<Rightarrow> string + (int \<times> string \<times> string list)"
  url_parse :: "string \<Rightarrow> string + parsed_url"
  json_body :: "string \<Rightarrow> string + create_body"

text \<open>
  \<open>dns1123_label\<close> and \<open>dns1123_subdomain\<close> return the problems found (none: valid);
  \<open>spec_json\<close> is the canonical JSON text of a spec and a resolved image; \<open>json_permission\<close> and
  \<open>json_pushover\<close> decode the replies of the model and of the notification service, \<open>json_body\<close> the
  body of a submission.
\<close>

section \<open>decodeRawList and decodePodExtras\<close>

fun decodeRawList :: "(string \<Rightarrow> string + 'a) \<Rightarrow> nat \<Rightarrow> string list \<Rightarrow> (nat \<times> string) + 'a list" where
  "decodeRawList dec i [] = Inr []"
| "decodeRawList dec i (raw # rest) =
     (if raw = '''' then decodeRawList dec (Suc i) rest
      else case dec raw of
        Inl err \<Rightarrow> Inl (i, err)
      | Inr v \<Rightarrow> (case decodeRawList dec (Suc i) rest of
                    Inl e \<Rightarrow> Inl e
                  | Inr vs \<Rightarrow> Inr (v # vs)))"

definition decode_field :: "string \<Rightarrow> (string \<Rightarrow> string + 'a) \<Rightarrow> string list \<Rightarrow> 'a list res" where
  "decode_field field dec raw =
     (case decodeRawList dec 0 raw of
        Inl (i, err) \<Rightarrow> Inl (SpecError (DecodeField field i err))
      | Inr vs \<Rightarrow> Inr vs)"

definition decodePodExtras :: "lib \<Rightarrow> sudo_request \<Rightarrow> pod_extras res" where
  "decodePodExtras L sr =
     (case decode_field ''env'' (json_env L) (Env (Spec sr)) of Inl e \<Rightarrow> Inl e | Inr env \<Rightarrow>
     (case decode_field ''envFrom'' (json_env_from L) (EnvFrom (Spec sr)) of Inl e \<Rightarrow> Inl e | Inr envFrom \<Rightarrow>
     (case decode_field ''volumes'' (json_volume L) (Volumes (Spec sr)) of Inl e \<Rightarrow> Inl e | Inr volumes \<Rightarrow>
     (case decode_field ''volumeMounts'' (json_mount L) (VolumeMounts (Spec sr)) of Inl e \<Rightarrow> Inl e | Inr mounts \<Rightarrow>
     (case decode_field ''initContainers'' (json_container L) (InitContainers (Spec sr)) of Inl e \<Rightarrow> Inl e | Inr inits \<Rightarrow>
     (case decode_field ''imagePullSecrets'' (json_secret_ref L) (ImagePullSecrets (Spec sr)) of Inl e \<Rightarrow> Inl e | Inr pulls \<Rightarrow>
        Inr \<lparr>px_Env = env, px_EnvFrom = envFrom, px_Volumes = volumes, px_VolumeMounts = mounts,
             px_InitContainers = inits, px_ImagePullSecrets = pulls\<rparr>))))))"

section \<open>What decoding does\<close>

text \<open>A decoded list is the decoding of the non-empty items, in order.\<close>

lemma decodeRawList_Inr:
  "decodeRawList dec i raws = Inr vs \<longleftrightarrow>
     map Inr vs = map dec (filter (\<lambda>r. r \<noteq> '''') raws)"
proof (induction raws arbitrary: i vs)
  case Nil
  show ?case by auto
next
  case (Cons raw rest)
  show ?case
  proof (cases "raw = ''''")
    case True
    then show ?thesis using Cons.IH by simp
  next
    case False
    show ?thesis
    proof (cases "dec raw")
      case (Inl err)
      with False show ?thesis by (cases vs) auto
    next
      case (Inr v)
      with False show ?thesis
        by (cases vs) (auto simp flip: Cons.IH [of "Suc i"] split: sum.splits)
    qed
  qed
qed

text \<open>The reported index is the position of the first item that does not decode.\<close>

lemma decodeRawList_Inl:
  assumes "decodeRawList dec i raws = Inl (k, err)"
  shows "\<exists>n. k = i + n \<and> n < length raws \<and> raws ! n \<noteq> '''' \<and> dec (raws ! n) = Inl err
    \<and> (\<forall>j<n. raws ! j = '''' \<or> (\<exists>v. dec (raws ! j) = Inr v))"
  using assms
proof (induction raws arbitrary: i)
  case Nil
  then show ?case by simp
next
  case (Cons raw rest)
  have step: ?case if "decodeRawList dec (Suc i) rest = Inl (k, err)"
    and ok: "raw = '''' \<or> (\<exists>v. dec raw = Inr v)"
  proof -
    from Cons.IH [OF that(1)] obtain n where
      n: "k = Suc i + n" "n < length rest" "rest ! n \<noteq> ''''" "dec (rest ! n) = Inl err"
        "\<forall>j<n. rest ! j = '''' \<or> (\<exists>v. dec (rest ! j) = Inr v)" by auto
    with ok show ?thesis
      by (intro exI [of _ "Suc n"]) (auto simp: nth_Cons split: nat.split)
  qed
  show ?case
    using Cons.prems step
    by (auto split: if_splits sum.splits intro: exI [of _ 0])
qed

end
