(* ===== verification/Regex.thy ===== *)
theory Regex
  imports Prelude
begin

text \<open>
  The part of Go's \<^verbatim>\<open>regexp\<close> package that \<^verbatim>\<open>profiles.go\<close> uses: classes,
  sequences, alternatives, greedy repetition, groups, the anchors \<open>^\<close>, \<open>$\<close> (with and without
  \<open>(?m)\<close>) and the ASCII word boundary.  \<open>matches r s p\<close> lists every way \<open>r\<close> can match the
  text \<open>s\<close> from position \<open>p\<close>, in the order of preference of a leftmost-first matcher, so the
  first element is the match Go reports.
\<close>

datatype rx =
    RCls "char \<Rightarrow> bool"
  | REps
  | RSeq rx rx
  | RAlt rx rx
  | RStar rx
  | RGroup nat rx
  | RBegin
  | RBol
  | REol
  | RWordB

type_synonym captures = "(nat \<times> string) list"
type_synonym mstate = "nat \<times> captures"

definition word_char :: "char \<Rightarrow> bool" where
  "word_char c \<longleftrightarrow> (let n = (of_char c :: nat) in
     48 \<le> n \<and> n \<le> 57 \<or> 65 \<le> n \<and> n \<le> 90 \<or> 97 \<le> n \<and> n \<le> 122 \<or> n = 95)"

definition word_at :: "string \<Rightarrow> nat \<Rightarrow> bool" where
  "word_at s i \<longleftrightarrow> i < length s \<and> word_char (s ! i)"

definition at_boundary :: "string \<Rightarrow> nat \<Rightarrow> bool" where
  "at_boundary s i \<longleftrightarrow> (0 < i \<and> word_at s (i - 1)) \<noteq> word_at s i"

text \<open>Greedy repetition: another round first, as long as it consumes something.\<close>

fun iterate :: "nat \<Rightarrow> (mstate \<Rightarrow> mstate list) \<Rightarrow> mstate \<Rightarrow> mstate list" where
  "iterate 0 f p = [p]"
| "iterate (Suc n) f p =
     concat (map (iterate n f) (filter (\<lambda>q. fst p < fst q) (f p))) @ [p]"

primrec matches :: "rx \<Rightarrow> string \<Rightarrow> mstate \<Rightarrow> mstate list" where
  "matches (RCls f) s p = (if fst p < length s \<and> f (s ! fst p) then [(Suc (fst p), snd p)] else [])"
| "matches REps s p = [p]"
| "matches (RSeq a b) s p = concat (map (matches b s) (matches a s p))"
| "matches (RAlt a b) s p = matches a s p @ matches b s p"
| "matches (RStar a) s p = iterate (length s - fst p) (matches a s) p"
| "matches (RGroup k a) s p =
     map (\<lambda>q. (fst q, (k, take (fst q - fst p) (drop (fst p) s)) # snd q)) (matches a s p)"
| "matches RBegin s p = (if fst p = 0 then [p] else [])"
| "matches RBol s p = (if fst p = 0 \<or> s ! (fst p - 1) = CHR 0x0A then [p] else [])"
| "matches REol s p = (if length s \<le> fst p \<or> s ! fst p = CHR 0x0A then [p] else [])"
| "matches RWordB s p = (if at_boundary s (fst p) then [p] else [])"

text \<open>
  \<open>find_from r s n i\<close>: the leftmost match starting in \<open>[i, i + n)\<close>, as start, end and captures;
  \<open>MatchString\<close>, \<open>FindStringSubmatch\<close>.
\<close>

fun find_from :: "rx \<Rightarrow> string \<Rightarrow> nat \<Rightarrow> nat \<Rightarrow> (nat \<times> nat \<times> captures) option" where
  "find_from r s 0 i = None"
| "find_from r s (Suc n) i =
     (case matches r s (i, []) of
        q # _ \<Rightarrow> Some (i, q)
      | [] \<Rightarrow> find_from r s n (Suc i))"

definition find_rx :: "rx \<Rightarrow> string \<Rightarrow> (nat \<times> nat \<times> captures) option" where
  "find_rx r s = find_from r s (Suc (length s)) 0"

definition match_string :: "rx \<Rightarrow> string \<Rightarrow> bool" where
  "match_string r s \<longleftrightarrow> find_rx r s \<noteq> None"

text \<open>The text of a group of a match, empty when the group took no part.\<close>

definition capture :: "captures \<Rightarrow> nat \<Rightarrow> string" where
  "capture cs k = (case map_of cs k of Some t \<Rightarrow> t | None \<Rightarrow> '''')"

text \<open>
  All successive matches, for expressions that never match the empty string: the pieces between
  them and the matches themselves (\<open>FindAllString\<close>, \<open>ReplaceAllString\<close>).
\<close>

fun split_matches :: "nat \<Rightarrow> rx \<Rightarrow> string \<Rightarrow> nat \<Rightarrow> (string \<times> string) list \<times> string" where
  "split_matches 0 r s i = ([], drop i s)"
| "split_matches (Suc n) r s i =
     (case find_from r s (Suc (length s) - i) i of
        None \<Rightarrow> ([], drop i s)
      | Some (b, e, _) \<Rightarrow>
          (let rest = split_matches n r s e in
           ((take (b - i) (drop i s), take (e - b) (drop b s)) # fst rest, snd rest)))"

definition find_all :: "rx \<Rightarrow> string \<Rightarrow> string list" where
  "find_all r s = map snd (fst (split_matches (length s) r s 0))"

definition replace_all :: "rx \<Rightarrow> string \<Rightarrow> string \<Rightarrow> string" where
  "replace_all r s new =
     (let parts = split_matches (length s) r s 0
      in concat (map (\<lambda>(before, _). before @ new) (fst parts)) @ snd parts)"

section \<open>Building expressions\<close>

fun rseq :: "rx list \<Rightarrow> rx" where
  "rseq [] = REps"
| "rseq [r] = r"
| "rseq (r # rs) = RSeq r (rseq rs)"

fun ralt :: "rx list \<Rightarrow> rx" where
  "ralt [] = RCls (\<lambda>_. False)"
| "ralt [r] = r"
| "ralt (r # rs) = RAlt r (ralt rs)"

definition rlit :: "string \<Rightarrow> rx" where "rlit s = rseq (map (\<lambda>c. RCls (\<lambda>d. d = c)) s)"
definition rplus :: "rx \<Rightarrow> rx" where "rplus r = RSeq r (RStar r)"
definition ropt :: "rx \<Rightarrow> rx" where "ropt r = RAlt r REps"
definition rany :: "string \<Rightarrow> rx" where "rany cs = RCls (\<lambda>d. d \<in> set cs)"
definition rnone :: "string \<Rightarrow> rx" where "rnone cs = RCls (\<lambda>d. d \<notin> set cs)"
definition ratleast :: "nat \<Rightarrow> rx \<Rightarrow> rx" where "ratleast n r = rseq (replicate n r @ [RStar r])"

definition in_range :: "char \<Rightarrow> char \<Rightarrow> char \<Rightarrow> bool" where
  "in_range a b c \<longleftrightarrow> (of_char a :: nat) \<le> of_char c \<and> (of_char c :: nat) \<le> of_char b"

definition is_lower :: "char \<Rightarrow> bool" where "is_lower = in_range (CHR ''a'') (CHR ''z'')"
definition is_upper :: "char \<Rightarrow> bool" where "is_upper = in_range (CHR ''A'') (CHR ''Z'')"
definition is_digit :: "char \<Rightarrow> bool" where "is_digit = in_range (CHR ''0'') (CHR ''9'')"

text \<open>\<open>\\s\<close> is tab, newline, form feed, carriage return and space.\<close>

definition spaces :: string where
  "spaces = [CHR 0x09, CHR 0x0A, CHR 0x0C, CHR 0x0D, CHR 0x20]"

definition rspace :: rx where "rspace = rany spaces"

section \<open>Matches advance inside the text\<close>

lemma iterate_bounds:
  assumes "\<And>p q. q \<in> set (f p) \<Longrightarrow> fst p \<le> len \<Longrightarrow> fst p \<le> fst q \<and> fst q \<le> len"
  shows "q \<in> set (iterate n f p) \<Longrightarrow> fst p \<le> len \<Longrightarrow> fst p \<le> fst q \<and> fst q \<le> len"
proof (induction n arbitrary: p)
  case 0
  then show ?case by simp
next
  case (Suc n)
  from Suc.prems show ?case
    by (auto dest!: Suc.IH dest: assms order_trans)
qed

lemma matches_bounds:
  "q \<in> set (matches r s p) \<Longrightarrow> fst p \<le> length s \<Longrightarrow> fst p \<le> fst q \<and> fst q \<le> length s"
proof (induction r arbitrary: p q)
  case (RSeq a b)
  from RSeq.prems obtain q1 where q1: "q1 \<in> set (matches a s p)" and q: "q \<in> set (matches b s q1)"
    by auto
  from RSeq.IH(1) [OF q1 RSeq.prems(2)] have "fst p \<le> fst q1" and "fst q1 \<le> length s" by auto
  with RSeq.IH(2) [OF q] show ?case by simp
next
  case (RStar a)
  show ?case
    by (rule iterate_bounds [of "matches a s"]) (use RStar in auto)
qed (auto split: if_splits)

lemma find_from_bounds:
  assumes "find_from r s n i = Some (b, e, cs)" and "i + n \<le> Suc (length s)"
  shows "i \<le> b \<and> b \<le> e \<and> e \<le> length s"
  using assms
proof (induction n arbitrary: i)
  case 0
  then show ?case by simp
next
  case (Suc n)
  show ?case
  proof (cases "matches r s (i, [])")
    case Nil
    with Suc.prems have "find_from r s n (Suc i) = Some (b, e, cs)" by simp
    then have "Suc i \<le> b \<and> b \<le> e \<and> e \<le> length s"
      using Suc.prems(2) by (intro Suc.IH) auto
    then show ?thesis by simp
  next
    case (Cons q qs)
    with Suc.prems(1) have "b = i" and "(e, cs) = q" by auto
    moreover from Cons have "q \<in> set (matches r s (i, []))" by simp
    from matches_bounds [OF this] Suc.prems(2) have "i \<le> fst q \<and> fst q \<le> length s" by simp
    ultimately show ?thesis by (metis fst_conv order_refl)
  qed
qed

end
