(* ===== verification/Profiles.thy ===== *)
theory Profiles
  imports Decode Regex "HOL-Library.Char_ord" "HOL-Library.List_Lexorder"
begin

text \<open>
  \<^verbatim>\<open>profiles.go\<close>: the catalog of executor profiles, the resolution of a request to an
  image, and the static preflight of its command.  Also \<^verbatim>\<open>imageFor\<close> and
  \<^verbatim>\<open>profileFor\<close> of \<^verbatim>\<open>reconciler.go\<close> and
  \<^verbatim>\<open>validateCommandSyntax\<close> of \<^verbatim>\<open>validation.go\<close>.  Go's \<open>int\<close> is 64 bits.
\<close>

section \<open>The catalog\<close>

record executor_shell =
  sh_Path :: string
  sh_Dialect :: string
  sh_SupportsPipefail :: bool
  sh_SupportsBash :: bool

record executor_profile =
  pr_Name :: string
  pr_Description :: string
  pr_Image :: string
  pr_Shell :: executor_shell
  pr_Executables :: "string list"
  pr_AbsentExecutables :: "string list"
  pr_Capabilities :: "string list"

definition DefaultExecutorProfile :: string where "DefaultExecutorProfile = ''kubectl''"

definition busybox_shell :: executor_shell where
  "busybox_shell = \<lparr>sh_Path = ''/bin/sh'', sh_Dialect = ''busybox-ash'',
     sh_SupportsPipefail = False, sh_SupportsBash = False\<rparr>"

definition kubectl_profile :: executor_profile where
  "kubectl_profile = \<lparr>pr_Name = ''kubectl'',
     pr_Description = ''Kubernetes administration with kubectl, Helm, and common structured-data tools'',
     pr_Image = ''alpine/k8s:1.35.5@sha256:d870622d004031c4e3ddad80d200692792509176db03c346a8526f4f45476e96'',
     pr_Shell = busybox_shell,
     pr_Executables = [''bash'', ''curl'', ''git'', ''helm'', ''jq'', ''kubectl'', ''sh'', ''yq''],
     pr_AbsentExecutables = [''ansible'', ''ansible-playbook'', ''cf-terraforming'', ''ssh'', ''ssh-keygen''],
     pr_Capabilities = [''kubernetes'', ''helm'', ''http'', ''git'', ''json'', ''yaml'']\<rparr>"

definition network_tools_profile :: executor_profile where
  "network_tools_profile = \<lparr>pr_Name = ''network-tools'',
     pr_Description = ''Network diagnosis with DNS, HTTP, packet, and socket tooling'',
     pr_Image = ''nicolaka/netshoot:v0.14@sha256:7f08c4aff13ff61a35d30e30c5c1ea8396eac6ab4ce19fd02d5a4b3b5d0d09a2'',
     pr_Shell = busybox_shell,
     pr_Executables = [''bash'', ''curl'', ''dig'', ''jq'', ''nc'', ''nmap'', ''sh'', ''ssh'', ''ssh-keygen'', ''tcpdump'', ''yq''],
     pr_AbsentExecutables = [''ansible'', ''ansible-playbook'', ''cf-terraforming'', ''helm'', ''kubectl''],
     pr_Capabilities = [''dns'', ''http'', ''sockets'', ''ssh'', ''json'', ''yaml'']\<rparr>"

text \<open>A Go map, here an association list in the order of its keys.\<close>

definition executorProfiles :: "(string \<times> executor_profile) list" where
  "executorProfiles = [(''kubectl'', kubectl_profile), (''network-tools'', network_tools_profile)]"

definition DefaultExecutorImage :: string where
  "DefaultExecutorImage = pr_Image kubectl_profile"

definition listExecutorProfiles :: "executor_profile list" where
  "listExecutorProfiles = sort_key pr_Name (map snd executorProfiles)"

definition resolveExecutorProfile :: "sudo_request \<Rightarrow> (executor_profile option \<times> string) res" where
  "resolveExecutorProfile sr =
     (if Profile (Spec sr) \<noteq> '''' \<and> SpecImage (Spec sr) \<noteq> '''' then Inl (ProfileError ProfileAndImage)
      else if SpecImage (Spec sr) \<noteq> '''' then Inr (None, SpecImage (Spec sr))
      else let name = (if Profile (Spec sr) = '''' then DefaultExecutorProfile else Profile (Spec sr)) in
        case map_of executorProfiles name of
          None \<Rightarrow> Inl (ProfileError (UnknownProfile name (sort (map fst executorProfiles))))
        | Some profile \<Rightarrow> Inr (Some profile, pr_Image profile))"

definition imageFor :: "sudo_request \<Rightarrow> string" where
  "imageFor sr =
     (if ResolvedImage (Status sr) \<noteq> '''' then ResolvedImage (Status sr)
      else if SpecImage (Spec sr) \<noteq> '''' then SpecImage (Spec sr)
      else case resolveExecutorProfile sr of
        Inr (Some profile, _) \<Rightarrow> pr_Image profile
      | _ \<Rightarrow> DefaultExecutorImage)"

definition profileFor :: "sudo_request \<Rightarrow> string" where
  "profileFor sr =
     (if ResolvedProfile (Status sr) \<noteq> '''' then ResolvedProfile (Status sr)
      else if SpecImage (Spec sr) \<noteq> '''' then ''''
      else if Profile (Spec sr) \<noteq> '''' then Profile (Spec sr)
      else DefaultExecutorProfile)"

section \<open>The command's syntax tree\<close>

text \<open>\<open>validateCommandSyntax\<close>: the parser's verdict.\<close>

definition validateCommandSyntax :: "lib \<Rightarrow> string \<Rightarrow> gerr option" where
  "validateCommandSyntax L command =
     (case sh_parse L command of
        Inl err \<Rightarrow> Some (Wrap ''invalid shell syntax'' (Text err))
      | Inr _ \<Rightarrow> None)"

definition shellBuiltins :: "string list" where
  "shellBuiltins = [''.'', '':'', ''alias'', ''bg'', ''break'', ''cd'', ''command'', ''continue'',
     ''echo'', ''eval'', ''exec'', ''exit'', ''export'', ''false'', ''fg'', ''getopts'', ''hash'',
     ''jobs'', ''kill'', ''printf'', ''pwd'', ''read'', ''readonly'', ''return'', ''set'', ''shift'',
     ''test'', ''times'', ''trap'', ''true'', ''type'', ''ulimit'', ''umask'', ''unalias'', ''unset'',
     ''wait'']"

text \<open>\<open>syntax.Walk\<close>: the kinds of all nodes, in the order of the walk.\<close>

fun walk :: "sh_node \<Rightarrow> sh_kind list" where
  "walk (ShNode k children) = k # concat (map walk children)"

fun literalArgs :: "word_part list list \<Rightarrow> string list" where
  "literalArgs ([Lit v] # ws) = (if v = '''' \<or> CHR ''='' \<in> set v then [] else v # literalArgs ws)"
| "literalArgs _ = []"

fun commandTarget :: "string list \<Rightarrow> string list" where
  "commandTarget [] = []"
| "commandTarget (a # args) =
     (if has_prefix a ''-''
      then if contains_any (trim_prefix a ''-'') ''vV'' then [] else commandTarget args
      else a # args)"

fun execTarget :: "string list \<Rightarrow> string list" where
  "execTarget [] = []"
| "execTarget (option # args) =
     (if has_prefix option ''-''
      then if option = ''-a'' \<and> args \<noteq> [] then execTarget (tl args) else execTarget args
      else option # args)"

definition catalogExecutableName :: "string \<Rightarrow> string option" where
  "catalogExecutableName value =
     (if CHR ''/'' \<notin> set value then Some value
      else let base = rev (takeWhile (\<lambda>c. c \<noteq> CHR ''/'') (rev value));
               dir = take (length value - length base - 1) value
           in if dir \<in> set [''/bin'', ''/sbin'', ''/usr/bin'', ''/usr/sbin'', ''/usr/local/bin'', ''/usr/local/sbin'']
              then Some base else None)"

definition call_executable :: "sh_kind \<Rightarrow> string option" where
  "call_executable k =
     (case k of
        CallExpr ws \<Rightarrow>
          (case literalArgs ws of
             [] \<Rightarrow> None
           | value # rest \<Rightarrow>
             (case (if value = ''command'' then commandTarget rest
                    else if value = ''exec'' then execTarget rest
                    else value # rest) of
                [] \<Rightarrow> None
              | a # _ \<Rightarrow>
                (case catalogExecutableName a of
                   None \<Rightarrow> None
                 | Some name \<Rightarrow> if name \<in> set shellBuiltins then None else Some name)))
      | _ \<Rightarrow> None)"

definition visibleExecutables :: "lib \<Rightarrow> string \<Rightarrow> string list" where
  "visibleExecutables L command =
     (case sh_parse L command of
        Inl _ \<Rightarrow> []
      | Inr file \<Rightarrow> sort (remdups (List.map_filter call_executable (walk file))))"

section \<open>The regular expressions\<close>

text \<open>\<open>(?m)(^|[;&|]\\s*)\<close> and the command separators.\<close>

definition rsep :: "rx \<Rightarrow> rx" where
  "rsep start = RAlt start (RSeq (rany '';&|'') (RStar rspace))"

definition packageInstallRE :: rx where
  "packageInstallRE = rseq [rsep RBol, ropt (RSeq (rlit ''sudo'') (rplus rspace)),
     ralt (map rlit [''apk'', ''apt'', ''apt-get'', ''dnf'', ''yum'', ''microdnf'', ''pip'', ''pip3'', ''npm'']),
     rplus rspace, ralt [rlit ''add'', rlit ''install''], RWordB]"

definition base64FlagRE :: rx where
  "base64FlagRE = rseq [rlit ''base64'', rplus rspace, ralt [rlit ''-d'', rlit ''-D'', rlit ''--decode''], RWordB]"

definition base64ExecRE :: rx where
  "base64ExecRE = RAlt
     (rseq [base64FlagRE, RStar (rnone (CHR 0x0A # '';&|'')), rlit ''|'', RStar rspace,
        ropt (RSeq (RStar (rnone spaces)) (rlit ''/'')),
        ralt [rlit ''sh'', rlit ''bash'', rlit ''dash'', rlit ''ash'', rlit ''zsh'',
              RSeq (rlit ''python'') (RStar (RCls (\<lambda>c. is_digit c \<or> c = CHR ''.''))),
              rlit ''perl'', rlit ''ruby'', rlit ''node'', rlit ''php''], RWordB])
     (rseq [RWordB, RAlt (rlit ''eval'') (rseq [ropt (rlit ''ba''), rlit ''sh'', rplus rspace, rlit ''-c'']),
        rplus rspace, ropt (rany [CHR 0x22, CHR 0x27]), rlit ''$('', RStar (rnone '')''), base64FlagRE])"

text \<open>\<open>(?i)\<close>: either case, and the Unicode long s that folds to \<open>s\<close>.\<close>

definition fold_char :: "char \<Rightarrow> rx" where
  "fold_char c =
     (let n = (of_char c :: nat) in
      if is_lower c
      then RAlt (rany [c, char_of (n - 32)])
             (if c = CHR ''s'' then rlit [CHR 0xC5, CHR 0xBF] else RCls (\<lambda>_. False))
      else rlit [c])"

definition rfold :: "string \<Rightarrow> rx" where "rfold s = rseq (map fold_char s)"

definition base64DecodeRE :: rx where
  "base64DecodeRE = RAlt (rseq [RWordB, rfold ''base64'', RWordB]) (rfold ''b64decode'')"

definition is_alnum :: "char \<Rightarrow> bool" where "is_alnum c \<longleftrightarrow> is_lower c \<or> is_upper c \<or> is_digit c"

definition base64LiteralRE :: rx where "base64LiteralRE = ratleast 20 (RCls is_alnum)"

definition sshPublicKeyRE :: rx where
  "sshPublicKeyRE = rseq [RWordB, ropt (rlit ''sk-''), RAlt (rlit ''ssh'') (rlit ''ecdsa-sha2''), rlit ''-'',
     rplus (RCls (\<lambda>c. is_lower c \<or> is_digit c \<or> c \<in> set ''@.-'')), rplus rspace,
     rplus (RCls (\<lambda>c. is_alnum c \<or> c \<in> set ''+/'')), RStar (rlit ''='')]"

definition heredocRE :: rx where
  "heredocRE = rseq [rlit ''<<'', ropt (rlit ''-''), RStar rspace, ropt (rany [CHR 0x22, CHR 0x27]),
     RCls (\<lambda>c. is_lower c \<or> is_upper c \<or> c = CHR ''_''), RStar (RCls (\<lambda>c. is_alnum c \<or> c = CHR ''_'')),
     ropt (rany [CHR 0x22, CHR 0x27]), RStar rspace, REol]"

definition pipefailRE :: rx where
  "pipefailRE = rseq [rsep RBol, rlit ''set'',
     RStar (RSeq (rplus rspace) (rplus (rnone ('';&|'' @ spaces)))), rplus rspace, rlit ''-'',
     RStar (RCls (\<lambda>c. is_lower c \<or> is_upper c)), rany ''oO'', rplus rspace, rlit ''pipefail'', RWordB]"

definition bashismRE :: rx where
  "bashismRE = ralt [RSeq (ralt [RBegin, RSeq (rany '';&|()'') (RStar rspace),
       rseq [RWordB, ralt (map rlit [''if'', ''then'', ''elif'', ''while'', ''until'']), rplus rspace]]) (rlit ''[[''),
     rlit ''<('', rlit ''>('', rseq [RWordB, rlit ''source'', rplus rspace]]"

definition sleepRE :: rx where
  "sleepRE = rseq [rsep RBegin, rlit ''sleep'', rplus rspace, RGroup 1 (rplus (RCls is_digit)),
     RGroup 2 (ropt (rany ''smhd'')), RWordB]"

definition longToolRE :: rx where
  "longToolRE = rseq [RWordB, ralt [rlit ''ansible-playbook'',
     rseq [rlit ''terraform'', rplus rspace, ralt [rlit ''apply'', rlit ''plan'']],
     rseq [rlit ''tofu'', rplus rspace, ralt [rlit ''apply'', rlit ''plan'']]], RWordB]"

section \<open>Preflight\<close>

fun sets_pipefail :: "string list \<Rightarrow> bool" where
  "sets_pipefail (o1 # o2 # args) =
     (contains_any (dropWhile (\<lambda>c. c \<in> set ''-+'') o1) ''oO'' \<and> o2 = ''pipefail'' \<or> sets_pipefail (o2 # args))"
| "sets_pipefail _ = False"

definition kind_sets_pipefail :: "sh_kind \<Rightarrow> bool" where
  "kind_sets_pipefail k =
     (case k of
        CallExpr ws \<Rightarrow> (case literalArgs ws of
            a # args \<Rightarrow> a = ''set'' \<and> sets_pipefail args
          | [] \<Rightarrow> False)
      | _ \<Rightarrow> False)"

definition commandUsesPipefail :: "lib \<Rightarrow> string \<Rightarrow> bool" where
  "commandUsesPipefail L command =
     (case sh_parse L command of
        Inl _ \<Rightarrow> match_string pipefailRE command
      | Inr file \<Rightarrow> list_ex kind_sets_pipefail (walk file))"

definition kind_is_bashism :: "sh_kind \<Rightarrow> bool" where
  "kind_is_bashism k =
     (case k of
        TestClause \<Rightarrow> True
      | ProcSubst \<Rightarrow> True
      | CallExpr ws \<Rightarrow> (case literalArgs ws of a # _ \<Rightarrow> a = ''source'' | [] \<Rightarrow> False)
      | OtherSyntax \<Rightarrow> False)"

definition commandUsesBashism :: "lib \<Rightarrow> string \<Rightarrow> bool" where
  "commandUsesBashism L command =
     (case sh_parse L command of
        Inl _ \<Rightarrow> match_string bashismRE command
      | Inr file \<Rightarrow> list_ex kind_is_bashism (walk file))"

definition opaque_literal :: "string \<Rightarrow> bool" where
  "opaque_literal lit \<longleftrightarrow> list_ex is_upper lit \<and> list_ex is_lower lit \<and> list_ex is_digit lit"

definition embeddedBase64Literal :: "string \<Rightarrow> nat" where
  "embeddedBase64Literal command =
     (if \<not> match_string base64DecodeRE command then 0
      else fold (\<lambda>lit longest. if length lit > longest \<and> opaque_literal lit then length lit else longest)
             (find_all base64LiteralRE (replace_all sshPublicKeyRE command '' '')) 0)"

text \<open>\<open>strconv.Atoi\<close> on digits: an error from \<open>2^63\<close> on.\<close>

definition atoi :: "string \<Rightarrow> nat option" where
  "atoi ds =
     (let n = foldl (\<lambda>acc d. 10 * acc + (of_char d - 48)) 0 ds
      in if n < 2 ^ 63 then Some n else None)"

definition sleep_multiplier :: "string \<Rightarrow> nat" where
  "sleep_multiplier u =
     (if u = ''m'' then 60 else if u = ''h'' then 3600 else if u = ''d'' then 86400 else 1)"

text \<open>The product is taken in 64 bits and compared as a signed number.\<close>

definition sleep_is_long :: "nat \<Rightarrow> string \<Rightarrow> bool" where
  "sleep_is_long n u \<longleftrightarrow> 300 \<le> sint (word_of_nat n * word_of_nat (sleep_multiplier u) :: 64 word)"

definition likelyLongRuntime :: "string \<Rightarrow> bool" where
  "likelyLongRuntime command =
     (if match_string longToolRE command then True
      else case find_rx sleepRE command of
        None \<Rightarrow> False
      | Some (_, _, caps) \<Rightarrow>
          (case atoi (capture caps 1) of
             None \<Rightarrow> False
           | Some n \<Rightarrow> sleep_is_long n (capture caps 2)))"

text \<open>The em dash of one message, in UTF-8.\<close>

definition em_dash :: string where "em_dash = [CHR 0xE2, CHR 0x80, CHR 0x94]"

definition shell_warnings :: "lib \<Rightarrow> string \<Rightarrow> executor_profile option \<Rightarrow> string list" where
  "shell_warnings L command profile =
     (case profile of
        Some p \<Rightarrow>
          (if commandUsesBashism L command \<and> \<not> sh_SupportsBash (pr_Shell p)
           then [''command contains Bash-specific syntax but profile '' @ go_quote (pr_Name p) @
                 '' executes it with '' @ sh_Dialect (pr_Shell p) @ '' at '' @ sh_Path (pr_Shell p)]
           else [])
      | None \<Rightarrow>
          (if commandUsesPipefail L command
           then [''raw image selected: sudo-service cannot verify whether its /bin/sh supports '' @ in_ticks ''set -o pipefail'']
           else []))"

definition base64_warnings :: "string \<Rightarrow> string list" where
  "base64_warnings command =
     (if match_string base64ExecRE command
      then [''command appears to execute an opaque base64 payload; reviewers cannot inspect the decoded program directly'']
      else let n = embeddedBase64Literal command in
        if n > 0
        then [''command decodes an embedded opaque base64 literal ('' @ show_digits n @
              '' chars); reviewers cannot inspect the decoded content directly '' @ em_dash @
              '' pass scripts in readable form instead'']
        else [])"

definition command_warnings :: "string \<Rightarrow> string list" where
  "command_warnings command =
     (if match_string packageInstallRE command
      then [''command appears to install packages at runtime; executors run non-root with a read-only root filesystem'']
      else []) @
     base64_warnings command @
     (if length command > 4096 \<and> match_string heredocRE command
      then [''command contains a large heredoc; pass the payload with stdin/request-file to reduce quoting and review errors'']
      else []) @
     (if likelyLongRuntime command
      then [''command may be long-running; this is an advisory heuristic, and the CLI wait and output-retention windows are client/data-lifecycle settings, not execution deadlines'']
      else [])"

definition profile_rejection :: "lib \<Rightarrow> string \<Rightarrow> executor_profile option \<Rightarrow> gerr option" where
  "profile_rejection L command profile =
     (case profile of
        None \<Rightarrow> None
      | Some p \<Rightarrow>
          (case find (\<lambda>x. x \<in> set (pr_AbsentExecutables p)) (visibleExecutables L command) of
             Some x \<Rightarrow> Some (ProfileError (AbsentExecutable (pr_Name p) x))
           | None \<Rightarrow>
             (if commandUsesPipefail L command \<and> \<not> sh_SupportsPipefail (pr_Shell p)
              then Some (ProfileError (NoPipefail (pr_Name p) (sh_Dialect (pr_Shell p))))
              else None)))"

definition preflightCommand :: "lib \<Rightarrow> string \<Rightarrow> executor_profile option \<Rightarrow> string list res" where
  "preflightCommand L command profile =
     (case profile_rejection L command profile of
        Some e \<Rightarrow> Inl e
      | None \<Rightarrow> Inr (shell_warnings L command profile @ command_warnings command))"

definition resolveAndPreflight ::
    "lib \<Rightarrow> sudo_request \<Rightarrow> (executor_profile option \<times> string \<times> string list) res" where
  "resolveAndPreflight L sr =
     (case resolveExecutorProfile sr of
        Inl e \<Rightarrow> Inl e
      | Inr (profile, img) \<Rightarrow>
          (case preflightCommand L (Command (Spec sr)) profile of
             Inl e \<Rightarrow> Inl e
           | Inr warnings \<Rightarrow> Inr (profile, img, warnings)))"

section \<open>Resolution and preflight, as properties\<close>

lemma resolve_image_nonempty:
  "resolveExecutorProfile sr = Inr (p, img) \<Longrightarrow> img \<noteq> ''''"
  by (auto simp: resolveExecutorProfile_def executorProfiles_def kubectl_profile_def
      network_tools_profile_def Let_def split: if_splits option.splits)

text \<open>A request whose resolution is recorded runs exactly the recorded image.\<close>

lemma imageFor_resolved: "ResolvedImage (Status sr) \<noteq> '''' \<Longrightarrow> imageFor sr = ResolvedImage (Status sr)"
  by (simp add: imageFor_def)

text \<open>Before the resolution is recorded, \<open>imageFor\<close> is what the resolution will give.\<close>

lemma imageFor_unresolved:
  "ResolvedImage (Status sr) = '''' \<Longrightarrow> resolveExecutorProfile sr = Inr (p, img) \<Longrightarrow> imageFor sr = img"
  by (auto simp: imageFor_def resolveExecutorProfile_def Let_def split: if_splits option.splits)

lemma sint_small: "n < 2 ^ 63 \<Longrightarrow> sint (word_of_nat n :: 64 word) = int n"
  by (simp add: signed_of_nat signed_take_bit_int_eq_self)

lemma sleep_is_long_exact:
  assumes "n * sleep_multiplier u < 2 ^ 63"
  shows "sleep_is_long n u \<longleftrightarrow> 300 \<le> n * sleep_multiplier u"
  using sint_small [OF assms] by (simp add: sleep_is_long_def flip: of_nat_mult)

lemma visible_in_walk:
  "set (visibleExecutables L command) =
     (case sh_parse L command of Inl _ \<Rightarrow> {} | Inr file \<Rightarrow> {x. \<exists>k\<in>set (walk file). call_executable k = Some x})"
  by (auto simp: visibleExecutables_def List.map_filter_def image_iff split: sum.split)

end
