(* ===== verification/Validation.thy ===== *)
theory Validation
  imports Decode
begin

text \<open>
  \<^verbatim>\<open>validation.go\<close>, with \<^verbatim>\<open>describeVolumeSource\<close> of
  \<^verbatim>\<open>review.go\<close> (the allowlist the validator and the approve page share) and the
  namespace and privilege selectors of \<^verbatim>\<open>executor.go\<close>.  The lemmas show what a spec
  that passes may contain, as an equivalence with a declarative description.
\<close>

section \<open>Reserved names\<close>

definition stdinMountDir :: string where "stdinMountDir = ''/var/run/sudo-service''"
definition stdinVolumeName :: string where "stdinVolumeName = ''sudo-service-stdin''"
definition tmpVolumeName :: string where "tmpVolumeName = ''sudo-service-tmp''"
definition tmpMountDir :: string where "tmpMountDir = ''/tmp''"
definition homeVolumeName :: string where "homeVolumeName = ''sudo-service-home''"
definition homeMountDir :: string where "homeMountDir = ''/home/sudo-service''"

definition reservedVolumeNames :: "string \<Rightarrow> string option" where
  "reservedVolumeNames n =
     (if n = stdinVolumeName then Some ''the stdin payload''
      else if n = tmpVolumeName then Some ''the writable /tmp scratch''
      else if n = homeVolumeName then Some ''the writable HOME scratch''
      else None)"

lemmas reserved_defs = stdinVolumeName_def tmpVolumeName_def homeVolumeName_def
lemmas mount_dir_defs = stdinMountDir_def tmpMountDir_def homeMountDir_def

lemma reservedVolumeNames_None:
  "reservedVolumeNames n = None \<longleftrightarrow> n \<notin> {stdinVolumeName, tmpVolumeName, homeVolumeName}"
  by (simp add: reservedVolumeNames_def)

section \<open>Where the executor runs and what it may do\<close>

definition executorNamespace :: "sudo_request \<Rightarrow> string \<Rightarrow> string" where
  "executorNamespace sr controllerNamespace =
     (if SpecNamespace (Spec sr) \<noteq> '''' then SpecNamespace (Spec sr) else controllerNamespace)"

definition clusterAdminEnabled :: "sudo_request \<Rightarrow> string \<Rightarrow> bool" where
  "clusterAdminEnabled sr controllerNamespace =
     (if executorNamespace sr controllerNamespace \<noteq> controllerNamespace then False
      else case ClusterAdmin (Spec sr) of Some b \<Rightarrow> b | None \<Rightarrow> True)"

definition executorServiceAccount :: "sudo_request \<Rightarrow> string \<Rightarrow> string \<times> bool option" where
  "executorServiceAccount sr controllerNamespace =
     (if clusterAdminEnabled sr controllerNamespace then (ExecutorSAName, None)
      else (''default'', Some False))"

section \<open>Volume sources\<close>

definition keyPathItems :: "key_to_path list \<Rightarrow> string" where
  "keyPathItems items =
     (if items = [] then ''''
      else '' ['' @ join (map (\<lambda>it. kp_Key it @ ''->'' @ kp_Path it) items) '', '' @ '']'')"

definition describeVolumeSource :: "volume \<Rightarrow> string \<times> bool" where
  "describeVolumeSource v =
     (case v_EmptyDir v of
        Some limit \<Rightarrow> (''emptyDir ('' @ (case limit of Some q \<Rightarrow> q | None \<Rightarrow> ''no sizeLimit'') @ '')'', True)
      | None \<Rightarrow>
     (case v_Secret v of
        Some s \<Rightarrow> (''secret/'' @ ss_SecretName s @ keyPathItems (ss_Items s), True)
      | None \<Rightarrow>
     (case v_ConfigMap v of
        Some c \<Rightarrow> (''configMap/'' @ cs_Name c @ keyPathItems (cs_Items c), True)
      | None \<Rightarrow>
     (case v_PVC v of
        Some p \<Rightarrow> (''pvc/'' @ pv_ClaimName p @ (if pv_ReadOnly p then '' (ro)'' else ''''), True)
      | None \<Rightarrow>
     (if v_Projected v then (''projected'', False)
      else case v_HostPath v of
        Some p \<Rightarrow> (''hostPath:'' @ p, False)
      | None \<Rightarrow> (''unknown'', False))))))"

definition validateVolumeSource :: "volume \<Rightarrow> gerr option" where
  "validateVolumeSource v =
     (if v_Name v = '''' then Some (SpecError VolumeUnnamed)
      else if v_HostPath v \<noteq> None then Some (SpecError (VolumeHostPath (v_Name v)))
      else if v_Projected v then Some (SpecError (VolumeProjected (v_Name v)))
      else if \<not> snd (describeVolumeSource v) then Some (SpecError (VolumeSourceNotPermitted (v_Name v)))
      else None)"

text \<open>The sources a volume may have.\<close>

definition reviewable_source :: "volume \<Rightarrow> bool" where
  "reviewable_source v \<longleftrightarrow>
     v_EmptyDir v \<noteq> None \<or> v_Secret v \<noteq> None \<or> v_ConfigMap v \<noteq> None \<or> v_PVC v \<noteq> None"

lemma describeVolumeSource_allowed: "snd (describeVolumeSource v) \<longleftrightarrow> reviewable_source v"
  by (auto simp: describeVolumeSource_def reviewable_source_def split: option.split)

lemma validateVolumeSource_None:
  "validateVolumeSource v = None \<longleftrightarrow>
     v_Name v \<noteq> '''' \<and> v_HostPath v = None \<and> \<not> v_Projected v \<and> reviewable_source v"
  by (simp add: validateVolumeSource_def describeVolumeSource_allowed)

section \<open>Mounts\<close>

text \<open>The positive allowlist of mount fields: the mount equals its copy with only four fields.\<close>

definition mount_permitted :: "volume_mount \<Rightarrow> volume_mount" where
  "mount_permitted m = \<lparr>m_Name = m_Name m, m_MountPath = m_MountPath m,
     m_SubPath = m_SubPath m, m_ReadOnly = m_ReadOnly m, m_other = []\<rparr>"

fun mounts_loop :: "string \<Rightarrow> string list \<Rightarrow> string list \<Rightarrow> volume_mount list \<Rightarrow> gerr option" where
  "mounts_loop at volNames seenPaths [] = None"
| "mounts_loop at volNames seenPaths (m # ms) =
     (if m_Name m \<notin> set volNames then Some (SpecError (MountNoVolume at (m_MountPath m) (m_Name m)))
      else if m \<noteq> mount_permitted m then Some (SpecError (MountFields at (m_MountPath m)))
      else if m_MountPath m \<in> set seenPaths then Some (SpecError (MountDuplicatePath at (m_MountPath m)))
      else mounts_loop at volNames (m_MountPath m # seenPaths) ms)"

definition validateMounts :: "string \<Rightarrow> volume_mount list \<Rightarrow> string list \<Rightarrow> bool \<Rightarrow> gerr option" where
  "validateMounts at mounts volNames hasStdin =
     mounts_loop at volNames (if hasStdin then [stdinMountDir] else []) mounts"

lemma mount_permitted_iff: "m = mount_permitted m \<longleftrightarrow> m_other m = []"
  by (cases m) (simp add: mount_permitted_def)

lemma mounts_loop_None:
  "mounts_loop at vs seen ms = None \<longleftrightarrow>
     (\<forall>m\<in>set ms. m_Name m \<in> set vs \<and> m_other m = []) \<and>
     distinct (map m_MountPath ms) \<and> set (map m_MountPath ms) \<inter> set seen = {}"
  by (induction at vs seen ms rule: mounts_loop.induct) (auto simp: mount_permitted_iff)

lemma validateMounts_None:
  "validateMounts at ms vs stdin = None \<longleftrightarrow>
     (\<forall>m\<in>set ms. m_Name m \<in> set vs \<and> m_other m = []) \<and> distinct (map m_MountPath ms) \<and>
     (stdin \<longrightarrow> stdinMountDir \<notin> set (map m_MountPath ms))"
  by (auto simp: validateMounts_def mounts_loop_None image_iff)

section \<open>Init containers\<close>

definition container_permitted :: "k8s_container \<Rightarrow> k8s_container" where
  "container_permitted c = \<lparr>c_Name = c_Name c, c_Image = c_Image c, c_Command = c_Command c,
     c_Args = c_Args c, c_Env = c_Env c, c_EnvFrom = c_EnvFrom c, c_VolumeMounts = c_VolumeMounts c,
     c_SecurityContext = None, c_Resources = no_resources, c_other = []\<rparr>"

definition validateInitContainer :: "string list \<Rightarrow> k8s_container \<Rightarrow> gerr option" where
  "validateInitContainer volNames c =
     (if c_Name c = '''' \<or> c_Image c = '''' then Some (SpecError InitNameImage)
      else if c_Command c = [] then Some (SpecError (InitNoCommand (c_Name c)))
      else if c \<noteq> container_permitted c then Some (SpecError (InitFields (c_Name c)))
      else case first_some (\<lambda>m. map_option (\<lambda>why. SpecError (InitMountReserved (c_Name c) (m_Name m) why))
                                       (reservedVolumeNames (m_Name m))) (c_VolumeMounts c) of
        Some e \<Rightarrow> Some e
      | None \<Rightarrow> validateMounts (''initContainer '' @ go_quote (c_Name c)) (c_VolumeMounts c) volNames False)"

lemma container_permitted_iff:
  "c = container_permitted c \<longleftrightarrow>
     c_SecurityContext c = None \<and> c_Resources c = no_resources \<and> c_other c = []"
  by (cases c) (auto simp: container_permitted_def)

definition init_container_ok :: "string list \<Rightarrow> k8s_container \<Rightarrow> bool" where
  "init_container_ok volNames c \<longleftrightarrow>
     c_Name c \<noteq> '''' \<and> c_Image c \<noteq> '''' \<and> c_Command c \<noteq> [] \<and>
     c_SecurityContext c = None \<and> c_Resources c = no_resources \<and> c_other c = [] \<and>
     (\<forall>m\<in>set (c_VolumeMounts c).
        m_Name m \<in> set volNames \<and> reservedVolumeNames (m_Name m) = None \<and> m_other m = []) \<and>
     distinct (map m_MountPath (c_VolumeMounts c))"

lemma validateInitContainer_None: "validateInitContainer vs c = None \<longleftrightarrow> init_container_ok vs c"
  unfolding validateInitContainer_def init_container_ok_def
  by (auto simp: validateMounts_None container_permitted_iff split: option.splits
      dest!: first_some_SomeD)

section \<open>validateSpecExtras\<close>

definition validate_volume :: "volume \<Rightarrow> gerr option" where
  "validate_volume v =
     (case reservedVolumeNames (v_Name v) of
        Some why \<Rightarrow> Some (SpecError (VolumeNameReserved (v_Name v) why))
      | None \<Rightarrow> validateVolumeSource v)"

definition validate_mount_name :: "volume_mount \<Rightarrow> gerr option" where
  "validate_mount_name m =
     (case reservedVolumeNames (m_Name m) of
        Some why \<Rightarrow> Some (SpecError (MountNameReserved (m_Name m) why))
      | None \<Rightarrow> if m_MountPath m = stdinMountDir then Some (SpecError (MountPathReserved stdinMountDir)) else None)"

fun validate_pull_secrets :: "nat \<Rightarrow> string list \<Rightarrow> gerr option" where
  "validate_pull_secrets i [] = None"
| "validate_pull_secrets i (n # ns) =
     (if n = '''' then Some (SpecError (PullSecretNoName i)) else validate_pull_secrets (Suc i) ns)"

text \<open>The names of the volumes the pod will have, as the validator collects them.\<close>

definition vol_names :: "sudo_request \<Rightarrow> pod_extras \<Rightarrow> string list" where
  "vol_names sr extras =
     map v_Name (px_Volumes extras) @ (if Stdin (Spec sr) \<noteq> '''' then [stdinVolumeName] else [])"

definition validate_decoded :: "sudo_request \<Rightarrow> pod_extras \<Rightarrow> gerr option" where
  "validate_decoded sr extras =
     (case first_some validate_volume (px_Volumes extras) of Some e \<Rightarrow> Some e | None \<Rightarrow>
     (case first_some validate_mount_name (px_VolumeMounts extras) of Some e \<Rightarrow> Some e | None \<Rightarrow>
     (case validateMounts ''executor container'' (px_VolumeMounts extras) (vol_names sr extras)
             (Stdin (Spec sr) \<noteq> '''') of Some e \<Rightarrow> Some e | None \<Rightarrow>
     (case first_some (validateInitContainer (vol_names sr extras)) (px_InitContainers extras) of
        Some e \<Rightarrow> Some e | None \<Rightarrow>
      validate_pull_secrets 0 (px_ImagePullSecrets extras)))))"

definition validateSpecExtras :: "lib \<Rightarrow> sudo_request \<Rightarrow> string \<Rightarrow> gerr option" where
  "validateSpecExtras L sr controllerNamespace =
     (if SpecNamespace (Spec sr) \<noteq> '''' \<and> SpecNamespace (Spec sr) \<noteq> controllerNamespace
         \<and> ClusterAdmin (Spec sr) = Some True
      then Some (SpecError (ClusterAdminOffNamespace controllerNamespace (SpecNamespace (Spec sr))))
      else if length (Stdin (Spec sr)) > MaxStdinBytes
      then Some (SpecError (StdinTooLarge (length (Stdin (Spec sr))) MaxStdinBytes))
      else case decodePodExtras L sr of
        Inl e \<Rightarrow> Some (Wrap ''invalid pod field'' e)
      | Inr extras \<Rightarrow> validate_decoded sr extras)"

section \<open>The specs that pass\<close>

definition extras_ok :: "sudo_request \<Rightarrow> pod_extras \<Rightarrow> bool" where
  "extras_ok sr x \<longleftrightarrow>
     (\<forall>v\<in>set (px_Volumes x). v_Name v \<noteq> '''' \<and> reservedVolumeNames (v_Name v) = None \<and>
        v_HostPath v = None \<and> \<not> v_Projected v \<and> reviewable_source v) \<and>
     (\<forall>m\<in>set (px_VolumeMounts x). m_Name m \<in> v_Name ` set (px_Volumes x) \<and>
        reservedVolumeNames (m_Name m) = None \<and> m_MountPath m \<noteq> stdinMountDir \<and> m_other m = []) \<and>
     distinct (map m_MountPath (px_VolumeMounts x)) \<and>
     (\<forall>c\<in>set (px_InitContainers x). init_container_ok (map v_Name (px_Volumes x)) c) \<and>
     '''' \<notin> set (px_ImagePullSecrets x)"

definition spec_ok :: "lib \<Rightarrow> sudo_request \<Rightarrow> string \<Rightarrow> bool" where
  "spec_ok L sr cns \<longleftrightarrow>
     (ClusterAdmin (Spec sr) = Some True \<longrightarrow> executorNamespace sr cns = cns) \<and>
     length (Stdin (Spec sr)) \<le> MaxStdinBytes \<and>
     (\<exists>x. decodePodExtras L sr = Inr x \<and> extras_ok sr x)"

lemma validate_pull_secrets_None: "validate_pull_secrets i ns = None \<longleftrightarrow> '''' \<notin> set ns"
  by (induction i ns rule: validate_pull_secrets.induct) auto

lemma validate_volume_None:
  "validate_volume v = None \<longleftrightarrow> v_Name v \<noteq> '''' \<and> reservedVolumeNames (v_Name v) = None \<and>
     v_HostPath v = None \<and> \<not> v_Projected v \<and> reviewable_source v"
  by (auto simp: validate_volume_def validateVolumeSource_None split: option.split)

lemma validate_mount_name_None:
  "validate_mount_name m = None \<longleftrightarrow> reservedVolumeNames (m_Name m) = None \<and> m_MountPath m \<noteq> stdinMountDir"
  by (auto simp: validate_mount_name_def split: option.split)

lemma set_vol_names: "set (vol_names sr x) = v_Name ` set (px_Volumes x) \<union>
    (if Stdin (Spec sr) \<noteq> '''' then {stdinVolumeName} else {})"
  by (simp add: vol_names_def)

text \<open>An unreserved name among the pod's volumes names one of the requester's volumes.\<close>

lemma unreserved_vol_name:
  "reservedVolumeNames n = None \<Longrightarrow> n \<in> set (vol_names sr x) \<longleftrightarrow> n \<in> v_Name ` set (px_Volumes x)"
  by (auto simp: set_vol_names reservedVolumeNames_None split: if_splits)

lemma init_container_ok_vol_names:
  "init_container_ok (vol_names sr x) c \<longleftrightarrow> init_container_ok (map v_Name (px_Volumes x)) c"
  unfolding init_container_ok_def by (auto simp: unreserved_vol_name)

lemma validate_decoded_None: "validate_decoded sr x = None \<longleftrightarrow> extras_ok sr x"
proof -
  have "validate_decoded sr x = None \<longleftrightarrow>
      (\<forall>v\<in>set (px_Volumes x). validate_volume v = None) \<and>
      (\<forall>m\<in>set (px_VolumeMounts x). validate_mount_name m = None) \<and>
      validateMounts ''executor container'' (px_VolumeMounts x) (vol_names sr x) (Stdin (Spec sr) \<noteq> '''') = None \<and>
      (\<forall>c\<in>set (px_InitContainers x). validateInitContainer (vol_names sr x) c = None) \<and>
      validate_pull_secrets 0 (px_ImagePullSecrets x) = None"
    by (simp add: validate_decoded_def chain_None)
  also have "\<dots> \<longleftrightarrow> extras_ok sr x"
    unfolding extras_ok_def validate_volume_None validate_mount_name_None validateMounts_None
      validateInitContainer_None validate_pull_secrets_None init_container_ok_vol_names
    by (auto simp: unreserved_vol_name)
  finally show ?thesis .
qed

lemma validateSpecExtras_None: "validateSpecExtras L sr cns = None \<longleftrightarrow> spec_ok L sr cns"
  by (auto simp: validateSpecExtras_def spec_ok_def validate_decoded_None executorNamespace_def
      split: sum.split)

text \<open>
  C28: a request passes validation exactly when it lies in the reviewable subset: cluster-admin
  only in the controller namespace, bounded stdin, every pod field decodes, no hostPath or projected
  volume, no reserved name or stdin path, every mount refers to a declared volume with no path used
  twice, and init containers carry an explicit command and only the reviewable fields.
\<close>

theorem validateSpecExtras_iff: "validateSpecExtras L sr cns = None \<longleftrightarrow> spec_ok L sr cns"
  by (rule validateSpecExtras_None)

text \<open>A request that passes holds cluster-admin only in the controller namespace.\<close>

lemma spec_ok_cluster_admin:
  "spec_ok L sr cns \<Longrightarrow> ClusterAdmin (Spec sr) = Some True \<Longrightarrow> clusterAdminEnabled sr cns"
  by (simp add: spec_ok_def clusterAdminEnabled_def)

lemma clusterAdmin_namespace: "clusterAdminEnabled sr cns \<Longrightarrow> executorNamespace sr cns = cns"
  by (simp add: clusterAdminEnabled_def split: if_splits)

end
