(* ===== verification/AutoApprove.thy ===== *)
theory AutoApprove
  imports Profiles Validation
begin

text \<open>
  \<^verbatim>\<open>auto_approve.go\<close> with \<^verbatim>\<open>autoApproveTokens\<close>,
  \<^verbatim>\<open>hasSpecExtras\<close> (\<^verbatim>\<open>executor.go\<close>) and
  \<^verbatim>\<open>hasPodSpecExtras\<close> (\<^verbatim>\<open>playbooks.go\<close>): which requests the
  allowlist of command and image lets through without a human.  The splitter
  \<^verbatim>\<open>google/shlex\<close> is the parameter \<open>shlex_split\<close>; the rules are the loaded
  configuration.
\<close>

record auto_approve_rule =
  ar_Exact :: "string list"
  ar_Prefix :: "string list"
  ar_Image :: string

section \<open>The gate\<close>

text \<open>The two comparison loops, with their early exit.\<close>

fun tokens_match :: "string list \<Rightarrow> string list \<Rightarrow> bool" where
  "tokens_match tokens [] = True"
| "tokens_match [] (r # rs) = False"
| "tokens_match (t # ts) (r # rs) = (if t \<noteq> r then False else tokens_match ts rs)"

definition rule_matches :: "string list \<Rightarrow> string \<Rightarrow> auto_approve_rule \<Rightarrow> bool" where
  "rule_matches tokens reqImage rule =
     (let expectedImage = (if ar_Image rule = '''' then DefaultExecutorImage else ar_Image rule) in
      if reqImage \<noteq> expectedImage then False
      else if ar_Exact rule \<noteq> [] \<and> length tokens = length (ar_Exact rule) \<and> tokens_match tokens (ar_Exact rule)
      then True
      else ar_Prefix rule \<noteq> [] \<and> length tokens \<ge> length (ar_Prefix rule) \<and> tokens_match tokens (ar_Prefix rule))"

definition getAutoApproveParsedCommand ::
    "lib \<Rightarrow> auto_approve_rule list \<Rightarrow> string \<Rightarrow> string \<Rightarrow> string list option" where
  "getAutoApproveParsedCommand L rules command reqImage =
     (case shlex_split L command of
        None \<Rightarrow> None
      | Some tokens \<Rightarrow>
          if tokens = [] then None
          else if list_ex (rule_matches tokens reqImage) rules then Some tokens else None)"

definition hasPodSpecExtras :: "sudo_request \<Rightarrow> bool" where
  "hasPodSpecExtras sr \<longleftrightarrow>
     SpecNamespace (Spec sr) \<noteq> '''' \<or> Stdin (Spec sr) \<noteq> '''' \<or> Env (Spec sr) \<noteq> [] \<or>
     EnvFrom (Spec sr) \<noteq> [] \<or> Volumes (Spec sr) \<noteq> [] \<or> VolumeMounts (Spec sr) \<noteq> [] \<or>
     InitContainers (Spec sr) \<noteq> [] \<or> ImagePullSecrets (Spec sr) \<noteq> [] \<or> ClusterAdmin (Spec sr) \<noteq> None"

definition hasSpecExtras :: "sudo_request \<Rightarrow> bool" where
  "hasSpecExtras sr \<longleftrightarrow> Playbook (Spec sr) \<noteq> None \<or> hasPodSpecExtras sr"

definition autoApproveTokens :: "lib \<Rightarrow> auto_approve_rule list \<Rightarrow> sudo_request \<Rightarrow> string list option" where
  "autoApproveTokens L rules sr =
     (if hasSpecExtras sr then None
      else getAutoApproveParsedCommand L rules (Command (Spec sr)) (imageFor sr))"

section \<open>What the gate admits\<close>

lemma tokens_match_prefix: "tokens_match ts rs \<longleftrightarrow> prefix rs ts"
  by (induction ts rs rule: tokens_match.induct) auto

lemma rule_matches_iff:
  "rule_matches tokens img rule \<longleftrightarrow>
     img = (if ar_Image rule = '''' then DefaultExecutorImage else ar_Image rule) \<and>
     (ar_Exact rule \<noteq> [] \<and> tokens = ar_Exact rule \<or> ar_Prefix rule \<noteq> [] \<and> prefix (ar_Prefix rule) tokens)"
proof -
  have exact: "length ts = length rs \<and> prefix rs ts \<longleftrightarrow> ts = rs" for ts rs :: "string list"
    by (auto elim: prefixE)
  have len: "prefix rs ts \<Longrightarrow> length rs \<le> length ts" for ts rs :: "string list"
    by (rule prefix_length_le)
  show ?thesis
    by (auto simp: rule_matches_def tokens_match_prefix Let_def exact dest: len)
qed

text \<open>The abstract policy: a plain command whose words a rule for its image lists.\<close>

definition auto_approvable :: "lib \<Rightarrow> auto_approve_rule list \<Rightarrow> sudo_request \<Rightarrow> string list \<Rightarrow> bool" where
  "auto_approvable L rules sr tokens \<longleftrightarrow>
     Playbook (Spec sr) = None \<and> \<not> hasPodSpecExtras sr \<and>
     shlex_split L (Command (Spec sr)) = Some tokens \<and> tokens \<noteq> [] \<and>
     (\<exists>rule\<in>set rules.
        imageFor sr = (if ar_Image rule = '''' then DefaultExecutorImage else ar_Image rule) \<and>
        (ar_Exact rule \<noteq> [] \<and> tokens = ar_Exact rule \<or>
         ar_Prefix rule \<noteq> [] \<and> prefix (ar_Prefix rule) tokens))"

lemma autoApproveTokens_iff: "autoApproveTokens L rules sr = Some ts \<longleftrightarrow> auto_approvable L rules sr ts"
  by (auto simp: autoApproveTokens_def getAutoApproveParsedCommand_def auto_approvable_def
      hasSpecExtras_def list_ex_iff rule_matches_iff split: option.splits if_splits)

lemma autoApproveTokens_plain:
  "autoApproveTokens L rules sr = Some ts \<Longrightarrow> \<not> hasSpecExtras sr"
  by (auto simp: autoApproveTokens_def split: if_splits)

text \<open>
  With no rule configured nothing is approved, and a rule with neither list approves nothing: the
  gate is closed by default.
\<close>

lemma no_rules_no_approval:
  "(\<forall>r\<in>set rules. ar_Exact r = [] \<and> ar_Prefix r = []) \<Longrightarrow> autoApproveTokens L rules sr = None"
  by (cases "autoApproveTokens L rules sr") (auto simp: autoApproveTokens_iff auto_approvable_def)

end
