(* ===== verification/Executor.thy ===== *)
theory Executor
  imports AutoApprove
begin

text \<open>
  The pure part of \<^verbatim>\<open>executor.go\<close>: the executor Job rendered from a request and its
  decoded pod fields, and the functions that read the state of its pod.
\<close>

section \<open>Names, lifetimes and owners\<close>

definition resourceName :: "sudo_request \<Rightarrow> string \<Rightarrow> string" where
  "resourceName sr pre =
     (let uid = filter (\<lambda>c. c \<noteq> CHR ''-'') (UID sr);
          uid = (if length uid > 12 then take 12 uid else uid);
          n = pre @ uid
      in if length n > 63 then take 63 n else n)"

definition outputSecretName :: "sudo_request \<Rightarrow> string" where
  "outputSecretName sr = resourceName sr ''sudo-out-''"

definition ttlSecondsAfterApproval :: "sudo_request \<Rightarrow> int" where
  "ttlSecondsAfterApproval sr =
     (case TTLSecondsAfterApproval (Spec sr) of
        None \<Rightarrow> DefaultPostApproval
      | Some v \<Rightarrow> if v < 0 then 0 else if v > ExecutorJobTTL then ExecutorJobTTL else v)"

definition ownerRef :: "sudo_request \<Rightarrow> owner_ref" where
  "ownerRef sr = \<lparr>or_APIVersion = ''sudo.andrewgarrett.dev/v1alpha1'', or_Kind = ''SudoRequest'',
     or_Name = Name sr, or_UID = UID sr, or_Controller = Some True, or_BlockOwnerDeletion = Some False\<rparr>"

definition executorLabels :: "(string \<times> string) list" where
  "executorLabels = [(''app'', ''sudo-service-executor''), (''role'', ''executor'')]"

section \<open>Stamped settings\<close>

definition executorResources :: resources where
  "executorResources = \<lparr>rs_Requests = [(''cpu'', ''50m''), (''memory'', ''64Mi'')], rs_Limits = []\<rparr>"

definition hardenedContainerSecurityContext :: security_context where
  "hardenedContainerSecurityContext = \<lparr>sc_AllowPrivilegeEscalation = Some False,
     sc_ReadOnlyRootFilesystem = Some True, sc_DropCapabilities = [''ALL''], sc_other = []\<rparr>"

definition scratchVolume :: "string \<Rightarrow> volume" where
  "scratchVolume n = \<lparr>v_Name = n, v_EmptyDir = Some None, v_Secret = None, v_ConfigMap = None,
     v_PVC = None, v_Projected = False, v_HostPath = None, v_other = []\<rparr>"

definition plain_mount :: "string \<Rightarrow> string \<Rightarrow> bool \<Rightarrow> volume_mount" where
  "plain_mount n p ro = \<lparr>m_Name = n, m_MountPath = p, m_SubPath = '''', m_ReadOnly = ro, m_other = []\<rparr>"

section \<open>Scratch space\<close>

definition hasEnv :: "env_var list \<Rightarrow> string \<Rightarrow> bool" where
  "hasEnv env n \<longleftrightarrow> list_ex (\<lambda>e. ev_Name e = n) env"

definition hasMountAt :: "volume_mount list \<Rightarrow> string \<Rightarrow> bool" where
  "hasMountAt mounts dir \<longleftrightarrow> list_ex (\<lambda>m. m_MountPath m = dir) mounts"

definition mountsAtOrUnder :: "volume_mount list \<Rightarrow> string \<Rightarrow> bool" where
  "mountsAtOrUnder mounts dir \<longleftrightarrow>
     list_ex (\<lambda>m. m_MountPath m = dir \<or> has_prefix (m_MountPath m) (dir @ ''/'')) mounts"

definition home_env :: env_var where
  "home_env = \<lparr>ev_Name = ''HOME'', ev_Value = homeMountDir, ev_ValueFrom = None\<rparr>"

definition stampScratch :: "k8s_container \<Rightarrow> k8s_container \<times> bool \<times> bool" where
  "stampScratch c =
     (let usedTmp = \<not> mountsAtOrUnder (c_VolumeMounts c) tmpMountDir;
          c = (if usedTmp
               then c\<lparr>c_VolumeMounts := c_VolumeMounts c @ [plain_mount tmpVolumeName tmpMountDir False]\<rparr>
               else c)
      in if hasEnv (c_Env c) ''HOME'' \<or> c_EnvFrom c \<noteq> [] then (c, usedTmp, False)
         else if hasMountAt (c_VolumeMounts c) homeMountDir
         then (c\<lparr>c_Env := c_Env c @ [home_env]\<rparr>, usedTmp, False)
         else if mountsAtOrUnder (c_VolumeMounts c) homeMountDir then (c, usedTmp, False)
         else (c\<lparr>c_VolumeMounts := c_VolumeMounts c @ [plain_mount homeVolumeName homeMountDir False],
                 c_Env := c_Env c @ [home_env]\<rparr>, usedTmp, True))"

section \<open>The Job\<close>

definition executorCommand :: "lib \<Rightarrow> auto_approve_rule list \<Rightarrow> sudo_request \<Rightarrow> string list" where
  "executorCommand L rules sr =
     (case autoApproveTokens L rules sr of
        Some tokens \<Rightarrow> tokens
      | None \<Rightarrow>
          if Stdin (Spec sr) \<noteq> ''''
          then [''/bin/sh'', ''-c'',
                ''exec /bin/sh -c '' @ [CHR 0x22] @ ''$1'' @ [CHR 0x22] @ '' < '' @ stdinMountDir @ ''/stdin'',
                ''sudo-service'', Command (Spec sr)]
          else [''/bin/sh'', ''-c'', Command (Spec sr)])"

definition stdin_volume :: "string \<Rightarrow> volume" where
  "stdin_volume secretName = \<lparr>v_Name = stdinVolumeName, v_EmptyDir = None,
     v_Secret = Some \<lparr>ss_SecretName = secretName, ss_Items = [], ss_DefaultMode = Some 292\<rparr>,
     v_ConfigMap = None, v_PVC = None, v_Projected = False, v_HostPath = None, v_other = []\<rparr>"

text \<open>The executor container and the volumes before scratch space is added.\<close>

definition executor_container :: "lib \<Rightarrow> auto_approve_rule list \<Rightarrow> sudo_request \<Rightarrow> pod_extras \<Rightarrow> k8s_container" where
  "executor_container L rules sr extras = \<lparr>c_Name = ''executor'', c_Image = imageFor sr,
     c_Command = executorCommand L rules sr, c_Args = [], c_Env = px_Env extras,
     c_EnvFrom = px_EnvFrom extras,
     c_VolumeMounts = px_VolumeMounts extras @
       (if Stdin (Spec sr) \<noteq> '''' then [plain_mount stdinVolumeName stdinMountDir True] else []),
     c_SecurityContext = Some hardenedContainerSecurityContext,
     c_Resources = executorResources, c_other = []\<rparr>"

definition base_volumes :: "sudo_request \<Rightarrow> pod_extras \<Rightarrow> volume list" where
  "base_volumes sr extras = px_Volumes extras @
     (if Stdin (Spec sr) \<noteq> '''' then [stdin_volume (StdinSecretName (Status sr))] else [])"

definition stamp_init :: "k8s_container \<Rightarrow> k8s_container" where
  "stamp_init c = c\<lparr>c_SecurityContext := Some hardenedContainerSecurityContext,
     c_Resources := executorResources\<rparr>"

definition executor_pod :: "lib \<Rightarrow> auto_approve_rule list \<Rightarrow> sudo_request \<Rightarrow> pod_extras \<Rightarrow> string \<Rightarrow> pod_spec" where
  "executor_pod L rules sr extras controllerNamespace =
     (let (saName, automount) = executorServiceAccount sr controllerNamespace;
          stampedExecutor = stampScratch (executor_container L rules sr extras);
          stampedInits = map (\<lambda>c. stampScratch (stamp_init c)) (px_InitContainers extras);
          usedTmp = list_ex (\<lambda>(c, t, h). t) (stampedExecutor # stampedInits);
          usedHome = list_ex (\<lambda>(c, t, h). h) (stampedExecutor # stampedInits)
      in \<lparr>ps_RestartPolicy = ''Never'', ps_ServiceAccountName = saName,
          ps_AutomountServiceAccountToken = automount,
          ps_ImagePullSecrets = px_ImagePullSecrets extras,
          ps_RunAsNonRoot = Some True, ps_RunAsUser = Some 1000,
          ps_SeccompProfile = Some ''RuntimeDefault'',
          ps_InitContainers = map fst stampedInits, ps_Containers = [fst stampedExecutor],
          ps_Volumes = base_volumes sr extras @
            (if usedTmp then [scratchVolume tmpVolumeName] else []) @
            (if usedHome then [scratchVolume homeVolumeName] else [])\<rparr>)"

definition buildExecutorJob ::
    "lib \<Rightarrow> auto_approve_rule list \<Rightarrow> sudo_request \<Rightarrow> string \<Rightarrow> string \<Rightarrow> pod_extras \<Rightarrow> string \<Rightarrow> job" where
  "buildExecutorJob L rules sr ns n extras controllerNamespace =
     \<lparr>j_Name = n, j_Namespace = ns, j_UID = '''', j_Labels = executorLabels,
      j_Owners = (if ns = controllerNamespace then [ownerRef sr] else []),
      j_CreationTimestamp = 0, j_DeletionTimestamp = None, j_BackoffLimit = Some 0,
      j_TTLSecondsAfterFinished = Some (let jobTTL = ttlSecondsAfterApproval sr in
         if jobTTL < ExecutorJobTTLFloor then ExecutorJobTTLFloor else jobTTL),
      j_TemplateLabels = executorLabels,
      j_PodSpec = executor_pod L rules sr extras controllerNamespace,
      j_Succeeded = 0, j_Failed = 0, j_Conditions = []\<rparr>"

section \<open>Reading the executor pod\<close>

definition executorContainerTerminated :: "pod \<Rightarrow> bool" where
  "executorContainerTerminated p \<longleftrightarrow>
     list_ex (\<lambda>cs. st_Name cs = ''executor'' \<and> (case st_State cs of Terminated _ _ \<Rightarrow> True | _ \<Rightarrow> False))
       (p_ContainerStatuses p)"

definition executorStarted :: "pod \<Rightarrow> bool" where
  "executorStarted p \<longleftrightarrow>
     list_ex (\<lambda>cs. st_Name cs = ''executor'' \<and>
         (case st_State cs of Terminated _ _ \<Rightarrow> True | Running \<Rightarrow> True | _ \<Rightarrow> False))
       (p_ContainerStatuses p)"

definition waiting_reason :: "container_status \<Rightarrow> string option" where
  "waiting_reason cs =
     (case st_State cs of
        Waiting reason msg \<Rightarrow>
          if reason \<noteq> '''' then Some (if msg \<noteq> '''' then reason @ '': '' @ msg else reason) else None
      | _ \<Rightarrow> None)"

definition podWaitReason :: "pod \<Rightarrow> string" where
  "podWaitReason p =
     fold (\<lambda>cs reason. case waiting_reason cs of Some r \<Rightarrow> r | None \<Rightarrow> reason)
       (p_InitContainerStatuses p @ p_ContainerStatuses p) ''pod pending''"

text \<open>Go's zero time, in nanoseconds since the epoch.\<close>

definition zero_time :: int where "zero_time = - 62135596800 * second"

fun latest_finish :: "container_status list \<Rightarrow> int \<Rightarrow> int option" where
  "latest_finish [] latest = Some latest"
| "latest_finish (cs # rest) latest =
     (case st_State cs of
        Terminated _ finishedAt \<Rightarrow> latest_finish rest (if finishedAt > latest then finishedAt else latest)
      | _ \<Rightarrow> None)"

definition executorWaitStart :: "pod \<Rightarrow> job \<Rightarrow> int" where
  "executorWaitStart p j =
     (if p_InitContainerStatuses p = [] then j_CreationTimestamp j
      else case latest_finish (p_InitContainerStatuses p) zero_time of
        None \<Rightarrow> j_CreationTimestamp j
      | Some latest \<Rightarrow> if latest = zero_time then j_CreationTimestamp j else latest)"

definition containerToReport :: "pod \<Rightarrow> (string \<times> int) res" where
  "containerToReport p =
     (case first_some (\<lambda>cs. if st_Name cs = ''executor''
                            then (case st_State cs of Terminated code _ \<Rightarrow> Some (''executor'', code) | _ \<Rightarrow> None)
                            else None) (p_ContainerStatuses p) of
        Some r \<Rightarrow> Inr r
      | None \<Rightarrow>
     (case first_some (\<lambda>cs. case st_State cs of
                              Terminated code _ \<Rightarrow> if code \<noteq> 0 then Some (st_Name cs, code) else None
                            | _ \<Rightarrow> None) (p_InitContainerStatuses p) of
        Some r \<Rightarrow> Inr r
      | None \<Rightarrow> Inl (Text ''no terminated container to report yet'')))"

section \<open>Lemmas on the rendered pod\<close>

lemma ttl_bounds: "0 \<le> ttlSecondsAfterApproval sr \<and> ttlSecondsAfterApproval sr \<le> ExecutorJobTTL"
  by (simp add: ttlSecondsAfterApproval_def ExecutorJobTTL_def DefaultPostApproval_def split: option.split)

lemma stampScratch_keeps:
  "c_Name (fst (stampScratch c)) = c_Name c" "c_Image (fst (stampScratch c)) = c_Image c"
  "c_Command (fst (stampScratch c)) = c_Command c" "c_Args (fst (stampScratch c)) = c_Args c"
  "c_EnvFrom (fst (stampScratch c)) = c_EnvFrom c"
  "c_SecurityContext (fst (stampScratch c)) = c_SecurityContext c"
  "c_Resources (fst (stampScratch c)) = c_Resources c" "c_other (fst (stampScratch c)) = c_other c"
  by (simp_all add: stampScratch_def Let_def)

text \<open>The mounts and environment of a stamped container, by what the requester left free.\<close>

lemma under_tmp_home: "\<not> has_prefix homeMountDir (tmpMountDir @ ''/'')" "homeMountDir \<noteq> tmpMountDir"
  "\<not> has_prefix tmpMountDir (homeMountDir @ ''/'')" "stdinMountDir \<noteq> tmpMountDir"
  "stdinMountDir \<noteq> homeMountDir"
  by (simp_all add: mount_dir_defs has_prefix_def)

lemma mountsAtOrUnder_simps [simp]:
  "mountsAtOrUnder (ms @ ns) d \<longleftrightarrow> mountsAtOrUnder ms d \<or> mountsAtOrUnder ns d"
  "hasMountAt (ms @ ns) d \<longleftrightarrow> hasMountAt ms d \<or> hasMountAt ns d"
  "mountsAtOrUnder [plain_mount n p ro] d \<longleftrightarrow> p = d \<or> has_prefix p (d @ ''/'')"
  "hasMountAt [plain_mount n p ro] d \<longleftrightarrow> p = d"
  by (auto simp: mountsAtOrUnder_def hasMountAt_def plain_mount_def)

definition keeps_home :: "k8s_container \<Rightarrow> bool" where
  "keeps_home c \<longleftrightarrow> hasEnv (c_Env c) ''HOME'' \<or> c_EnvFrom c \<noteq> [] \<or> mountsAtOrUnder (c_VolumeMounts c) homeMountDir"

lemma hasMountAt_under: "hasMountAt ms d \<Longrightarrow> mountsAtOrUnder ms d"
  by (auto simp: hasMountAt_def mountsAtOrUnder_def list_ex_iff)

lemma stampScratch_mounts:
  "c_VolumeMounts (fst (stampScratch c)) = c_VolumeMounts c @
     (if mountsAtOrUnder (c_VolumeMounts c) tmpMountDir then [] else [plain_mount tmpVolumeName tmpMountDir False]) @
     (if keeps_home c then [] else [plain_mount homeVolumeName homeMountDir False])"
  using under_tmp_home by (auto simp: stampScratch_def keeps_home_def Let_def dest: hasMountAt_under)

lemma stampScratch_used:
  "fst (snd (stampScratch c)) \<longleftrightarrow> \<not> mountsAtOrUnder (c_VolumeMounts c) tmpMountDir"
  "snd (snd (stampScratch c)) \<longleftrightarrow> \<not> keeps_home c"
  using under_tmp_home by (auto simp: stampScratch_def keeps_home_def Let_def dest: hasMountAt_under)

text \<open>An environment variable the requester set is never changed or shadowed.\<close>

lemma stampScratch_env:
  "\<exists>extra. c_Env (fst (stampScratch c)) = c_Env c @ extra \<and>
     (extra = [] \<or> extra = [home_env] \<and> \<not> hasEnv (c_Env c) ''HOME'' \<and> c_EnvFrom c = [])"
  by (auto simp: stampScratch_def Let_def)

section \<open>The pod of a validated request\<close>

text \<open>
  What the API server demands of the volumes of a pod: distinct names, and in every container
  mounts that refer to them with no path used twice.
\<close>

definition container_mounts_ok :: "volume list \<Rightarrow> k8s_container \<Rightarrow> bool" where
  "container_mounts_ok vols c \<longleftrightarrow>
     (\<forall>m\<in>set (c_VolumeMounts c). m_Name m \<in> v_Name ` set vols) \<and>
     distinct (map m_MountPath (c_VolumeMounts c))"

definition pod_volumes_ok :: "pod_spec \<Rightarrow> bool" where
  "pod_volumes_ok p \<longleftrightarrow>
     distinct (map v_Name (ps_Volumes p)) \<and>
     (\<forall>c\<in>set (ps_InitContainers p @ ps_Containers p). container_mounts_ok (ps_Volumes p) c)"

lemma not_under_path: "\<not> mountsAtOrUnder ms d \<Longrightarrow> d \<notin> m_MountPath ` set ms"
  by (auto simp: mountsAtOrUnder_def list_ex_iff)

lemma stamp_container_ok:
  assumes "\<forall>m\<in>set (c_VolumeMounts c). m_Name m \<in> v_Name ` set vols"
    and "distinct (map m_MountPath (c_VolumeMounts c))"
    and "fst (snd (stampScratch c)) \<Longrightarrow> tmpVolumeName \<in> v_Name ` set vols"
    and "snd (snd (stampScratch c)) \<Longrightarrow> homeVolumeName \<in> v_Name ` set vols"
  shows "container_mounts_ok vols (fst (stampScratch c))"
proof -
  have home: "\<not> keeps_home c \<Longrightarrow> homeMountDir \<notin> m_MountPath ` set (c_VolumeMounts c)"
    by (auto simp: keeps_home_def dest: not_under_path)
  have tmp: "\<not> mountsAtOrUnder (c_VolumeMounts c) tmpMountDir \<Longrightarrow>
      tmpMountDir \<notin> m_MountPath ` set (c_VolumeMounts c)"
    by (rule not_under_path)
  show ?thesis
    using assms home tmp under_tmp_home(2)
    unfolding container_mounts_ok_def stampScratch_mounts stampScratch_used
    by (auto simp: plain_mount_def)
qed

text \<open>The containers of the pod before scratch space is added.\<close>

definition raw_containers :: "lib \<Rightarrow> auto_approve_rule list \<Rightarrow> sudo_request \<Rightarrow> pod_extras \<Rightarrow> k8s_container list" where
  "raw_containers L rules sr x = executor_container L rules sr x # map stamp_init (px_InitContainers x)"

lemma executor_pod_sel:
  "ps_Containers (executor_pod L rules sr x cns) = [fst (stampScratch (executor_container L rules sr x))]"
  "ps_InitContainers (executor_pod L rules sr x cns) =
     map (\<lambda>c. fst (stampScratch (stamp_init c))) (px_InitContainers x)"
  "ps_Volumes (executor_pod L rules sr x cns) = base_volumes sr x @
     (if \<exists>c\<in>set (raw_containers L rules sr x).
           fst (snd (stampScratch c)) then [scratchVolume tmpVolumeName] else []) @
     (if \<exists>c\<in>set (raw_containers L rules sr x).
           snd (snd (stampScratch c)) then [scratchVolume homeVolumeName] else [])"
  "ps_ServiceAccountName (executor_pod L rules sr x cns) = fst (executorServiceAccount sr cns)"
  "ps_AutomountServiceAccountToken (executor_pod L rules sr x cns) = snd (executorServiceAccount sr cns)"
  by (auto simp: executor_pod_def Let_def split_beta list_ex_iff raw_containers_def)

lemma base_volume_names:
  "map v_Name (base_volumes sr x) = map v_Name (px_Volumes x) @ (if Stdin (Spec sr) \<noteq> '''' then [stdinVolumeName] else [])"
  by (simp add: base_volumes_def stdin_volume_def)

lemma base_volume_name_set:
  "v_Name ` set (base_volumes sr x) =
     v_Name ` set (px_Volumes x) \<union> (if Stdin (Spec sr) \<noteq> '''' then {stdinVolumeName} else {})"
  by (auto simp: base_volumes_def stdin_volume_def)

lemma names_distinct: "distinct [stdinVolumeName, tmpVolumeName, homeVolumeName]"
  by (simp add: reserved_defs)

lemma executor_pod_volumes_distinct:
  assumes "extras_ok sr x" and "distinct (map v_Name (px_Volumes x))"
  shows "distinct (map v_Name (ps_Volumes (executor_pod L rules sr x cns)))"
proof -
  have "\<forall>v\<in>set (px_Volumes x). v_Name v \<notin> {stdinVolumeName, tmpVolumeName, homeVolumeName}"
    using assms(1) by (simp add: extras_ok_def reservedVolumeNames_None)
  moreover have "v_Name (scratchVolume n) = n" for n by (simp add: scratchVolume_def)
  ultimately show ?thesis
    using assms(2) names_distinct unfolding executor_pod_sel
    by (auto simp: base_volume_names simp del: map_map)
qed

lemma executor_pod_mounts_ok:
  assumes ok: "extras_ok sr x"
    and c: "c \<in> set (ps_InitContainers (executor_pod L rules sr x cns) @ ps_Containers (executor_pod L rules sr x cns))"
  shows "container_mounts_ok (ps_Volumes (executor_pod L rules sr x cns)) c"
proof -
  from c obtain d where d: "d \<in> set (raw_containers L rules sr x)" and cd: "c = fst (stampScratch d)"
    by (auto simp: executor_pod_sel raw_containers_def)
  let ?vols = "ps_Volumes (executor_pod L rules sr x cns)"
  have base: "set (base_volumes sr x) \<subseteq> set ?vols" by (simp add: executor_pod_sel)
  have nm: "v_Name (scratchVolume n) = n" for n by (simp add: scratchVolume_def)
  have tmp: "tmpVolumeName \<in> v_Name ` set ?vols" if "fst (snd (stampScratch d))"
  proof -
    from d that have "scratchVolume tmpVolumeName \<in> set ?vols" by (auto simp: executor_pod_sel)
    then show ?thesis by (metis nm imageI)
  qed
  have home: "homeVolumeName \<in> v_Name ` set ?vols" if "snd (snd (stampScratch d))"
  proof -
    from d that have "scratchVolume homeVolumeName \<in> set ?vols" by (auto simp: executor_pod_sel)
    then show ?thesis by (metis nm imageI)
  qed
  have "(\<forall>m\<in>set (c_VolumeMounts d). m_Name m \<in> v_Name ` set (base_volumes sr x)) \<and>
      distinct (map m_MountPath (c_VolumeMounts d))"
  proof (cases "d = executor_container L rules sr x")
    case True
    then show ?thesis
      using ok by (auto simp: executor_container_def extras_ok_def base_volume_name_set plain_mount_def)
  next
    case False
    with d obtain i where "i \<in> set (px_InitContainers x)" and "d = stamp_init i"
      by (auto simp: raw_containers_def)
    with ok show ?thesis
      by (auto simp: stamp_init_def extras_ok_def init_container_ok_def base_volume_name_set)
  qed
  with base tmp home show ?thesis
    unfolding cd by (intro stamp_container_ok) blast+
qed

text \<open>The settings the controller owns.\<close>

lemma executor_pod_settings:
  "ps_RestartPolicy (executor_pod L rules sr x cns) = ''Never''"
  "ps_RunAsNonRoot (executor_pod L rules sr x cns) = Some True"
  by (simp_all add: executor_pod_def Let_def split_beta)

lemma executor_pod_hardened:
  "c \<in> set (ps_InitContainers (executor_pod L rules sr x cns) @ ps_Containers (executor_pod L rules sr x cns)) \<Longrightarrow>
     c_SecurityContext c = Some hardenedContainerSecurityContext \<and> c_Resources c = executorResources"
  by (auto simp: executor_pod_sel stampScratch_keeps stamp_init_def executor_container_def)

lemma job_ttl_bounds:
  "j_TTLSecondsAfterFinished (buildExecutorJob L rules sr ns nm x cns) = Some (max (ttlSecondsAfterApproval sr) ExecutorJobTTLFloor)"
  "120 \<le> max (ttlSecondsAfterApproval sr) ExecutorJobTTLFloor \<and> max (ttlSecondsAfterApproval sr) ExecutorJobTTLFloor \<le> 3600"
  using ttl_bounds [of sr] by (auto simp: buildExecutorJob_def Let_def ExecutorJobTTL_def ExecutorJobTTLFloor_def)

end
