(* ===== verification/Broadcaster.thy ===== *)
theory Broadcaster
  imports Types
begin

text \<open>
  \<^verbatim>\<open>broadcaster.go\<close>: the publish/subscribe hub between the reconciler and the SSE
  handlers.  A channel is a number with a capacity and a queue; \<^verbatim>\<open>Publish\<close> takes a
  snapshot of the channels under the lock and then, unlocked, offers the event to each of them
  without blocking.  The first part gives the operations as functions; the second lets any number
  of publishers, subscribers and readers interleave at the granularity of the lock.
\<close>

section \<open>Events\<close>

record event =
  e_Type :: string
  e_UID :: string
  e_Phase :: phase
  e_Requester :: string
  e_Reason :: string
  e_Command :: string
  e_CreatedAt :: "int option"
  e_RetryOfUID :: string
  e_ApprovedBy :: string
  e_DeniedBy :: string
  e_DenialReason :: string
  e_FailureReason :: string
  e_ExitCode :: "int option"
  e_OutputSecretRef :: string
  e_OutputCaptureState :: capture_state
  e_OutputDeliveryState :: delivery_state
  e_OutputFailureReason :: string
  e_OutputTotalBytes :: "int option"
  e_OutputRetainedBytes :: "int option"
  e_OutputSHA256 :: string

text \<open>The zero event of a type and phase, and the fields every phase event carries.\<close>

definition zero_event :: "string \<Rightarrow> phase \<Rightarrow> event" where
  "zero_event t p = \<lparr>e_Type = t, e_UID = '''', e_Phase = p, e_Requester = '''', e_Reason = '''',
     e_Command = '''', e_CreatedAt = None, e_RetryOfUID = '''', e_ApprovedBy = '''', e_DeniedBy = '''',
     e_DenialReason = '''', e_FailureReason = '''', e_ExitCode = None, e_OutputSecretRef = '''',
     e_OutputCaptureState = CaptureNone, e_OutputDeliveryState = DeliveryNone,
     e_OutputFailureReason = '''', e_OutputTotalBytes = None, e_OutputRetainedBytes = None,
     e_OutputSHA256 = ''''\<rparr>"

definition phase_event :: "sudo_request \<Rightarrow> phase \<Rightarrow> event" where
  "phase_event sr p = (zero_event ''phase'' p)\<lparr>e_Requester := Requester (Spec sr),
     e_Reason := Reason (Spec sr), e_Command := Command (Spec sr),
     e_CreatedAt := Some (CreationTimestamp sr), e_RetryOfUID := RetryOfUID (Spec sr)\<rparr>"

section \<open>The hub\<close>

record channel =
  ch_cap :: nat
  ch_queue :: "event list"

text \<open>
  \<open>chans ! n\<close> is channel \<open>n\<close>: channels are only ever created.  \<open>subs\<close> maps a UID to its
  subscribers, with no entry when there is none; \<open>every\<close> holds the subscribers to all requests.
\<close>

record broadcaster =
  chans :: "channel list"
  subs :: "string \<rightharpoonup> nat list"
  every :: "nat list"

definition NewBroadcaster :: broadcaster where
  "NewBroadcaster = \<lparr>chans = [], subs = Map.empty, every = []\<rparr>"

definition new_channel :: "nat \<Rightarrow> channel" where
  "new_channel n = \<lparr>ch_cap = n, ch_queue = []\<rparr>"

definition subscribers :: "broadcaster \<Rightarrow> string \<Rightarrow> nat list" where
  "subscribers b uid = (case subs b uid of None \<Rightarrow> [] | Some cs \<Rightarrow> cs)"

definition SubscribeAll :: "broadcaster \<Rightarrow> nat \<times> broadcaster" where
  "SubscribeAll b =
     (let ch = length (chans b)
      in (ch, b\<lparr>chans := chans b @ [new_channel 32], every := every b @ [ch]\<rparr>))"

definition Subscribe :: "string \<Rightarrow> broadcaster \<Rightarrow> nat \<times> broadcaster" where
  "Subscribe uid b =
     (let ch = length (chans b)
      in (ch, b\<lparr>chans := chans b @ [new_channel 8], subs := (subs b)(uid \<mapsto> subscribers b uid @ [ch])\<rparr>))"

definition cancel_all :: "nat \<Rightarrow> broadcaster \<Rightarrow> broadcaster" where
  "cancel_all ch b = b\<lparr>every := removeAll ch (every b)\<rparr>"

definition cancel :: "string \<Rightarrow> nat \<Rightarrow> broadcaster \<Rightarrow> broadcaster" where
  "cancel uid ch b =
     (case subs b uid of
        None \<Rightarrow> b
      | Some m \<Rightarrow>
          (let m = removeAll ch m
           in b\<lparr>subs := (if m = [] then (subs b)(uid := None) else (subs b)(uid \<mapsto> m))\<rparr>))"

text \<open>The snapshot that \<open>Publish\<close> takes under the lock.\<close>

definition snapshot :: "string \<Rightarrow> broadcaster \<Rightarrow> nat list" where
  "snapshot uid b = subscribers b uid @ every b"

text \<open>\<open>select \{ case ch <- e: default: \}\<close>: the event is dropped when the buffer is full.\<close>

definition send :: "event \<Rightarrow> nat \<Rightarrow> broadcaster \<Rightarrow> broadcaster" where
  "send e ch b =
     (if ch < length (chans b) \<and> length (ch_queue (chans b ! ch)) < ch_cap (chans b ! ch)
      then b\<lparr>chans := (chans b)[ch := (chans b ! ch)\<lparr>ch_queue := ch_queue (chans b ! ch) @ [e]\<rparr>]\<rparr>
      else b)"

definition Publish :: "string \<Rightarrow> event \<Rightarrow> broadcaster \<Rightarrow> broadcaster" where
  "Publish uid e b = fold (send (e\<lparr>e_UID := uid\<rparr>)) (snapshot uid b) b"

text \<open>A reader takes the head of its queue.\<close>

definition receive :: "nat \<Rightarrow> broadcaster \<Rightarrow> event option \<times> broadcaster" where
  "receive ch b =
     (if ch < length (chans b)
      then (case ch_queue (chans b ! ch) of
              [] \<Rightarrow> (None, b)
            | e # es \<Rightarrow> (Some e, b\<lparr>chans := (chans b)[ch := (chans b ! ch)\<lparr>ch_queue := es\<rparr>]\<rparr>))
      else (None, b))"

section \<open>Consistency of the hub\<close>

definition queue_of :: "broadcaster \<Rightarrow> nat \<Rightarrow> event list" where
  "queue_of b ch = ch_queue (chans b ! ch)"

definition hub_ok :: "broadcaster \<Rightarrow> bool" where
  "hub_ok b \<longleftrightarrow>
     (\<forall>uid. subs b uid \<noteq> Some []) \<and>
     (\<forall>uid. distinct (subscribers b uid)) \<and> distinct (every b) \<and>
     (\<forall>uid. \<forall>c\<in>set (subscribers b uid). c < length (chans b) \<and> c \<notin> set (every b)) \<and>
     (\<forall>c\<in>set (every b). c < length (chans b)) \<and>
     (\<forall>uid v c. c \<in> set (subscribers b uid) \<longrightarrow> c \<in> set (subscribers b v) \<longrightarrow> uid = v) \<and>
     (\<forall>c<length (chans b). length (queue_of b c) \<le> ch_cap (chans b ! c))"

lemma subscribers_simps [simp]:
  "subscribers (b\<lparr>chans := cs\<rparr>) uid = subscribers b uid"
  "subscribers (b\<lparr>every := es\<rparr>) uid = subscribers b uid"
  "subscribers (b\<lparr>subs := (subs b)(u \<mapsto> l)\<rparr>) uid = (if uid = u then l else subscribers b uid)"
  "subscribers (b\<lparr>subs := (subs b)(u := None)\<rparr>) uid = (if uid = u then [] else subscribers b uid)"
  by (simp_all add: subscribers_def)

text \<open>A send touches one queue only, and only when there is room.\<close>

lemma send_frame [simp]:
  "subs (send e ch b) = subs b" "every (send e ch b) = every b"
  "length (chans (send e ch b)) = length (chans b)" "subscribers (send e ch b) uid = subscribers b uid"
  by (simp_all add: send_def subscribers_def)

lemma send_cap [simp]: "c < length (chans b) \<Longrightarrow> ch_cap (chans (send e ch b) ! c) = ch_cap (chans b ! c)"
  by (simp add: send_def nth_list_update)

lemma queue_of_send:
  "c < length (chans b) \<Longrightarrow> queue_of (send e ch b) c =
     (if c = ch \<and> length (queue_of b c) < ch_cap (chans b ! c) then queue_of b c @ [e] else queue_of b c)"
  by (auto simp: queue_of_def send_def nth_list_update)

lemma queue_of_sends:
  assumes "distinct cs" and "c < length (chans b)"
  shows "queue_of (fold (send e) cs b) c =
     (if c \<in> set cs \<and> length (queue_of b c) < ch_cap (chans b ! c) then queue_of b c @ [e] else queue_of b c)"
  using assms by (induction cs arbitrary: b) (auto simp: queue_of_send)

lemma sends_frame [simp]:
  "subs (fold (send e) cs b) = subs b" "every (fold (send e) cs b) = every b"
  "length (chans (fold (send e) cs b)) = length (chans b)"
  "subscribers (fold (send e) cs b) uid = subscribers b uid"
  by (induction cs arbitrary: b) simp_all

lemma sends_cap [simp]:
  "c < length (chans b) \<Longrightarrow> ch_cap (chans (fold (send e) cs b) ! c) = ch_cap (chans b ! c)"
  by (induction cs arbitrary: b) simp_all

lemma hub_ok_send: "hub_ok b \<Longrightarrow> hub_ok (send e ch b)"
  by (auto simp: hub_ok_def queue_of_send)

lemma hub_ok_sends: "hub_ok b \<Longrightarrow> hub_ok (fold (send e) cs b)"
  by (induction cs arbitrary: b) (auto simp: hub_ok_send)

lemma hub_ok_snapshot: "hub_ok b \<Longrightarrow> distinct (snapshot uid b)"
  by (auto simp: hub_ok_def snapshot_def)

lemma hub_ok_bound: "hub_ok b \<Longrightarrow> c \<in> set (snapshot uid b) \<Longrightarrow> c < length (chans b)"
  by (auto simp: hub_ok_def snapshot_def)

lemma hub_ok_New: "hub_ok NewBroadcaster"
  by (simp add: hub_ok_def NewBroadcaster_def subscribers_def)

lemma hub_ok_Publish: "hub_ok b \<Longrightarrow> hub_ok (Publish uid e b)"
  by (simp add: Publish_def hub_ok_sends)

lemma subscribers_Subscribe [simp]:
  "subscribers (snd (Subscribe uid b)) v = subscribers b v @ (if v = uid then [length (chans b)] else [])"
  "every (snd (Subscribe uid b)) = every b"
  "chans (snd (Subscribe uid b)) = chans b @ [new_channel 8]"
  "fst (Subscribe uid b) = length (chans b)"
  by (auto simp: Subscribe_def Let_def subscribers_def)

lemma subscribers_SubscribeAll [simp]:
  "subscribers (snd (SubscribeAll b)) v = subscribers b v"
  "every (snd (SubscribeAll b)) = every b @ [length (chans b)]"
  "chans (snd (SubscribeAll b)) = chans b @ [new_channel 32]"
  "subs (snd (SubscribeAll b)) = subs b" "fst (SubscribeAll b) = length (chans b)"
  by (auto simp: SubscribeAll_def Let_def subscribers_def)

lemma queue_of_grow: "chans b' = chans b @ [new_channel k] \<Longrightarrow> c < Suc (length (chans b)) \<Longrightarrow>
    queue_of b' c = (if c < length (chans b) then queue_of b c else [])"
  by (auto simp: queue_of_def new_channel_def nth_append)

lemma hub_ok_fresh:
  assumes "hub_ok b"
  shows "length (chans b) \<notin> set (subscribers b uid)" and "length (chans b) \<notin> set (every b)"
  using assms by (auto simp: hub_ok_def)

lemma hub_ok_SubscribeAll: "hub_ok b \<Longrightarrow> hub_ok (snd (SubscribeAll b))"
  using hub_ok_fresh [of b]
  by (auto simp: hub_ok_def queue_of_grow [OF subscribers_SubscribeAll(3)] nth_append less_Suc_eq)

lemma hub_ok_Subscribe: "hub_ok b \<Longrightarrow> hub_ok (snd (Subscribe uid b))"
proof -
  have "subs (snd (Subscribe uid b)) v = (if v = uid then Some (subscribers b uid @ [length (chans b)]) else subs b v)" for v
    by (simp add: Subscribe_def Let_def)
  then show "hub_ok b \<Longrightarrow> hub_ok (snd (Subscribe uid b))"
    using hub_ok_fresh [of b]
    by (auto simp: hub_ok_def queue_of_grow [OF subscribers_Subscribe(3)] nth_append less_Suc_eq)
qed

lemma cancel_frame [simp]:
  "chans (cancel uid ch b) = chans b" "every (cancel uid ch b) = every b"
  "chans (cancel_all ch b) = chans b" "subs (cancel_all ch b) = subs b"
  "every (cancel_all ch b) = removeAll ch (every b)"
  "subscribers (cancel_all ch b) uid = subscribers b uid"
  by (auto simp: cancel_def cancel_all_def Let_def split: option.split)

lemma subscribers_cancel [simp]:
  "subscribers (cancel uid ch b) v = (if v = uid then removeAll ch (subscribers b v) else subscribers b v)"
  by (auto simp: cancel_def subscribers_def Let_def split: option.split)

lemma queue_of_cancel [simp]: "queue_of (cancel uid ch b) c = queue_of b c" "queue_of (cancel_all ch b) c = queue_of b c"
  by (simp_all add: queue_of_def)

lemma hub_ok_cancel_all: "hub_ok b \<Longrightarrow> hub_ok (cancel_all ch b)"
  by (auto simp: hub_ok_def distinct_removeAll)

lemma hub_ok_cancel: "hub_ok b \<Longrightarrow> hub_ok (cancel uid ch b)"
proof -
  have "subs (cancel uid ch b) v \<noteq> Some []" if "subs b v \<noteq> Some []" for v
    using that by (auto simp: cancel_def Let_def split: option.splits)
  then show "hub_ok b \<Longrightarrow> hub_ok (cancel uid ch b)"
    by (auto simp: hub_ok_def distinct_removeAll)
qed

lemma receive_frame [simp]:
  "subscribers (snd (receive ch b)) uid = subscribers b uid" "subs (snd (receive ch b)) = subs b"
  "every (snd (receive ch b)) = every b" "length (chans (snd (receive ch b))) = length (chans b)"
  by (auto simp: receive_def subscribers_def split: list.split)

lemma queue_of_receive:
  "c < length (chans b) \<Longrightarrow>
     queue_of (snd (receive ch b)) c = (if c = ch then tl (queue_of b c) else queue_of b c)"
  "c < length (chans b) \<Longrightarrow> ch_cap (chans (snd (receive ch b)) ! c) = ch_cap (chans b ! c)"
  by (auto simp: receive_def queue_of_def nth_list_update split: list.split)

lemma receive_subset:
  "c < length (chans b) \<Longrightarrow> e \<in> set (queue_of (snd (receive ch b)) c) \<Longrightarrow> e \<in> set (queue_of b c)"
  by (auto simp: queue_of_receive split: if_splits intro: list.set_sel(2))

lemma hub_ok_receive: "hub_ok b \<Longrightarrow> hub_ok (snd (receive ch b))"
  by (auto simp: hub_ok_def queue_of_receive)

section \<open>Delivery\<close>

lemma queue_of_Publish:
  assumes "hub_ok b" and "c < length (chans b)"
  shows "queue_of (Publish uid e b) c =
     (if c \<in> set (snapshot uid b) \<and> length (queue_of b c) < ch_cap (chans b ! c)
      then queue_of b c @ [e\<lparr>e_UID := uid\<rparr>] else queue_of b c)"
  unfolding Publish_def by (rule queue_of_sends [OF hub_ok_snapshot [OF assms(1)] assms(2)])

lemma Publish_frame [simp]:
  "subs (Publish uid e b) = subs b" "every (Publish uid e b) = every b"
  "length (chans (Publish uid e b)) = length (chans b)"
  "c < length (chans b) \<Longrightarrow> ch_cap (chans (Publish uid e b) ! c) = ch_cap (chans b ! c)"
  "subscribers (Publish uid e b) v = subscribers b v" "snapshot v (Publish uid e b) = snapshot v b"
  by (simp_all add: Publish_def snapshot_def)

text \<open>A run of publishes with room for all of them arrives complete and in order.\<close>

lemma queue_of_Publishes:
  assumes "hub_ok b" and "c \<in> set (snapshot uid b)"
    and "length (queue_of b c) + length es \<le> ch_cap (chans b ! c)"
  shows "queue_of (fold (Publish uid) es b) c = queue_of b c @ map (\<lambda>e. e\<lparr>e_UID := uid\<rparr>) es"
  using assms
proof (induction es arbitrary: b)
  case Nil
  then show ?case by simp
next
  case (Cons e es)
  have c: "c < length (chans b)" by (rule hub_ok_bound [OF Cons.prems(1,2)])
  have q: "queue_of (Publish uid e b) c = queue_of b c @ [e\<lparr>e_UID := uid\<rparr>]"
    using Cons.prems by (simp add: queue_of_Publish [OF _ c])
  have "queue_of (fold (Publish uid) es (Publish uid e b)) c =
      queue_of (Publish uid e b) c @ map (\<lambda>e. e\<lparr>e_UID := uid\<rparr>) es"
    using Cons.prems q c by (intro Cons.IH) (simp_all add: hub_ok_Publish)
  with q show ?case by simp
qed

lemma Subscribe_then_publishes:
  assumes ok: "hub_ok b" and sub: "Subscribe uid b = (ch, b')" and n: "length es \<le> 8"
  shows "queue_of (fold (Publish uid) es b') ch = map (\<lambda>e. e\<lparr>e_UID := uid\<rparr>) es"
proof -
  have b': "b' = snd (Subscribe uid b)" and ch: "ch = length (chans b)"
    using sub subscribers_Subscribe(4) [of uid b] by auto
  have "queue_of b' ch = []" "ch_cap (chans b' ! ch) = 8"
    unfolding b' ch by (simp_all add: queue_of_grow [OF subscribers_Subscribe(3)] new_channel_def)
  moreover have "ch \<in> set (snapshot uid b')"
    unfolding b' ch by (simp add: snapshot_def)
  ultimately show ?thesis
    using queue_of_Publishes [of b' ch uid es] hub_ok_Subscribe [OF ok, of uid] n by (simp add: b')
qed

section \<open>Interleaved publishers, subscribers and readers\<close>

text \<open>
  \<open>inflight\<close> holds the publishes that have left the lock, each with the channels it still has to
  offer its event to, in any order (the snapshot iterates over a Go map).
\<close>

record hub_system =
  hub :: broadcaster
  inflight :: "(event \<times> nat list) list"

inductive hub_step :: "hub_system \<Rightarrow> hub_system \<Rightarrow> bool" where
  subscribe: "hub_step s (s\<lparr>hub := snd (Subscribe uid (hub s))\<rparr>)"
| subscribe_all: "hub_step s (s\<lparr>hub := snd (SubscribeAll (hub s))\<rparr>)"
| unsubscribe: "hub_step s (s\<lparr>hub := cancel uid ch (hub s)\<rparr>)"
| unsubscribe_all: "hub_step s (s\<lparr>hub := cancel_all ch (hub s)\<rparr>)"
| read: "hub_step s (s\<lparr>hub := snd (receive ch (hub s))\<rparr>)"
| publish: "hub_step s (s\<lparr>inflight := inflight s @ [(e\<lparr>e_UID := uid\<rparr>, snapshot uid (hub s))]\<rparr>)"
| offer: "inflight s = pre @ (e, xs @ ch # ys) # post \<Longrightarrow>
    hub_step s (s\<lparr>hub := send e ch (hub s), inflight := pre @ (e, xs @ ys) # post\<rparr>)"
| returned: "inflight s = pre @ (e, []) # post \<Longrightarrow> hub_step s (s\<lparr>inflight := pre @ post\<rparr>)"

inductive hub_reach :: "hub_system \<Rightarrow> bool" where
  hub_init: "hub_reach \<lparr>hub = NewBroadcaster, inflight = []\<rparr>"
| hub_next: "hub_reach s \<Longrightarrow> hub_step s t \<Longrightarrow> hub_reach t"

text \<open>
  The invariant: the hub is consistent, the queue of a request's subscriber holds events of that
  request only, and so will every event still to be offered to it.
\<close>

definition isolated :: "hub_system \<Rightarrow> bool" where
  "isolated s \<longleftrightarrow> hub_ok (hub s) \<and>
     (\<forall>uid. \<forall>c\<in>set (subscribers (hub s) uid). \<forall>e\<in>set (queue_of (hub s) c). e_UID e = uid) \<and>
     (\<forall>(e, cs)\<in>set (inflight s). \<forall>c\<in>set cs. c < length (chans (hub s)) \<and>
        (\<forall>uid. c \<in> set (subscribers (hub s) uid) \<longrightarrow> e_UID e = uid))"

lemma hub_ok_lt: "hub_ok b \<Longrightarrow> c \<in> set (subscribers b uid) \<Longrightarrow> c < length (chans b)"
  by (simp add: hub_ok_def)

lemma send_subset:
  "c < length (chans b) \<Longrightarrow> x \<in> set (queue_of (send e ch b) c) \<Longrightarrow>
     x \<in> set (queue_of b c) \<or> c = ch \<and> x = e"
  by (auto simp: queue_of_send split: if_splits)

lemma isolated_offer:
  assumes "isolated s" and "inflight s = pre @ (e, xs @ ch # ys) # post"
  shows "isolated (s\<lparr>hub := send e ch (hub s), inflight := pre @ (e, xs @ ys) # post\<rparr>)"
proof -
  have "e_UID x = uid" if "c \<in> set (subscribers (hub s) uid)" "x \<in> set (queue_of (send e ch (hub s)) c)" for uid c x
  proof -
    have "c < length (chans (hub s))" using assms(1) that(1) hub_ok_lt by (auto simp: isolated_def)
    then have "x \<in> set (queue_of (hub s) c) \<or> c = ch \<and> x = e" using that(2) by (rule send_subset)
    then show ?thesis using assms that(1) by (auto simp: isolated_def)
  qed
  then show ?thesis using assms by (auto simp: isolated_def hub_ok_send)
qed

lemma isolated_step: "hub_step s t \<Longrightarrow> isolated s \<Longrightarrow> isolated t"
proof (induction rule: hub_step.induct)
  case (subscribe s uid)
  then show ?case
    by (auto simp: isolated_def hub_ok_Subscribe queue_of_grow [OF subscribers_Subscribe(3)] less_SucI
        dest: hub_ok_lt hub_ok_fresh(1) split: if_splits)
next
  case (subscribe_all s)
  then show ?case
    by (auto simp: isolated_def hub_ok_SubscribeAll queue_of_grow [OF subscribers_SubscribeAll(3)] less_SucI
        dest: hub_ok_lt)
next
  case (unsubscribe s uid ch)
  then show ?case by (auto simp: isolated_def hub_ok_cancel split: if_splits)
next
  case (unsubscribe_all s ch)
  then show ?case by (auto simp: isolated_def hub_ok_cancel_all)
next
  case (read s ch)
  then show ?case
    by (auto simp: isolated_def hub_ok_receive dest: receive_subset [OF hub_ok_lt])
next
  case (publish s e uid)
  then show ?case
    by (auto simp: isolated_def snapshot_def hub_ok_def)
next
  case (offer s pre e xs ch ys post)
  then show ?case
    by (blast intro: isolated_offer)
next
  case (returned s pre e post)
  then show ?case by (auto simp: isolated_def)
qed

lemma hub_reach_isolated: "hub_reach s \<Longrightarrow> isolated s"
proof (induction rule: hub_reach.induct)
  case hub_init
  show ?case
    by (simp add: isolated_def hub_ok_New) (simp add: subscribers_def NewBroadcaster_def)
next
  case (hub_next s t)
  then show ?case by (blast intro: isolated_step)
qed

end
