(* ===== verification/Kube.thy ===== *)
theory Kube
  imports Executor Broadcaster "HOL-Library.Multiset"
begin

text \<open>
  The outside world as the controller sees it: the Kubernetes API server (cached and uncached
  reads, writes), the clock, the random source, the notification and model services.  A history is
  the list of calls made, each with its reply; a \<open>world\<close> answers every call by a function of
  the whole history, so nothing is assumed of it: other writers, restarts, stale caches and failures
  are all among its answers.  The theorems hold for every world.
\<close>

section \<open>Calls\<close>

text \<open>
  Reads carry whether they are served by the manager's cache (\<open>True\<close>) or go straight to the API
  server (\<open>APIReader\<close>, \<open>False\<close>).  A write that succeeds replies with the stored object, which the
  client library decodes back into the caller's variable.
\<close>

datatype call =
    GetSR bool string string "sudo_request res"
  | ListSR bool string "sudo_request list res"
  | UpdateStatus sudo_request "sudo_request res"
  | UpdateSR sudo_request "sudo_request res"
  | CreateSR string sudo_request "sudo_request res"
  | GetJob string string "job res"
  | CreateJob job "job res"
  | DeleteJob string string "string option" "gerr option"
  | GetSecret bool string string "secret res"
  | CreateSecret secret "secret res"
  | DeleteSecret string string "gerr option"
  | ListSecrets string "(string \<times> string) list" "secret list res"
  | ListPods string string "pod list res"
  | PodLogs string string string "(string list \<times> gerr option) res"
  | Now int
  | Random nat "string res"
  | AskModel string string "string list res"
  | PostMessage "(string \<times> string) list" "(int \<times> string) res"
  | RecordEvent string string string
  | PublishEvent string event
  | TokenReview string string "token_review res"
  | AccessReview access_review "access_decision res"
  | VerifyJWT string "human_claims res res"
  | Listen "string option"
  | Received "string option" "event list"

text \<open>
  \<open>DeleteJob ns name uid reply\<close>: \<open>uid\<close> is the precondition of the request, if it has one.
  \<open>PodLogs\<close> replies with the chunks of the stream and the error that ended it, if one did.
  \<open>PostMessage\<close> is the form sent to the notification service, answered by status and body.
  \<open>CreateSR\<close> carries the name prefix (\<open>GenerateName\<close>) beside the object.  \<open>VerifyJWT\<close> is answered by the
  verifier and, for a token it accepts, by the decoding of its claims.  \<open>Listen\<close> opens a subscription
  for one request, or for all of them (\<open>None\<close>); \<open>Received\<close> are the events it delivers until the client
  goes away.
\<close>

type_synonym hist = "call list"
type_synonym 'a prog = "(call list, 'a) state"

record world =
  w_get_sr :: "hist \<Rightarrow> bool \<Rightarrow> string \<Rightarrow> string \<Rightarrow> sudo_request res"
  w_list_sr :: "hist \<Rightarrow> bool \<Rightarrow> string \<Rightarrow> sudo_request list res"
  w_update_status :: "hist \<Rightarrow> sudo_request \<Rightarrow> sudo_request res"
  w_update_sr :: "hist \<Rightarrow> sudo_request \<Rightarrow> sudo_request res"
  w_create_sr :: "hist \<Rightarrow> string \<Rightarrow> sudo_request \<Rightarrow> sudo_request res"
  w_get_job :: "hist \<Rightarrow> string \<Rightarrow> string \<Rightarrow> job res"
  w_create_job :: "hist \<Rightarrow> job \<Rightarrow> job res"
  w_delete_job :: "hist \<Rightarrow> string \<Rightarrow> string \<Rightarrow> string option \<Rightarrow> gerr option"
  w_get_secret :: "hist \<Rightarrow> bool \<Rightarrow> string \<Rightarrow> string \<Rightarrow> secret res"
  w_create_secret :: "hist \<Rightarrow> secret \<Rightarrow> secret res"
  w_delete_secret :: "hist \<Rightarrow> string \<Rightarrow> string \<Rightarrow> gerr option"
  w_list_secrets :: "hist \<Rightarrow> string \<Rightarrow> (string \<times> string) list \<Rightarrow> secret list res"
  w_list_pods :: "hist \<Rightarrow> string \<Rightarrow> string \<Rightarrow> pod list res"
  w_pod_logs :: "hist \<Rightarrow> string \<Rightarrow> string \<Rightarrow> string \<Rightarrow> (string list \<times> gerr option) res"
  w_now :: "hist \<Rightarrow> int"
  w_random :: "hist \<Rightarrow> nat \<Rightarrow> string res"
  w_model :: "hist \<Rightarrow> string \<Rightarrow> string \<Rightarrow> string list res"
  w_post :: "hist \<Rightarrow> (string \<times> string) list \<Rightarrow> (int \<times> string) res"
  w_token_review :: "hist \<Rightarrow> string \<Rightarrow> string \<Rightarrow> token_review res"
  w_access_review :: "hist \<Rightarrow> access_review \<Rightarrow> access_decision res"
  w_verify_jwt :: "hist \<Rightarrow> string \<Rightarrow> human_claims res res"
  w_received :: "hist \<Rightarrow> string option \<Rightarrow> event list"
  w_order :: "hist \<Rightarrow> string list \<Rightarrow> string list"
  w_sort :: "hist \<Rightarrow> sudo_request list \<Rightarrow> sudo_request list"
  w_retries :: nat

text \<open>
  \<open>w_order\<close> picks the order in which Go ranges over a map, \<open>w_sort\<close> the order in which an unstable
  sort leaves equal elements, \<open>w_retries\<close> how many attempts
  \<open>retry.RetryOnConflict\<close> makes after the first.
\<close>

section \<open>Primitives\<close>

definition get_sr :: "world \<Rightarrow> bool \<Rightarrow> string \<Rightarrow> string \<Rightarrow> sudo_request res prog" where
  "get_sr W cached ns n = io (\<lambda>h. w_get_sr W h cached ns n) (GetSR cached ns n)"

definition list_sr :: "world \<Rightarrow> bool \<Rightarrow> string \<Rightarrow> sudo_request list res prog" where
  "list_sr W cached ns = io (\<lambda>h. w_list_sr W h cached ns) (ListSR cached ns)"

definition update_status_call :: "world \<Rightarrow> sudo_request \<Rightarrow> sudo_request res prog" where
  "update_status_call W sr = io (\<lambda>h. w_update_status W h sr) (UpdateStatus sr)"

definition update_sr :: "world \<Rightarrow> sudo_request \<Rightarrow> sudo_request res prog" where
  "update_sr W sr = io (\<lambda>h. w_update_sr W h sr) (UpdateSR sr)"

definition create_sr :: "world \<Rightarrow> string \<Rightarrow> sudo_request \<Rightarrow> sudo_request res prog" where
  "create_sr W gen sr = io (\<lambda>h. w_create_sr W h gen sr) (CreateSR gen sr)"

definition get_job :: "world \<Rightarrow> string \<Rightarrow> string \<Rightarrow> job res prog" where
  "get_job W ns n = io (\<lambda>h. w_get_job W h ns n) (GetJob ns n)"

definition create_job :: "world \<Rightarrow> job \<Rightarrow> job res prog" where
  "create_job W j = io (\<lambda>h. w_create_job W h j) (CreateJob j)"

definition delete_job :: "world \<Rightarrow> string \<Rightarrow> string \<Rightarrow> string option \<Rightarrow> gerr option prog" where
  "delete_job W ns n uid = io (\<lambda>h. w_delete_job W h ns n uid) (DeleteJob ns n uid)"

definition get_secret :: "world \<Rightarrow> bool \<Rightarrow> string \<Rightarrow> string \<Rightarrow> secret res prog" where
  "get_secret W cached ns n = io (\<lambda>h. w_get_secret W h cached ns n) (GetSecret cached ns n)"

definition create_secret :: "world \<Rightarrow> secret \<Rightarrow> secret res prog" where
  "create_secret W s = io (\<lambda>h. w_create_secret W h s) (CreateSecret s)"

definition delete_secret :: "world \<Rightarrow> string \<Rightarrow> string \<Rightarrow> gerr option prog" where
  "delete_secret W ns n = io (\<lambda>h. w_delete_secret W h ns n) (DeleteSecret ns n)"

definition list_secrets :: "world \<Rightarrow> string \<Rightarrow> (string \<times> string) list \<Rightarrow> secret list res prog" where
  "list_secrets W ns ls = io (\<lambda>h. w_list_secrets W h ns ls) (ListSecrets ns ls)"

definition list_pods :: "world \<Rightarrow> string \<Rightarrow> string \<Rightarrow> pod list res prog" where
  "list_pods W ns jobName = io (\<lambda>h. w_list_pods W h ns jobName) (ListPods ns jobName)"

definition pod_logs :: "world \<Rightarrow> string \<Rightarrow> string \<Rightarrow> string \<Rightarrow> (string list \<times> gerr option) res prog" where
  "pod_logs W ns p c = io (\<lambda>h. w_pod_logs W h ns p c) (PodLogs ns p c)"

definition now :: "world \<Rightarrow> int prog" where
  "now W = io (w_now W) Now"

definition random_bytes :: "world \<Rightarrow> nat \<Rightarrow> string res prog" where
  "random_bytes W n = io (\<lambda>h. w_random W h n) (Random n)"

definition ask_model :: "world \<Rightarrow> string \<Rightarrow> string \<Rightarrow> string list res prog" where
  "ask_model W model content = io (\<lambda>h. w_model W h model content) (AskModel model content)"

definition post_message :: "world \<Rightarrow> (string \<times> string) list \<Rightarrow> (int \<times> string) res prog" where
  "post_message W form = io (\<lambda>h. w_post W h form) (PostMessage form)"

definition record_event :: "string \<Rightarrow> string \<Rightarrow> string \<Rightarrow> unit prog" where
  "record_event t reason msg = io (\<lambda>_. ()) (\<lambda>_. RecordEvent t reason msg)"

definition publish :: "string \<Rightarrow> event \<Rightarrow> unit prog" where
  "publish uid e = io (\<lambda>_. ()) (\<lambda>_. PublishEvent uid e)"

definition review_token :: "world \<Rightarrow> string \<Rightarrow> string \<Rightarrow> token_review res prog" where
  "review_token W tok audience = io (\<lambda>h. w_token_review W h tok audience) (TokenReview tok audience)"

definition review_access :: "world \<Rightarrow> access_review \<Rightarrow> access_decision res prog" where
  "review_access W q = io (\<lambda>h. w_access_review W h q) (AccessReview q)"

definition verify_jwt :: "world \<Rightarrow> string \<Rightarrow> human_claims res res prog" where
  "verify_jwt W raw = io (\<lambda>h. w_verify_jwt W h raw) (VerifyJWT raw)"

definition listen :: "string option \<Rightarrow> unit prog" where
  "listen who = io (\<lambda>_. ()) (\<lambda>_. Listen who)"

definition received :: "world \<Rightarrow> string option \<Rightarrow> event list prog" where
  "received W who = io (\<lambda>h. w_received W h who) (Received who)"

lemmas prims = get_sr_def list_sr_def update_status_call_def update_sr_def create_sr_def get_job_def
  create_job_def delete_job_def get_secret_def create_secret_def delete_secret_def list_secrets_def
  list_pods_def pod_logs_def now_def random_bytes_def ask_model_def post_message_def
  record_event_def publish_def review_token_def review_access_def verify_jwt_def listen_def received_def

text \<open>\<open>for k := range m\<close> over a map with these keys: each key once, in an order the world picks.\<close>

definition go_range :: "world \<Rightarrow> string list \<Rightarrow> string list prog" where
  "go_range W ks = do {
     h \<leftarrow> State_Monad.get;
     State_Monad.return (if distinct (w_order W h (remdups ks)) \<and> set (w_order W h (remdups ks)) = set ks
                         then w_order W h (remdups ks) else remdups ks) }"

text \<open>\<open>sort.Slice\<close> by a key, not stable: any sorted permutation the world picks.\<close>

definition go_sort :: "world \<Rightarrow> (sudo_request \<Rightarrow> int) \<Rightarrow> sudo_request list \<Rightarrow> sudo_request list prog" where
  "go_sort W key xs = do {
     h \<leftarrow> State_Monad.get;
     State_Monad.return (if mset (w_sort W h xs) = mset xs \<and> sorted (map key (w_sort W h xs))
                         then w_sort W h xs else sort_key key xs) }"

text \<open>\<open>time.Sub\<close> saturates at the bounds of a 64-bit duration.\<close>

definition time_sub :: "int \<Rightarrow> int \<Rightarrow> int" where
  "time_sub t u = max (- (2 ^ 63)) (min (2 ^ 63 - 1) (t - u))"

definition seconds :: "int \<Rightarrow> int" where "seconds t = t div second"

text \<open>\<open>if err != nil \{ return err \}\<close>, with and without \<open>fmt.Errorf("ctx: %w", err)\<close>.\<close>

definition attempt :: "'a res prog \<Rightarrow> ('a \<Rightarrow> 'b res prog) \<Rightarrow> 'b res prog" where
  "attempt m k = do { r \<leftarrow> m; case r of Inl e \<Rightarrow> State_Monad.return (Inl e) | Inr a \<Rightarrow> k a }"

definition attempt_ctx :: "string \<Rightarrow> 'a res prog \<Rightarrow> ('a \<Rightarrow> 'b res prog) \<Rightarrow> 'b res prog" where
  "attempt_ctx ctx m k =
     do { r \<leftarrow> m; case r of Inl e \<Rightarrow> State_Monad.return (Inl (Wrap ctx e)) | Inr a \<Rightarrow> k a }"

section \<open>Reading a run\<close>

text \<open>The calls a program makes when started after \<open>h\<close>, and its result.\<close>

definition calls :: "'a prog \<Rightarrow> hist \<Rightarrow> call list" where
  "calls m h = drop (length h) (snd (run_state m h))"

definition outcome :: "'a prog \<Rightarrow> hist \<Rightarrow> 'a" where
  "outcome m h = fst (run_state m h)"

text \<open>The calls made since the history had length \<open>n\<close>.\<close>

definition recent :: "nat \<Rightarrow> hist \<Rightarrow> call set" where
  "recent n h = set (drop n h)"

lemma recent_append [simp]: "n \<le> length h \<Longrightarrow> recent n (h @ t) = recent n h \<union> set t"
  by (simp add: recent_def)

lemma recent_start [simp]: "recent (length h) h = {}" "recent (length h) (h @ t) = set t"
  by (simp_all add: recent_def)

lemma emits_calls:
  assumes "emits P m Q h"
  shows "trace_ok P h (calls m h)" and "Q (outcome m h) (h @ calls m h)"
    and "run_state m h = (outcome m h, h @ calls m h)"
  using assms by (auto simp: emits_def wp_def calls_def outcome_def split: prod.splits)

lemma emits_callsD:
  assumes "emits P m Q h" and "calls m h = u @ c # v"
  shows "P (h @ u) c"
  using emits_calls(1) [OF assms(1)] assms(2) by simp

lemma emits_inD:
  assumes "emits (\<lambda>_. P) m Q h" and "c \<in> set (calls m h)"
  shows "P c"
  using emits_calls(1) [OF assms(1)] assms(2) by (simp add: trace_ok_ball)

lemma emits_attempt:
  assumes "emits P m (\<lambda>r. case r of Inl e \<Rightarrow> Q (Inl e) | Inr a \<Rightarrow> emits P (k a) Q) h"
  shows "emits P (attempt m k) Q h"
  unfolding attempt_def
  by (rule emits_bind, rule emits_mono [OF assms]) (auto split: sum.splits)

lemma emits_attempt_ctx:
  assumes "emits P m (\<lambda>r. case r of Inl e \<Rightarrow> Q (Inl (Wrap ctx e)) | Inr a \<Rightarrow> emits P (k a) Q) h"
  shows "emits P (attempt_ctx ctx m k) Q h"
  unfolding attempt_ctx_def
  by (rule emits_bind, rule emits_mono [OF assms]) (auto split: sum.splits)

lemmas emits_rules = emits_bind emits_attempt emits_attempt_ctx

lemma emits_get [simp]: "emits P State_Monad.get Q h \<longleftrightarrow> Q h h"
  by (simp add: emits_def wp_def State_Monad.get_def)

lemma emits_go_range:
  assumes "\<And>xs. distinct xs \<Longrightarrow> set xs = set ks \<Longrightarrow> Q xs h"
  shows "emits P (go_range W ks) Q h"
  unfolding go_range_def by (rule emits_bind) (auto intro!: assms)

lemma emits_go_sort:
  assumes "\<And>ys. mset ys = mset xs \<Longrightarrow> sorted (map key ys) \<Longrightarrow> Q ys h"
  shows "emits P (go_sort W key xs) Q h"
  unfolding go_sort_def by (rule emits_bind) (auto intro!: assms)

text \<open>Loops over a list.\<close>

fun first_err :: "('a \<Rightarrow> gerr option prog) \<Rightarrow> 'a list \<Rightarrow> gerr option prog" where
  "first_err f [] = State_Monad.return None"
| "first_err f (x # xs) = do { r \<leftarrow> f x; case r of Some e \<Rightarrow> State_Monad.return (Some e) | None \<Rightarrow> first_err f xs }"

fun for_each :: "('a \<Rightarrow> unit prog) \<Rightarrow> 'a list \<Rightarrow> unit prog" where
  "for_each f [] = State_Monad.return ()"
| "for_each f (x # xs) = do { f x; for_each f xs }"

text \<open>An invariant of the history that every round keeps.\<close>

lemma emits_for_each:
  assumes "\<And>x h. x \<in> set xs \<Longrightarrow> I h \<Longrightarrow> emits P (f x) (\<lambda>_. I) h" and "I h"
  shows "emits P (for_each f xs) (\<lambda>_. I) h"
  using assms
proof (induction xs arbitrary: h)
  case (Cons x xs)
  from Cons.prems(1) [OF _ Cons.prems(2)] have "emits P (f x) (\<lambda>_. I) h" by simp
  then have "emits P (f x) (\<lambda>_. emits P (for_each f xs) (\<lambda>_. I)) h"
    by (rule emits_mono) (rule Cons.IH [OF Cons.prems(1)], simp_all)
  then show ?case by (simp add: emits_bind)
qed simp

end
