(* ===== verification/Notify.thy ===== *)
theory Notify
  imports Kube "HOL-Library.List_Lexorder"
begin

text \<open>
  \<^verbatim>\<open>pushover.go\<close> and the link of the approval notification
  (\<^verbatim>\<open>deliverApprovalNotification\<close> in \<^verbatim>\<open>reconciler.go\<close>), with
  \<^verbatim>\<open>url.Values.Encode\<close>.\<close>

section \<open>Query strings\<close>

definition query_plain :: "char \<Rightarrow> bool" where
  "query_plain c \<longleftrightarrow>
     (let n = (of_char c :: nat)
      in 97 \<le> n \<and> n \<le> 122 \<or> 65 \<le> n \<and> n \<le> 90 \<or> 48 \<le> n \<and> n \<le> 57 \<or>
         c = CHR ''-'' \<or> c = CHR ''_'' \<or> c = CHR ''.'' \<or> c = CHR ''~'')"

definition upper_hex :: "nat \<Rightarrow> char" where
  "upper_hex n = (if n < 10 then char_of (48 + n) else char_of (55 + n))"

definition QueryEscape :: "string \<Rightarrow> string" where
  "QueryEscape s = concat (map (\<lambda>c.
     if query_plain c then [c]
     else if c = CHR '' '' then ''+''
     else [CHR ''%'', upper_hex (of_char c div 16), upper_hex (of_char c mod 16)]) s)"

definition values_set :: "string \<Rightarrow> string \<Rightarrow> (string \<times> string list) list \<Rightarrow> (string \<times> string list) list" where
  "values_set k v q = (k, [v]) # filter (\<lambda>p. fst p \<noteq> k) q"

definition encode_values :: "(string \<times> string list) list \<Rightarrow> string" where
  "encode_values q =
     join (concat (map (\<lambda>(k, vs). map (\<lambda>v. QueryEscape k @ ''='' @ QueryEscape v) vs) (sort_key fst q))) ''&''"

definition approve_link :: "parsed_url \<Rightarrow> string \<Rightarrow> string \<Rightarrow> string" where
  "approve_link u uid token =
     pu_origin u @ ''/approve?'' @ encode_values (values_set ''t'' token (values_set ''id'' uid (pu_query u))) @
     pu_fragment u"

section \<open>SendApproval\<close>

record pushover =
  po_Token :: string
  po_UserKey :: string

definition approval_form :: "pushover \<Rightarrow> string \<Rightarrow> string \<Rightarrow> string \<Rightarrow> (string \<times> string) list" where
  "approval_form c title message link =
     [(''token'', po_Token c), (''user'', po_UserKey c), (''title'', title), (''message'', message),
      (''url'', link), (''url_title'', ''Approve or deny'')]"

definition SendApproval :: "world \<Rightarrow> lib \<Rightarrow> pushover \<Rightarrow> string \<Rightarrow> string \<Rightarrow> string \<Rightarrow> string res prog" where
  "SendApproval W L c title message link =
     attempt (post_message W (approval_form c title message link)) (\<lambda>(status, body).
       State_Monad.return
         (if status \<ge> 300 then Inl (Text (''pushover '' @ show_int status @ '': '' @ body))
          else case json_pushover L body of
            Inl err \<Rightarrow> Inl (Wrap ''decode pushover response'' (Text err))
          | Inr (st, request, errors) \<Rightarrow>
              if st \<noteq> 1 then Inl (Text (''pushover error: '' @ join errors ''; '')) else Inr request))"

lemma SendApproval_emits:
  "emits (\<lambda>_ c. \<exists>r. c = PostMessage (approval_form p title message link) r)
     (SendApproval W L p title message link) (\<lambda>r h'. \<exists>r. h' = h @ [PostMessage (approval_form p title message link) r]) h"
  unfolding SendApproval_def
  by (rule emits_attempt) (auto simp: prims split: sum.split prod.split)

end
