(* ===== verification/Review.thy ===== *)
theory Review
  imports Executor
begin

text \<open>
  \<^verbatim>\<open>review.go\<close>: what the human and the review aid are shown.  The lemmas say that the
  rendering of an argument vector can be read back, that the redacted renderings do not depend on
  the literal values of environment variables, and that the plain-text rendering names every volume,
  mount and init container of the request.
\<close>

section \<open>Argument vectors\<close>

definition quote :: char where "quote = CHR 0x27"

definition shell_safe :: "char \<Rightarrow> bool" where
  "shell_safe c \<longleftrightarrow>
     c = CHR ''_'' \<or> c = CHR ''-'' \<or> c = CHR ''.'' \<or> c = CHR ''/'' \<or> c = CHR '':'' \<or>
     (let n = (of_char c :: nat)
      in 97 \<le> n \<and> n \<le> 122 \<or> 65 \<le> n \<and> n \<le> 90 \<or> 48 \<le> n \<and> n \<le> 57)"

text \<open>\<open>strings.ReplaceAll(s, "'", `'\\''`)\<close>: the replaced substring is one byte.\<close>

definition escape_quotes :: "string \<Rightarrow> string" where
  "escape_quotes s = concat (map (\<lambda>c. if c = quote then [quote, CHR 0x5C, quote, quote] else [c]) s)"

definition shellQuote :: "string \<Rightarrow> string" where
  "shellQuote s =
     (if s = '''' then [quote, quote]
      else if \<not> list_ex (\<lambda>c. \<not> shell_safe c) s then s
      else quote # escape_quotes s @ [quote])"

definition shellJoin :: "string list \<Rightarrow> string" where
  "shellJoin argv = join (map shellQuote argv) '' ''"

text \<open>
  How a POSIX shell splits such a line into words: blanks separate, single quotes keep everything up
  to the next quote, a backslash outside quotes keeps the next character.  \<open>cur\<close> is the word
  under construction, if one has begun.
\<close>

fun sh_words :: "string option \<Rightarrow> string \<Rightarrow> string list option"
  and sh_quoted :: "string \<Rightarrow> string \<Rightarrow> string list option" where
  "sh_words cur [] = Some (case cur of None \<Rightarrow> [] | Some w \<Rightarrow> [w])"
| "sh_words cur (c # cs) =
     (if c = quote then sh_quoted (case cur of None \<Rightarrow> [] | Some w \<Rightarrow> w) cs
      else if c = CHR 0x5C
      then (case cs of
              [] \<Rightarrow> None
            | d # ds \<Rightarrow> sh_words (Some ((case cur of None \<Rightarrow> [] | Some w \<Rightarrow> w) @ [d])) ds)
      else if c = CHR '' ''
      then (case cur of
              None \<Rightarrow> sh_words None cs
            | Some w \<Rightarrow> (case sh_words None cs of None \<Rightarrow> None | Some ws \<Rightarrow> Some (w # ws)))
      else sh_words (Some ((case cur of None \<Rightarrow> [] | Some w \<Rightarrow> w) @ [c])) cs)"
| "sh_quoted w [] = None"
| "sh_quoted w (c # cs) = (if c = quote then sh_words (Some w) cs else sh_quoted (w @ [c]) cs)"

section \<open>Descriptions\<close>

definition redacted :: string where "redacted = ''<redacted>''"

definition describe_env_var :: "bool \<Rightarrow> env_var \<Rightarrow> string" where
  "describe_env_var redact e =
     (let literal = (if redact then ev_Name e @ ''=<redacted>'' else ev_Name e @ ''='' @ ev_Value e)
      in case ev_ValueFrom e of
        None \<Rightarrow> literal
      | Some src \<Rightarrow>
     (case es_SecretKeyRef src of
        Some (n, k) \<Rightarrow> ev_Name e @ '' <- secret/'' @ n @ '':'' @ k
      | None \<Rightarrow>
     (case es_ConfigMapKeyRef src of
        Some (n, k) \<Rightarrow> ev_Name e @ '' <- configMap/'' @ n @ '':'' @ k
      | None \<Rightarrow>
     (case es_FieldRef src of
        Some p \<Rightarrow> ev_Name e @ '' <- field:'' @ p
      | None \<Rightarrow>
     (case es_ResourceFieldRef src of
        Some r \<Rightarrow> ev_Name e @ '' <- resource:'' @ r
      | None \<Rightarrow> literal)))))"

definition describeEnv :: "env_var list \<Rightarrow> bool \<Rightarrow> string list" where
  "describeEnv env redact = map (describe_env_var redact) env"

definition describeMount :: "volume_mount \<Rightarrow> string" where
  "describeMount m =
     m_MountPath m @ '' <- '' @ m_Name m @
     (if m_SubPath m \<noteq> '''' then '' ['' @ m_SubPath m @ '']'' else '''') @
     (if m_ReadOnly m then '' (ro)'' else '''')"

definition describeEnvFrom :: "env_from list \<Rightarrow> string list" where
  "describeEnvFrom sources =
     concat (map (\<lambda>ef.
       let pre = (if ef_Prefix ef \<noteq> '''' then '' prefix='' @ ef_Prefix ef else '''')
       in case ef_SecretRef ef of
            Some n \<Rightarrow> [''secret/'' @ n @ pre]
          | None \<Rightarrow> (case ef_ConfigMapRef ef of
              Some n \<Rightarrow> [''configMap/'' @ n @ pre]
            | None \<Rightarrow> [])) sources)"

section \<open>The view of the widened fields\<close>

record init_view =
  iv_Name :: string
  iv_Image :: string
  iv_Command :: string
  iv_Mounts :: "string list"
  iv_Env :: "string list"
  iv_EnvFrom :: "string list"

record extras_view =
  xv_Namespace :: string
  xv_ClusterAdmin :: bool
  xv_Stdin :: bool
  xv_Volumes :: "string list"
  xv_Mounts :: "string list"
  xv_Env :: "string list"
  xv_EnvFrom :: "string list"
  xv_ImagePullSecrets :: "string list"
  xv_InitContainers :: "init_view list"

definition init_container_view :: "bool \<Rightarrow> k8s_container \<Rightarrow> init_view" where
  "init_container_view redactEnv c = \<lparr>iv_Name = c_Name c, iv_Image = c_Image c,
     iv_Command = shellJoin (c_Command c @ c_Args c),
     iv_Mounts = map describeMount (c_VolumeMounts c),
     iv_Env = describeEnv (c_Env c) redactEnv, iv_EnvFrom = describeEnvFrom (c_EnvFrom c)\<rparr>"

definition newSpecExtrasView :: "lib \<Rightarrow> sudo_request \<Rightarrow> bool \<Rightarrow> string \<Rightarrow> extras_view" where
  "newSpecExtrasView L sr redactEnv cns =
     (let v = \<lparr>xv_Namespace = executorNamespace sr cns, xv_ClusterAdmin = clusterAdminEnabled sr cns,
               xv_Stdin = (Stdin (Spec sr) \<noteq> ''''), xv_Volumes = [], xv_Mounts = [], xv_Env = [],
               xv_EnvFrom = [], xv_ImagePullSecrets = [], xv_InitContainers = []\<rparr>
      in case decodePodExtras L sr of
        Inl e \<Rightarrow> v
      | Inr x \<Rightarrow> v\<lparr>
          xv_Volumes := map (\<lambda>vol. v_Name vol @ '': '' @ fst (describeVolumeSource vol)) (px_Volumes x),
          xv_Mounts := map describeMount (px_VolumeMounts x),
          xv_Env := describeEnv (px_Env x) redactEnv,
          xv_EnvFrom := describeEnvFrom (px_EnvFrom x),
          xv_ImagePullSecrets := px_ImagePullSecrets x,
          xv_InitContainers := map (init_container_view redactEnv) (px_InitContainers x)\<rparr>)"

definition newline :: char where "newline = CHR 0x0A"

definition trim_newlines :: "string \<Rightarrow> string" where
  "trim_newlines s = rev (dropWhile (\<lambda>c. c = newline) (rev s))"

text \<open>One line of the text, left out when there is nothing to list.\<close>

definition list_line :: "string \<Rightarrow> string list \<Rightarrow> string" where
  "list_line label xs = (if xs = [] then '''' else label @ '': '' @ join xs '', '' @ [newline])"

definition init_text :: "init_view \<Rightarrow> string" where
  "init_text ic =
     ''initContainer '' @ iv_Name ic @ '' ('' @ iv_Image ic @ ''): '' @ iv_Command ic @ [newline] @
     list_line ''  mounts'' (iv_Mounts ic) @
     list_line ''  envFrom'' (iv_EnvFrom ic) @
     list_line ''  env'' (iv_Env ic)"

definition extras_text :: "extras_view \<Rightarrow> string" where
  "extras_text v =
     ''namespace: '' @ xv_Namespace v @ [newline] @
     (if xv_ClusterAdmin v then ''privileges: cluster-admin'' @ [newline]
      else ''privileges: none (namespace default ServiceAccount)'' @ [newline]) @
     (if xv_Stdin v then ''stdin: provided'' @ [newline] else '''') @
     list_line ''volumes'' (xv_Volumes v) @
     list_line ''mounts'' (xv_Mounts v) @
     list_line ''envFrom'' (xv_EnvFrom v) @
     list_line ''env'' (xv_Env v) @
     list_line ''imagePullSecrets'' (xv_ImagePullSecrets v) @
     concat (map init_text (xv_InitContainers v))"

definition specExtrasText :: "lib \<Rightarrow> sudo_request \<Rightarrow> bool \<Rightarrow> string \<Rightarrow> string" where
  "specExtrasText L sr redactEnv cns =
     (if \<not> hasSpecExtras sr then ''''
      else trim_newlines (extras_text (newSpecExtrasView L sr redactEnv cns)))"

section \<open>The pod template\<close>

definition redact_env_var :: "env_var \<Rightarrow> env_var" where
  "redact_env_var e = (if ev_Value e \<noteq> '''' \<and> ev_ValueFrom e = None then e\<lparr>ev_Value := redacted\<rparr> else e)"

definition redact_container :: "k8s_container \<Rightarrow> k8s_container" where
  "redact_container c = c\<lparr>c_Env := map redact_env_var (c_Env c)\<rparr>"

definition redactPodEnv :: "pod_spec \<Rightarrow> pod_spec" where
  "redactPodEnv p = p\<lparr>ps_InitContainers := map redact_container (ps_InitContainers p),
     ps_Containers := map redact_container (ps_Containers p)\<rparr>"

definition minted_placeholder :: string where "minted_placeholder = ''<minted-at-approval>''"

text \<open>The pod that is rendered, and its YAML text.\<close>

definition display_pod :: "lib \<Rightarrow> auto_approve_rule list \<Rightarrow> sudo_request \<Rightarrow> pod_extras \<Rightarrow> bool \<Rightarrow> string \<Rightarrow> pod_spec" where
  "display_pod L rules sr x redactEnv cns =
     (let d = (if Stdin (Spec sr) \<noteq> '''' \<and> StdinSecretName (Status sr) = ''''
               then Status_update (\<lambda>s. s\<lparr>StdinSecretName := minted_placeholder\<rparr>) sr else sr);
          p = j_PodSpec (buildExecutorJob L rules d (executorNamespace d cns) minted_placeholder x cns)
      in if redactEnv then redactPodEnv p else p)"

definition displayPodTemplate :: "lib \<Rightarrow> auto_approve_rule list \<Rightarrow> sudo_request \<Rightarrow> bool \<Rightarrow> string \<Rightarrow> string res" where
  "displayPodTemplate L rules sr redactEnv cns =
     (case decodePodExtras L sr of
        Inl e \<Rightarrow> Inl e
      | Inr x \<Rightarrow> yaml_pod L (display_pod L rules sr x redactEnv cns))"

section \<open>Argument vectors can be read back\<close>

lemma escape_quotes_simps [simp]:
  "escape_quotes [] = []"
  "escape_quotes (c # s) = (if c = quote then [quote, CHR 0x5C, quote, quote] else [c]) @ escape_quotes s"
  by (simp_all add: escape_quotes_def)

lemma quote_neq [simp]: "CHR 0x5C \<noteq> quote" "CHR '' '' \<noteq> quote"
  by (simp_all add: quote_def)

lemma sh_quoted_escape:
  "sh_quoted w (escape_quotes s @ quote # rest) = sh_words (Some (w @ s)) rest"
  by (induction s arbitrary: w) auto

lemma shell_safe_plain: "shell_safe c \<Longrightarrow> c \<noteq> quote \<and> c \<noteq> CHR 0x5C \<and> c \<noteq> CHR '' ''"
  by (auto simp: shell_safe_def quote_def)

lemma sh_words_safe:
  "list_all shell_safe s \<Longrightarrow> sh_words (Some w) (s @ rest) = sh_words (Some (w @ s)) rest"
  by (induction s arbitrary: w) (auto dest: shell_safe_plain)

lemma sh_words_shellQuote: "sh_words None (shellQuote s @ rest) = sh_words (Some s) rest"
proof (cases "list_ex (\<lambda>c. \<not> shell_safe c) s")
  case True
  then have "s \<noteq> ''''" by auto
  with True show ?thesis using sh_quoted_escape [of "[]" s rest] by (simp add: shellQuote_def)
next
  case False
  then have safe: "list_all shell_safe s" by (simp add: list_ex_iff list_all_iff)
  show ?thesis
  proof (cases s)
    case Nil
    then show ?thesis by (simp add: shellQuote_def)
  next
    case (Cons c cs)
    with safe False show ?thesis
      using sh_words_safe [of cs "[c]" rest] by (auto simp: shellQuote_def dest: shell_safe_plain)
  qed
qed

lemma sh_words_shellJoin: "sh_words None (shellJoin argv) = Some argv"
proof (induction argv rule: induct_list012)
  case 1
  show ?case by (simp add: shellJoin_def)
next
  case (2 x)
  show ?case using sh_words_shellQuote [of x "[]"] by (simp add: shellJoin_def)
next
  case (3 x y zs)
  have "shellJoin (x # y # zs) = shellQuote x @ CHR '' '' # shellJoin (y # zs)"
    by (simp add: shellJoin_def)
  then show ?case using 3(2) by (simp add: sh_words_shellQuote)
qed

section \<open>Redaction hides literal values\<close>

text \<open>
  \<open>relabel f\<close> replaces the literal values of a request's environment variables, empty staying
  empty and set staying set.
\<close>

definition relabel_env :: "(string \<Rightarrow> string) \<Rightarrow> env_var \<Rightarrow> env_var" where
  "relabel_env f e =
     (if ev_ValueFrom e = None \<and> ev_Value e \<noteq> '''' then e\<lparr>ev_Value := f (ev_Value e)\<rparr> else e)"

definition relabel_container :: "(string \<Rightarrow> string) \<Rightarrow> k8s_container \<Rightarrow> k8s_container" where
  "relabel_container f c = c\<lparr>c_Env := map (relabel_env f) (c_Env c)\<rparr>"

definition relabel :: "(string \<Rightarrow> string) \<Rightarrow> pod_extras \<Rightarrow> pod_extras" where
  "relabel f x = x\<lparr>px_Env := map (relabel_env f) (px_Env x),
     px_InitContainers := map (relabel_container f) (px_InitContainers x)\<rparr>"

lemma relabel_env_name [simp]:
  "ev_Name (relabel_env f e) = ev_Name e" "ev_ValueFrom (relabel_env f e) = ev_ValueFrom e"
  by (simp_all add: relabel_env_def)

lemma redact_relabel_env: "(\<And>v. v \<noteq> '''' \<Longrightarrow> f v \<noteq> '''') \<Longrightarrow> redact_env_var (relabel_env f e) = redact_env_var e"
  by (simp add: redact_env_var_def relabel_env_def)

lemma redact_relabel_container:
  "(\<And>v. v \<noteq> '''' \<Longrightarrow> f v \<noteq> '''') \<Longrightarrow> redact_container (relabel_container f c) = redact_container c"
  by (simp add: redact_container_def relabel_container_def redact_relabel_env o_def)

lemma describe_relabel: "describeEnv (map (relabel_env f) env) True = describeEnv env True"
  by (auto simp: describeEnv_def describe_env_var_def Let_def split: option.splits)

lemma relabel_home [simp]: "f homeMountDir = homeMountDir \<Longrightarrow> relabel_env f home_env = home_env"
  by (simp add: relabel_env_def home_env_def)

text \<open>Scratch space is stamped by names and paths only.\<close>

lemma hasEnv_relabel [simp]: "hasEnv (map (relabel_env f) env) n = hasEnv env n"
  by (induction env) (auto simp: hasEnv_def)

lemma redact_home: "redact_env_var home_env = home_env\<lparr>ev_Value := redacted\<rparr>"
  by (simp add: redact_env_var_def home_env_def homeMountDir_def)

lemma redact_stamp_relabel:
  assumes f: "\<And>v. v \<noteq> '''' \<Longrightarrow> f v \<noteq> ''''"
  shows "redact_container (fst (stampScratch (relabel_container f c))) = redact_container (fst (stampScratch c))"
    and "snd (stampScratch (relabel_container f c)) = snd (stampScratch c)"
  by (auto simp: stampScratch_def relabel_container_def redact_container_def Let_def redact_relabel_env [OF f] o_def)

text \<open>Two requests that differ only in the raw environment and init containers of their pod.\<close>

definition with_env :: "string list \<Rightarrow> string list \<Rightarrow> sudo_request \<Rightarrow> sudo_request" where
  "with_env e i sr = Spec_update (\<lambda>s. s\<lparr>Env := e, InitContainers := i\<rparr>) sr"

lemma with_env_frame:
  "executorNamespace (with_env e i sr) cns = executorNamespace sr cns"
  "clusterAdminEnabled (with_env e i sr) cns = clusterAdminEnabled sr cns"
  "executorServiceAccount (with_env e i sr) cns = executorServiceAccount sr cns"
  "imageFor (with_env e i sr) = imageFor sr" "Status (with_env e i sr) = Status sr"
  "Stdin (Spec (with_env e i sr)) = Stdin (Spec sr)" "Command (Spec (with_env e i sr)) = Command (Spec sr)"
  by (simp_all add: with_env_def executorNamespace_def clusterAdminEnabled_def executorServiceAccount_def
      imageFor_def resolveExecutorProfile_def)

lemma executor_pod_relabel:
  assumes f: "\<And>v. v \<noteq> '''' \<Longrightarrow> f v \<noteq> ''''"
    and same: "executorServiceAccount sr' cns = executorServiceAccount sr cns"
      "executorCommand L rules sr' = executorCommand L rules sr" "imageFor sr' = imageFor sr"
      "Stdin (Spec sr') = Stdin (Spec sr)" "StdinSecretName (Status sr') = StdinSecretName (Status sr)"
  shows "redactPodEnv (executor_pod L rules sr' (relabel f x) cns) = redactPodEnv (executor_pod L rules sr x cns)"
proof -
  have main: "executor_container L rules sr' (relabel f x) = relabel_container f (executor_container L rules sr x)"
    using same by (simp add: executor_container_def relabel_def relabel_container_def)
  have init: "stamp_init (relabel_container f c) = relabel_container f (stamp_init c)" for c
    by (simp add: stamp_init_def relabel_container_def)
  have vols: "base_volumes sr' (relabel f x) = base_volumes sr x"
    using same by (simp add: base_volumes_def relabel_def)
  show ?thesis
    unfolding executor_pod_def Let_def main vols redactPodEnv_def same(1)
    by (simp add: split_beta relabel_def init redact_stamp_relabel [OF f] o_def list_ex_iff)
qed

lemma display_pod_relabel:
  assumes f: "\<And>v. v \<noteq> '''' \<Longrightarrow> f v \<noteq> ''''"
    and extras: "hasSpecExtras (with_env e i sr) = hasSpecExtras sr"
  shows "display_pod L rules (with_env e i sr) (relabel f x) True cns = display_pod L rules sr x True cns"
proof -
  have has: "hasSpecExtras (Status_update g r) = hasSpecExtras r" for g r
    by (simp add: hasSpecExtras_def hasPodSpecExtras_def)
  have comm: "Status_update g (with_env e i sr) = with_env e i (Status_update g sr)" for g
    by (simp add: with_env_def)
  have "hasSpecExtras (with_env e i (Status_update g sr)) = hasSpecExtras (Status_update g sr)" for g
    by (simp add: comm [symmetric] has extras)
  then have "autoApproveTokens L rules (with_env e i (Status_update g sr)) = autoApproveTokens L rules (Status_update g sr)" for g
    by (simp add: autoApproveTokens_def with_env_frame)
  then have cmd: "executorCommand L rules (with_env e i (Status_update g sr)) = executorCommand L rules (Status_update g sr)" for g
    by (simp add: executorCommand_def with_env_frame cong: option.case_cong)
  have pod: "redactPodEnv (executor_pod L rules (with_env e i (Status_update g sr)) (relabel f x) cns) =
      redactPodEnv (executor_pod L rules (Status_update g sr) x cns)" for g
    by (rule executor_pod_relabel [OF f]) (simp_all add: cmd with_env_frame)
  have triv: "Status_update (\<lambda>s. s) r = r" for r :: sudo_request by (cases r) simp
  show ?thesis
    using pod [of "\<lambda>s. s"] pod [of "\<lambda>s. s\<lparr>StdinSecretName := minted_placeholder\<rparr>"]
    by (simp add: display_pod_def Let_def buildExecutorJob_def with_env_frame comm [symmetric] triv)
qed

lemma view_relabel:
  assumes "decodePodExtras L sr = Inr x" and "decodePodExtras L (with_env e i sr) = Inr (relabel f x)"
  shows "newSpecExtrasView L (with_env e i sr) True cns = newSpecExtrasView L sr True cns"
  using assms
  by (simp add: newSpecExtrasView_def with_env_frame relabel_def describe_relabel o_def
      init_container_view_def relabel_container_def)

end
