(* ===== verification/Summarizer.thy ===== *)
theory Summarizer
  imports Kube Review "HOL-Library.Multiset"
begin

text \<open>
  \<^verbatim>\<open>summarizer.go\<close>: the optional review aid.  What the model answers is validated and
  put into canonical form; anything else is an error, which callers treat as no aid at all.
  Whitespace is Unicode whitespace over the UTF-8 bytes of the text.
\<close>

section \<open>Effects\<close>

primrec effect_name :: "effect \<Rightarrow> string" where
  "effect_name ReadOnly = ''READ_ONLY''"
| "effect_name ChangesCluster = ''CHANGES_CLUSTER''"
| "effect_name CreatesResource = ''CREATES_RESOURCE''"
| "effect_name RestartsWorkload = ''RESTARTS_WORKLOAD''"
| "effect_name DeletesResource = ''DELETES_RESOURCE''"
| "effect_name ExportsData = ''EXPORTS_DATA''"
| "effect_name ReadsSecret = ''READS_SECRET''"
| "effect_name UsesCredentials = ''USES_CREDENTIALS''"
| "effect_name ExternalEgress = ''EXTERNAL_EGRESS''"
| "effect_name HostAccess = ''HOST_ACCESS''"
| "effect_name SecurityConfig = ''SECURITY_CONFIG''"
| "effect_name BroadScope = ''BROAD_SCOPE''"
| "effect_name CleanupIncluded = ''CLEANUP_INCLUDED''"
| "effect_name NonDefaultImage = ''NON_DEFAULT_IMAGE''"
| "effect_name (OtherEffect s) = s"

definition permissionEffectOrder :: "effect list" where
  "permissionEffectOrder = [ReadOnly, ChangesCluster, CreatesResource, RestartsWorkload,
     DeletesResource, ExportsData, ReadsSecret, UsesCredentials, ExternalEgress, HostAccess,
     SecurityConfig, BroadScope, CleanupIncluded, NonDefaultImage]"

text \<open>\<open>permissionEffectSet\<close>: the position of a known effect.\<close>

fun effect_index :: "effect list \<Rightarrow> effect \<Rightarrow> nat option" where
  "effect_index [] e = None"
| "effect_index (x # xs) e = (if x = e then Some 0 else map_option Suc (effect_index xs e))"

definition permissionEffectSet :: "effect \<Rightarrow> nat option" where
  "permissionEffectSet = effect_index permissionEffectOrder"

definition permissionEffectLabel :: "effect \<Rightarrow> string" where
  "permissionEffectLabel e = map (\<lambda>c. if c = CHR ''_'' then CHR '' '' else c) (effect_name e)"

definition formatPermissionEffects :: "effect list \<Rightarrow> string" where
  "formatPermissionEffects effects = join (map permissionEffectLabel effects) '', ''"

section \<open>Words\<close>

definition bytes :: "nat list \<Rightarrow> string" where "bytes = map char_of"

text \<open>The whitespace characters of \<open>unicode.IsSpace\<close>, in UTF-8.\<close>

definition space_runes :: "string list" where
  "space_runes = map bytes
     ([[9], [10], [11], [12], [13], [32], [194, 133], [194, 160], [225, 154, 128],
       [226, 128, 168], [226, 128, 169], [226, 128, 175], [226, 129, 159], [227, 128, 128]] @
      map (\<lambda>n. [226, 128, n]) [128..<139])"

definition space_at :: "string \<Rightarrow> string option" where
  "space_at s = find (\<lambda>r. prefix r s) space_runes"

lemma space_runes_nonempty: "r \<in> set space_runes \<Longrightarrow> r \<noteq> []"
  by (auto simp: space_runes_def bytes_def)

lemma space_at_drop: "space_at s = Some r \<Longrightarrow> length s - length r < length s"
proof -
  assume "space_at s = Some r"
  then have "r \<in> set space_runes" "prefix r s" by (auto simp: space_at_def find_Some_iff in_set_conv_nth)
  then have "r \<noteq> []" "length r \<le> length s" using space_runes_nonempty prefix_length_le by auto
  then show ?thesis by (cases r) auto
qed

text \<open>The text cut into whitespace characters (\<open>True\<close>) and other bytes (\<open>False\<close>).\<close>

function units :: "string \<Rightarrow> (bool \<times> string) list" where
  "units [] = []"
| "units (c # cs) =
     (case space_at (c # cs) of
        Some r \<Rightarrow> (True, r) # units (drop (length r) (c # cs))
      | None \<Rightarrow> (False, [c]) # units cs)"
  by pat_completeness auto
termination
  by (relation "measure length") (auto dest: space_at_drop)

definition trim_space :: "string \<Rightarrow> string" where
  "trim_space s = concat (map snd (rev (dropWhile fst (rev (dropWhile fst (units s))))))"

text \<open>\<open>strings.FieldsFunc\<close>: the number of maximal runs of other characters.\<close>

fun count_words :: "bool \<Rightarrow> (bool \<times> string) list \<Rightarrow> nat" where
  "count_words inside [] = 0"
| "count_words inside ((sp, b) # us) =
     (if sp then count_words False us else (if inside then 0 else 1) + count_words True us)"

section \<open>Validation\<close>

definition maxPermissionRequestWords :: nat where "maxPermissionRequestWords = 30"

text \<open>The loop that rejects unknown effects and drops repeated ones; \<open>canonical\<close> is kept in order.\<close>

fun collect_effects :: "effect list \<Rightarrow> effect list \<Rightarrow> effect list res" where
  "collect_effects canonical [] = Inr canonical"
| "collect_effects canonical (e # es) =
     (case permissionEffectSet e of
        None \<Rightarrow> Inl (Text (''unknown permission effect '' @ go_quote (effect_name e)))
      | Some _ \<Rightarrow> collect_effects (if e \<in> set canonical then canonical else canonical @ [e]) es)"

definition mutation_effects :: "effect list" where
  "mutation_effects = [ChangesCluster, CreatesResource, RestartsWorkload, DeletesResource, SecurityConfig]"

definition validatePermissionResponse :: "string \<Rightarrow> effect list \<Rightarrow> (string \<times> effect list) res" where
  "validatePermissionResponse request effects =
     (let r = trim_space request in
      if r = '''' then Inl (Text ''permission request is empty'')
      else if contains_any r [CHR 0x0D, CHR 0x0A] then Inl (Text ''permission request must be one line'')
      else if count_words False (units r) > maxPermissionRequestWords
      then Inl (Text (''permission request has '' @ show_digits (count_words False (units r)) @
             '' words; maximum is '' @ show_digits maxPermissionRequestWords))
      else if effects = [] then Inl (Text ''permission assessment has no effects'')
      else case collect_effects [] effects of
        Inl e \<Rightarrow> Inl e
      | Inr canonical \<Rightarrow>
          if ReadOnly \<in> set canonical \<and> list_ex (\<lambda>e. e \<in> set canonical) mutation_effects
          then Inl (Text ''READ_ONLY cannot be combined with mutation effects'')
          else Inr (r, sort_key (\<lambda>e. the (permissionEffectSet e)) canonical))"

text \<open>The canonical form: the known effects that occur, in the fixed order.\<close>

definition canonical_effects :: "effect list \<Rightarrow> effect list" where
  "canonical_effects es = filter (\<lambda>e. e \<in> set es) permissionEffectOrder"

lemma permissionEffectOrder_distinct: "distinct permissionEffectOrder"
  by (simp add: permissionEffectOrder_def)

lemma permissionEffectSet_known: "permissionEffectSet e \<noteq> None \<longleftrightarrow> e \<in> set permissionEffectOrder"
proof -
  have "effect_index xs e \<noteq> None \<longleftrightarrow> e \<in> set xs" for xs by (induction xs) auto
  then show ?thesis by (simp add: permissionEffectSet_def)
qed

lemma permissionEffect_positions:
  "map (\<lambda>e. the (permissionEffectSet e)) permissionEffectOrder = [0..<14]"
  by code_simp

lemma effect_key_inj: "inj_on (\<lambda>e. the (permissionEffectSet e)) (set permissionEffectOrder)"
  using permissionEffect_positions permissionEffectOrder_distinct
  by (metis distinct_map distinct_upt)

lemma collect_effects_Inr:
  "collect_effects acc es = Inr cs \<Longrightarrow> distinct acc \<Longrightarrow>
     distinct cs \<and> set cs = set acc \<union> set es \<and> set es \<subseteq> set permissionEffectOrder"
proof (induction acc es rule: collect_effects.induct)
  case (1 acc)
  then show ?case by simp
next
  case (2 acc e es)
  from 2(2) have k: "e \<in> set permissionEffectOrder"
    using permissionEffectSet_known [of e] by (auto split: option.splits)
  with 2 show ?case by (force split: option.splits if_splits)
qed

lemma collect_effects_total: "set es \<subseteq> set permissionEffectOrder \<Longrightarrow> \<exists>cs. collect_effects acc es = Inr cs"
proof (induction acc es rule: collect_effects.induct)
  case (1 acc)
  then show ?case by simp
next
  case (2 acc e es)
  then obtain i where "permissionEffectSet e = Some i"
    using permissionEffectSet_known [of e] by auto
  with 2 show ?case by auto
qed

lemma sort_effects:
  assumes "distinct cs" and "set cs \<subseteq> set permissionEffectOrder"
  shows "sort_key (\<lambda>e. the (permissionEffectSet e)) cs = canonical_effects cs"
proof (rule sort_key_inj_key_eq)
  show "mset cs = mset (canonical_effects cs)"
    using assms permissionEffectOrder_distinct
    by (subst set_eq_iff_mset_eq_distinct [symmetric]) (auto simp: canonical_effects_def)
  show "inj_on (\<lambda>e. the (permissionEffectSet e)) (set cs)"
    using effect_key_inj assms(2) by (rule inj_on_subset)
  have "sorted (map (\<lambda>e. the (permissionEffectSet e)) permissionEffectOrder)"
    unfolding permissionEffect_positions by simp
  then show "sorted (map (\<lambda>e. the (permissionEffectSet e)) (canonical_effects cs))"
    unfolding canonical_effects_def by (rule sorted_filter)
qed

lemma canonical_effects_cong: "set cs = set es \<Longrightarrow> canonical_effects cs = canonical_effects es"
  by (simp add: canonical_effects_def)

text \<open>What an accepted answer is, and that it is accepted.\<close>

definition answer_ok :: "string \<Rightarrow> effect list \<Rightarrow> bool" where
  "answer_ok request effects \<longleftrightarrow>
     (let r = trim_space request in
      r \<noteq> '''' \<and> CHR 0x0D \<notin> set r \<and> CHR 0x0A \<notin> set r \<and> count_words False (units r) \<le> 30 \<and>
      effects \<noteq> [] \<and> set effects \<subseteq> set permissionEffectOrder \<and>
      (ReadOnly \<in> set effects \<longrightarrow> set effects \<inter> set mutation_effects = {}))"

lemma validatePermissionResponse_Inr:
  "validatePermissionResponse req es = Inr (r, cs) \<longleftrightarrow>
     answer_ok req es \<and> r = trim_space req \<and> cs = canonical_effects es"
proof (cases "collect_effects [] es")
  case (Inl e)
  then have "\<not> set es \<subseteq> set permissionEffectOrder"
    using collect_effects_total [of es "[]"] by auto
  with Inl show ?thesis by (simp add: validatePermissionResponse_def answer_ok_def Let_def)
next
  case (Inr ds)
  from collect_effects_Inr [OF this] have ds: "distinct ds" "set ds = set es" "set es \<subseteq> set permissionEffectOrder"
    by auto
  then have "sort_key (\<lambda>e. the (permissionEffectSet e)) ds = canonical_effects es"
    using sort_effects [of ds] canonical_effects_cong [of ds es] by simp
  with Inr ds show ?thesis
    by (auto simp: validatePermissionResponse_def answer_ok_def Let_def contains_any_def list_ex_iff
        maxPermissionRequestWords_def)
qed

section \<open>Asking the model\<close>

definition summarizer_content :: "string \<Rightarrow> string \<Rightarrow> string \<Rightarrow> string \<Rightarrow> string" where
  "summarizer_content command img reason extras =
     (let nl = [newline];
          executionContext = (if extras \<noteq> ''''
            then nl @ ''Effective Pod spec (credential values redacted):'' @ nl @ extras @ nl else '''')
      in ''Shell: POSIX sh (run via sh -c).'' @ nl @ ''Executor image: '' @ img @ nl @
         ''Requester'' @ [CHR 0x27] @ ''s stated reason (context only; authorization is unknown): '' @
         reason @ nl @ executionContext @ nl @ ''Command:'' @ nl @ command)"

definition Summarize :: "world \<Rightarrow> lib \<Rightarrow> string \<Rightarrow> string \<Rightarrow> string \<Rightarrow> string \<Rightarrow> string \<Rightarrow>
    permission_assessment res prog" where
  "Summarize W L model command img reason extras =
     attempt (ask_model W model (summarizer_content command img reason extras)) (\<lambda>choices.
       case choices of
         [] \<Rightarrow> State_Monad.return (Inl (Text ''summarizer returned no choices''))
       | content # _ \<Rightarrow>
           (case json_permission L content of
              Inl err \<Rightarrow> State_Monad.return (Inl (Wrap ''decode structured permission assessment'' (Text err)))
            | Inr (request, effects) \<Rightarrow>
                (case validatePermissionResponse request effects of
                   Inl e \<Rightarrow> State_Monad.return (Inl e)
                 | Inr (r, canonical) \<Rightarrow> do {
                     t \<leftarrow> now W;
                     State_Monad.return (Inr \<lparr>pa_Request = r, pa_Effects = canonical, pa_SchemaVersion = ''v1'',
                       pa_PromptVersion = ''2026-07-24'', pa_Model = model, pa_GeneratedAt = t\<rparr>) })))"

text \<open>Asking the model is the only call that leaves the controller, and its content is fixed.\<close>

definition model_call :: "string \<Rightarrow> call \<Rightarrow> bool" where
  "model_call content c = (case c of AskModel m ct r \<Rightarrow> ct = content | Now t \<Rightarrow> True | _ \<Rightarrow> False)"

definition accepted_answer :: "lib \<Rightarrow> permission_assessment \<Rightarrow> bool" where
  "accepted_answer L a \<longleftrightarrow> (\<exists>content request effects. json_permission L content = Inr (request, effects) \<and>
     answer_ok request effects \<and> pa_Request a = trim_space request \<and>
     pa_Effects a = canonical_effects effects)"

lemma Summarize_emits:
  "emits (\<lambda>_. model_call (summarizer_content command img reason extras))
     (Summarize W L model command img reason extras)
     (\<lambda>r h. case r of Inr a \<Rightarrow> accepted_answer L a | Inl e \<Rightarrow> True) h"
  unfolding Summarize_def
  by (rule emits_attempt, auto simp: prims model_call_def accepted_answer_def validatePermissionResponse_Inr
       split: sum.split list.split prod.split intro!: emits_rules) blast

end
