(* ===== verification/StatusWrites.thy ===== *)
theory StatusWrites
  imports Notify Summarizer
begin

text \<open>
  The fields of \<^verbatim>\<open>SudoRequestReconciler\<close> and
  \<^verbatim>\<open>updateStatus\<close> (\<^verbatim>\<open>reconciler.go\<close>), the write every
  handler goes through: mutate, write, and on an optimistic-concurrency conflict refetch uncached and
  mutate again.
\<close>

section \<open>The reconciler\<close>

record cleanup_rule =
  cr_Requester :: string
  cr_Namespace :: string
  cr_CronJobs :: "string list"
  cr_StandaloneNamePrefixes :: "string list"

record reconciler =
  rc_ControllerNamespace :: string
  rc_Playbooks :: "cleanup_rule list option"
  rc_Pushover :: pushover
  rc_Summarizer :: "string option"
  rc_PublicBaseURL :: string
  rc_rules :: "auto_approve_rule list"
  rc_lib :: lib

text \<open>
  \<open>rc_Summarizer\<close> is the model of the summarizer when there is one, \<open>rc_Playbooks\<close> the
  \<open>TerminalJobCleanup\<close> rules of the playbook configuration.
\<close>

definition controllerNamespace :: "reconciler \<Rightarrow> string" where
  "controllerNamespace R = configuredControllerNamespace (rc_ControllerNamespace R)"

text \<open>\<open>ctrl.Result\<close>; the empty result is \<open>done_result\<close>.\<close>

record ctrl_result =
  Requeue :: bool
  RequeueAfter :: int

definition done_result :: ctrl_result where "done_result = \<lparr>Requeue = False, RequeueAfter = 0\<rparr>"
definition requeue_result :: ctrl_result where "requeue_result = \<lparr>Requeue = True, RequeueAfter = 0\<rparr>"
definition requeue_after :: "int \<Rightarrow> ctrl_result" where
  "requeue_after d = \<lparr>Requeue = False, RequeueAfter = d\<rparr>"

type_synonym reconcile_result = "ctrl_result res"

section \<open>updateStatus\<close>

text \<open>\<open>retry.RetryOnConflict\<close>: run, and again while the error is a conflict and attempts are left.\<close>

primrec RetryOnConflict :: "nat \<Rightarrow> 'a res prog \<Rightarrow> 'a res prog" where
  "RetryOnConflict 0 body = body"
| "RetryOnConflict (Suc n) body = do {
     r \<leftarrow> body;
     case r of
       Inl e \<Rightarrow> if is_conflict e then RetryOnConflict n body else State_Monad.return (Inl e)
     | Inr a \<Rightarrow> State_Monad.return (Inr a) }"

text \<open>
  \<open>updateStatus\<close> returns the caller's object as the code leaves it in \<open>sr\<close>, with the error.  The
  body of the retry refetches by the name of the object and replaces \<open>sr\<close> only when its own write
  succeeds.
\<close>

definition retry_body :: "world \<Rightarrow> sudo_request \<Rightarrow> (sudo_request_status \<Rightarrow> sudo_request_status) \<Rightarrow>
    sudo_request res prog" where
  "retry_body W sr mutate =
     attempt (get_sr W False (Namespace sr) (Name sr)) (\<lambda>latest.
       update_status_call W (Status_update mutate latest))"

definition updateStatus :: "world \<Rightarrow> sudo_request \<Rightarrow> (sudo_request_status \<Rightarrow> sudo_request_status) \<Rightarrow>
    (sudo_request \<times> gerr option) prog" where
  "updateStatus W sr mutate = do {
     r \<leftarrow> update_status_call W (Status_update mutate sr);
     case r of
       Inr stored \<Rightarrow> State_Monad.return (stored, None)
     | Inl e \<Rightarrow>
         if \<not> is_conflict e then State_Monad.return (Status_update mutate sr, Some e)
         else do {
           r \<leftarrow> RetryOnConflict (w_retries W) (retry_body W (Status_update mutate sr) mutate);
           case r of
             Inr stored \<Rightarrow> State_Monad.return (stored, None)
           | Inl e \<Rightarrow> State_Monad.return (Status_update mutate sr, Some e) } }"

section \<open>What updateStatus writes\<close>

lemma emits_RetryOnConflict:
  assumes "\<And>h. n \<le> length h \<Longrightarrow> emits P body Q h" and "n \<le> length h"
  shows "emits P (RetryOnConflict k body) Q h"
  using assms(2)
proof (induction k arbitrary: h)
  case 0
  then show ?case using assms(1) by simp
next
  case (Suc k)
  have "emits P (RetryOnConflict k body) Q (h @ t)" for t
    using Suc by simp
  then have "emits P body (\<lambda>r. emits P (case r of
      Inl e \<Rightarrow> if is_conflict e then RetryOnConflict k body else State_Monad.return (Inl e)
    | Inr a \<Rightarrow> State_Monad.return (Inr a)) Q) h"
    by (intro emits_mono [OF assms(1) [OF Suc.prems]]) (auto split: sum.split)
  then show ?case by (simp add: emits_bind)
qed

text \<open>The same with an invariant that every attempt keeps.\<close>

lemma emits_RetryOnConflict_inv:
  assumes "\<And>h. I h \<Longrightarrow> emits P body (\<lambda>r h'. I h' \<and> Q r h') h" and "I h"
  shows "emits P (RetryOnConflict k body) (\<lambda>r h'. I h' \<and> Q r h') h"
  using assms(2)
proof (induction k arbitrary: h)
  case 0
  then show ?case using assms(1) by simp
next
  case (Suc k)
  have "emits P body (\<lambda>r. emits P (case r of
      Inl e \<Rightarrow> if is_conflict e then RetryOnConflict k body else State_Monad.return (Inl e)
    | Inr a \<Rightarrow> State_Monad.return (Inr a)) (\<lambda>r h'. I h' \<and> Q r h')) h"
    by (rule emits_mono [OF assms(1) [OF Suc.prems]]) (auto intro: Suc.IH split: sum.split)
  then show ?case by (simp add: emits_bind)
qed

text \<open>
  A call of \<open>updateStatus W sr mutate\<close>: an uncached read of the object, or the write of a mutated
  object, either the caller's or the one an uncached read has just returned.
\<close>

definition status_write :: "(sudo_request_status \<Rightarrow> sudo_request_status) \<Rightarrow> sudo_request \<Rightarrow> nat \<Rightarrow> hist \<Rightarrow> call \<Rightarrow> bool" where
  "status_write mutate sr n h c =
     (case c of
        GetSR cached ns n r \<Rightarrow> \<not> cached \<and> ns = Namespace sr \<and> n = Name sr
      | UpdateStatus obj r \<Rightarrow>
          obj = Status_update mutate sr \<or>
          (\<exists>base t. obj = Status_update mutate base \<and> n \<le> length t \<and> h = t @ [GetSR False (Namespace sr) (Name sr) (Inr base)])
      | _ \<Rightarrow> False)"

definition written_as :: "(sudo_request_status \<Rightarrow> sudo_request_status) \<Rightarrow> call set \<Rightarrow> sudo_request \<Rightarrow> bool" where
  "written_as mutate cs stored \<longleftrightarrow> (\<exists>base. UpdateStatus (Status_update mutate base) (Inr stored) \<in> cs)"

lemma written_as_mono: "written_as mutate A s \<Longrightarrow> A \<subseteq> B \<Longrightarrow> written_as mutate B s"
  by (auto simp: written_as_def)

lemma written_as_insert [simp]:
  "written_as mutate (insert c cs) stored \<longleftrightarrow>
     (case c of UpdateStatus obj r \<Rightarrow> r = Inr stored \<and> (\<exists>base. obj = Status_update mutate base) | _ \<Rightarrow> False) \<or>
     written_as mutate cs stored"
  by (auto simp: written_as_def split: call.splits)

definition accepted :: "(sudo_request_status \<Rightarrow> sudo_request_status) \<Rightarrow> call set \<Rightarrow> bool" where
  "accepted mutate cs \<longleftrightarrow> (\<exists>stored. written_as mutate cs stored)"

lemma accepted_insert [simp]:
  "accepted mutate (insert c cs) \<longleftrightarrow>
     (case c of UpdateStatus obj r \<Rightarrow> (\<exists>stored base. r = Inr stored \<and> obj = Status_update mutate base) | _ \<Rightarrow> False) \<or>
     accepted mutate cs"
  by (auto simp: accepted_def split: call.splits)

text \<open>Phase \<open>p\<close> of the request \<open>uid\<close> may be published: a write of it was accepted.\<close>

definition published :: "call set \<Rightarrow> string \<Rightarrow> phase \<Rightarrow> bool" where
  "published cs uid p \<longleftrightarrow> (\<exists>obj stored. UpdateStatus obj (Inr stored) \<in> cs \<and> uid = UID stored \<and>
     (p = Phase (Status obj) \<or> p = Phase (Status stored)))"

lemma published_mono: "published A uid p \<Longrightarrow> A \<subseteq> B \<Longrightarrow> published B uid p"
  by (auto simp: published_def)

lemma published_insert [simp]:
  "published (insert c cs) uid p \<longleftrightarrow>
     (case c of UpdateStatus obj r \<Rightarrow> (case r of
        Inr stored \<Rightarrow> uid = UID stored \<and> (p = Phase (Status obj) \<or> p = Phase (Status stored))
      | Inl e \<Rightarrow> False) | _ \<Rightarrow> False) \<or> published cs uid p"
  by (auto simp: published_def split: call.splits sum.splits)

lemma written_published: "written_as mutate cs stored \<Longrightarrow> published cs (UID stored) (Phase (Status stored))"
  by (auto simp: written_as_def published_def)

lemma Status_update_meta [simp]:
  "Namespace (Status_update f sr) = Namespace sr" "Name (Status_update f sr) = Name sr"
  "UID (Status_update f sr) = UID sr" "Spec (Status_update f sr) = Spec sr"
  "Status (Status_update f sr) = f (Status sr)"
  by simp_all

lemma retry_body_emits:
  assumes n: "n \<le> length h"
  shows "emits (status_write mutate sr n) (retry_body W (Status_update mutate sr) mutate)
     (\<lambda>r h'. case r of Inr stored \<Rightarrow> written_as mutate (recent n h') stored | Inl e \<Rightarrow> True) h"
  unfolding retry_body_def
  by (rule emits_attempt) (auto simp: n prims status_write_def split: sum.split)

lemma updateStatus_emits:
  assumes n: "n \<le> length h"
  shows "emits (status_write mutate sr n) (updateStatus W sr mutate)
     (\<lambda>(sr', err) h'. case err of
        None \<Rightarrow> written_as mutate (recent n h') sr'
      | Some e \<Rightarrow> sr' = Status_update mutate sr) h"
proof -
  have retry: "emits (status_write mutate sr n) (RetryOnConflict k (retry_body W (Status_update mutate sr) mutate))
     (\<lambda>r h'. case r of Inr stored \<Rightarrow> written_as mutate (recent n h') stored | Inl e \<Rightarrow> True) h"
    if "n \<le> length h" for k h
    using that by (rule emits_RetryOnConflict [rotated]) (rule retry_body_emits)
  show ?thesis
    unfolding updateStatus_def
    by (rule emits_bind)
       (auto simp: n prims status_write_def split: sum.split
         intro!: emits_bind emits_mono [OF retry] le_SucI)
qed

lemma status_write_base:
  "status_write mutate sr n h (UpdateStatus obj r) \<Longrightarrow>
     \<exists>base. obj = Status_update mutate base \<and> (base = sr \<or> GetSR False (Namespace sr) (Name sr) (Inr base) \<in> recent n h)"
  by (auto simp: status_write_def)

text \<open>The rule for a handler that writes and goes on with the stored object, or with the error.\<close>

lemma updateStatus_rule:
  assumes n: "n \<le> length h"
    and P: "\<And>t c. status_write mutate sr n (h @ t) c \<Longrightarrow> P (h @ t) c"
    and ok: "\<And>stored t. written_as mutate (recent n h \<union> set t) stored \<Longrightarrow>
      published (recent n h \<union> set t) (UID stored) (Phase (Status stored)) \<Longrightarrow>
      accepted mutate (recent n h \<union> set t) \<Longrightarrow> Q (stored, None) (h @ t)"
    and err: "\<And>e t. Q (Status_update mutate sr, Some e) (h @ t)"
  shows "emits P (updateStatus W sr mutate) Q h"
proof -
  have ok': "Q (stored, None) (h @ t)" if "written_as mutate (recent n h \<union> set t) stored" for stored t
    using that by (intro ok) (auto simp: accepted_def intro: written_published)
  show ?thesis
    by (rule emits_mono2 [OF updateStatus_emits [OF n]])
       (auto simp: n split: prod.splits option.splits intro: P ok' err)
qed

section \<open>The contract of a status mutation\<close>

text \<open>
  The identities recorded in a status, the Job by name and UID and the successor by UID, are written
  once: a mutation may fill an empty one, and keeps the others.
\<close>

definition same_ids :: "sudo_request_status \<Rightarrow> sudo_request_status \<Rightarrow> bool" where
  "same_ids s t \<longleftrightarrow> ExecutorJobName s = ExecutorJobName t \<and> ExecutorJobUID s = ExecutorJobUID t \<and>
     SupersededByUID s = SupersededByUID t"

definition writes_once :: "sudo_request_status \<Rightarrow> sudo_request_status \<Rightarrow> bool" where
  "writes_once s t \<longleftrightarrow> (ExecutorJobName s \<noteq> '''' \<longrightarrow> ExecutorJobName t = ExecutorJobName s) \<and>
     (ExecutorJobUID s \<noteq> '''' \<longrightarrow> ExecutorJobUID t = ExecutorJobUID s) \<and>
     (SupersededByUID s \<noteq> '''' \<longrightarrow> SupersededByUID t = SupersededByUID s)"

lemma same_ids_refl [simp]: "same_ids s s"
  by (simp add: same_ids_def)

lemma writes_once_refl [simp]: "writes_once s s"
  by (simp add: writes_once_def)

lemma writes_once_trans: "writes_once s t \<Longrightarrow> writes_once t u \<Longrightarrow> writes_once s u"
  by (auto simp: writes_once_def)

lemma writes_once_same: "same_ids s t \<Longrightarrow> writes_once s u \<longleftrightarrow> writes_once t u"
  by (simp add: same_ids_def writes_once_def)

locale identity_keeping =
  fixes mutate :: "sudo_request_status \<Rightarrow> sudo_request_status"
  assumes once: "writes_once s (mutate s)"
    and image_of: "ResolvedImage (mutate s) = ResolvedImage s"
begin

lemma identity_written:
  assumes "calls (updateStatus W sr mutate) h = u @ UpdateStatus obj r # v"
  shows "\<exists>base. obj = Status_update mutate base \<and> writes_once (Status base) (Status obj) \<and>
     (base = sr \<or> GetSR False (Namespace sr) (Name sr) (Inr base) \<in> set u)"
proof -
  from assms have "status_write mutate sr (length h) (h @ u) (UpdateStatus obj r)"
    by (rule emits_callsD [OF updateStatus_emits [OF le_refl]])
  then show ?thesis using status_write_base once by fastforce
qed

end

text \<open>
  What the handlers rely on: a mutation sends the phase of the object it is applied to through
  \<open>target\<close>, whatever the rest of the status.  Then every object that \<open>updateStatus\<close> writes, on the
  first attempt or after any number of conflicts, has the target phase of the object it was computed
  from, and that object is the caller's or the answer of an uncached read.
\<close>

locale status_mutation = identity_keeping mutate
  for mutate :: "sudo_request_status \<Rightarrow> sudo_request_status" +
  fixes target :: "phase \<Rightarrow> phase"
  assumes phase_of: "Phase (mutate s) = target (Phase s)"
begin

lemma phase_written:
  assumes "calls (updateStatus W sr mutate) h = u @ UpdateStatus obj r # v"
  shows "\<exists>base. obj = Status_update mutate base \<and> Phase (Status obj) = target (Phase (Status base)) \<and>
     (base = sr \<or> GetSR False (Namespace sr) (Name sr) (Inr base) \<in> set u)"
proof -
  from assms have "status_write mutate sr (length h) (h @ u) (UpdateStatus obj r)"
    by (rule emits_callsD [OF updateStatus_emits [OF le_refl]])
  then obtain base where "obj = Status_update mutate base"
      "base = sr \<or> GetSR False (Namespace sr) (Name sr) (Inr base) \<in> set u"
    using status_write_base by fastforce
  then show ?thesis using phase_of by auto
qed

lemma phase_stored:
  assumes "written_as mutate cs stored"
  shows "\<exists>base. UpdateStatus (Status_update mutate base) (Inr stored) \<in> cs \<and>
     Phase (Status (Status_update mutate base)) = target (Phase (Status base))"
  using assms phase_of by (auto simp: written_as_def)

end

text \<open>A mutation that sets the phase, so that the handler can announce it.\<close>

locale phase_setting = identity_keeping mutate
  for mutate :: "sudo_request_status \<Rightarrow> sudo_request_status" +
  fixes p :: phase
  assumes sets: "Phase (mutate s) = p"

sublocale phase_setting \<subseteq> status_mutation mutate "\<lambda>_. p"
  by unfold_locales (rule sets)

context phase_setting
begin

lemma set_published: "written_as mutate cs stored \<Longrightarrow> published cs (UID stored) p"
  using sets by (fastforce simp: written_as_def published_def)

end

section \<open>markFailed\<close>

definition set_failed :: "string \<Rightarrow> sudo_request_status \<Rightarrow> sudo_request_status" where
  "set_failed reason s = s\<lparr>Phase := Failed, FailureReason := reason\<rparr>"

interpretation failed: phase_setting "set_failed reason" Failed for reason
  by unfold_locales (simp_all add: set_failed_def writes_once_def)

definition markFailed :: "world \<Rightarrow> sudo_request \<Rightarrow> string \<Rightarrow> reconcile_result prog" where
  "markFailed W sr reason = do {
     r \<leftarrow> updateStatus W sr (set_failed reason);
     case r of
       (sr, Some e) \<Rightarrow> State_Monad.return (Inl e)
     | (sr, None) \<Rightarrow> do {
         record_event ''Warning'' ''Failed'' reason;
         publish (UID sr) ((phase_event sr Failed)\<lparr>e_FailureReason := reason\<rparr>);
         State_Monad.return (Inr done_result) } }"

text \<open>
  An announcement: an event recorded or published.  A phase is published only after a write of it,
  made since the history had length \<open>n\<close>, has been accepted.
\<close>

definition announces :: "nat \<Rightarrow> hist \<Rightarrow> call \<Rightarrow> bool" where
  "announces n h c \<longleftrightarrow>
     (case c of
        RecordEvent t reason msg \<Rightarrow> True
      | PublishEvent uid e \<Rightarrow> e_Type e = ''phase'' \<and> published (recent n h) uid (e_Phase e)
      | _ \<Rightarrow> False)"

lemma phase_event_simps [simp]: "e_Type (phase_event sr p) = ''phase''" "e_Phase (phase_event sr p) = p"
  by (simp_all add: phase_event_def zero_event_def)

lemma markFailed_emits:
  assumes n: "n \<le> length h"
  shows "emits (\<lambda>h c. status_write (set_failed reason) sr n h c \<or> announces n h c) (markFailed W sr reason)
     (\<lambda>r h'. \<forall>res. r = Inr res \<longrightarrow> res = done_result \<and>
          accepted (set_failed reason) (recent n h')) h"
  unfolding markFailed_def
  by (rule emits_bind, rule updateStatus_rule [OF n])
     (auto simp: prims n announces_def failed.set_published intro!: emits_bind)

end
