(* ===== verification/Output.thy ===== *)
theory Output
  imports StatusWrites
begin

text \<open>
  Output capture (\<^verbatim>\<open>executor.go\<close>): the bounded writer, the log stream, and
  \<^verbatim>\<open>captureJobOutput\<close>, which keeps the outcome of the command apart from the
  outcome of capturing and delivering its output.
\<close>

section \<open>The bounded writer\<close>

record bounded_writer =
  bw_retained :: string
  bw_total :: int

definition empty_writer :: bounded_writer where
  "empty_writer = \<lparr>bw_retained = '''', bw_total = 0\<rparr>"

definition bounded_write :: "string \<Rightarrow> bounded_writer \<Rightarrow> bounded_writer" where
  "bounded_write p w =
     (let remaining = int MaxOutputBytes - int (length (bw_retained w));
          w = w\<lparr>bw_total := bw_total w + int (length p)\<rparr>
      in if remaining > 0
         then w\<lparr>bw_retained := bw_retained w @
                 take (nat (if remaining > int (length p) then int (length p) else remaining)) p\<rparr>
         else w)"

text \<open>
  \<open>io.Copy\<close> hands the stream over chunk by chunk to the hash and to the writer; an error of the
  stream discards both.
\<close>

definition consumePodLogs :: "lib \<Rightarrow> string list \<times> gerr option \<Rightarrow> (string \<times> int \<times> string) res" where
  "consumePodLogs L logs =
     (let w = fold bounded_write (fst logs) empty_writer in
      case snd logs of
        Some e \<Rightarrow> Inl e
      | None \<Rightarrow> Inr (bw_retained w, bw_total w, sha256_hex L (concat (fst logs))))"

text \<open>The writer holds the longest allowed prefix of everything written, and its length.\<close>

definition writer_of :: "string \<Rightarrow> bounded_writer \<Rightarrow> bool" where
  "writer_of s w \<longleftrightarrow> bw_retained w = take MaxOutputBytes s \<and> bw_total w = int (length s)"

lemma writer_of_empty: "writer_of '''' empty_writer"
  by (simp add: writer_of_def empty_writer_def)

lemma writer_of_write: "writer_of s w \<Longrightarrow> writer_of (s @ p) (bounded_write p w)"
  by (auto simp: writer_of_def bounded_write_def Let_def min_def nat_diff_distrib')

lemma writer_of_fold: "writer_of s w \<Longrightarrow> writer_of (s @ concat ps) (fold bounded_write ps w)"
proof (induction ps arbitrary: s w)
  case Nil
  then show ?case by simp
next
  case (Cons p ps)
  from Cons.IH [OF writer_of_write [OF Cons.prems, of p]] show ?case by simp
qed

lemma consumePodLogs_eq:
  "consumePodLogs L (chunks, err) =
     (case err of
        Some e \<Rightarrow> Inl e
      | None \<Rightarrow> Inr (take MaxOutputBytes (concat chunks), int (length (concat chunks)),
                     sha256_hex L (concat chunks)))"
  using writer_of_fold [OF writer_of_empty, of chunks]
  by (auto simp: consumePodLogs_def writer_of_def Let_def split: option.split)

section \<open>captureJobOutput\<close>

record captured_output =
  co_ExitCode :: int
  co_SecretRef :: string
  co_CaptureState :: capture_state
  co_DeliveryState :: delivery_state
  co_FailureReason :: string
  co_TotalBytes :: "int option"
  co_RetainedBytes :: "int option"
  co_SHA256 :: string

definition captured_exit :: "int \<Rightarrow> captured_output" where
  "captured_exit code = \<lparr>co_ExitCode = code, co_SecretRef = '''', co_CaptureState = CaptureNone,
     co_DeliveryState = DeliveryNone, co_FailureReason = '''', co_TotalBytes = None,
     co_RetainedBytes = None, co_SHA256 = ''''\<rparr>"

definition getJobPod :: "world \<Rightarrow> job \<Rightarrow> pod option res prog" where
  "getJobPod W j =
     attempt_ctx ''list job pods'' (list_pods W (j_Namespace j) (j_Name j)) (\<lambda>pods.
       State_Monad.return (Inr (find (\<lambda>p. controlled_by (p_Owners p) (j_UID j)) pods)))"

definition job_running :: "job \<Rightarrow> bool" where
  "job_running j \<longleftrightarrow> j_Succeeded j = 0 \<and> j_Failed j = 0"

definition output_secret :: "string \<Rightarrow> sudo_request \<Rightarrow> int \<Rightarrow> string \<Rightarrow> secret" where
  "output_secret cns sr t retained = \<lparr>s_Name = outputSecretName sr, s_GenerateName = '''',
     s_Namespace = cns,
     s_Labels = [(''app'', ''sudo-service''), (''role'', ''output''),
                 (''expires-at'', show_int (seconds t + ttlSecondsAfterApproval sr))],
     s_Owners = [ownerRef sr], s_Type = ''Opaque'', s_Data = [(''output'', retained)]\<rparr>"

text \<open>A capture that failed: retried while the pod is alive, recorded once the Job is terminal.\<close>

definition capture_failed :: "job \<Rightarrow> captured_output \<Rightarrow> string \<Rightarrow> gerr \<Rightarrow> captured_output res" where
  "capture_failed j result logContainer e =
     (if job_running j then Inl (Wrap (''fetch logs from '' @ logContainer) e)
      else Inr (result\<lparr>co_CaptureState := CaptureFailed,
                       co_FailureReason := ''fetch logs from '' @ logContainer @ '': '' @ error_text e\<rparr>))"

definition with_logs :: "captured_output \<Rightarrow> string \<Rightarrow> int \<Rightarrow> string \<Rightarrow> captured_output" where
  "with_logs result retained written digest = result\<lparr>
     co_CaptureState := (if written > int (length retained) then CaptureTruncated else CaptureComplete),
     co_TotalBytes := Some written, co_RetainedBytes := Some (int (length retained)), co_SHA256 := digest\<rparr>"

definition store_output :: "world \<Rightarrow> reconciler \<Rightarrow> sudo_request \<Rightarrow> job \<Rightarrow> captured_output \<Rightarrow> string \<Rightarrow>
    captured_output res prog" where
  "store_output W R sr j result retained = do {
     t \<leftarrow> now W;
     r \<leftarrow> create_secret W (output_secret (controllerNamespace R) sr t retained);
     let failure = ''create output secret: '' @ (case r of Inl e \<Rightarrow> error_text e | Inr _ \<Rightarrow> '''');
     State_Monad.return
       (if (case r of Inl e \<Rightarrow> \<not> is_already_exists e | Inr _ \<Rightarrow> False)
        then (if job_running j then Inl (Text failure)
              else Inr (result\<lparr>co_DeliveryState := DeliveryFailed, co_FailureReason := failure\<rparr>))
        else Inr (result\<lparr>co_SecretRef := outputSecretName sr, co_DeliveryState := DeliveryAvailable\<rparr>)) }"

definition capture_container :: "world \<Rightarrow> reconciler \<Rightarrow> sudo_request \<Rightarrow> job \<Rightarrow> string \<Rightarrow> string \<Rightarrow> int \<Rightarrow>
    captured_output res prog" where
  "capture_container W R sr j podName logContainer exitCode = do {
     logs \<leftarrow> pod_logs W (j_Namespace j) podName logContainer;
     case logs of
       Inl e \<Rightarrow> State_Monad.return (capture_failed j (captured_exit exitCode) logContainer e)
     | Inr stream \<Rightarrow>
         (case consumePodLogs (rc_lib R) stream of
            Inl e \<Rightarrow> State_Monad.return (capture_failed j (captured_exit exitCode) logContainer e)
          | Inr (retained, written, digest) \<Rightarrow>
              store_output W R sr j (with_logs (captured_exit exitCode) retained written digest) retained) }"

definition captureJobOutput :: "world \<Rightarrow> reconciler \<Rightarrow> sudo_request \<Rightarrow> job \<Rightarrow> captured_output res prog" where
  "captureJobOutput W R sr j =
     attempt (getJobPod W j) (\<lambda>pod.
       case pod of
         None \<Rightarrow> State_Monad.return (Inl (Text (''no pods for job '' @ j_Name j @ '' yet'')))
       | Some p \<Rightarrow>
           (case containerToReport p of
              Inl e \<Rightarrow> State_Monad.return (Inl e)
            | Inr (logContainer, exitCode) \<Rightarrow>
                capture_container W R sr j (p_Name p) logContainer exitCode))"

section \<open>What a capture reports\<close>

text \<open>
  An outcome of a capture, relative to the reply of the log call: the stored bytes are the bounded
  prefix of the stream, truncation is reported exactly when something was cut, and a capture or
  delivery failure is reported only for a Job that is terminal.
\<close>

definition stream_bytes :: "(string list \<times> gerr option) \<Rightarrow> string" where
  "stream_bytes s = concat (fst s)"

definition capture_report :: "lib \<Rightarrow> sudo_request \<Rightarrow> job \<Rightarrow> (string list \<times> gerr option) res \<Rightarrow>
    captured_output \<Rightarrow> bool" where
  "capture_report L sr j logs co =
     (case logs of
        Inr (chunks, None) \<Rightarrow>
          (let s = concat chunks in
           co_TotalBytes co = Some (int (length s)) \<and>
           co_RetainedBytes co = Some (int (min (length s) MaxOutputBytes)) \<and>
           co_SHA256 co = sha256_hex L s \<and>
           co_CaptureState co = (if length s > MaxOutputBytes then CaptureTruncated else CaptureComplete) \<and>
           (co_DeliveryState co = DeliveryAvailable \<and> co_SecretRef co = outputSecretName sr \<or>
            co_DeliveryState co = DeliveryFailed \<and> co_SecretRef co = '''' \<and> \<not> job_running j))
      | _ \<Rightarrow> co_CaptureState co = CaptureFailed \<and> co_DeliveryState co = DeliveryNone \<and>
             co_SecretRef co = '''' \<and> \<not> job_running j)"

lemma with_logs_report:
  "co_TotalBytes (with_logs r (take MaxOutputBytes s) (int (length s)) d) = Some (int (length s))"
  "co_RetainedBytes (with_logs r (take MaxOutputBytes s) (int (length s)) d) = Some (int (min (length s) MaxOutputBytes))"
  "co_SHA256 (with_logs r (take MaxOutputBytes s) (int (length s)) d) = d"
  "co_CaptureState (with_logs r (take MaxOutputBytes s) (int (length s)) d) =
     (if length s > MaxOutputBytes then CaptureTruncated else CaptureComplete)"
  "co_ExitCode (with_logs r w n d) = co_ExitCode r"
  by (auto simp: with_logs_def)

text \<open>The calls of a capture: one log read, then at most one Secret, with the bounded prefix.\<close>

definition capture_call :: "reconciler \<Rightarrow> sudo_request \<Rightarrow> nat \<Rightarrow> hist \<Rightarrow> call \<Rightarrow> bool" where
  "capture_call R sr n h c =
     (case c of
        CreateSecret s r \<Rightarrow>
          (\<exists>t chunks ns p ct.
             PodLogs ns p ct (Inr (chunks, None)) \<in> recent n h \<and>
             s = output_secret (controllerNamespace R) sr t (take MaxOutputBytes (concat chunks)))
      | ListPods ns l r \<Rightarrow> True
      | PodLogs ns p ct r \<Rightarrow> True
      | Now t \<Rightarrow> True
      | _ \<Rightarrow> False)"

lemma store_output_emits:
  assumes logs: "PodLogs ns p ct (Inr (chunks, None)) \<in> recent n h" and n: "n \<le> length h"
    and co: "co = with_logs (captured_exit code) (take MaxOutputBytes (concat chunks))
      (int (length (concat chunks))) (sha256_hex L (concat chunks))"
  shows "emits (capture_call R sr n) (store_output W R sr j co (take MaxOutputBytes (concat chunks)))
     (\<lambda>r h'. case r of
        Inl e \<Rightarrow> job_running j
      | Inr c \<Rightarrow> capture_report L sr j (Inr (chunks, None)) c \<and> co_ExitCode c = code) h"
proof -
  have base: "co_CaptureState co = (if length (concat chunks) > MaxOutputBytes then CaptureTruncated else CaptureComplete)"
    "co_TotalBytes co = Some (int (length (concat chunks)))" "co_SecretRef co = ''''"
    "co_RetainedBytes co = Some (int (min (length (concat chunks)) MaxOutputBytes))"
    "co_SHA256 co = sha256_hex L (concat chunks)" "co_ExitCode co = code"
    unfolding co with_logs_report by (simp_all add: captured_exit_def with_logs_def)
  have call: "capture_call R sr n h' (CreateSecret
      (output_secret (controllerNamespace R) sr t (take MaxOutputBytes (concat chunks))) r)"
    if "recent n h \<subseteq> recent n h'" for h' t r
    using logs that unfolding capture_call_def by (simp, blast)
  show ?thesis
    unfolding store_output_def Let_def
    by (intro emits_bind)
       (auto simp: n prims capture_report_def base Let_def split: sum.split intro!: emits_bind call;
        simp add: capture_call_def)
qed

lemma capture_failed_report:
  "case capture_failed j (captured_exit code) ct e of
     Inl _ \<Rightarrow> job_running j
   | Inr c \<Rightarrow> (\<forall>s. capture_report L sr j (Inl s) c) \<and> (\<forall>cs e'. capture_report L sr j (Inr (cs, Some e')) c) \<and>
       co_ExitCode c = code"
  by (auto simp: capture_failed_def capture_report_def captured_exit_def)

lemma capture_container_emits:
  assumes n: "n \<le> length h"
  shows "emits (capture_call R sr n) (capture_container W R sr j podName ct code)
     (\<lambda>r h'. case r of
        Inl e \<Rightarrow> job_running j
      | Inr co \<Rightarrow> \<exists>logs. PodLogs (j_Namespace j) podName ct logs \<in> recent n h' \<and>
          capture_report (rc_lib R) sr j logs co \<and> co_ExitCode co = code) h"
proof -
  let ?logs = "w_pod_logs W h (j_Namespace j) podName ct"
  have failed: "capture_failed j (captured_exit code) ct e = Inl e' \<Longrightarrow> job_running j"
    "capture_failed j (captured_exit code) ct e = Inr co \<Longrightarrow> co_ExitCode co = code \<and>
       (\<forall>s. capture_report (rc_lib R) sr j (Inl s) co) \<and> (\<forall>cs e'. capture_report (rc_lib R) sr j (Inr (cs, Some e')) co)"
    for e e' co
    using capture_failed_report [where j = j and code = code and ct = ct and e = e and L = "rc_lib R" and sr = sr]
    by auto
  show ?thesis
  proof (cases "\<exists>cs. ?logs = Inr (cs, None)")
    case True
    then obtain cs where cs: "?logs = Inr (cs, None)" by auto
    show ?thesis
      unfolding capture_container_def
      apply (rule emits_bind)
      apply (simp add: n prims cs consumePodLogs_eq capture_call_def)
      apply (rule emits_mono [OF store_output_emits [where L = "rc_lib R" and n = n]])
      using n apply (auto split: sum.splits)
      done
  next
    case False
    then show ?thesis
      unfolding capture_container_def
      by (intro emits_bind)
         (auto simp: n prims consumePodLogs_eq capture_call_def split: sum.split option.split dest!: failed)
  qed
qed

lemma captureJobOutput_emits:
  assumes n: "n \<le> length h"
  shows "emits (capture_call R sr n) (captureJobOutput W R sr j)
     (\<lambda>r h'. case r of
        Inl e \<Rightarrow> job_running j \<or> (\<exists>pods. h' = h @ [ListPods (j_Namespace j) (j_Name j) pods])
      | Inr co \<Rightarrow> \<exists>p ct logs. controlled_by (p_Owners p) (j_UID j) \<and>
          containerToReport p = Inr (ct, co_ExitCode co) \<and>
          PodLogs (j_Namespace j) (p_Name p) ct logs \<in> recent n h' \<and>
          capture_report (rc_lib R) sr j logs co) h"
proof -
  have found: "find (\<lambda>p. controlled_by (p_Owners p) (j_UID j)) pods = Some p \<Longrightarrow> controlled_by (p_Owners p) (j_UID j)" for pods p
    by (auto simp: find_Some_iff)
  show ?thesis
    unfolding captureJobOutput_def getJobPod_def
    apply (rule emits_attempt, rule emits_attempt_ctx)
    apply (auto simp: n prims capture_call_def split: sum.split option.split prod.split dest!: found
        intro!: emits_bind emits_mono [OF capture_container_emits])
    using n apply simp
    apply blast+
    done
qed

end
