(* ===== verification/Jobs.thy ===== *)
theory Jobs
  imports Output
begin

text \<open>
  The operations of \<^verbatim>\<open>executor.go\<close> on the executor Job: finding, creating and
  stopping it, its stdin Secret, the check of the Secrets it refers to, and the start deadline.
  The lemmas give, for each operation, every call it can make.
\<close>

definition getExecutorJob :: "world \<Rightarrow> reconciler \<Rightarrow> sudo_request \<Rightarrow> job option res prog" where
  "getExecutorJob W R sr = do {
     r \<leftarrow> get_job W (executorNamespace sr (controllerNamespace R)) (ExecutorJobName (Status sr));
     State_Monad.return (case r of
         Inl e \<Rightarrow> if is_not_found e then Inr None else Inl e
       | Inr j \<Rightarrow> Inr (Some j)) }"

definition stopJob :: "world \<Rightarrow> job \<Rightarrow> gerr option prog" where
  "stopJob W j = do {
     r \<leftarrow> delete_job W (j_Namespace j) (j_Name j) None;
     State_Monad.return (case r of Some e \<Rightarrow> if is_not_found e then None else Some e | None \<Rightarrow> None) }"

section \<open>Referenced Secrets\<close>

definition env_secret_names :: "env_var list \<Rightarrow> env_from list \<Rightarrow> string list" where
  "env_secret_names env envFrom =
     concat (map (\<lambda>e. case ev_ValueFrom e of
         Some src \<Rightarrow> (case es_SecretKeyRef src of Some (n, k) \<Rightarrow> [n] | None \<Rightarrow> [])
       | None \<Rightarrow> []) env) @
     concat (map (\<lambda>ef. case ef_SecretRef ef of Some n \<Rightarrow> [n] | None \<Rightarrow> []) envFrom)"

definition referenced_secrets :: "pod_extras \<Rightarrow> string list" where
  "referenced_secrets x =
     concat (map (\<lambda>v. case v_Secret v of
         Some s \<Rightarrow> if ss_SecretName s \<noteq> '''' then [ss_SecretName s] else []
       | None \<Rightarrow> []) (px_Volumes x)) @
     env_secret_names (px_Env x) (px_EnvFrom x) @
     concat (map (\<lambda>c. env_secret_names (c_Env c) (c_EnvFrom c)) (px_InitContainers x))"

definition service_account_token :: string where
  "service_account_token = ''kubernetes.io/service-account-token''"

definition check_secret :: "world \<Rightarrow> string \<Rightarrow> string \<Rightarrow> gerr option prog" where
  "check_secret W ns n = do {
     r \<leftarrow> get_secret W False ns n;
     State_Monad.return (case r of
         Inl e \<Rightarrow> if is_not_found e then Some (DisallowedSecret n True) else Some e
       | Inr sec \<Rightarrow> if s_Type sec = service_account_token then Some (DisallowedSecret n False) else None) }"

definition rejectServiceAccountTokenSecrets :: "world \<Rightarrow> string \<Rightarrow> pod_extras \<Rightarrow> gerr option prog" where
  "rejectServiceAccountTokenSecrets W ns x = do {
     names \<leftarrow> go_range W (referenced_secrets x);
     first_err (check_secret W ns) names }"

section \<open>The stdin Secret\<close>

definition stdin_secret :: "sudo_request \<Rightarrow> job \<Rightarrow> secret" where
  "stdin_secret sr j = \<lparr>s_Name = StdinSecretName (Status sr), s_GenerateName = '''',
     s_Namespace = j_Namespace j, s_Labels = [(''app'', ''sudo-service''), (''role'', ''stdin'')],
     s_Owners = [\<lparr>or_APIVersion = ''batch/v1'', or_Kind = ''Job'', or_Name = j_Name j,
       or_UID = j_UID j, or_Controller = Some True, or_BlockOwnerDeletion = Some False\<rparr>],
     s_Type = ''Opaque'', s_Data = [(''stdin'', Stdin (Spec sr))]\<rparr>"

definition stdin_secret_ours :: "sudo_request \<Rightarrow> job \<Rightarrow> secret \<Rightarrow> bool" where
  "stdin_secret_ours sr j existing \<longleftrightarrow>
     list_ex (\<lambda>r. or_UID r = j_UID j \<and> or_Kind r = ''Job'') (s_Owners existing) \<and>
     map_get (s_Data existing) ''stdin'' = Stdin (Spec sr)"

definition ensureStdinSecret :: "world \<Rightarrow> sudo_request \<Rightarrow> job \<Rightarrow> gerr option prog" where
  "ensureStdinSecret W sr j =
     (if Stdin (Spec sr) = '''' then State_Monad.return None
      else do {
        r \<leftarrow> create_secret W (stdin_secret sr j);
        case r of
          Inr _ \<Rightarrow> State_Monad.return None
        | Inl e \<Rightarrow>
            if \<not> is_already_exists e then State_Monad.return (Some (Wrap ''create stdin secret'' e))
            else do {
              r \<leftarrow> get_secret W False (j_Namespace j) (StdinSecretName (Status sr));
              State_Monad.return (case r of
                  Inl e \<Rightarrow> Some (Wrap ''get existing stdin secret'' e)
                | Inr existing \<Rightarrow> if stdin_secret_ours sr j existing then None else Some ForeignChildObject) } })"

section \<open>findOrCreateJob\<close>

definition adopt_job :: "world \<Rightarrow> reconciler \<Rightarrow> sudo_request \<Rightarrow> job \<Rightarrow> job res prog" where
  "adopt_job W R sr j =
     (let cns = controllerNamespace R; ns = executorNamespace sr cns in
      if j_DeletionTimestamp j \<noteq> None
      then State_Monad.return (Inl (Text (''executor Job '' @ j_Name j @ '' is terminating; waiting for deletion'')))
      else if ns \<noteq> cns then State_Monad.return (Inl ForeignChildObject)
      else do {
        r \<leftarrow> ensureStdinSecret W sr j;
        State_Monad.return (case r of Some e \<Rightarrow> Inl e | None \<Rightarrow> Inr j) })"

definition executor_job :: "reconciler \<Rightarrow> sudo_request \<Rightarrow> pod_extras \<Rightarrow> job" where
  "executor_job R sr x =
     buildExecutorJob (rc_lib R) (rc_rules R) sr (executorNamespace sr (controllerNamespace R))
       (ExecutorJobName (Status sr)) x (controllerNamespace R)"

definition start_job :: "world \<Rightarrow> reconciler \<Rightarrow> sudo_request \<Rightarrow> pod_extras \<Rightarrow> job res prog" where
  "start_job W R sr x =
     attempt_ctx ''create job'' (create_job W (executor_job R sr x)) (\<lambda>j. do {
       r \<leftarrow> ensureStdinSecret W sr j;
       case r of
         None \<Rightarrow> State_Monad.return (Inr j)
       | Some e \<Rightarrow> do {
           d \<leftarrow> stopJob W j;
           State_Monad.return (case d of
               Some delErr \<Rightarrow> Inl (Wrap (''roll back job after stdin secret error ('' @ error_text e @ '')'') delErr)
             | None \<Rightarrow> Inl e) } })"

definition findOrCreateJob :: "world \<Rightarrow> reconciler \<Rightarrow> sudo_request \<Rightarrow> job res prog" where
  "findOrCreateJob W R sr = do {
     let cns = controllerNamespace R;
     let ns = executorNamespace sr cns;
     r \<leftarrow> get_job W ns (ExecutorJobName (Status sr));
     case r of
       Inr j \<Rightarrow> adopt_job W R sr j
     | Inl e \<Rightarrow>
         if \<not> is_not_found e then State_Monad.return (Inl e)
         else (case decodePodExtras (rc_lib R) sr of
             Inl e \<Rightarrow> State_Monad.return (Inl (Wrap ''decode pod extras'' e))
           | Inr x \<Rightarrow>
               if clusterAdminEnabled sr cns then start_job W R sr x
               else do {
                 bad \<leftarrow> rejectServiceAccountTokenSecrets W ns x;
                 case bad of
                   Some e \<Rightarrow> State_Monad.return (Inl e)
                 | None \<Rightarrow> start_job W R sr x }) }"

section \<open>The start deadline\<close>

definition executorStartTimedOut :: "world \<Rightarrow> job \<Rightarrow> (bool \<times> string) res prog" where
  "executorStartTimedOut W j =
     attempt (getJobPod W j) (\<lambda>p.
       case p of
         None \<Rightarrow> do {
           t \<leftarrow> now W;
           State_Monad.return (Inr (time_sub t (j_CreationTimestamp j) > ExecutorStartDeadline * second,
             ''no pod scheduled'')) }
       | Some p \<Rightarrow>
           if executorStarted p then State_Monad.return (Inr (False, ''''))
           else do {
             t \<leftarrow> now W;
             State_Monad.return (Inr (time_sub t (executorWaitStart p j) > ExecutorStartDeadline * second,
               podWaitReason p)) })"

section \<open>Every call these operations make\<close>

lemma getExecutorJob_emits:
  assumes "n \<le> length h"
  shows "emits (\<lambda>_ c. \<exists>r. c = GetJob (executorNamespace sr (controllerNamespace R)) (ExecutorJobName (Status sr)) r)
     (getExecutorJob W R sr)
     (\<lambda>r h'. case r of
        Inr (Some j) \<Rightarrow> h' = h @ [GetJob (executorNamespace sr (controllerNamespace R)) (ExecutorJobName (Status sr)) (Inr j)]
      | Inr None \<Rightarrow> (\<exists>e. is_not_found e \<and>
          h' = h @ [GetJob (executorNamespace sr (controllerNamespace R)) (ExecutorJobName (Status sr)) (Inl e)])
      | Inl e \<Rightarrow> h' = h @ [GetJob (executorNamespace sr (controllerNamespace R)) (ExecutorJobName (Status sr)) (Inl e)]) h"
  unfolding getExecutorJob_def
  by (intro emits_bind) (auto simp: prims split: sum.split)

lemma stopJob_emits:
  "emits (\<lambda>_ c. \<exists>r. c = DeleteJob (j_Namespace j) (j_Name j) None r) (stopJob W j)
     (\<lambda>r h'. \<exists>d. h' = h @ [DeleteJob (j_Namespace j) (j_Name j) None d] \<and>
        (r = None \<longleftrightarrow> d = None \<or> (\<exists>e. d = Some e \<and> is_not_found e))) h"
  unfolding stopJob_def
  by (intro emits_bind) (auto simp: prims split: option.split)

text \<open>A Secret passes the check only when it was read, exists, and is not an API credential.\<close>

definition secret_checked :: "string \<Rightarrow> call set \<Rightarrow> string \<Rightarrow> bool" where
  "secret_checked ns cs n \<longleftrightarrow> (\<exists>sec. GetSecret False ns n (Inr sec) \<in> cs \<and> s_Type sec \<noteq> service_account_token)"

lemma secret_checked_mono: "secret_checked ns A n \<Longrightarrow> A \<subseteq> B \<Longrightarrow> secret_checked ns B n"
  by (auto simp: secret_checked_def)

lemma check_secret_emits:
  "emits (\<lambda>_ c. \<exists>n r. c = GetSecret False ns n r) (check_secret W ns x)
     (\<lambda>r h'. r = None \<longrightarrow>
        (\<exists>sec. h' = h @ [GetSecret False ns x (Inr sec)] \<and> s_Type sec \<noteq> service_account_token)) h"
  unfolding check_secret_def
  by (intro emits_bind) (auto simp: prims split: sum.split)

lemma first_check_emits:
  "m \<le> length h \<Longrightarrow> emits (\<lambda>_ c. \<exists>n r. c = GetSecret False ns n r) (first_err (check_secret W ns) names)
     (\<lambda>r h'. r = None \<longrightarrow> (\<forall>n\<in>set names. secret_checked ns (recent m h') n)) h"
proof (induction names arbitrary: h)
  case Nil
  then show ?case by simp
next
  case (Cons x xs)
  have "emits (\<lambda>_ c. \<exists>n r. c = GetSecret False ns n r) (first_err (check_secret W ns) xs)
     (\<lambda>r h'. r = None \<longrightarrow> (\<forall>n\<in>set (x # xs). secret_checked ns (recent m h') n))
     (h @ [GetSecret False ns x (Inr sec)])" if "s_Type sec \<noteq> service_account_token" for sec
    using that Cons.prems by (intro emits_mono [OF Cons.IH]) (auto simp: secret_checked_def)
  then show ?case
    unfolding first_err.simps
    by (intro emits_bind) (auto intro!: emits_mono [OF check_secret_emits] split: option.split)
qed

lemma reject_emits:
  assumes "m \<le> length h"
  shows "emits (\<lambda>_ c. \<exists>n r. c = GetSecret False ns n r) (rejectServiceAccountTokenSecrets W ns x)
     (\<lambda>r h'. r = None \<longrightarrow> (\<forall>n\<in>set (referenced_secrets x). secret_checked ns (recent m h') n)) h"
  unfolding rejectServiceAccountTokenSecrets_def
  by (intro emits_bind emits_go_range) (rule emits_mono [OF first_check_emits [OF assms]], auto)

text \<open>The payload is in place: our Secret was stored, or the one that exists is ours with its bytes.\<close>

definition stdin_ready :: "sudo_request \<Rightarrow> job \<Rightarrow> call set \<Rightarrow> bool" where
  "stdin_ready sr j cs \<longleftrightarrow> Stdin (Spec sr) = '''' \<or>
     (\<exists>s. CreateSecret (stdin_secret sr j) (Inr s) \<in> cs) \<or>
     (\<exists>s. GetSecret False (j_Namespace j) (StdinSecretName (Status sr)) (Inr s) \<in> cs \<and> stdin_secret_ours sr j s)"

definition stdin_call :: "sudo_request \<Rightarrow> job \<Rightarrow> call \<Rightarrow> bool" where
  "stdin_call sr j c =
     (case c of
        CreateSecret s r \<Rightarrow> s = stdin_secret sr j \<and> Stdin (Spec sr) \<noteq> ''''
      | GetSecret cached ns n r \<Rightarrow> \<not> cached \<and> ns = j_Namespace j \<and> n = StdinSecretName (Status sr)
      | _ \<Rightarrow> False)"

lemma ensureStdinSecret_emits:
  assumes "n \<le> length h"
  shows "emits (\<lambda>_. stdin_call sr j) (ensureStdinSecret W sr j)
     (\<lambda>r h'. r = None \<longrightarrow> stdin_ready sr j (recent n h')) h"
  using assms unfolding ensureStdinSecret_def
  by (auto simp: prims stdin_call_def stdin_ready_def split: sum.split intro!: emits_bind; blast)

text \<open>
  The calls of \<open>findOrCreateJob\<close>.  A Job is created only when an uncached read found none at the
  minted name, only as the Job rendered from the request, and, for an executor without cluster-admin,
  only after every Secret it refers to was read and is not an API credential.  What is deleted is a
  Job this run has created; what is stored is the stdin payload of a Job adopted or created here.
\<close>

definition job_site :: "reconciler \<Rightarrow> sudo_request \<Rightarrow> string \<times> string" where
  "job_site R sr = (executorNamespace sr (controllerNamespace R), ExecutorJobName (Status sr))"

definition created_here :: "reconciler \<Rightarrow> sudo_request \<Rightarrow> call set \<Rightarrow> job \<Rightarrow> bool" where
  "created_here R sr cs j \<longleftrightarrow>
     (\<exists>x. decodePodExtras (rc_lib R) sr = Inr x \<and> CreateJob (executor_job R sr x) (Inr j) \<in> cs)"

definition adopted_here :: "reconciler \<Rightarrow> sudo_request \<Rightarrow> call set \<Rightarrow> job \<Rightarrow> bool" where
  "adopted_here R sr cs j \<longleftrightarrow>
     GetJob (fst (job_site R sr)) (snd (job_site R sr)) (Inr j) \<in> cs \<and>
     fst (job_site R sr) = controllerNamespace R \<and> j_DeletionTimestamp j = None"

definition may_create :: "reconciler \<Rightarrow> sudo_request \<Rightarrow> call set \<Rightarrow> job \<Rightarrow> bool" where
  "may_create R sr cs j \<longleftrightarrow>
     (\<exists>x e. decodePodExtras (rc_lib R) sr = Inr x \<and> j = executor_job R sr x \<and>
        is_not_found e \<and> GetJob (fst (job_site R sr)) (snd (job_site R sr)) (Inl e) \<in> cs \<and>
        (clusterAdminEnabled sr (controllerNamespace R) \<or>
         (\<forall>s\<in>set (referenced_secrets x). secret_checked (fst (job_site R sr)) cs s)))"

definition job_call :: "reconciler \<Rightarrow> sudo_request \<Rightarrow> nat \<Rightarrow> hist \<Rightarrow> call \<Rightarrow> bool" where
  "job_call R sr n h c =
     (case c of
        CreateJob j r \<Rightarrow> may_create R sr (recent n h) j
      | DeleteJob ns nm uid r \<Rightarrow>
          (\<exists>j. created_here R sr (recent n h) j \<and> ns = j_Namespace j \<and> nm = j_Name j)
      | CreateSecret s r \<Rightarrow>
          Stdin (Spec sr) \<noteq> '''' \<and>
          (\<exists>j. s = stdin_secret sr j \<and> (created_here R sr (recent n h) j \<or> adopted_here R sr (recent n h) j))
      | GetJob ns nm r \<Rightarrow> (ns, nm) = job_site R sr
      | GetSecret cached ns nm r \<Rightarrow> \<not> cached
      | _ \<Rightarrow> False)"

lemma created_here_mono: "created_here R sr A j \<Longrightarrow> A \<subseteq> B \<Longrightarrow> created_here R sr B j"
  by (auto simp: created_here_def)

lemma adopted_here_mono: "adopted_here R sr A j \<Longrightarrow> A \<subseteq> B \<Longrightarrow> adopted_here R sr B j"
  by (auto simp: adopted_here_def)

lemma stdin_call_job:
  assumes "stdin_call sr j c" and "created_here R sr A j \<or> adopted_here R sr A j" and "A \<subseteq> recent n h"
  shows "job_call R sr n h c"
proof -
  from assms(2,3) have "created_here R sr (recent n h) j \<or> adopted_here R sr (recent n h) j"
    using created_here_mono adopted_here_mono by blast
  with assms(1) show ?thesis by (auto simp: stdin_call_def job_call_def split: call.splits)
qed

lemma ensureStdin_job_emits:
  assumes n: "n \<le> length h" and j: "created_here R sr (recent n h) j \<or> adopted_here R sr (recent n h) j"
  shows "emits (job_call R sr n) (ensureStdinSecret W sr j)
     (\<lambda>r h'. recent n h \<subseteq> recent n h' \<and> (r = None \<longrightarrow> stdin_ready sr j (recent n h'))) h"
proof (rule emits_mono2 [OF ensureStdinSecret_emits [OF n]])
  show "job_call R sr n (h @ t) c" if "stdin_call sr j c" for t c
    using that j by (rule stdin_call_job) (simp add: n)
qed (use n in auto)

text \<open>What \<open>findOrCreateJob\<close> returns: a Job adopted or created in this run, with its payload.\<close>

definition found_job :: "reconciler \<Rightarrow> sudo_request \<Rightarrow> nat \<Rightarrow> job res \<Rightarrow> hist \<Rightarrow> bool" where
  "found_job R sr n r h = (case r of
     Inl e \<Rightarrow> True
   | Inr j \<Rightarrow> (created_here R sr (recent n h) j \<or> adopted_here R sr (recent n h) j) \<and>
       stdin_ready sr j (recent n h))"

lemma adopt_job_emits:
  assumes n: "n \<le> length h" and j: "GetJob (fst (job_site R sr)) (snd (job_site R sr)) (Inr j) \<in> recent n h"
  shows "emits (job_call R sr n) (adopt_job W R sr j) (found_job R sr n) h"
proof -
  have ensure: "emits (job_call R sr n) (ensureStdinSecret W sr j)
     (\<lambda>r h'. recent n h \<subseteq> recent n h' \<and> (r = None \<longrightarrow> stdin_ready sr j (recent n h'))) h"
    if "j_DeletionTimestamp j = None" "fst (job_site R sr) = controllerNamespace R"
    using j that n by (intro ensureStdin_job_emits) (simp_all add: adopted_here_def)
  show ?thesis
    unfolding adopt_job_def
    using j by (auto simp: Let_def found_job_def job_site_def adopted_here_def split: option.split
        intro!: emits_bind emits_mono [OF ensure])
qed

lemma stopJob_job_emits:
  assumes n: "n \<le> length h" and j: "created_here R sr (recent n h) j"
  shows "emits (job_call R sr n) (stopJob W j) (\<lambda>r h'. True) h"
proof (rule emits_mono2 [OF stopJob_emits])
  fix t c
  assume "\<exists>r. c = DeleteJob (j_Namespace j) (j_Name j) None r"
  moreover have "created_here R sr (recent n (h @ t)) j"
    using j by (rule created_here_mono) (simp add: n)
  ultimately show "job_call R sr n (h @ t) c" by (auto simp: job_call_def)
qed simp

lemma start_job_emits:
  assumes n: "n \<le> length h" and may: "may_create R sr (recent n h) (executor_job R sr x)"
    and x: "decodePodExtras (rc_lib R) sr = Inr x"
  shows "emits (job_call R sr n) (start_job W R sr x) (found_job R sr n) h"
proof -
  let ?c = "CreateJob (executor_job R sr x)"
  have created: "created_here R sr (insert (?c (Inr j)) cs) j" for j cs
    using x by (auto simp: created_here_def)
  have ensure: "emits (job_call R sr n) (ensureStdinSecret W sr j)
     (\<lambda>r h'. recent n (h @ [?c (Inr j)]) \<subseteq> recent n h' \<and> (r = None \<longrightarrow> stdin_ready sr j (recent n h')))
     (h @ [?c (Inr j)])" for j
    using n by (intro ensureStdin_job_emits) (simp_all add: created)
  have stop: "emits (job_call R sr n) (stopJob W j) (\<lambda>r h'. True) (h @ ?c (Inr j) # t)" for j t
    using n by (intro stopJob_job_emits) (simp_all add: created)
  show ?thesis
    unfolding start_job_def
    using may n
    by (auto simp: prims job_call_def [of _ _ _ _ "CreateJob _ _"] found_job_def created split: sum.split option.split
        intro!: emits_attempt_ctx emits_bind emits_mono [OF ensure] emits_mono [OF stop])
qed

lemma findOrCreateJob_emits:
  assumes n: "n \<le> length h"
  shows "emits (job_call R sr n) (findOrCreateJob W R sr) (found_job R sr n) h"
proof -
  let ?g = "GetJob (fst (job_site R sr)) (snd (job_site R sr))"
  have adopt: "emits (job_call R sr n) (adopt_job W R sr j) (found_job R sr n) (h @ [?g (Inr j)])" for j
    using n by (intro adopt_job_emits) simp_all
  have start: "emits (job_call R sr n) (start_job W R sr x) (found_job R sr n) (h @ ?g (Inl e) # t)"
    if "decodePodExtras (rc_lib R) sr = Inr x" "is_not_found e"
      "clusterAdminEnabled sr (controllerNamespace R) \<or>
       (\<forall>s\<in>set (referenced_secrets x). secret_checked (fst (job_site R sr)) (recent n (h @ ?g (Inl e) # t)) s)"
    for x e t
    using that n by (intro start_job_emits) (auto simp: may_create_def)
  have start0: "emits (job_call R sr n) (start_job W R sr x) (found_job R sr n) (h @ [?g (Inl e)])"
    if "decodePodExtras (rc_lib R) sr = Inr x" "is_not_found e" "clusterAdminEnabled sr (controllerNamespace R)"
    for x e
    using start [of x e "[]"] that by simp
  have reject: "emits (job_call R sr n) (rejectServiceAccountTokenSecrets W (fst (job_site R sr)) x)
     (\<lambda>r h'. (\<exists>t. h' = h @ ?g (Inl e) # t) \<and>
        (r = None \<longrightarrow> (\<forall>s\<in>set (referenced_secrets x). secret_checked (fst (job_site R sr)) (recent n h') s)))
     (h @ [?g (Inl e)])" for x e
    by (rule emits_mono2 [OF reject_emits [where m = n]]) (use n in \<open>auto simp: job_call_def\<close>)
  show ?thesis
    unfolding findOrCreateJob_def Let_def
    by (rule emits_bind)
       (auto simp: prims job_call_def [of _ _ _ _ "GetJob _ _ _"] job_site_def found_job_def [of _ _ _ "Inl _"]
          split: sum.split option.split
          intro!: emits_bind adopt [unfolded job_site_def fst_conv snd_conv]
            start0 [unfolded job_site_def fst_conv snd_conv] start [unfolded job_site_def fst_conv snd_conv]
            emits_mono [OF reject [unfolded job_site_def fst_conv snd_conv]])
qed

end
