(* ===== verification/Playbooks.thy ===== *)
theory Playbooks
  imports Jobs "HOL-Library.List_Lexorder"
begin

text \<open>
  \<^verbatim>\<open>playbooks.go\<close>: the one typed playbook, \<^verbatim>\<open>job.cleanup-terminal/v1\<close>,
  which may be approved and carried out without a human.  The lemmas show when it is approved, that a
  Job is deleted only under its recorded UID and only when terminal, and that the command the
  reviewer reads is the action taken.
\<close>

definition terminalJobCleanupPlaybook :: string where
  "terminalJobCleanupPlaybook = ''job.cleanup-terminal/v1''"

definition playbookName :: "sudo_request \<Rightarrow> string" where
  "playbookName sr = (case Playbook (Spec sr) of None \<Rightarrow> '''' | Some pb \<Rightarrow> pb_Name pb)"

section \<open>The configuration\<close>

definition validate_rule_prefix :: "lib \<Rightarrow> string \<Rightarrow> gerr option" where
  "validate_rule_prefix L pre =
     (if pre = '''' \<or> length pre > 63 then Some (PlaybookError (RulePrefixLength pre))
      else case dns1123_subdomain L (trim_suffix pre ''-'') of
        [] \<Rightarrow> None
      | ps \<Rightarrow> Some (PlaybookError (RulePrefix pre ps)))"

definition validate_rule_cronjob :: "lib \<Rightarrow> string \<Rightarrow> gerr option" where
  "validate_rule_cronjob L n =
     (case dns1123_subdomain L n of [] \<Rightarrow> None | ps \<Rightarrow> Some (PlaybookError (RuleCronJob n ps)))"

definition validateTerminalJobCleanupRule :: "lib \<Rightarrow> cleanup_rule \<Rightarrow> gerr option" where
  "validateTerminalJobCleanupRule L rule =
     (if cr_Requester rule = '''' then Some (PlaybookError RuleRequester)
      else case dns1123_label L (cr_Namespace rule) of
        p # ps \<Rightarrow> Some (PlaybookError (RuleNamespace (cr_Namespace rule) (p # ps)))
      | [] \<Rightarrow>
          if cr_CronJobs rule = [] \<and> cr_StandaloneNamePrefixes rule = []
          then Some (PlaybookError RuleNoFamilies)
          else case first_some (validate_rule_cronjob L) (cr_CronJobs rule) of
            Some e \<Rightarrow> Some e
          | None \<Rightarrow> first_some (validate_rule_prefix L) (cr_StandaloneNamePrefixes rule))"

fun validate_rules :: "lib \<Rightarrow> nat \<Rightarrow> cleanup_rule list \<Rightarrow> gerr option" where
  "validate_rules L i [] = None"
| "validate_rules L i (r # rs) =
     (case validateTerminalJobCleanupRule L r of
        Some e \<Rightarrow> Some (Wrap (''terminalJobCleanup['' @ show_digits i @ '']'') e)
      | None \<Rightarrow> validate_rules L (Suc i) rs)"

text \<open>
  \<open>LoadPlaybookConfig\<close>, with the reading of the file and its strict decoding as arguments.
\<close>

definition LoadPlaybookConfig :: "lib \<Rightarrow> (string \<Rightarrow> string + string) \<Rightarrow> (string \<Rightarrow> string + cleanup_rule list) \<Rightarrow>
    string \<Rightarrow> cleanup_rule list res" where
  "LoadPlaybookConfig L readFile unmarshal path =
     (if path = '''' then Inr []
      else case readFile path of
        Inl err \<Rightarrow> Inl (Wrap (''read playbook config '' @ path) (Text err))
      | Inr content \<Rightarrow>
     (case unmarshal content of
        Inl err \<Rightarrow> Inl (Wrap (''unmarshal playbook config '' @ path) (Text err))
      | Inr rules \<Rightarrow>
     (case validate_rules L 0 rules of Some e \<Rightarrow> Inl e | None \<Rightarrow> Inr rules)))"

section \<open>The request\<close>

definition terminalJobCleanupParameters :: "lib \<Rightarrow> sudo_request \<Rightarrow> (string \<times> string) res" where
  "terminalJobCleanupParameters L sr =
     (if playbookName sr \<noteq> terminalJobCleanupPlaybook then Inl (PlaybookError (UnsupportedPlaybook (playbookName sr)))
      else case Playbook (Spec sr) of
        None \<Rightarrow> Inl (PlaybookError (UnsupportedPlaybook (playbookName sr)))
      | Some pb \<Rightarrow>
          if length (pb_Parameters pb) \<noteq> 2
          then Inl (PlaybookError (ParameterKeys (sort (map fst (pb_Parameters pb)))))
          else (case (map_of (pb_Parameters pb) ''namespace'', map_of (pb_Parameters pb) ''name'') of
              (Some ns, Some n) \<Rightarrow>
                (case dns1123_label L ns of
                   p # ps \<Rightarrow> Inl (PlaybookError (ParameterNamespace ns (p # ps)))
                 | [] \<Rightarrow> (case dns1123_subdomain L n of
                     p # ps \<Rightarrow> Inl (PlaybookError (ParameterJobName n (p # ps)))
                   | [] \<Rightarrow> Inr (ns, n)))
            | _ \<Rightarrow> Inl (PlaybookError ParameterNames)))"

definition terminalJobCleanupCommand :: "string \<Rightarrow> string \<Rightarrow> string" where
  "terminalJobCleanupCommand ns n =
     ''kubectl delete job '' @ n @ '' -n '' @ ns @ '' --ignore-not-found=true --wait=false''"

definition validatePlaybookSpec :: "lib \<Rightarrow> sudo_request \<Rightarrow> gerr option" where
  "validatePlaybookSpec L sr =
     (if Playbook (Spec sr) = None then None
      else case terminalJobCleanupParameters L sr of
        Inl e \<Rightarrow> Some e
      | Inr (ns, n) \<Rightarrow>
          if Command (Spec sr) \<noteq> terminalJobCleanupCommand ns n
          then Some (PlaybookError (CommandNotCanonical (terminalJobCleanupCommand ns n)))
          else if SpecImage (Spec sr) \<noteq> '''' \<or> Profile (Spec sr) \<noteq> '''' \<or> hasPodSpecExtras sr
          then Some (PlaybookError PlaybookExtras)
          else None)"

section \<open>Matching the target\<close>

definition jobTerminal :: "job \<Rightarrow> bool" where
  "jobTerminal j \<longleftrightarrow>
     list_ex (\<lambda>(t, s). s = ''True'' \<and> (t = ''Complete'' \<or> t = ''Failed'')) (j_Conditions j)"

definition matchesTerminalJobRule :: "job \<Rightarrow> cleanup_rule \<Rightarrow> bool" where
  "matchesTerminalJobRule j rule =
     (case find (\<lambda>w. or_Controller w = Some True) (j_Owners j) of
        Some w \<Rightarrow> or_APIVersion w = ''batch/v1'' \<and> or_Kind w = ''CronJob'' \<and> or_Name w \<in> set (cr_CronJobs rule)
      | None \<Rightarrow>
          if j_Owners j \<noteq> [] then False
          else list_ex (\<lambda>pre. has_prefix (j_Name j) pre) (cr_StandaloneNamePrefixes rule))"

definition absent_name_matches :: "string \<Rightarrow> cleanup_rule \<Rightarrow> bool" where
  "absent_name_matches n rule \<longleftrightarrow>
     list_ex (\<lambda>cronJob. has_prefix n (cronJob @ ''-'')) (cr_CronJobs rule) \<or>
     list_ex (\<lambda>pre. has_prefix n pre) (cr_StandaloneNamePrefixes rule)"

record prepared_playbook =
  pp_targetUID :: string
  pp_targetAbsent :: bool

definition matching_rules :: "reconciler \<Rightarrow> sudo_request \<Rightarrow> string \<Rightarrow> cleanup_rule list \<Rightarrow> cleanup_rule list" where
  "matching_rules R sr ns rules =
     filter (\<lambda>rule. cr_Requester rule = Requester (Spec sr) \<and> cr_Namespace rule = ns) rules"

text \<open>The decision on the answer of the uncached read: a preparation, or why a human is needed.\<close>

definition decide_playbook :: "cleanup_rule list \<Rightarrow> string \<Rightarrow> job res \<Rightarrow> (prepared_playbook option \<times> string) res" where
  "decide_playbook matching n r =
     (case r of
        Inl e \<Rightarrow>
          if is_not_found e
          then (if list_ex (absent_name_matches n) matching
                then Inr (Some \<lparr>pp_targetUID = '''', pp_targetAbsent = True\<rparr>, '''')
                else Inr (None, ''missing Job name is outside the allowlisted families''))
          else Inl e
      | Inr j \<Rightarrow>
          if \<not> jobTerminal j then Inr (None, ''target Job is not terminal'')
          else if list_ex (matchesTerminalJobRule j) matching
          then Inr (Some \<lparr>pp_targetUID = j_UID j, pp_targetAbsent = False\<rparr>, '''')
          else Inr (None, ''target Job ownership/name is outside the allowlist''))"

definition prepareAutoApprovedPlaybook :: "world \<Rightarrow> reconciler \<Rightarrow> sudo_request \<Rightarrow>
    (prepared_playbook option \<times> string) res prog" where
  "prepareAutoApprovedPlaybook W R sr =
     (if Playbook (Spec sr) = None then State_Monad.return (Inr (None, ''''))
      else case terminalJobCleanupParameters (rc_lib R) sr of
        Inl e \<Rightarrow> State_Monad.return (Inl e)
      | Inr (ns, n) \<Rightarrow>
          (case rc_Playbooks R of
             None \<Rightarrow> State_Monad.return (Inr (None, ''playbook auto-approval is not configured''))
           | Some rules \<Rightarrow>
               (let matching = matching_rules R sr ns rules in
                if matching = []
                then State_Monad.return (Inr (None, ''requester and namespace are not allowlisted for this playbook''))
                else do {
                  r \<leftarrow> get_job W ns n;
                  State_Monad.return (decide_playbook matching n r) })))"

section \<open>Carrying it out\<close>

definition set_playbook_executed :: "sudo_request_status \<Rightarrow> sudo_request_status" where
  "set_playbook_executed s = s\<lparr>Phase := Executed, ExitCode := Some 0, FailureReason := ''''\<rparr>"

interpretation playbook_executed: phase_setting set_playbook_executed Executed
  by unfold_locales (simp_all add: set_playbook_executed_def writes_once_def)

definition markPlaybookExecuted :: "world \<Rightarrow> sudo_request \<Rightarrow> string \<Rightarrow> gerr option prog" where
  "markPlaybookExecuted W sr msg = do {
     r \<leftarrow> updateStatus W sr set_playbook_executed;
     case r of
       (sr, Some e) \<Rightarrow> State_Monad.return (Some e)
     | (sr, None) \<Rightarrow> do {
         record_event ''Normal'' ''Executed'' (''Playbook '' @ playbookName sr @ '': '' @ msg);
         publish (UID sr) ((phase_event sr Executed)\<lparr>e_ExitCode := Some 0\<rparr>);
         State_Monad.return None } }"

text \<open>
  \<open>return true, ctrl.Result\{\}, err\<close>; the result of \<open>markFailed\<close> is dropped, its error kept.
\<close>

definition handled :: "gerr option prog \<Rightarrow> reconcile_result option prog" where
  "handled m = do { e \<leftarrow> m; State_Monad.return (Some (case e of Some e \<Rightarrow> Inl e | None \<Rightarrow> Inr done_result)) }"

definition mark_failed_err :: "world \<Rightarrow> sudo_request \<Rightarrow> string \<Rightarrow> gerr option prog" where
  "mark_failed_err W sr reason = do {
     r \<leftarrow> markFailed W sr reason;
     State_Monad.return (case r of Inl e \<Rightarrow> Some e | Inr _ \<Rightarrow> None) }"

definition delete_target :: "world \<Rightarrow> sudo_request \<Rightarrow> job \<Rightarrow> reconcile_result option prog" where
  "delete_target W sr j = do {
     d \<leftarrow> delete_job W (j_Namespace j) (j_Name j) (Some (j_UID j));
     case d of
       Some e \<Rightarrow> if is_not_found e then handled (markPlaybookExecuted W sr ''terminal Job deletion accepted'')
                 else State_Monad.return (Some (Inl e))
     | None \<Rightarrow> handled (markPlaybookExecuted W sr ''terminal Job deletion accepted'') }"

definition executeAutoApprovedPlaybook :: "world \<Rightarrow> reconciler \<Rightarrow> sudo_request \<Rightarrow> reconcile_result option prog" where
  "executeAutoApprovedPlaybook W R sr =
     (if Playbook (Spec sr) = None \<or> \<not> PlaybookAutoApproved (Status sr) then State_Monad.return None
      else case terminalJobCleanupParameters (rc_lib R) sr of
        Inl e \<Rightarrow> State_Monad.return (Some (Inl e))
      | Inr (ns, n) \<Rightarrow> do {
          r \<leftarrow> get_job W ns n;
          case r of
            Inl e \<Rightarrow>
              if is_not_found e
              then handled (markPlaybookExecuted W sr
                     (if PlaybookTargetAbsent (Status sr) then ''target Job was already absent''
                      else ''target Job was deleted before execution''))
              else State_Monad.return (Some (Inl e))
          | Inr j \<Rightarrow>
              if PlaybookTargetAbsent (Status sr)
              then handled (mark_failed_err W sr ''Job appeared after the playbook was auto-approved; refusing to delete it'')
              else if j_UID j \<noteq> PlaybookTargetUID (Status sr)
              then handled (mark_failed_err W sr ''target Job was replaced by a different object; refusing to delete it'')
              else if \<not> jobTerminal j
              then handled (mark_failed_err W sr ''target Job no longer satisfies the terminal-state precondition'')
              else delete_target W sr j })"

section \<open>Every call of the automatic path\<close>

text \<open>
  The target may be deleted: it was read in this run at the parameters of the playbook, it is the
  object recorded at approval, and it is terminal.
\<close>

definition target_checked :: "reconciler \<Rightarrow> sudo_request \<Rightarrow> call set \<Rightarrow> job \<Rightarrow> bool" where
  "target_checked R sr cs j \<longleftrightarrow>
     (\<exists>ns n. terminalJobCleanupParameters (rc_lib R) sr = Inr (ns, n) \<and> GetJob ns n (Inr j) \<in> cs) \<and>
     PlaybookAutoApproved (Status sr) \<and> \<not> PlaybookTargetAbsent (Status sr) \<and>
     j_UID j = PlaybookTargetUID (Status sr) \<and> jobTerminal j"

definition playbook_call :: "reconciler \<Rightarrow> sudo_request \<Rightarrow> nat \<Rightarrow> hist \<Rightarrow> call \<Rightarrow> bool" where
  "playbook_call R sr n h c \<longleftrightarrow>
     status_write set_playbook_executed sr n h c \<or> (\<exists>reason. status_write (set_failed reason) sr n h c) \<or>
     announces n h c \<or>
     (case c of
        GetJob ns nm r \<Rightarrow> terminalJobCleanupParameters (rc_lib R) sr = Inr (ns, nm)
      | DeleteJob ns nm uid r \<Rightarrow>
          (\<exists>j. target_checked R sr (recent n h) j \<and> ns = j_Namespace j \<and> nm = j_Name j \<and> uid = Some (j_UID j))
      | _ \<Rightarrow> False)"

lemma playbook_call_intros:
  "status_write set_playbook_executed sr n h c \<Longrightarrow> playbook_call R sr n h c"
  "status_write (set_failed reason) sr n h c \<Longrightarrow> playbook_call R sr n h c"
  "announces n h c \<Longrightarrow> playbook_call R sr n h c"
  by (auto simp: playbook_call_def)

lemma markPlaybookExecuted_emits:
  assumes n: "n \<le> length h"
  shows "emits (playbook_call R sr n) (markPlaybookExecuted W sr msg)
     (\<lambda>r h'. r = None \<longrightarrow> accepted set_playbook_executed (recent n h')) h"
  unfolding markPlaybookExecuted_def
  by (rule emits_bind, rule updateStatus_rule [OF n])
     (auto simp: prims n announces_def playbook_executed.set_published playbook_call_intros(1)
       intro!: emits_bind playbook_call_intros(3))

lemma mark_failed_err_emits:
  assumes n: "n \<le> length h"
  shows "emits (playbook_call R sr n) (mark_failed_err W sr reason)
     (\<lambda>r h'. r = None \<longrightarrow> accepted (set_failed reason) (recent n h')) h"
  unfolding mark_failed_err_def
  by (rule emits_bind, rule emits_mono2 [OF markFailed_emits [OF n]])
     (auto intro: playbook_call_intros split: sum.splits)

lemma emits_handled:
  assumes "emits P m (\<lambda>e h'. Q (Some (case e of Some e \<Rightarrow> Inl e | None \<Rightarrow> Inr done_result)) h') h"
  shows "emits P (handled m) Q h"
  unfolding handled_def by (rule emits_bind, rule emits_mono [OF assms]) simp

text \<open>
  The automatic path ends the request: unless an error asks for a retry, a terminal phase was stored.
\<close>

definition playbook_done :: "nat \<Rightarrow> reconcile_result option \<Rightarrow> hist \<Rightarrow> bool" where
  "playbook_done n r h = (case r of
     Some (Inr res) \<Rightarrow> res = done_result \<and>
       (accepted set_playbook_executed (recent n h) \<or> (\<exists>reason. accepted (set_failed reason) (recent n h)))
   | Some (Inl e) \<Rightarrow> True
   | None \<Rightarrow> False)"

lemma playbook_done_err [simp]: "\<not> playbook_done n None h" "playbook_done n (Some (Inl e)) h"
  by (simp_all add: playbook_done_def)

lemma handled_executed:
  "n \<le> length h \<Longrightarrow> emits (playbook_call R sr n) (handled (markPlaybookExecuted W sr msg)) (playbook_done n) h"
  by (rule emits_handled, rule emits_mono [OF markPlaybookExecuted_emits])
     (auto simp: playbook_done_def split: option.split)

lemma handled_failed:
  "n \<le> length h \<Longrightarrow> emits (playbook_call R sr n) (handled (mark_failed_err W sr reason)) (playbook_done n) h"
  by (rule emits_handled, rule emits_mono [OF mark_failed_err_emits])
     (auto simp: playbook_done_def split: option.split)

lemma delete_target_emits:
  assumes n: "n \<le> length h" and j: "target_checked R sr (recent n h) j"
  shows "emits (playbook_call R sr n) (delete_target W sr j) (playbook_done n) h"
proof -
  have del: "playbook_call R sr n h (DeleteJob (j_Namespace j) (j_Name j) (Some (j_UID j)) d)" for d
    using j by (auto simp: playbook_call_def)
  show ?thesis
    unfolding delete_target_def
    by (rule emits_bind) (auto simp: prims n del split: option.split intro!: handled_executed le_SucI)
qed

lemma executeAutoApprovedPlaybook_emits:
  assumes n: "n \<le> length h"
  shows "emits (playbook_call R sr n) (executeAutoApprovedPlaybook W R sr)
     (\<lambda>r h'. if Playbook (Spec sr) = None \<or> \<not> PlaybookAutoApproved (Status sr) then r = None \<and> h' = h
             else playbook_done n r h') h"
proof (cases "Playbook (Spec sr) = None \<or> \<not> PlaybookAutoApproved (Status sr)")
  case True
  then show ?thesis by (auto simp: executeAutoApprovedPlaybook_def)
next
  case auto: False
  have get: "playbook_call R sr n h (GetJob ns nm r)"
    if "terminalJobCleanupParameters (rc_lib R) sr = Inr (ns, nm)" for ns nm r
    using that by (simp add: playbook_call_def)
  have del: "emits (playbook_call R sr n) (delete_target W sr j) (playbook_done n) (h @ [GetJob ns nm (Inr j)])"
    if "terminalJobCleanupParameters (rc_lib R) sr = Inr (ns, nm)" "jobTerminal j"
      "j_UID j = PlaybookTargetUID (Status sr)" "\<not> PlaybookTargetAbsent (Status sr)" for ns nm j
    using that auto n by (intro delete_target_emits) (auto simp: target_checked_def)
  show ?thesis
    using auto n unfolding executeAutoApprovedPlaybook_def
    by (auto simp: prims get split: sum.split intro!: emits_bind handled_executed handled_failed del le_SucI)
qed

end
