(* ===== verification/Reconciler.thy ===== *)
theory Reconciler
  imports Playbooks
begin

text \<open>
  \<^verbatim>\<open>reconciler.go\<close>: the state machine of a request.  One definition per handler, in
  the order of the file; a status mutation passed to \<open>updateStatus\<close> is a definition of its own.
\<close>

section \<open>Helpers\<close>

definition hex_encode :: "string \<Rightarrow> string" where
  "hex_encode bs = concat (map (\<lambda>b. [hex_digit (of_char b div 16), hex_digit (of_char b mod 16)]) bs)"

definition randomToken :: "world \<Rightarrow> nat \<Rightarrow> string res prog" where
  "randomToken W n = do {
     r \<leftarrow> random_bytes W n;
     State_Monad.return (case r of Inl e \<Rightarrow> Inl e | Inr bs \<Rightarrow> Inr (hex_encode bs)) }"

text \<open>The loop \<open>d |= a[i] ^ b[i]\<close> over two strings of equal length.\<close>

fun xor_fold :: "8 word \<Rightarrow> string \<Rightarrow> string \<Rightarrow> 8 word" where
  "xor_fold d (a # as) (b # bs) = xor_fold (or d (xor (of_char a) (of_char b))) as bs"
| "xor_fold d _ _ = d"

definition constantTimeEqual :: "string \<Rightarrow> string \<Rightarrow> bool" where
  "constantTimeEqual a b = (if length a \<noteq> length b then False else xor_fold 0 a b = 0)"

definition truncate_text :: "string \<Rightarrow> nat \<Rightarrow> string" where
  "truncate_text s n = (if length s \<le> n then s else take n s @ ''...'')"

definition firstError :: "gerr option list \<Rightarrow> gerr option" where
  "firstError errs = first_some id errs"

definition submittedByFor :: "sudo_request \<Rightarrow> string" where
  "submittedByFor sr = (if SubmittedBy (Spec sr) \<noteq> '''' then SubmittedBy (Spec sr) else Requester (Spec sr))"

text \<open>\<open>time.Duration.String\<close> for a duration of at least one second.\<close>

definition fraction_text :: "nat \<Rightarrow> string" where
  "fraction_text n =
     (let ds = replicate (9 - length (show_digits n)) CHR ''0'' @ show_digits n;
          ds = rev (dropWhile (\<lambda>c. c = CHR ''0'') (rev ds))
      in if n = 0 then '''' else CHR ''.'' # ds)"

definition duration_text :: "int \<Rightarrow> string" where
  "duration_text d =
     (let s = nat (d div second); h = s div 3600; m = s div 60 mod 60 in
      (if h > 0 then show_digits h @ ''h'' else '''') @
      (if s \<ge> 60 then show_digits m @ ''m'' else '''') @
      show_digits (s mod 60) @ fraction_text (nat (d mod second)) @ ''s'')"

definition findByUID :: "world \<Rightarrow> reconciler \<Rightarrow> string \<Rightarrow> sudo_request res prog" where
  "findByUID W R uid =
     attempt (list_sr W True (controllerNamespace R)) (\<lambda>items.
       State_Monad.return (case find (\<lambda>sr. UID sr = uid) items of
           Some sr \<Rightarrow> Inr sr
         | None \<Rightarrow> Inl (Text (''not found: '' @ uid))))"

definition deleteApprovalTokenSecret :: "world \<Rightarrow> string \<Rightarrow> string \<Rightarrow> unit prog" where
  "deleteApprovalTokenSecret W ns n =
     (if n = '''' then State_Monad.return ()
      else do { e \<leftarrow> delete_secret W ns n; State_Monad.return () })"

text \<open>The approval token of a status, and the status without it.\<close>

definition burn_token :: "sudo_request_status \<Rightarrow> sudo_request_status" where
  "burn_token s = s\<lparr>ApprovalTokenHash := '''', ApprovalTokenExpiresAt := None, ApprovalTokenSecretName := ''''\<rparr>"

section \<open>A new request\<close>

definition resolve_status :: "executor_profile option \<Rightarrow> string \<Rightarrow> string list \<Rightarrow> sudo_request_status \<Rightarrow> sudo_request_status" where
  "resolve_status profile img warnings s =
     (let s = s\<lparr>ResolvedImage := img, PreflightWarnings := warnings\<rparr>
      in case profile of Some p \<Rightarrow> s\<lparr>ResolvedProfile := pr_Name p\<rparr> | None \<Rightarrow> s)"

definition denied_status :: "string \<Rightarrow> int \<Rightarrow> gerr \<Rightarrow> sudo_request_status \<Rightarrow> sudo_request_status" where
  "denied_status who t err s =
     s\<lparr>Phase := Denied, DeniedBy := who, DeniedAt := Some t, DenialReason := error_text err\<rparr>"

text \<open>Deny at once: one status write, then its announcement.\<close>

definition deny_new :: "world \<Rightarrow> sudo_request \<Rightarrow> string \<Rightarrow> string \<Rightarrow> gerr \<Rightarrow> reconcile_result prog" where
  "deny_new W sr who what err = do {
     t \<leftarrow> now W;
     attempt_ctx (''status update Denied for '' @ what)
       (update_status_call W (Status_update (denied_status who t err) sr)) (\<lambda>sr. do {
         record_event ''Warning'' ''Denied'' (''Rejected: '' @ error_text err);
         publish (UID sr) ((phase_event sr Denied)\<lparr>e_DeniedBy := who, e_DenialReason := error_text err\<rparr>);
         State_Monad.return (Inr done_result) }) }"

definition set_playbook_approved :: "int \<Rightarrow> prepared_playbook \<Rightarrow> sudo_request_status \<Rightarrow> sudo_request_status" where
  "set_playbook_approved t prepared s =
     s\<lparr>Phase := Approved, ApprovedBy := ''auto-approve'', ApprovedAt := Some t, PlaybookAutoApproved := True,
       PlaybookTargetUID := pp_targetUID prepared, PlaybookTargetAbsent := pp_targetAbsent prepared\<rparr>"

definition approve_playbook :: "world \<Rightarrow> sudo_request \<Rightarrow> prepared_playbook \<Rightarrow> reconcile_result prog" where
  "approve_playbook W sr prepared = do {
     t \<leftarrow> now W;
     r \<leftarrow> updateStatus W sr (set_playbook_approved t prepared);
     case r of
       (sr, Some e) \<Rightarrow> State_Monad.return (Inl (Wrap ''status update Approved for playbook auto-approve'' e))
     | (sr, None) \<Rightarrow> do {
         record_event ''Normal'' ''Approved'' (''Playbook '' @ playbookName sr @ '' approved by auto-approve'');
         publish (UID sr) ((phase_event sr Approved)\<lparr>e_ApprovedBy := ''auto-approve''\<rparr>);
         State_Monad.return (Inr requeue_result) } }"

definition auto_approved_status :: "int \<Rightarrow> sudo_request_status \<Rightarrow> sudo_request_status" where
  "auto_approved_status t s = s\<lparr>Phase := Approved, ApprovedBy := ''auto-approve'', ApprovedAt := Some t\<rparr>"

definition auto_approve_new :: "world \<Rightarrow> sudo_request \<Rightarrow> reconcile_result prog" where
  "auto_approve_new W sr = do {
     t \<leftarrow> now W;
     attempt_ctx ''status update Approved for auto-approve''
       (update_status_call W (Status_update (auto_approved_status t) sr)) (\<lambda>sr. do {
         record_event ''Normal'' ''Approved'' ''Approved by auto-approve'';
         publish (UID sr) ((phase_event sr Approved)\<lparr>e_ApprovedBy := ''auto-approve''\<rparr>);
         State_Monad.return (Inr done_result) }) }"

definition token_secret :: "sudo_request \<Rightarrow> string \<Rightarrow> int \<Rightarrow> secret" where
  "token_secret sr token expiry = \<lparr>s_Name = '''', s_GenerateName = ''sudo-approval-token-'',
     s_Namespace = Namespace sr,
     s_Labels = [(''app'', ''sudo-service''), (''role'', ''approval-token''),
                 (''expires-at'', show_int (seconds expiry))],
     s_Owners = [(ownerRef sr)\<lparr>or_BlockOwnerDeletion := Some True\<rparr>], s_Type = '''',
     s_Data = [(''token'', token)]\<rparr>"

definition pending_status :: "string \<Rightarrow> int \<Rightarrow> string \<Rightarrow> bool \<Rightarrow> sudo_request_status \<Rightarrow> sudo_request_status" where
  "pending_status hash expiry secretName assess s =
     s\<lparr>Phase := Pending, ApprovalTokenHash := hash, ApprovalTokenExpiresAt := Some expiry,
       ApprovalTokenSecretName := secretName, NotificationState := NotifPending,
       PermissionAssessmentState := (if assess then AssessPending else PermissionAssessmentState s)\<rparr>"

text \<open>
  Park the request for a human: the Secret with the plaintext token first, then the status that
  refers to it.  \<open>SetControllerReference\<close> sets the controller reference of the owner.
\<close>

definition await_approval :: "world \<Rightarrow> reconciler \<Rightarrow> sudo_request \<Rightarrow> reconcile_result prog" where
  "await_approval W R sr =
     attempt_ctx ''mint token'' (randomToken W 32) (\<lambda>token. do {
       t \<leftarrow> now W;
       let expiry = t + ApprovalTokenTTL * second;
       attempt_ctx ''create approval-token Secret'' (create_secret W (token_secret sr token expiry)) (\<lambda>sec.
         attempt_ctx ''status update Pending''
           (update_status_call W (Status_update (pending_status (sha256_hex (rc_lib R) token) expiry
              (s_Name sec) (rc_Summarizer R \<noteq> None)) sr)) (\<lambda>sr. do {
             record_event ''Normal'' ''Pending'' ''Awaiting human approval; notification queued'';
             publish (UID sr) (phase_event sr Pending);
             State_Monad.return (Inr requeue_result) })) })"

text \<open>After validation: the typed playbook, the allowlist, or a human.\<close>

definition add_warning :: "string \<Rightarrow> sudo_request_status \<Rightarrow> sudo_request_status" where
  "add_warning w s = s\<lparr>PreflightWarnings := PreflightWarnings s @ [w]\<rparr>"

definition admit_new :: "world \<Rightarrow> reconciler \<Rightarrow> sudo_request \<Rightarrow> reconcile_result prog" where
  "admit_new W R sr =
     attempt (prepareAutoApprovedPlaybook W R sr) (\<lambda>(prepared, fallbackReason).
       case prepared of
         Some p \<Rightarrow> approve_playbook W sr p
       | None \<Rightarrow>
           (let sr = (if Playbook (Spec sr) \<noteq> None \<and> fallbackReason \<noteq> ''''
                      then Status_update (add_warning (''playbook requires human approval: '' @ fallbackReason)) sr
                      else sr)
            in case autoApproveTokens (rc_lib R) (rc_rules R) sr of
                 Some tokens \<Rightarrow> auto_approve_new W sr
               | None \<Rightarrow> await_approval W R sr))"

definition resolved_new :: "(executor_profile option \<times> string \<times> string list) res \<Rightarrow> sudo_request \<Rightarrow> sudo_request" where
  "resolved_new resolved sr =
     (case resolved of
        Inr (profile, img, warnings) \<Rightarrow> Status_update (resolve_status profile img warnings) sr
      | Inl e \<Rightarrow> sr)"

definition spec_error_new :: "reconciler \<Rightarrow> (executor_profile option \<times> string \<times> string list) res \<Rightarrow>
    sudo_request \<Rightarrow> gerr option" where
  "spec_error_new R resolved sr =
     firstError [case resolved of Inl e \<Rightarrow> Some e | Inr _ \<Rightarrow> None,
       validateSpecExtras (rc_lib R) sr (controllerNamespace R), validatePlaybookSpec (rc_lib R) sr]"

definition handleNew :: "world \<Rightarrow> reconciler \<Rightarrow> sudo_request \<Rightarrow> reconcile_result prog" where
  "handleNew W R sr =
     (let resolved = resolveAndPreflight (rc_lib R) sr; sr = resolved_new resolved sr in
      case validateCommandSyntax (rc_lib R) (Command (Spec sr)) of
        Some err \<Rightarrow> deny_new W sr ''syntax-check'' ''invalid syntax'' err
      | None \<Rightarrow>
     (case spec_error_new R resolved sr of
        Some err \<Rightarrow> deny_new W sr ''spec-validation'' ''invalid spec'' err
      | None \<Rightarrow> admit_new W R sr))"

section \<open>A pending request\<close>

definition expired_status :: "sudo_request_status \<Rightarrow> sudo_request_status" where
  "expired_status s = (burn_token s)\<lparr>Phase := Expired\<rparr>"

definition expire_request :: "world \<Rightarrow> sudo_request \<Rightarrow> int \<Rightarrow> reconcile_result prog" where
  "expire_request W sr age =
     attempt (update_status_call W (Status_update expired_status sr)) (\<lambda>stored. do {
       deleteApprovalTokenSecret W (Namespace stored) (ApprovalTokenSecretName (Status sr));
       record_event ''Warning'' ''Expired'' (''Request expired without approval after '' @ duration_text age);
       publish (UID stored) (phase_event stored Expired);
       State_Monad.return (Inr done_result) })"

text \<open>What the model is told about the pod: the redacted template, or the redacted text.\<close>

definition ai_context :: "reconciler \<Rightarrow> sudo_request \<Rightarrow> string" where
  "ai_context R sr =
     (let L = rc_lib R; cns = controllerNamespace R in
      if \<not> hasSpecExtras sr then ''''
      else case displayPodTemplate L (rc_rules R) sr True cns of
          Inr tmpl \<Rightarrow> tmpl
        | Inl e \<Rightarrow> specExtrasText L sr True cns)"

definition generatePermissionAssessment :: "world \<Rightarrow> reconciler \<Rightarrow> sudo_request \<Rightarrow>
    permission_assessment option res prog" where
  "generatePermissionAssessment W R sr =
     (case rc_Summarizer R of
        None \<Rightarrow> State_Monad.return (Inr None)
      | Some model \<Rightarrow>
          attempt (Summarize W (rc_lib R) model (Command (Spec sr)) (imageFor sr) (Reason (Spec sr)) (ai_context R sr))
            (\<lambda>a. State_Monad.return (Inr (Some a))))"

definition set_assessment :: "permission_assessment option \<Rightarrow> assess_state \<Rightarrow> sudo_request_status \<Rightarrow> sudo_request_status" where
  "set_assessment a st s = s\<lparr>PermissionAssessment := a, PermissionAssessmentState := st\<rparr>"

text \<open>The message of the notification.\<close>

definition approval_title :: "sudo_request \<Rightarrow> string" where
  "approval_title sr = ''sudo: permission requested by '' @ Requester (Spec sr)"

definition approval_body :: "reconciler \<Rightarrow> sudo_request \<Rightarrow> string" where
  "approval_body R sr =
     (let nl = [newline]; extras = specExtrasText (rc_lib R) sr True (controllerNamespace R) in
      (case PermissionAssessment (Status sr) of
         Some a \<Rightarrow> ''Permission requested: '' @ pa_Request a @ nl @
           (if pa_Effects a \<noteq> [] then ''Effects: '' @ formatPermissionEffects (pa_Effects a) @ nl else '''')
       | None \<Rightarrow> if Summary (Status sr) \<noteq> '''' then ''Review aid: '' @ Summary (Status sr) @ nl else '''') @
      ''reason: '' @ Reason (Spec sr) @ nl @ ''command: '' @ Command (Spec sr) @ nl @ ''image: '' @ imageFor sr @
      (if profileFor sr \<noteq> '''' then nl @ ''profile: '' @ profileFor sr else '''') @
      concat (map (\<lambda>w. nl @ ''preflight warning: '' @ w) (PreflightWarnings (Status sr))) @
      (if RetryOfUID (Spec sr) \<noteq> '''' then nl @ ''retry of: '' @ RetryOfUID (Spec sr) else '''') @
      (if submittedByFor sr \<noteq> Requester (Spec sr) then nl @ ''resubmitted by: '' @ submittedByFor sr else '''') @
      (if extras \<noteq> '''' then nl @ extras else ''''))"

definition notification_failed :: "int \<Rightarrow> gerr \<Rightarrow> sudo_request_status \<Rightarrow> sudo_request_status" where
  "notification_failed attemptedAt sendErr s =
     s\<lparr>NotificationAttempts := NotificationAttempts s + 1, NotificationLastAttemptAt := Some attemptedAt,
       NotificationNextAttemptAt := Some (attemptedAt + 30 * second),
       NotificationLastError := truncate_text (error_text sendErr) 512\<rparr>"

definition notification_delivered :: "int \<Rightarrow> int \<Rightarrow> string \<Rightarrow> sudo_request_status \<Rightarrow> sudo_request_status" where
  "notification_delivered attemptedAt deliveredAt reqID s =
     s\<lparr>NotificationAttempts := NotificationAttempts s + 1, NotificationLastAttemptAt := Some attemptedAt,
       NotificationNextAttemptAt := None, NotificationDeliveredAt := Some deliveredAt,
       NotificationLastError := '''', NotificationState := NotifDelivered, PushoverRequestID := reqID\<rparr>"

definition record_failed_delivery :: "world \<Rightarrow> sudo_request \<Rightarrow> int \<Rightarrow> gerr \<Rightarrow> reconcile_result prog" where
  "record_failed_delivery W sr attemptedAt sendErr = do {
     r \<leftarrow> updateStatus W sr (notification_failed attemptedAt sendErr);
     State_Monad.return (case r of
         (sr, Some e) \<Rightarrow> Inl (Wrap ''record Pushover failure'' e)
       | (sr, None) \<Rightarrow> Inr (requeue_after (30 * second))) }"

definition record_delivery :: "world \<Rightarrow> sudo_request \<Rightarrow> int \<Rightarrow> string \<Rightarrow> reconcile_result prog" where
  "record_delivery W sr attemptedAt reqID = do {
     deliveredAt \<leftarrow> now W;
     r \<leftarrow> updateStatus W sr (notification_delivered attemptedAt deliveredAt reqID);
     case r of
       (sr, Some e) \<Rightarrow> State_Monad.return (Inl (Wrap ''record Pushover delivery'' e))
     | (sr, None) \<Rightarrow> do {
         record_event ''Normal'' ''Notified'' (''Approval notification delivered (pushover request='' @ reqID @ '')'');
         t \<leftarrow> now W;
         State_Monad.return (Inr (requeue_after
           (PendingRequestTTL * second - time_sub t (CreationTimestamp sr) + second))) } }"

text \<open>The token of the Secret is used only when it is the one the status committed to.\<close>

definition token_matches :: "lib \<Rightarrow> sudo_request \<Rightarrow> string \<Rightarrow> bool" where
  "token_matches L sr token \<longleftrightarrow>
     token \<noteq> '''' \<and> constantTimeEqual (sha256_hex L token) (ApprovalTokenHash (Status sr))"

definition send_approval :: "world \<Rightarrow> reconciler \<Rightarrow> sudo_request \<Rightarrow> string \<Rightarrow> reconcile_result prog" where
  "send_approval W R sr token =
     (case url_parse (rc_lib R) (rc_PublicBaseURL R) of
        Inl err \<Rightarrow> State_Monad.return (Inl (Wrap ''parse PublicBaseURL'' (Text err)))
      | Inr u \<Rightarrow> do {
          attemptedAt \<leftarrow> now W;
          sent \<leftarrow> SendApproval W (rc_lib R) (rc_Pushover R) (approval_title sr) (approval_body R sr)
                   (approve_link u (UID sr) token);
          case sent of
            Inl sendErr \<Rightarrow> record_failed_delivery W sr attemptedAt sendErr
          | Inr reqID \<Rightarrow> record_delivery W sr attemptedAt reqID })"

definition deliverApprovalNotification :: "world \<Rightarrow> reconciler \<Rightarrow> sudo_request \<Rightarrow> reconcile_result prog" where
  "deliverApprovalNotification W R sr =
     (if ApprovalTokenSecretName (Status sr) = ''''
      then State_Monad.return (Inl (Text ''pending notification has no approval-token Secret''))
      else attempt_ctx ''read approval-token Secret''
        (get_secret W True (Namespace sr) (ApprovalTokenSecretName (Status sr))) (\<lambda>sec.
          if \<not> token_matches (rc_lib R) sr (map_get (s_Data sec) ''token'')
          then State_Monad.return (Inl (Text ''approval-token Secret does not match persisted hash''))
          else send_approval W R sr (map_get (s_Data sec) ''token'')))"

definition notify_or_wait :: "world \<Rightarrow> reconciler \<Rightarrow> sudo_request \<Rightarrow> int \<Rightarrow> reconcile_result prog" where
  "notify_or_wait W R sr age =
     (if NotificationState (Status sr) = NotifPending
      then (case NotificationNextAttemptAt (Status sr) of
          None \<Rightarrow> deliverApprovalNotification W R sr
        | Some t \<Rightarrow> do {
            n \<leftarrow> now W;
            if time_sub t n > 0 then State_Monad.return (Inr (requeue_after (time_sub t n)))
            else deliverApprovalNotification W R sr })
      else State_Monad.return (Inr (requeue_after (PendingRequestTTL * second - age + second))))"

definition assess_request :: "world \<Rightarrow> reconciler \<Rightarrow> sudo_request \<Rightarrow> int \<Rightarrow> reconcile_result prog" where
  "assess_request W R sr age = do {
     a \<leftarrow> generatePermissionAssessment W R sr;
     let (assessment, st) = (case a of Inr a \<Rightarrow> (a, AssessGenerated) | Inl e \<Rightarrow> (None, AssessFailed));
     r \<leftarrow> updateStatus W sr (set_assessment assessment st);
     case r of
       (sr, Some e) \<Rightarrow> State_Monad.return (Inl (Wrap ''record permission assessment'' e))
     | (sr, None) \<Rightarrow> notify_or_wait W R (Status_update (set_assessment assessment st) sr) age }"

definition handlePending :: "world \<Rightarrow> reconciler \<Rightarrow> sudo_request \<Rightarrow> reconcile_result prog" where
  "handlePending W R sr = do {
     t \<leftarrow> now W;
     let age = time_sub t (CreationTimestamp sr);
     if age \<ge> PendingRequestTTL * second then expire_request W sr age
     else if PermissionAssessmentState (Status sr) = AssessPending then assess_request W R sr age
     else notify_or_wait W R sr age }"

section \<open>An approved request\<close>

definition failApproved :: "world \<Rightarrow> reconciler \<Rightarrow> sudo_request \<Rightarrow> string \<Rightarrow> reconcile_result prog" where
  "failApproved W R sr reason =
     (if ExecutorJobName (Status sr) = '''' then markFailed W sr reason
      else attempt (getExecutorJob W R sr) (\<lambda>j.
        case j of
          None \<Rightarrow> markFailed W sr reason
        | Some j \<Rightarrow> do {
            d \<leftarrow> stopJob W j;
            case d of
              Some e \<Rightarrow> State_Monad.return (Inl (Wrap ''stop executor job before failing'' e))
            | None \<Rightarrow> markFailed W sr reason }))"

definition applyCapturedOutputStatus :: "captured_output \<Rightarrow> sudo_request_status \<Rightarrow> sudo_request_status" where
  "applyCapturedOutputStatus co s =
     s\<lparr>ExitCode := Some (co_ExitCode co), OutputSecretRef := co_SecretRef co,
       OutputCaptureState := co_CaptureState co, OutputDeliveryState := co_DeliveryState co,
       OutputFailureReason := co_FailureReason co, OutputTotalBytes := co_TotalBytes co,
       OutputRetainedBytes := co_RetainedBytes co, OutputSHA256 := co_SHA256 co\<rparr>"

definition set_final :: "sudo_request_status \<Rightarrow> int \<Rightarrow> sudo_request_status \<Rightarrow> sudo_request_status" where
  "set_final r exitCode s =
     s\<lparr>ExitCode := Some exitCode, OutputSecretRef := OutputSecretRef r,
       OutputCaptureState := OutputCaptureState r, OutputDeliveryState := OutputDeliveryState r,
       OutputFailureReason := OutputFailureReason r, OutputTotalBytes := OutputTotalBytes r,
       OutputRetainedBytes := OutputRetainedBytes r, OutputSHA256 := OutputSHA256 r,
       Phase := (if exitCode = 0 then Executed else Failed)\<rparr>"

definition final_event :: "sudo_request_status \<Rightarrow> int \<Rightarrow> sudo_request \<Rightarrow> event" where
  "final_event r exitCode sr =
     (phase_event sr (Phase (Status sr)))\<lparr>e_ExitCode := Some exitCode, e_OutputSecretRef := OutputSecretRef r,
       e_OutputCaptureState := OutputCaptureState (Status sr),
       e_OutputDeliveryState := OutputDeliveryState (Status sr),
       e_OutputFailureReason := OutputFailureReason (Status sr),
       e_OutputTotalBytes := OutputTotalBytes (Status sr),
       e_OutputRetainedBytes := OutputRetainedBytes (Status sr), e_OutputSHA256 := OutputSHA256 (Status sr)\<rparr>"

text \<open>\<open>*sr.Status.ExitCode\<close>: both callers have checked or set it.\<close>

definition finalizeFromRecordedResult :: "world \<Rightarrow> sudo_request \<Rightarrow> int \<Rightarrow> reconcile_result prog" where
  "finalizeFromRecordedResult W sr exitCode = do {
     let recorded = Status sr;
     r \<leftarrow> updateStatus W sr (set_final recorded exitCode);
     case r of
       (sr, Some e) \<Rightarrow> State_Monad.return (Inl e)
     | (sr, None) \<Rightarrow> do {
         record_event ''Normal'' ''Executed'' (''Command finished exit='' @ show_int exitCode @ '' output='' @
           OutputSecretRef recorded @ '' (len<redacted>hash<redacted>)'');
         publish (UID sr) (final_event recorded exitCode sr);
         State_Monad.return (Inr done_result) } }"

text \<open>Names first: nothing is created under a name that is not yet in the status.\<close>

definition set_names :: "string \<Rightarrow> string \<Rightarrow> sudo_request_status \<Rightarrow> sudo_request_status" where
  "set_names jobName stdinName s =
     (if ExecutorJobName s \<noteq> '''' then s else s\<lparr>ExecutorJobName := jobName, StdinSecretName := stdinName\<rparr>)"

definition mint_names :: "world \<Rightarrow> sudo_request \<Rightarrow> reconcile_result prog" where
  "mint_names W sr =
     attempt_ctx ''mint executor job name'' (randomToken W 8) (\<lambda>jobSuffix.
       attempt_ctx ''mint stdin secret name''
         (if Stdin (Spec sr) \<noteq> ''''
          then attempt (randomToken W 8) (\<lambda>suffix. State_Monad.return (Inr (''sudo-stdin-'' @ suffix)))
          else State_Monad.return (Inr '''')) (\<lambda>stdinName. do {
         r \<leftarrow> updateStatus W sr (set_names (''sudo-exec-'' @ jobSuffix) stdinName);
         State_Monad.return (case r of
             (sr, Some e) \<Rightarrow> Inl (Wrap ''record minted resource names'' e)
           | (sr, None) \<Rightarrow> Inr requeue_result) }))"

definition permanent_rejection :: "gerr \<Rightarrow> bool" where
  "permanent_rejection e \<longleftrightarrow>
     is_invalid e \<or> is_forbidden e \<or> is_not_found e \<or> is_foreign e \<or> is_disallowed e"

definition set_job_uid :: "string \<Rightarrow> sudo_request_status \<Rightarrow> sudo_request_status" where
  "set_job_uid uid s = (if ExecutorJobUID s \<noteq> '''' then s else s\<lparr>ExecutorJobUID := uid\<rparr>)"

definition record_job :: "world \<Rightarrow> sudo_request \<Rightarrow> job \<Rightarrow> reconcile_result prog" where
  "record_job W sr j = do {
     r \<leftarrow> updateStatus W sr (set_job_uid (j_UID j));
     case r of
       (sr, Some e) \<Rightarrow> do {
         d \<leftarrow> stopJob W j;
         State_Monad.return (Inl (Wrap ''record executorJobUID'' e)) }
     | (sr, None) \<Rightarrow> State_Monad.return (Inr (requeue_after (5 * second))) }"

definition launch :: "world \<Rightarrow> reconciler \<Rightarrow> sudo_request \<Rightarrow> reconcile_result prog" where
  "launch W R sr = do {
     r \<leftarrow> findOrCreateJob W R sr;
     case r of
       Inl e \<Rightarrow>
         if permanent_rejection e
         then failApproved W R sr (''executor Job rejected: '' @ error_text e)
         else State_Monad.return (Inl e)
     | Inr j \<Rightarrow> record_job W sr j }"

definition record_captured :: "world \<Rightarrow> sudo_request \<Rightarrow> captured_output \<Rightarrow> reconcile_result prog" where
  "record_captured W sr co = do {
     r \<leftarrow> updateStatus W sr (applyCapturedOutputStatus co);
     State_Monad.return (case r of (sr, Some e) \<Rightarrow> Inl e | (sr, None) \<Rightarrow> Inr requeue_result) }"

definition conclude :: "world \<Rightarrow> sudo_request \<Rightarrow> captured_output \<Rightarrow> reconcile_result prog" where
  "conclude W sr co =
     finalizeFromRecordedResult W (Status_update (applyCapturedOutputStatus co) sr) (co_ExitCode co)"

text \<open>The executor has finished, or was ended by an init container: collect and finalize.\<close>

definition finish :: "world \<Rightarrow> reconciler \<Rightarrow> sudo_request \<Rightarrow> job \<Rightarrow> bool \<Rightarrow> reconcile_result prog" where
  "finish W R sr j jobFinished = do {
     r \<leftarrow> captureJobOutput W R sr j;
     case r of
       Inl e \<Rightarrow>
         if \<not> jobFinished
         then State_Monad.return (Inl (Wrap (''capture output while sidecar holds job '' @ j_Name j @ '' open'') e))
         else markFailed W sr (''Failed to determine executor result: '' @ error_text e)
     | Inr co \<Rightarrow>
         if jobFinished then conclude W sr co
         else if ExitCode (Status sr) = None then record_captured W sr co
         else do {
           d \<leftarrow> stopJob W j;
           case d of
             Some e \<Rightarrow> State_Monad.return (Inl (Wrap (''stop job '' @ j_Name j @
                 '' after executor completion (injected sidecar?)'') e))
           | None \<Rightarrow> conclude W sr co } }"

definition job_gone :: "world \<Rightarrow> sudo_request \<Rightarrow> reconcile_result prog" where
  "job_gone W sr =
     (case ExitCode (Status sr) of
        Some ec \<Rightarrow>
          if OutputSecretRef (Status sr) \<noteq> '''' \<or> OutputCaptureState (Status sr) \<noteq> CaptureNone
          then finalizeFromRecordedResult W sr ec
          else markFailed W sr (''Executor Job '' @ ExecutorJobName (Status sr) @
            '' disappeared before controller observed completion (likely ttlSecondsAfterApproval too short)'')
      | None \<Rightarrow> markFailed W sr (''Executor Job '' @ ExecutorJobName (Status sr) @
            '' disappeared before controller observed completion (likely ttlSecondsAfterApproval too short)''))"

definition watch_job :: "world \<Rightarrow> reconciler \<Rightarrow> sudo_request \<Rightarrow> job \<Rightarrow> reconcile_result prog" where
  "watch_job W R sr j =
     attempt (getJobPod W j) (\<lambda>p.
       let jobFinished = (j_Succeeded j > 0 \<or> j_Failed j > 0);
           executorDone = (case p of Some p \<Rightarrow> executorContainerTerminated p | None \<Rightarrow> False)
       in if \<not> jobFinished \<and> \<not> executorDone
          then attempt (executorStartTimedOut W j) (\<lambda>(timedOut, reason).
            if timedOut
            then failApproved W R sr (''executor pod did not start within '' @ show_int ExecutorStartDeadline @ ''s: '' @ reason)
            else State_Monad.return (Inr (requeue_after (5 * second))))
          else finish W R sr j jobFinished)"

definition observe :: "world \<Rightarrow> reconciler \<Rightarrow> sudo_request \<Rightarrow> reconcile_result prog" where
  "observe W R sr =
     attempt (getExecutorJob W R sr) (\<lambda>j.
       case j of
         None \<Rightarrow> job_gone W sr
       | Some j \<Rightarrow>
           if j_UID j \<noteq> ExecutorJobUID (Status sr)
           then failApproved W R sr ''executor Job was replaced by a different object; refusing to use it''
           else watch_job W R sr j)"

definition needs_finalizer :: "reconciler \<Rightarrow> sudo_request \<Rightarrow> bool" where
  "needs_finalizer R sr \<longleftrightarrow>
     executorNamespace sr (controllerNamespace R) \<noteq> controllerNamespace R \<and>
     executorCleanupFinalizer \<notin> set (Finalizers sr)"

definition add_finalizer :: "world \<Rightarrow> sudo_request \<Rightarrow> reconcile_result prog" where
  "add_finalizer W sr =
     attempt_ctx ''add executor-cleanup finalizer''
       (update_sr W (sr\<lparr>Finalizers := Finalizers sr @ [executorCleanupFinalizer]\<rparr>)) (\<lambda>sr.
       State_Monad.return (Inr requeue_result))"

text \<open>\<open>run_approved\<close> is the rest of \<open>handleApproved\<close> once the object is known to be approved.\<close>

definition run_approved :: "world \<Rightarrow> reconciler \<Rightarrow> sudo_request \<Rightarrow> reconcile_result prog" where
  "run_approved W R sr = do {
     pb \<leftarrow> executeAutoApprovedPlaybook W R sr;
     case pb of
       Some result \<Rightarrow> State_Monad.return result
     | None \<Rightarrow>
         if needs_finalizer R sr then add_finalizer W sr
         else if ExecutorJobName (Status sr) = '''' then mint_names W sr
         else if ExecutorJobUID (Status sr) = '''' then launch W R sr
         else observe W R sr }"

definition handleApproved :: "world \<Rightarrow> reconciler \<Rightarrow> sudo_request \<Rightarrow> reconcile_result prog" where
  "handleApproved W R sr = do {
     r \<leftarrow> get_sr W False (Namespace sr) (Name sr);
     case r of
       Inl e \<Rightarrow> State_Monad.return (if is_not_found e then Inr done_result else Inl e)
     | Inr sr \<Rightarrow>
         if Phase (Status sr) \<noteq> Approved then State_Monad.return (Inr requeue_result)
         else run_approved W R sr }"

section \<open>Reconcile\<close>

definition remove_finalizer :: "sudo_request \<Rightarrow> sudo_request" where
  "remove_finalizer sr = sr\<lparr>Finalizers := removeAll executorCleanupFinalizer (Finalizers sr)\<rparr>"

definition release :: "world \<Rightarrow> sudo_request \<Rightarrow> reconcile_result prog" where
  "release W sr = attempt (update_sr W (remove_finalizer sr)) (\<lambda>_. State_Monad.return (Inr done_result))"

definition finalize_deletion :: "world \<Rightarrow> reconciler \<Rightarrow> sudo_request \<Rightarrow> reconcile_result prog" where
  "finalize_deletion W R sr =
     (if executorCleanupFinalizer \<notin> set (Finalizers sr) then State_Monad.return (Inr done_result)
      else if ExecutorJobName (Status sr) = '''' then release W sr
      else attempt_ctx ''read executor job during finalize'' (getExecutorJob W R sr) (\<lambda>j.
        case j of
          None \<Rightarrow> release W sr
        | Some j \<Rightarrow> do {
            d \<leftarrow> stopJob W j;
            case d of
              Some e \<Rightarrow> State_Monad.return (Inl (Wrap ''stop executor job during finalize'' e))
            | None \<Rightarrow> release W sr }))"

definition dispatch :: "world \<Rightarrow> reconciler \<Rightarrow> sudo_request \<Rightarrow> reconcile_result prog" where
  "dispatch W R sr =
     (if DeletionTimestamp sr \<noteq> None then finalize_deletion W R sr
      else case Phase (Status sr) of
        NoPhase \<Rightarrow> handleNew W R sr
      | Pending \<Rightarrow> handlePending W R sr
      | Approved \<Rightarrow> handleApproved W R sr
      | _ \<Rightarrow> State_Monad.return (Inr done_result))"

definition Reconcile :: "world \<Rightarrow> reconciler \<Rightarrow> string \<Rightarrow> string \<Rightarrow> reconcile_result prog" where
  "Reconcile W R ns n = do {
     r \<leftarrow> get_sr W True ns n;
     case r of
       Inl e \<Rightarrow> State_Monad.return (if is_not_found e then Inr done_result else Inl e)
     | Inr sr \<Rightarrow> dispatch W R sr }"

section \<open>The decisions of a human\<close>

definition not_pending :: "string \<Rightarrow> sudo_request \<Rightarrow> gerr" where
  "not_pending what sr = Text (what @ '' (phase='' @ phase_name (Phase (Status sr)) @ '')'')"

definition approved_status :: "int \<Rightarrow> string \<Rightarrow> sudo_request_status \<Rightarrow> sudo_request_status" where
  "approved_status t who s = (burn_token s)\<lparr>Phase := Approved, ApprovedBy := who, ApprovedAt := Some t,
     PlaybookAutoApproved := False, PlaybookTargetUID := '''', PlaybookTargetAbsent := False\<rparr>"

definition denied_by_status :: "int \<Rightarrow> string \<Rightarrow> string \<Rightarrow> sudo_request_status \<Rightarrow> sudo_request_status" where
  "denied_by_status t who reason s =
     (burn_token s)\<lparr>Phase := Denied, DeniedBy := who, DeniedAt := Some t, DenialReason := reason\<rparr>"

definition Approve :: "world \<Rightarrow> reconciler \<Rightarrow> string \<Rightarrow> string \<Rightarrow> unit res prog" where
  "Approve W R uid approvedBy =
     attempt (findByUID W R uid) (\<lambda>sr.
       if Phase (Status sr) \<noteq> Pending then State_Monad.return (Inl (not_pending ''request not pending'' sr))
       else do {
         t \<leftarrow> now W;
         attempt (update_status_call W (Status_update (approved_status t approvedBy) sr)) (\<lambda>stored. do {
           deleteApprovalTokenSecret W (Namespace stored) (ApprovalTokenSecretName (Status sr));
           record_event ''Normal'' ''Approved'' (''Approved by '' @ approvedBy);
           publish (UID stored) ((phase_event stored Approved)\<lparr>e_ApprovedBy := approvedBy\<rparr>);
           State_Monad.return (Inr ()) }) })"

definition Deny :: "world \<Rightarrow> reconciler \<Rightarrow> string \<Rightarrow> string \<Rightarrow> string \<Rightarrow> unit res prog" where
  "Deny W R uid deniedBy reason =
     attempt (findByUID W R uid) (\<lambda>sr.
       if Phase (Status sr) \<noteq> Pending then State_Monad.return (Inl (not_pending ''request not pending'' sr))
       else do {
         t \<leftarrow> now W;
         attempt (update_status_call W (Status_update (denied_by_status t deniedBy reason) sr)) (\<lambda>stored. do {
           deleteApprovalTokenSecret W (Namespace stored) (ApprovalTokenSecretName (Status sr));
           record_event ''Warning'' ''Denied'' (''Denied by '' @ deniedBy @ '': '' @ reason);
           publish (UID stored) ((phase_event stored Denied)\<lparr>e_DeniedBy := deniedBy, e_DenialReason := reason\<rparr>);
           State_Monad.return (Inr ()) }) })"

definition VerifyApprovalToken :: "world \<Rightarrow> reconciler \<Rightarrow> string \<Rightarrow> string \<Rightarrow> sudo_request res prog" where
  "VerifyApprovalToken W R uid token =
     attempt (findByUID W R uid) (\<lambda>sr.
       if Phase (Status sr) \<noteq> Pending then State_Monad.return (Inl (not_pending ''not pending'' sr))
       else case ApprovalTokenExpiresAt (Status sr) of
         None \<Rightarrow> State_Monad.return (Inl ApprovalTokenExpired)
       | Some t \<Rightarrow> do {
           n \<leftarrow> now W;
           State_Monad.return
             (if n > t then Inl ApprovalTokenExpired
              else if \<not> constantTimeEqual (sha256_hex (rc_lib R) token) (ApprovalTokenHash (Status sr))
              then Inl (Text ''invalid approval token'')
              else Inr sr) })"

end
