(* ===== verification/PendingRequests.thy ===== *)
theory PendingRequests
  imports Reconciler
begin

text \<open>
  What \<^verbatim>\<open>handlePending\<close> does, call by call: expiry burns the token; the model is
  asked only about the redacted request; a notification carries the token whose hash is in the
  status, and no write of this handler but the expiry changes the phase.
\<close>

section \<open>The notification\<close>

definition approval_sent :: "reconciler \<Rightarrow> sudo_request \<Rightarrow> call set \<Rightarrow> (string \<times> string) list \<Rightarrow> bool" where
  "approval_sent R cur cs form \<longleftrightarrow>
     (\<exists>sec u. GetSecret True (Namespace cur) (ApprovalTokenSecretName (Status cur)) (Inr sec) \<in> cs \<and>
        token_matches (rc_lib R) cur (map_get (s_Data sec) ''token'') \<and>
        url_parse (rc_lib R) (rc_PublicBaseURL R) = Inr u \<and>
        form = approval_form (rc_Pushover R) (approval_title cur) (approval_body R cur)
          (approve_link u (UID cur) (map_get (s_Data sec) ''token'')))"

definition message_sent :: "call set \<Rightarrow> bool" where
  "message_sent cs \<longleftrightarrow> (\<exists>form r. PostMessage form r \<in> cs)"

lemma message_sent_simps [simp]:
  "message_sent (insert c cs) \<longleftrightarrow> (case c of PostMessage form r \<Rightarrow> True | _ \<Rightarrow> False) \<or> message_sent cs"
  "message_sent (A \<union> B) \<longleftrightarrow> message_sent A \<or> message_sent B"
  by (auto simp: message_sent_def split: call.splits)

definition deliver_call :: "reconciler \<Rightarrow> sudo_request \<Rightarrow> nat \<Rightarrow> hist \<Rightarrow> call \<Rightarrow> bool" where
  "deliver_call R cur n h c \<longleftrightarrow>
     (\<exists>t e. status_write (notification_failed t e) cur n h c) \<or>
     (\<exists>t1 t2 i. message_sent (recent n h) \<and> status_write (notification_delivered t1 t2 i) cur n h c) \<or>
     (case c of
        GetSecret cached ns nm r \<Rightarrow> ns = Namespace cur \<and> nm = ApprovalTokenSecretName (Status cur)
      | PostMessage form r \<Rightarrow> approval_sent R cur (recent n h) form
      | Now t \<Rightarrow> True
      | RecordEvent t reason msg \<Rightarrow> True
      | _ \<Rightarrow> False)"

lemma deliver_call_simps [simp]:
  "deliver_call R cur n h (Now t)" "deliver_call R cur n h (RecordEvent et reason msg)"
  "deliver_call R cur n h (GetSecret cached ns nm rs) \<longleftrightarrow> ns = Namespace cur \<and> nm = ApprovalTokenSecretName (Status cur)"
  "deliver_call R cur n h (PostMessage form rp) \<longleftrightarrow> approval_sent R cur (recent n h) form"
  by (auto simp: deliver_call_def status_write_def)

lemma approval_sent_insert: "approval_sent R cur cs form \<Longrightarrow> cs \<subseteq> cs' \<Longrightarrow> approval_sent R cur cs' form"
  unfolding approval_sent_def by blast

interpretation notify_failed: status_mutation "notification_failed t e" "\<lambda>p. p" for t e
  by unfold_locales (simp_all add: notification_failed_def writes_once_def)

interpretation notify_done: status_mutation "notification_delivered t1 t2 i" "\<lambda>p. p" for t1 t2 i
  by unfold_locales (simp_all add: notification_delivered_def writes_once_def)

interpretation assessed: status_mutation "set_assessment a st" "\<lambda>p. p" for a st
  by unfold_locales (simp_all add: set_assessment_def writes_once_def)

lemma record_failed_delivery_emits:
  assumes n: "n \<le> length h"
  shows "emits (deliver_call R cur n) (record_failed_delivery W cur t e) (\<lambda>r h'. True) h"
  unfolding record_failed_delivery_def
  by (rule emits_bind, rule updateStatus_rule [OF n]) (auto simp: deliver_call_def)

lemma record_delivery_emits:
  assumes n: "n \<le> length h" and sent: "message_sent (recent n h)"
  shows "emits (deliver_call R cur n) (record_delivery W cur t i) (\<lambda>r h'. True) h"
proof -
  have w: "deliver_call R cur n (h @ Now t2 # u) c"
    if "status_write (notification_delivered t t2 i) cur n (h @ Now t2 # u) c" for t2 u c
    using that sent n unfolding deliver_call_def by (intro disjI2 disjI1 exI [of _ t] exI [of _ t2] exI [of _ i]) auto
  show ?thesis
    unfolding record_delivery_def
    by (rule emits_bind) (auto simp: prims n intro!: updateStatus_rule [where n = n] emits_bind le_SucI w)
qed

lemma deliverApprovalNotification_emits:
  assumes n: "n \<le> length h"
  shows "emits (deliver_call R cur n) (deliverApprovalNotification W R cur) (\<lambda>r h'. True) h"
proof -
  have send: "emits (deliver_call R cur n) (send_approval W R cur (map_get (s_Data sec) ''token'')) (\<lambda>r h'. True)
      (h @ [GetSecret True (Namespace cur) (ApprovalTokenSecretName (Status cur)) (Inr sec)])"
    if "token_matches (rc_lib R) cur (map_get (s_Data sec) ''token'')" for sec
  proof -
    let ?h = "h @ [GetSecret True (Namespace cur) (ApprovalTokenSecretName (Status cur)) (Inr sec)]"
    let ?form = "\<lambda>u. approval_form (rc_Pushover R) (approval_title cur) (approval_body R cur)
      (approve_link u (UID cur) (map_get (s_Data sec) ''token''))"
    have ok: "approval_sent R cur (recent n (?h @ t)) (?form u)" if "url_parse (rc_lib R) (rc_PublicBaseURL R) = Inr u" for u t
      using that \<open>token_matches _ _ _\<close> n by (auto simp: approval_sent_def)
    have sent: "emits (deliver_call R cur n)
        (SendApproval W (rc_lib R) (rc_Pushover R) (approval_title cur) (approval_body R cur)
           (approve_link u (UID cur) (map_get (s_Data sec) ''token'')))
        (\<lambda>r h'. \<exists>p. h' = ?h @ [Now t, PostMessage (?form u) p]) (?h @ [Now t])"
      if "url_parse (rc_lib R) (rc_PublicBaseURL R) = Inr u" for u t
      using ok [OF that, of "Now t # s" for s] by (intro emits_mono2 [OF SendApproval_emits]) auto
    show ?thesis
      unfolding send_approval_def
      by (auto simp: prims n intro!: emits_bind emits_mono [OF sent [unfolded append_assoc append.simps]] record_failed_delivery_emits
          record_delivery_emits le_SucI split: sum.split)
  qed
  show ?thesis
    unfolding deliverApprovalNotification_def
    by (auto simp: prims split: sum.split intro!: emits_attempt_ctx send)
qed

section \<open>The calls of handlePending\<close>

text \<open>The object in hand: the argument, or the stored object after the assessment was recorded.\<close>

definition in_hand :: "sudo_request \<Rightarrow> call set \<Rightarrow> sudo_request \<Rightarrow> bool" where
  "in_hand sr cs cur \<longleftrightarrow> cur = sr \<or>
     (\<exists>a st stored. written_as (set_assessment a st) cs stored \<and> cur = Status_update (set_assessment a st) stored)"

lemma in_hand_mono: "in_hand sr A cur \<Longrightarrow> A \<subseteq> B \<Longrightarrow> in_hand sr B cur"
  unfolding in_hand_def using written_as_mono by blast

text \<open>The recorded assessment: none, or a validated answer of the model.\<close>

definition assessment_recorded :: "reconciler \<Rightarrow> permission_assessment option \<Rightarrow> assess_state \<Rightarrow> bool" where
  "assessment_recorded R a st \<longleftrightarrow>
     (case a of
        Some a \<Rightarrow> st = AssessGenerated \<and> accepted_answer (rc_lib R) a
      | None \<Rightarrow> st = AssessFailed \<or> st = AssessGenerated \<and> rc_Summarizer R = None)"

text \<open>The age that this run measured: past the limit, or below it.\<close>

definition overdue :: "call set \<Rightarrow> sudo_request \<Rightarrow> bool" where
  "overdue cs sr \<longleftrightarrow> (\<exists>t. Now t \<in> cs \<and> time_sub t (CreationTimestamp sr) \<ge> PendingRequestTTL * second)"

definition live :: "call set \<Rightarrow> sudo_request \<Rightarrow> bool" where
  "live cs sr \<longleftrightarrow> (\<exists>t. Now t \<in> cs \<and> time_sub t (CreationTimestamp sr) < PendingRequestTTL * second)"

text \<open>The write was accepted, and the stored object is in namespace \<open>ns\<close>.\<close>

definition stored_in :: "call set \<Rightarrow> sudo_request \<Rightarrow> string \<Rightarrow> bool" where
  "stored_in cs obj ns \<longleftrightarrow> (\<exists>stored. UpdateStatus obj (Inr stored) \<in> cs \<and> ns = Namespace stored)"

lemma age_insert [simp]:
  "overdue (insert c cs) sr \<longleftrightarrow> (case c of
     Now t \<Rightarrow> time_sub t (CreationTimestamp sr) \<ge> PendingRequestTTL * second | _ \<Rightarrow> False) \<or> overdue cs sr"
  "live (insert c cs) sr \<longleftrightarrow> (case c of
     Now t \<Rightarrow> time_sub t (CreationTimestamp sr) < PendingRequestTTL * second | _ \<Rightarrow> False) \<or> live cs sr"
  "stored_in (insert c cs) obj ns \<longleftrightarrow> (case c of
     UpdateStatus obj' r \<Rightarrow> obj' = obj \<and> (\<exists>stored. r = Inr stored \<and> ns = Namespace stored) | _ \<Rightarrow> False) \<or>
     stored_in cs obj ns"
  by (auto simp: overdue_def live_def stored_in_def split: call.splits)

lemma age_Un [simp]:
  "overdue (A \<union> B) sr \<longleftrightarrow> overdue A sr \<or> overdue B sr" "live (A \<union> B) sr \<longleftrightarrow> live A sr \<or> live B sr"
  by (auto simp: overdue_def live_def)

definition expire_call :: "sudo_request \<Rightarrow> nat \<Rightarrow> hist \<Rightarrow> call \<Rightarrow> bool" where
  "expire_call sr n h c \<longleftrightarrow>
     (case c of
        UpdateStatus obj r \<Rightarrow> obj = Status_update expired_status sr \<and> overdue (recent n h) sr
      | DeleteSecret ns nm r \<Rightarrow> nm = ApprovalTokenSecretName (Status sr) \<and> nm \<noteq> '''' \<and>
          stored_in (recent n h) (Status_update expired_status sr) ns
      | _ \<Rightarrow> announces n h c)"

definition pending_call :: "reconciler \<Rightarrow> sudo_request \<Rightarrow> nat \<Rightarrow> hist \<Rightarrow> call \<Rightarrow> bool" where
  "pending_call R sr n h c \<longleftrightarrow>
     (\<exists>t. c = Now t) \<or> expire_call sr n h c \<or>
     live (recent n h) sr \<and>
       (model_call (summarizer_content (Command (Spec sr)) (imageFor sr) (Reason (Spec sr)) (ai_context R sr)) c \<or>
        (\<exists>a st. assessment_recorded R a st \<and> status_write (set_assessment a st) sr n h c) \<or>
        (\<exists>cur. in_hand sr (recent n h) cur \<and> deliver_call R cur n h c))"

lemma pending_call_Now [simp]: "pending_call R sr n h (Now t)"
  by (simp add: pending_call_def)

lemma expire_request_emits:
  assumes n: "n \<le> length h" and age: "overdue (recent n h) sr"
  shows "emits (pending_call R sr n) (expire_request W sr age) (\<lambda>r h'. True) h"
proof -
  have "emits (expire_call sr n) (expire_request W sr age) (\<lambda>r h'. True) h"
    unfolding expire_request_def deleteApprovalTokenSecret_def
    using age n
    by (auto simp: prims expire_call_def announces_def expired_status_def burn_token_def
        split: sum.split intro!: emits_rules)
  then show ?thesis by (rule emits_mono_trace) (simp add: pending_call_def)
qed

lemma deliver_pending_emits:
  assumes n: "n \<le> length h" and live: "live (recent n h) sr" and cur: "in_hand sr (recent n h) cur"
  shows "emits (pending_call R sr n) (deliverApprovalNotification W R cur) (\<lambda>r h'. True) h"
proof (rule emits_mono2 [OF deliverApprovalNotification_emits [OF n]])
  fix t c
  assume "deliver_call R cur n (h @ t) c"
  moreover have "live (recent n (h @ t)) sr" "in_hand sr (recent n (h @ t)) cur"
    using n live in_hand_mono [OF cur] by auto
  ultimately show "pending_call R sr n (h @ t) c"
    unfolding pending_call_def by blast
qed simp

lemma notify_or_wait_emits:
  assumes n: "n \<le> length h" and live: "live (recent n h) sr" and cur: "in_hand sr (recent n h) cur"
  shows "emits (pending_call R sr n) (notify_or_wait W R cur age) (\<lambda>r h'. True) h"
  unfolding notify_or_wait_def
  using n live cur in_hand_mono [OF cur subset_insertI]
  by (auto simp: prims intro!: emits_bind deliver_pending_emits split: option.split)

lemma generate_emits:
  "emits (\<lambda>_. model_call (summarizer_content (Command (Spec sr)) (imageFor sr) (Reason (Spec sr)) (ai_context R sr)))
     (generatePermissionAssessment W R sr)
     (\<lambda>r h'. case r of
        Inr a \<Rightarrow> assessment_recorded R a AssessGenerated
      | Inl e \<Rightarrow> True) h"
  unfolding generatePermissionAssessment_def
  by (auto simp: assessment_recorded_def intro!: emits_attempt emits_mono [OF Summarize_emits]
      split: option.split sum.splits)

lemma assess_request_emits:
  assumes n: "n \<le> length h" and live: "live (recent n h) sr"
  shows "emits (pending_call R sr n) (assess_request W R sr age) (\<lambda>r h'. True) h"
proof -
  have gen: "emits (pending_call R sr n) (generatePermissionAssessment W R sr)
     (\<lambda>r h'. \<forall>a. r = Inr a \<longrightarrow> assessment_recorded R a AssessGenerated) h"
    using live n
    by (intro emits_mono2 [OF generate_emits]) (auto simp: pending_call_def split: sum.splits)
  have notify: "emits (pending_call R sr n) (notify_or_wait W R (Status_update (set_assessment a st) stored) age)
      (\<lambda>r h'. True) (h @ t)" if "written_as (set_assessment a st) (recent n (h @ t)) stored" for a st stored t
    using that n live by (intro notify_or_wait_emits) (auto simp: in_hand_def)
  have notify2: "emits (pending_call R sr n) (notify_or_wait W R (Status_update (set_assessment a st) stored) age)
      (\<lambda>r h'. True) (h @ t @ u)" if "written_as (set_assessment a st) (recent n h \<union> set t \<union> set u) stored"
    for a st stored t u
    using notify [of a st "t @ u" stored] that n by (simp add: Un_assoc)
  have recorded: "emits (pending_call R sr n) (updateStatus W sr (set_assessment a st))
      (\<lambda>r. emits (pending_call R sr n) (case r of
         (sr, Some e) \<Rightarrow> State_Monad.return (Inl (Wrap ''record permission assessment'' e))
       | (sr, None) \<Rightarrow> notify_or_wait W R (Status_update (set_assessment a st) sr) age) (\<lambda>r h'. True)) (h @ t)"
    if "assessment_recorded R a st" for a st t
  proof (rule updateStatus_rule [where n = n])
    show "pending_call R sr n ((h @ t) @ u) c" if "status_write (set_assessment a st) sr n ((h @ t) @ u) c" for u c
      using that \<open>assessment_recorded R a st\<close> live n unfolding pending_call_def by auto
  qed (use n notify2 [of a st] in auto)
  show ?thesis
    unfolding assess_request_def
    by (auto intro!: emits_bind emits_mono [OF gen] recorded simp: assessment_recorded_def split: sum.split prod.split)
qed

lemma handlePending_emits:
  assumes n: "n \<le> length h"
  shows "emits (pending_call R sr n) (handlePending W R sr) (\<lambda>r h'. True) h"
proof -
  show ?thesis
    unfolding handlePending_def Let_def
    using n by (auto simp: prims in_hand_def
        intro!: emits_bind expire_request_emits assess_request_emits notify_or_wait_emits)
qed

end
