(* ===== verification/NewRequests.thy ===== *)
theory NewRequests
  imports Reconciler
begin

text \<open>
  What \<^verbatim>\<open>handleNew\<close> does, call by call: a request that fails validation is denied by
  one write and nothing else; a token is minted, and stored before the status refers to it, only for
  a request that passed every check and needs a human.
\<close>

section \<open>Requests that pass\<close>

definition accepted_new :: "reconciler \<Rightarrow> sudo_request \<Rightarrow> bool" where
  "accepted_new R sr \<longleftrightarrow>
     validateCommandSyntax (rc_lib R) (Command (Spec sr)) = None \<and>
     spec_error_new R (resolveAndPreflight (rc_lib R) sr) (resolved_new (resolveAndPreflight (rc_lib R) sr) sr) = None"

lemma resolved_new_update: "\<exists>f. resolved_new resolved sr = Status_update f sr"
proof (cases resolved)
  case (Inl e)
  then show ?thesis by (intro exI [of _ id]) (simp add: resolved_new_def)
next
  case (Inr p)
  then show ?thesis by (cases p) (auto simp: resolved_new_def)
qed

lemma resolved_new_simps [simp]:
  "Spec (resolved_new r sr) = Spec sr" "Name (resolved_new r sr) = Name sr"
  "Namespace (resolved_new r sr) = Namespace sr" "UID (resolved_new r sr) = UID sr"
  using resolved_new_update [of r sr] by auto

lemma resolved_new_phase [simp]: "Phase (Status (resolved_new r sr)) = Phase (Status sr)"
  by (auto simp: resolved_new_def resolve_status_def Let_def split: sum.split option.split prod.split)

text \<open>Decoding and validation read the spec only.\<close>

lemma decodePodExtras_spec:
  assumes "Spec a = Spec b"
  shows "decodePodExtras L a = decodePodExtras L b"
  unfolding decodePodExtras_def assms by (rule refl)

lemma spec_ok_spec:
  assumes "Spec a = Spec b"
  shows "spec_ok L a cns = spec_ok L b cns"
  using decodePodExtras_spec [OF assms, of L] assms
  by (simp add: spec_ok_def extras_ok_def executorNamespace_def)

lemma validatePlaybookSpec_spec:
  assumes "Spec a = Spec b"
  shows "validatePlaybookSpec L a = validatePlaybookSpec L b"
  unfolding validatePlaybookSpec_def terminalJobCleanupParameters_def playbookName_def hasPodSpecExtras_def assms
  by (rule refl)

lemma firstError_None [simp]: "firstError es = None \<longleftrightarrow> (\<forall>e\<in>set es. e = None)"
  by (simp add: firstError_def)

lemma accepted_new_iff:
  "accepted_new R sr \<longleftrightarrow>
     validateCommandSyntax (rc_lib R) (Command (Spec sr)) = None \<and>
     (\<exists>p img ws. resolveAndPreflight (rc_lib R) sr = Inr (p, img, ws)) \<and>
     spec_ok (rc_lib R) sr (controllerNamespace R) \<and> validatePlaybookSpec (rc_lib R) sr = None"
proof -
  let ?r = "resolved_new (resolveAndPreflight (rc_lib R) sr) sr"
  have "spec_ok (rc_lib R) ?r cns = spec_ok (rc_lib R) sr cns" for cns
    by (rule spec_ok_spec) simp
  moreover have "validatePlaybookSpec (rc_lib R) ?r = validatePlaybookSpec (rc_lib R) sr"
    by (rule validatePlaybookSpec_spec) simp
  ultimately show ?thesis
    by (auto simp: accepted_new_def spec_error_new_def validateSpecExtras_None split: sum.splits)
qed

section \<open>The calls of handleNew\<close>

text \<open>The same request, up to its status.\<close>

definition same_request :: "sudo_request \<Rightarrow> sudo_request \<Rightarrow> bool" where
  "same_request a b \<longleftrightarrow> Name a = Name b \<and> Namespace a = Namespace b \<and> UID a = UID b \<and>
     ResourceVersion a = ResourceVersion b \<and> CreationTimestamp a = CreationTimestamp b \<and>
     DeletionTimestamp a = DeletionTimestamp b \<and> Finalizers a = Finalizers b \<and> Spec a = Spec b"

lemma same_request_simps [simp]:
  "same_request a a" "same_request (Status_update f a) b \<longleftrightarrow> same_request a b"
  "same_request (resolved_new r a) b \<longleftrightarrow> same_request a b"
  using resolved_new_update [of r a] by (auto simp: same_request_def)

lemma same_requestD: "same_request a b \<Longrightarrow> Spec a = Spec b \<and> UID a = UID b \<and> Name a = Name b \<and> Namespace a = Namespace b"
  by (simp add: same_request_def)

text \<open>
  The playbook of the request was prepared from what this run read: a configured rule names the
  requester and the namespace, and either the target is a terminal Job the rule covers, whose UID is
  recorded, or the API server has no such Job and the name belongs to a family of the rule.
\<close>

definition playbook_prepared :: "reconciler \<Rightarrow> sudo_request \<Rightarrow> call set \<Rightarrow> prepared_playbook \<Rightarrow> bool" where
  "playbook_prepared R sr cs p \<longleftrightarrow>
     (\<exists>ns nm rules rule. terminalJobCleanupParameters (rc_lib R) sr = Inr (ns, nm) \<and>
        rc_Playbooks R = Some rules \<and> rule \<in> set rules \<and>
        cr_Requester rule = Requester (Spec sr) \<and> cr_Namespace rule = ns \<and>
        (if pp_targetAbsent p
         then absent_name_matches nm rule \<and> (\<exists>e. is_not_found e \<and> GetJob ns nm (Inl e) \<in> cs)
         else \<exists>j. GetJob ns nm (Inr j) \<in> cs \<and> jobTerminal j \<and> matchesTerminalJobRule j rule \<and>
                 pp_targetUID p = j_UID j))"

lemma playbook_prepared_mono: "playbook_prepared R sr A p \<Longrightarrow> A \<subseteq> B \<Longrightarrow> playbook_prepared R sr B p"
  unfolding playbook_prepared_def by (auto split: if_splits; blast)

text \<open>The recorded image is kept, or it is the one the spec resolves to.\<close>

definition keeps_image :: "sudo_request \<Rightarrow> sudo_request \<Rightarrow> bool" where
  "keeps_image a b \<longleftrightarrow> ResolvedImage (Status a) = ResolvedImage (Status b) \<or>
     (\<exists>p. resolveExecutorProfile b = Inr (p, ResolvedImage (Status a)))"

lemma keeps_image_simps [simp]:
  "ResolvedImage (Status a) = ResolvedImage (Status b) \<Longrightarrow> keeps_image a b"
  "(\<And>s. ResolvedImage (f s) = ResolvedImage s) \<Longrightarrow> keeps_image (Status_update f a) b \<longleftrightarrow> keeps_image a b"
  by (simp_all add: keeps_image_def)

lemma keeps_image_resolved: "keeps_image (resolved_new (resolveAndPreflight L sr) sr) sr"
  by (auto simp: keeps_image_def resolved_new_def resolve_status_def resolveAndPreflight_def Let_def
      split: sum.split option.split prod.split)

text \<open>
  An object \<open>handleNew\<close> derives from the one it was given: another status, with the same identities
  and the image of its spec.
\<close>

definition derived :: "sudo_request \<Rightarrow> sudo_request \<Rightarrow> bool" where
  "derived a b \<longleftrightarrow> same_request a b \<and> same_ids (Status a) (Status b) \<and> keeps_image a b"

lemma derivedD: "derived a b \<Longrightarrow> same_request a b"
  by (simp add: derived_def)

lemma resolved_new_ids: "same_ids (Status (resolved_new r a)) (Status a)"
  by (auto simp: resolved_new_def resolve_status_def same_ids_def Let_def split: sum.split option.split prod.split)

lemma derived_simps [simp]:
  "derived a a" "derived (Status_update (add_warning w) a) b \<longleftrightarrow> derived a b"
  "derived (resolved_new (resolveAndPreflight L a) a) a"
  using resolved_new_ids [of "resolveAndPreflight L a" a] keeps_image_resolved [of L a]
  by (auto simp: derived_def same_ids_def add_warning_def)

text \<open>
  A write of \<open>handleNew\<close>: a denial of a request that fails a check, or, for one that passed them
  all, the approval of its playbook (computed from the request or, after a conflict, from what an
  uncached read returned), the approval by the allowlist, or parking it with a token whose Secret
  this run has stored.
\<close>

definition parked :: "reconciler \<Rightarrow> call set \<Rightarrow> sudo_request \<Rightarrow> sudo_request \<Rightarrow> bool" where
  "parked R cs sr obj \<longleftrightarrow>
     (\<exists>token t sec base. CreateSecret (token_secret sr token (t + ApprovalTokenTTL * second)) (Inr sec) \<in> cs \<and>
        derived base sr \<and>
        obj = Status_update (pending_status (sha256_hex (rc_lib R) token) (t + ApprovalTokenTTL * second)
          (s_Name sec) (rc_Summarizer R \<noteq> None)) base)"

definition new_write :: "reconciler \<Rightarrow> sudo_request \<Rightarrow> call set \<Rightarrow> sudo_request \<Rightarrow> bool" where
  "new_write R sr cs obj \<longleftrightarrow>
     (\<exists>who t err base. \<not> accepted_new R sr \<and> derived base sr \<and> obj = Status_update (denied_status who t err) base) \<or>
     (\<exists>t p base. accepted_new R sr \<and> playbook_prepared R sr cs p \<and> obj = Status_update (set_playbook_approved t p) base \<and>
        (derived base sr \<or> GetSR False (Namespace sr) (Name sr) (Inr base) \<in> cs)) \<or>
     (\<exists>t base. accepted_new R sr \<and> autoApproveTokens (rc_lib R) (rc_rules R) base \<noteq> None \<and> derived base sr \<and>
        obj = Status_update (auto_approved_status t) base) \<or>
     (accepted_new R sr \<and> parked R cs sr obj)"

lemma new_write_intros:
  "\<not> accepted_new R sr \<Longrightarrow> derived base sr \<Longrightarrow> new_write R sr cs (Status_update (denied_status who t err) base)"
  "accepted_new R sr \<Longrightarrow> playbook_prepared R sr cs p \<Longrightarrow>
     derived base sr \<or> GetSR False (Namespace sr) (Name sr) (Inr base) \<in> cs \<Longrightarrow>
     new_write R sr cs (Status_update (set_playbook_approved t p) base)"
  "accepted_new R sr \<Longrightarrow> autoApproveTokens (rc_lib R) (rc_rules R) base \<noteq> None \<Longrightarrow> derived base sr \<Longrightarrow>
     new_write R sr cs (Status_update (auto_approved_status t) base)"
  "accepted_new R sr \<Longrightarrow> derived base sr \<Longrightarrow>
     CreateSecret (token_secret sr token (t + ApprovalTokenTTL * second)) (Inr sec) \<in> cs \<Longrightarrow>
     new_write R sr cs (Status_update (pending_status (sha256_hex (rc_lib R) token)
       (t + ApprovalTokenTTL * second) (s_Name sec) (rc_Summarizer R \<noteq> None)) base)"
  unfolding new_write_def parked_def by blast+

definition is_token_secret :: "sudo_request \<Rightarrow> secret \<Rightarrow> bool" where
  "is_token_secret sr s \<longleftrightarrow> (\<exists>token expiry. s = token_secret sr token expiry)"

lemma is_token_secret_simps [simp]: "is_token_secret sr (token_secret sr token expiry)"
  by (auto simp: is_token_secret_def)

definition new_call :: "reconciler \<Rightarrow> sudo_request \<Rightarrow> nat \<Rightarrow> hist \<Rightarrow> call \<Rightarrow> bool" where
  "new_call R sr n h c \<longleftrightarrow> announces n h c \<or>
     (case c of
        UpdateStatus obj r \<Rightarrow> new_write R sr (recent n h) obj
      | CreateSecret s r \<Rightarrow> accepted_new R sr \<and> is_token_secret sr s
      | Random k r \<Rightarrow> accepted_new R sr
      | GetJob ns nm r \<Rightarrow> accepted_new R sr \<and> terminalJobCleanupParameters (rc_lib R) sr = Inr (ns, nm)
      | GetSR cached ns nm r \<Rightarrow> \<not> cached \<and> Playbook (Spec sr) \<noteq> None
      | Now t \<Rightarrow> True
      | _ \<Rightarrow> False)"

lemma new_call_simps [simp]:
  "new_call R sr n h (Now t)" "new_call R sr n h (RecordEvent et reason msg)"
  "new_call R sr n h (PublishEvent uid e) \<longleftrightarrow> e_Type e = ''phase'' \<and> published (recent n h) uid (e_Phase e)"
  "new_call R sr n h (UpdateStatus obj r) \<longleftrightarrow> new_write R sr (recent n h) obj"
  "new_call R sr n h (Random k rr) \<longleftrightarrow> accepted_new R sr"
  "new_call R sr n h (CreateSecret s rs) \<longleftrightarrow> accepted_new R sr \<and> is_token_secret sr s"
  by (auto simp: new_call_def announces_def)

lemma deny_new_emits:
  assumes n: "n \<le> length h" and bad: "\<not> accepted_new R sr" and base: "derived base sr"
  shows "emits (new_call R sr n) (deny_new W base who what err) (\<lambda>r h'. True) h"
proof -
  have w: "new_write R sr cs (Status_update (denied_status who t err) base)" for cs t
    using bad base by (auto simp: new_write_def)
  show ?thesis
    unfolding deny_new_def
    by (auto simp: prims n w denied_status_def intro!: emits_rules split: sum.split)
qed

interpretation playbook_approved: phase_setting "set_playbook_approved t p" Approved for t p
  by unfold_locales (simp_all add: set_playbook_approved_def writes_once_def)

lemma approve_playbook_emits:
  assumes n: "n \<le> length h" and ok: "accepted_new R sr" "Playbook (Spec sr) \<noteq> None" and
    prep: "playbook_prepared R sr (recent n h) p" and base: "derived base sr"
  shows "emits (new_call R sr n) (approve_playbook W base p) (\<lambda>r h'. True) h"
proof -
  have w: "new_call R sr n (h @ t) c" if "status_write (set_playbook_approved ts p) base n (h @ t) c" for ts t c
  proof (cases c)
    case (UpdateStatus obj r)
    have "playbook_prepared R sr (recent n (h @ t)) p"
      using prep by (rule playbook_prepared_mono) (simp add: n)
    with status_write_base [OF that [unfolded UpdateStatus]] same_requestD [OF derivedD [OF base]] ok base
    show ?thesis by (auto simp: UpdateStatus intro!: new_write_intros(2))
  qed (use that ok same_requestD [OF derivedD [OF base]] in \<open>auto simp: status_write_def new_call_def\<close>)
  have w1: "new_call R sr n (h @ Now ts # t) c"
    if "status_write (set_playbook_approved ts p) base n (h @ Now ts # t) c" for ts t c
    using w [of ts "Now ts # t" c] that by simp
  show ?thesis
    unfolding approve_playbook_def
    by (rule emits_bind)
       (auto simp: prims n playbook_approved.set_published intro!: updateStatus_rule [where n = n] emits_bind le_SucI w1)
qed

lemma auto_approve_new_emits:
  assumes n: "n \<le> length h" and ok: "accepted_new R sr" "autoApproveTokens (rc_lib R) (rc_rules R) base \<noteq> None"
    and base: "derived base sr"
  shows "emits (new_call R sr n) (auto_approve_new W base) (\<lambda>r h'. True) h"
proof -
  have w: "new_write R sr cs (Status_update (auto_approved_status t) base)" for cs t
    using ok base by (rule new_write_intros(3))
  show ?thesis
    unfolding auto_approve_new_def
    by (auto simp: prims n w auto_approved_status_def intro!: emits_rules split: sum.split)
qed

lemma token_secret_same: "same_request a b \<Longrightarrow> token_secret a = token_secret b"
  by (intro ext) (simp add: token_secret_def ownerRef_def same_request_def)

lemma await_approval_emits:
  assumes n: "n \<le> length h" and ok: "accepted_new R sr" and base: "derived base sr"
  shows "emits (new_call R sr n) (await_approval W R base) (\<lambda>r h'. True) h"
proof -
  let ?st = "\<lambda>token t sec. pending_status (sha256_hex (rc_lib R) token) (t + ApprovalTokenTTL * second)
    (s_Name sec) (\<exists>y. rc_Summarizer R = Some y)"
  have w: "new_write R sr cs (Status_update (?st token t sec) base)"
    if "CreateSecret (token_secret sr token (t + ApprovalTokenTTL * second)) (Inr sec) \<in> cs" for cs token t sec
    using new_write_intros(4) [OF ok base that] by simp
  have ph: "Phase (?st token t sec s) = Pending" for token t sec s by (simp add: pending_status_def)
  show ?thesis
    unfolding await_approval_def randomToken_def Let_def
    by (auto simp: prims n ok w ph token_secret_same [OF derivedD [OF base]] intro!: emits_rules split: sum.split)
qed

lemma decide_prepared:
  assumes d: "decide_playbook (matching_rules R sr ns rules) nm r = Inr (Some p, w)"
    and params: "terminalJobCleanupParameters (rc_lib R) sr = Inr (ns, nm)" "rc_Playbooks R = Some rules"
    and got: "GetJob ns nm r \<in> cs"
  shows "playbook_prepared R sr cs p"
proof (cases r)
  case (Inl e)
  with d obtain rule where "rule \<in> set (matching_rules R sr ns rules)" "absent_name_matches nm rule"
      "is_not_found e" "pp_targetAbsent p"
    by (auto simp: decide_playbook_def list_ex_iff split: if_splits)
  with params got Inl show ?thesis
    unfolding playbook_prepared_def matching_rules_def
    by (intro exI [of _ ns] exI [of _ nm] exI [of _ rules] exI [of _ rule]) auto
next
  case (Inr j)
  with d obtain rule where "rule \<in> set (matching_rules R sr ns rules)" "matchesTerminalJobRule j rule"
      "jobTerminal j" "\<not> pp_targetAbsent p" "pp_targetUID p = j_UID j"
    by (auto simp: decide_playbook_def list_ex_iff split: if_splits)
  with params got Inr show ?thesis
    unfolding playbook_prepared_def matching_rules_def
    by (intro exI [of _ ns] exI [of _ nm] exI [of _ rules] exI [of _ rule]) auto
qed

lemma prepareAutoApprovedPlaybook_emits:
  assumes n: "n \<le> length h" and ok: "accepted_new R sr" and base: "derived base sr"
  shows "emits (new_call R sr n) (prepareAutoApprovedPlaybook W R base)
     (\<lambda>r h'. \<forall>p w. r = Inr (Some p, w) \<longrightarrow> Playbook (Spec sr) \<noteq> None \<and> playbook_prepared R sr (recent n h') p) h"
proof -
  have params: "terminalJobCleanupParameters (rc_lib R) base = terminalJobCleanupParameters (rc_lib R) sr"
    "matching_rules R base = matching_rules R sr"
    using same_requestD [OF derivedD [OF base]]
    unfolding terminalJobCleanupParameters_def playbookName_def matching_rules_def by (auto split: option.splits)
  have call: "new_call R sr n h' (GetJob ns nm r)" if "terminalJobCleanupParameters (rc_lib R) sr = Inr (ns, nm)"
    for h' ns nm r
    using that ok by (simp add: new_call_def)
  show ?thesis
    unfolding prepareAutoApprovedPlaybook_def
    using same_requestD [OF derivedD [OF base]]
    by (auto simp: prims n params call Let_def split: sum.split option.split
        intro!: emits_bind elim!: decide_prepared)
qed

lemma autoApproveTokens_same:
  "same_request a b \<Longrightarrow> Playbook (Spec b) \<noteq> None \<Longrightarrow> autoApproveTokens L rules a = None"
  by (simp add: autoApproveTokens_def hasSpecExtras_def same_request_def)

lemma admit_new_emits:
  assumes n: "n \<le> length h" and ok: "accepted_new R sr" and base: "derived base sr"
  shows "emits (new_call R sr n) (admit_new W R base) (\<lambda>r h'. True) h"
  unfolding admit_new_def
  using n ok base
  by (auto simp: Let_def intro!: emits_attempt emits_mono [OF prepareAutoApprovedPlaybook_emits [OF n ok base]]
      approve_playbook_emits auto_approve_new_emits await_approval_emits split: sum.split prod.split option.split)

lemma handleNew_emits:
  assumes n: "n \<le> length h"
  shows "emits (new_call R sr n) (handleNew W R sr) (\<lambda>r h'. True) h"
  unfolding handleNew_def Let_def
  using n
  by (auto simp: accepted_new_def intro!: deny_new_emits admit_new_emits split: option.split)

end
