(* ===== verification/ApprovedRequests.thy ===== *)
theory ApprovedRequests
  imports NewRequests
begin

text \<open>
  What \<^verbatim>\<open>handleApproved\<close> does, call by call.  Names are stored before anything is
  created under them; a Job is created only while no UID is recorded; a terminal phase is written
  only when the Job at the minted name is absent, was deleted by this run, or has finished; and the
  recorded outcome is that of a pod of the Job whose UID was recorded.
\<close>

section \<open>The state of the Job, as this run has read it\<close>

definition job_absent :: "reconciler \<Rightarrow> sudo_request \<Rightarrow> call set \<Rightarrow> bool" where
  "job_absent R sr cs \<longleftrightarrow>
     (\<exists>e. is_not_found e \<and> GetJob (fst (job_site R sr)) (snd (job_site R sr)) (Inl e) \<in> cs)"

definition job_read :: "reconciler \<Rightarrow> sudo_request \<Rightarrow> call set \<Rightarrow> job \<Rightarrow> bool" where
  "job_read R sr cs j \<longleftrightarrow> GetJob (fst (job_site R sr)) (snd (job_site R sr)) (Inr j) \<in> cs"

definition delete_accepted :: "call set \<Rightarrow> job \<Rightarrow> bool" where
  "delete_accepted cs j \<longleftrightarrow>
     (\<exists>d. DeleteJob (j_Namespace j) (j_Name j) None d \<in> cs \<and> (d = None \<or> (\<exists>e. d = Some e \<and> is_not_found e)))"

definition job_finished :: "job \<Rightarrow> bool" where
  "job_finished j \<longleftrightarrow> j_Succeeded j > 0 \<or> j_Failed j > 0"

definition ours :: "sudo_request \<Rightarrow> job \<Rightarrow> bool" where
  "ours sr j \<longleftrightarrow> ExecutorJobUID (Status sr) \<noteq> '''' \<and> j_UID j = ExecutorJobUID (Status sr)"

text \<open>No workload of this request can still be running under the minted name.\<close>

definition job_settled :: "reconciler \<Rightarrow> sudo_request \<Rightarrow> call set \<Rightarrow> bool" where
  "job_settled R sr cs \<longleftrightarrow> ExecutorJobName (Status sr) = '''' \<or> job_absent R sr cs \<or>
     (\<exists>j. job_read R sr cs j \<and> (delete_accepted cs j \<or> ours sr j \<and> job_finished j))"

text \<open>The captured outcome: of a pod controlled by the recorded Job, with its logs.\<close>

definition captured :: "reconciler \<Rightarrow> sudo_request \<Rightarrow> call set \<Rightarrow> captured_output \<Rightarrow> bool" where
  "captured R sr cs co \<longleftrightarrow>
     (\<exists>j p ct logs. job_read R sr cs j \<and> ours sr j \<and> controlled_by (p_Owners p) (j_UID j) \<and>
        containerToReport p = Inr (ct, co_ExitCode co) \<and>
        PodLogs (j_Namespace j) (p_Name p) ct logs \<in> cs \<and> capture_report (rc_lib R) sr j logs co)"

lemma settled_mono:
  assumes "A \<subseteq> B"
  shows "job_absent R sr A \<Longrightarrow> job_absent R sr B" and "job_read R sr A j \<Longrightarrow> job_read R sr B j"
    and "delete_accepted A j \<Longrightarrow> delete_accepted B j"
    and "job_settled R sr A \<Longrightarrow> job_settled R sr B" and "captured R sr A co \<Longrightarrow> captured R sr B co"
proof -
  show absent: "job_absent R sr A \<Longrightarrow> job_absent R sr B" and read: "job_read R sr A j \<Longrightarrow> job_read R sr B j"
    and del: "delete_accepted A j \<Longrightarrow> delete_accepted B j" for j
    using assms by (auto simp: job_absent_def job_read_def delete_accepted_def)
  show "job_settled R sr A \<Longrightarrow> job_settled R sr B"
    unfolding job_settled_def using absent read del by blast
  show "captured R sr A co \<Longrightarrow> captured R sr B co"
    unfolding captured_def using read assms by blast
qed

section \<open>The calls\<close>

definition launchable :: "reconciler \<Rightarrow> sudo_request \<Rightarrow> bool" where
  "launchable R sr \<longleftrightarrow> \<not> needs_finalizer R sr \<and> ExecutorJobName (Status sr) \<noteq> '''' \<and> ExecutorJobUID (Status sr) = ''''"

definition launched :: "reconciler \<Rightarrow> sudo_request \<Rightarrow> call set \<Rightarrow> job \<Rightarrow> bool" where
  "launched R sr cs j \<longleftrightarrow> (created_here R sr cs j \<or> adopted_here R sr cs j) \<and> stdin_ready sr j cs"

definition exec_write :: "reconciler \<Rightarrow> sudo_request \<Rightarrow> nat \<Rightarrow> hist \<Rightarrow> call \<Rightarrow> bool" where
  "exec_write R sr n h c \<longleftrightarrow>
     (\<exists>jobName stdinName. ExecutorJobName (Status sr) = '''' \<and> status_write (set_names jobName stdinName) sr n h c) \<or>
     (\<exists>j. launchable R sr \<and> launched R sr (recent n h) j \<and> status_write (set_job_uid (j_UID j)) sr n h c) \<or>
     (\<exists>reason. job_settled R sr (recent n h) \<and> status_write (set_failed reason) sr n h c) \<or>
     (\<exists>co. captured R sr (recent n h) co \<and> status_write (applyCapturedOutputStatus co) sr n h c) \<or>
     (\<exists>ec. job_absent R sr (recent n h) \<and> ExitCode (Status sr) = Some ec \<and>
        status_write (set_final (Status sr) ec) sr n h c) \<or>
     (\<exists>co. captured R sr (recent n h) co \<and> job_settled R sr (recent n h) \<and>
        status_write (set_final (applyCapturedOutputStatus co (Status sr)) (co_ExitCode co))
          (Status_update (applyCapturedOutputStatus co) sr) n h c)"

definition exec_call :: "reconciler \<Rightarrow> sudo_request \<Rightarrow> nat \<Rightarrow> hist \<Rightarrow> call \<Rightarrow> bool" where
  "exec_call R sr n h c \<longleftrightarrow>
     exec_write R sr n h c \<or> announces n h c \<or> launchable R sr \<and> job_call R sr n h c \<or>
     (\<exists>j. job_read R sr (recent n h) j \<and> ours sr j \<and> capture_call R sr n h c) \<or>
     (case c of
        UpdateSR obj r \<Rightarrow> needs_finalizer R sr \<and> obj = sr\<lparr>Finalizers := Finalizers sr @ [executorCleanupFinalizer]\<rparr>
      | Random k r \<Rightarrow> \<not> needs_finalizer R sr \<and> ExecutorJobName (Status sr) = ''''
      | GetJob ns nm r \<Rightarrow> (ns, nm) = job_site R sr
      | ListPods ns l r \<Rightarrow> True
      | Now t \<Rightarrow> True
      | DeleteJob ns nm uid r \<Rightarrow>
          (\<exists>j. ns = j_Namespace j \<and> nm = j_Name j \<and> (job_read R sr (recent n h) j \<or> created_here R sr (recent n h) j))
      | _ \<Rightarrow> False)"

lemma exec_call_simps [simp]:
  "exec_call R sr n h (RecordEvent et reason msg)" "exec_call R sr n h (Now t)" "exec_call R sr n h (ListPods ns l rp)"
  "published (recent n h) uid (e_Phase e) \<Longrightarrow> e_Type e = ''phase'' \<Longrightarrow> exec_call R sr n h (PublishEvent uid e)"
  "job_site R sr = (ns', nm') \<Longrightarrow> exec_call R sr n h (GetJob ns' nm' rj)"
  by (auto simp: exec_call_def announces_def)

lemma exec_write_call: "exec_write R sr n h c \<Longrightarrow> exec_call R sr n h c"
  by (simp add: exec_call_def)

text \<open>Each mutation, and what it does to the phase.\<close>

interpretation names: status_mutation "set_names a b" "\<lambda>p. p" for a b
  by unfold_locales (simp_all add: set_names_def writes_once_def)

interpretation job_uid: status_mutation "set_job_uid uid" "\<lambda>p. p" for uid
  by unfold_locales (simp_all add: set_job_uid_def writes_once_def)

interpretation captured_output: status_mutation "applyCapturedOutputStatus co" "\<lambda>p. p" for co
  by unfold_locales (simp_all add: applyCapturedOutputStatus_def writes_once_def)

interpretation final: phase_setting "set_final r ec" "if ec = 0 then Executed else Failed" for r ec
  by unfold_locales (simp_all add: set_final_def writes_once_def)

section \<open>Failing\<close>

lemma markFailed_exec:
  assumes n: "n \<le> length h" and settled: "job_settled R sr (recent n h)"
  shows "emits (exec_call R sr n) (markFailed W sr reason) (\<lambda>r h'. True) h"
proof (rule emits_mono2 [OF markFailed_emits [OF n]])
  fix t c
  assume "status_write (set_failed reason) sr n (h @ t) c \<or> announces n (h @ t) c"
  moreover have "job_settled R sr (recent n (h @ t))"
    using settled_mono(4) [OF _ settled] n by simp
  ultimately show "exec_call R sr n (h @ t) c"
    unfolding exec_call_def exec_write_def by blast
qed simp

text \<open>Stopping a Job that was read: afterwards the request is settled, or there is an error.\<close>

lemma stopJob_exec:
  assumes n: "n \<le> length h" and j: "job_read R sr (recent n h) j"
  shows "emits (exec_call R sr n) (stopJob W j)
     (\<lambda>r h'. (\<exists>t. h' = h @ t) \<and> (r = None \<longrightarrow> job_settled R sr (recent n h'))) h"
proof (rule emits_mono2 [OF stopJob_emits])
  fix t c
  assume "\<exists>r. c = DeleteJob (j_Namespace j) (j_Name j) None r"
  moreover have "job_read R sr (recent n (h @ t)) j" using settled_mono(2) [OF _ j] n by simp
  ultimately show "exec_call R sr n (h @ t) c" by (auto simp: exec_call_def)
next
  fix r t
  assume "\<exists>d. h @ t = h @ [DeleteJob (j_Namespace j) (j_Name j) None d] \<and>
    (r = None \<longleftrightarrow> d = None \<or> (\<exists>e. d = Some e \<and> is_not_found e))"
  then have "r = None \<longrightarrow> delete_accepted (recent n (h @ t)) j" using n by (auto simp: delete_accepted_def)
  moreover have "job_read R sr (recent n (h @ t)) j" using settled_mono(2) [OF _ j] n by simp
  ultimately show "(\<exists>u. h @ t = h @ u) \<and> (r = None \<longrightarrow> job_settled R sr (recent n (h @ t)))"
    unfolding job_settled_def by blast
qed

lemma getExecutorJob_exec:
  assumes n: "n \<le> length h"
  shows "emits (exec_call R sr n) (getExecutorJob W R sr)
     (\<lambda>r h'. (\<exists>t. h' = h @ t) \<and> (case r of
        Inr (Some j) \<Rightarrow> job_read R sr (recent n h') j
      | Inr None \<Rightarrow> job_absent R sr (recent n h')
      | Inl e \<Rightarrow> True)) h"
  by (rule emits_mono2 [OF getExecutorJob_emits [OF n]])
     (auto simp: job_site_def job_read_def job_absent_def n split: sum.splits option.splits)

lemma failApproved_exec:
  assumes n: "n \<le> length h"
  shows "emits (exec_call R sr n) (failApproved W R sr reason) (\<lambda>r h'. True) h"
proof -
  have stop: "emits (exec_call R sr n) (stopJob W j)
      (\<lambda>r. emits (exec_call R sr n) (case r of
           Some e \<Rightarrow> State_Monad.return (Inl (Wrap ''stop executor job before failing'' e))
         | None \<Rightarrow> markFailed W sr reason) (\<lambda>r h'. True)) (h @ t)"
    if "job_read R sr (recent n (h @ t)) j" for j t
    by (rule emits_mono [OF stopJob_exec]) (use that n in \<open>auto intro!: markFailed_exec split: option.split\<close>)
  show ?thesis
    unfolding failApproved_def
    using n by (auto intro!: emits_attempt emits_mono [OF getExecutorJob_exec [OF n]] emits_bind stop markFailed_exec
        simp: job_settled_def split: sum.splits option.splits)
qed

section \<open>Minting and launching\<close>

lemma mint_names_exec:
  assumes n: "n \<le> length h" and st: "\<not> needs_finalizer R sr" "ExecutorJobName (Status sr) = ''''"
  shows "emits (exec_call R sr n) (mint_names W sr) (\<lambda>r h'. True) h"
proof -
  have w: "exec_call R sr n h' c" if "status_write (set_names a b) sr n h' c" for a b h' c
    using that st unfolding exec_call_def exec_write_def by blast
  have rand: "exec_call R sr n h' (Random k r)" for h' k r using st by (simp add: exec_call_def)
  show ?thesis
    unfolding mint_names_def randomToken_def
    using n by (auto simp: prims rand split: sum.split
        intro!: emits_rules updateStatus_rule [where n = n] le_SucI w)
qed

lemma launched_mono: "launched R sr A j \<Longrightarrow> A \<subseteq> B \<Longrightarrow> launched R sr B j"
  unfolding launched_def stdin_ready_def using created_here_mono adopted_here_mono by blast

lemma adopted_read: "adopted_here R sr cs j \<Longrightarrow> job_read R sr cs j"
  unfolding adopted_here_def job_read_def by blast

lemma record_job_exec:
  assumes n: "n \<le> length h" and st: "launchable R sr" and j: "launched R sr (recent n h) j"
  shows "emits (exec_call R sr n) (record_job W sr j) (\<lambda>r h'. True) h"
proof -
  have w: "exec_call R sr n (h @ t) c" if "status_write (set_job_uid (j_UID j)) sr n (h @ t) c" for t c
    using that st launched_mono [OF j, of "recent n (h @ t)"] n unfolding exec_call_def exec_write_def by auto
  have stop: "emits (exec_call R sr n) (stopJob W j) (\<lambda>r h'. True) (h @ t)" for t
  proof (rule emits_mono2 [OF stopJob_emits])
    fix u c
    assume "\<exists>r. c = DeleteJob (j_Namespace j) (j_Name j) None r"
    moreover have "launched R sr (recent n ((h @ t) @ u)) j" using launched_mono [OF j] n by simp
    ultimately show "exec_call R sr n ((h @ t) @ u) c"
      unfolding exec_call_def launched_def using adopted_read by fastforce
  qed simp
  show ?thesis
    unfolding record_job_def
    by (rule emits_bind, rule updateStatus_rule [OF n]) (auto intro!: w emits_bind emits_mono [OF stop])
qed

lemma launch_exec:
  assumes n: "n \<le> length h" and st: "launchable R sr"
  shows "emits (exec_call R sr n) (launch W R sr) (\<lambda>r h'. True) h"
proof -
  have create: "emits (exec_call R sr n) (findOrCreateJob W R sr) (\<lambda>r h'. found_job R sr n r h') h"
    by (rule emits_mono_trace [OF findOrCreateJob_emits [OF n]]) (use st in \<open>simp add: exec_call_def\<close>)
  show ?thesis
    unfolding launch_def
    by (rule emits_bind, rule emits_mono [OF create])
       (use n st in \<open>auto simp: found_job_def launched_def intro!: failApproved_exec record_job_exec split: sum.split\<close>)
qed

section \<open>Collecting the result\<close>

lemma finalize_exec:
  assumes n: "n \<le> length h"
    and w: "\<And>t c. status_write (set_final (Status cur) ec) cur n (h @ t) c \<Longrightarrow> exec_call R sr n (h @ t) c"
  shows "emits (exec_call R sr n) (finalizeFromRecordedResult W cur ec) (\<lambda>r h'. True) h"
  unfolding finalizeFromRecordedResult_def Let_def
  by (rule emits_bind, rule updateStatus_rule [OF n])
     (auto simp: prims n final_event_def intro!: emits_bind w exec_call_simps(4))

lemma conclude_exec:
  assumes n: "n \<le> length h" and co: "captured R sr (recent n h) co" and settled: "job_settled R sr (recent n h)"
  shows "emits (exec_call R sr n) (conclude W sr co) (\<lambda>r h'. True) h"
  unfolding conclude_def
proof (rule finalize_exec [OF n])
  fix t c
  assume "status_write (set_final (Status (Status_update (applyCapturedOutputStatus co) sr)) (co_ExitCode co))
    (Status_update (applyCapturedOutputStatus co) sr) n (h @ t) c"
  moreover have "captured R sr (recent n (h @ t)) co" "job_settled R sr (recent n (h @ t))"
    using settled_mono(5) [OF _ co] settled_mono(4) [OF _ settled] n by simp_all
  ultimately show "exec_call R sr n (h @ t) c"
    unfolding exec_call_def exec_write_def by auto
qed

lemma job_gone_exec:
  assumes n: "n \<le> length h" and gone: "job_absent R sr (recent n h)"
  shows "emits (exec_call R sr n) (job_gone W sr) (\<lambda>r h'. True) h"
proof -
  have settled: "job_settled R sr (recent n h)" using gone by (simp add: job_settled_def)
  have final: "emits (exec_call R sr n) (finalizeFromRecordedResult W sr ec) (\<lambda>r h'. True) h"
    if "ExitCode (Status sr) = Some ec" for ec
  proof (rule finalize_exec [OF n])
    fix t c
    assume "status_write (set_final (Status sr) ec) sr n (h @ t) c"
    moreover have "job_absent R sr (recent n (h @ t))" using settled_mono(1) [OF _ gone] n by simp
    ultimately show "exec_call R sr n (h @ t) c"
      using that unfolding exec_call_def exec_write_def by blast
  qed
  show ?thesis
    unfolding job_gone_def
    using markFailed_exec [OF n settled] final by (auto split: option.split)
qed

lemma record_captured_exec:
  assumes n: "n \<le> length h" and co: "captured R sr (recent n h) co"
  shows "emits (exec_call R sr n) (record_captured W sr co) (\<lambda>r h'. True) h"
  unfolding record_captured_def
proof (rule emits_bind, rule updateStatus_rule [OF n])
  fix t c
  assume "status_write (applyCapturedOutputStatus co) sr n (h @ t) c"
  moreover have "captured R sr (recent n (h @ t)) co" using settled_mono(5) [OF _ co] n by simp
  ultimately show "exec_call R sr n (h @ t) c"
    unfolding exec_call_def exec_write_def by blast
qed auto

lemma capture_exec:
  assumes n: "n \<le> length h" and j: "job_read R sr (recent n h) j" "ours sr j"
  shows "emits (exec_call R sr n) (captureJobOutput W R sr j)
     (\<lambda>r h'. (\<exists>t. h' = h @ t) \<and> (\<forall>co. r = Inr co \<longrightarrow> captured R sr (recent n h') co)) h"
proof (rule emits_mono2 [OF captureJobOutput_emits [OF n]])
  fix t c
  assume "capture_call R sr n (h @ t) c"
  moreover have "job_read R sr (recent n (h @ t)) j" using settled_mono(2) [OF _ j(1)] n by simp
  ultimately show "exec_call R sr n (h @ t) c"
    using j(2) unfolding exec_call_def by blast
next
  fix r t
  let ?h = "h @ t"
  assume "case r of
      Inl e \<Rightarrow> job_running j \<or> (\<exists>pods. ?h = h @ [ListPods (j_Namespace j) (j_Name j) pods])
    | Inr co \<Rightarrow> \<exists>p ct logs. controlled_by (p_Owners p) (j_UID j) \<and>
        containerToReport p = Inr (ct, co_ExitCode co) \<and>
        PodLogs (j_Namespace j) (p_Name p) ct logs \<in> recent n ?h \<and> capture_report (rc_lib R) sr j logs co"
  moreover have "job_read R sr (recent n ?h) j" using settled_mono(2) [OF _ j(1)] n by simp
  ultimately show "(\<exists>u. ?h = h @ u) \<and> (\<forall>co. r = Inr co \<longrightarrow> captured R sr (recent n ?h) co)"
    using j(2) unfolding captured_def by (auto split: sum.splits)
qed

lemma conclude_captured_exec:
  assumes n: "n \<le> length h" and j: "job_read R sr (recent n h) j" "ours sr j" and co: "captured R sr (recent n h) co"
    and fin: "job_finished j"
  shows "emits (exec_call R sr n) (conclude W sr co) (\<lambda>r h'. True) h"
  using j fin by (intro conclude_exec [OF n co]) (auto simp: job_settled_def)

lemma stop_conclude_exec:
  assumes n: "n \<le> length h" and j: "job_read R sr (recent n h) j" and co: "captured R sr (recent n h) co"
  shows "emits (exec_call R sr n) (do {
      d \<leftarrow> stopJob W j;
      case d of Some e \<Rightarrow> State_Monad.return (Inl (w e)) | None \<Rightarrow> conclude W sr co }) (\<lambda>r h'. True) h"
proof (rule emits_bind, rule emits_mono [OF stopJob_exec [OF n j]])
  fix d :: "gerr option" and t
  assume "(\<exists>u. h @ t = h @ u) \<and> (d = None \<longrightarrow> job_settled R sr (recent n (h @ t)))"
  moreover have "captured R sr (recent n (h @ t)) co" using settled_mono(5) [OF _ co] n by simp
  ultimately show "emits (exec_call R sr n) (case d of Some e \<Rightarrow> State_Monad.return (Inl (w e)) | None \<Rightarrow> conclude W sr co)
      (\<lambda>r h'. True) (h @ t)"
    using n by (auto intro!: conclude_exec split: option.split)
qed

lemma finish_exec:
  assumes n: "n \<le> length h" and j: "job_read R sr (recent n h) j" "ours sr j" and fin: "jf = job_finished j"
  shows "emits (exec_call R sr n) (finish W R sr j jf) (\<lambda>r h'. True) h"
proof -
  have read: "job_read R sr (recent n (h @ t)) j" for t using settled_mono(2) [OF _ j(1)] n by simp
  have failed: "emits (exec_call R sr n) (markFailed W sr reason) (\<lambda>r h'. True) (h @ t)" if "job_finished j" for t reason
    using that read [of t] j(2) n by (intro markFailed_exec) (auto simp: job_settled_def)
  have co: "emits (exec_call R sr n)
      (if jf then conclude W sr co
       else if ExitCode (Status sr) = None then record_captured W sr co
       else do {
         d \<leftarrow> stopJob W j;
         case d of
           Some e \<Rightarrow> State_Monad.return (Inl (w e))
         | None \<Rightarrow> conclude W sr co }) (\<lambda>r h'. True) (h @ t)"
    if "captured R sr (recent n (h @ t)) co" for co t w
    using that read [of t] n j(2) fin
    by (auto intro!: conclude_captured_exec record_captured_exec stop_conclude_exec)
  show ?thesis
    unfolding finish_def
    by (rule emits_bind, rule emits_mono [OF capture_exec [OF n j]])
       (use co failed fin in \<open>auto split: sum.split\<close>)
qed

section \<open>handleApproved\<close>

lemma getJobPod_exec: "emits (exec_call R sr n) (getJobPod W j) (\<lambda>r h'. \<exists>t. h' = h @ t) h"
  unfolding getJobPod_def by (rule emits_attempt_ctx) (auto simp: prims split: sum.split)

lemma executorStartTimedOut_exec:
  "emits (exec_call R sr n) (executorStartTimedOut W j) (\<lambda>r h'. \<exists>t. h' = h @ t) h"
  unfolding executorStartTimedOut_def
  by (rule emits_attempt, rule emits_mono [OF getJobPod_exec])
     (auto simp: prims split: sum.split option.split intro!: emits_bind)

lemma watch_job_exec:
  assumes n: "n \<le> length h" and j: "job_read R sr (recent n h) j" "ours sr j"
  shows "emits (exec_call R sr n) (watch_job W R sr j) (\<lambda>r h'. True) h"
proof -
  have read: "job_read R sr (recent n (h @ t)) j" for t using settled_mono(2) [OF _ j(1)] n by simp
  have late: "emits (exec_call R sr n) (attempt (executorStartTimedOut W j) (\<lambda>(timedOut, reason).
      if timedOut then failApproved W R sr (msg reason) else State_Monad.return (Inr (requeue_after d))))
      (\<lambda>r h'. True) (h @ t)" for msg d t
    by (rule emits_attempt, rule emits_mono [OF executorStartTimedOut_exec])
       (use n in \<open>auto split: sum.split intro!: failApproved_exec\<close>)
  have fin: "emits (exec_call R sr n) (finish W R sr j jf) (\<lambda>r h'. True) (h @ t)" if "jf = job_finished j" for t jf
    using that read [of t] n j(2) by (intro finish_exec) simp_all
  show ?thesis
    unfolding watch_job_def Let_def
    by (rule emits_attempt, rule emits_mono [OF getJobPod_exec])
       (auto simp: job_finished_def split: sum.split intro!: late fin)
qed

lemma observe_exec:
  assumes n: "n \<le> length h" and uid: "ExecutorJobUID (Status sr) \<noteq> ''''"
  shows "emits (exec_call R sr n) (observe W R sr) (\<lambda>r h'. True) h"
  unfolding observe_def
  by (rule emits_attempt, rule emits_mono [OF getExecutorJob_exec [OF n]])
     (use n uid in \<open>auto simp: ours_def split: sum.split option.split
        intro!: job_gone_exec failApproved_exec watch_job_exec\<close>)

lemma add_finalizer_exec:
  "needs_finalizer R sr \<Longrightarrow> emits (exec_call R sr n) (add_finalizer W sr) (\<lambda>r h'. True) h"
  unfolding add_finalizer_def
  by (rule emits_attempt_ctx) (auto simp: prims exec_call_def split: sum.split)

text \<open>The automatic playbook path and the executor path exclude each other.\<close>

definition auto_playbook :: "sudo_request \<Rightarrow> bool" where
  "auto_playbook sr \<longleftrightarrow> Playbook (Spec sr) \<noteq> None \<and> PlaybookAutoApproved (Status sr)"

definition run_call :: "reconciler \<Rightarrow> sudo_request \<Rightarrow> nat \<Rightarrow> hist \<Rightarrow> call \<Rightarrow> bool" where
  "run_call R sr n h c \<longleftrightarrow> (if auto_playbook sr then playbook_call R sr n h c else exec_call R sr n h c)"

lemma run_approved_exec:
  assumes n: "n \<le> length h"
  shows "emits (run_call R sr n) (run_approved W R sr) (\<lambda>r h'. True) h"
proof (cases "auto_playbook sr")
  case True
  have p: "run_call R sr n = playbook_call R sr n" using True by (simp add: run_call_def fun_eq_iff)
  show ?thesis
    unfolding p run_approved_def
    by (rule emits_bind, rule emits_mono [OF executeAutoApprovedPlaybook_emits [OF n]])
       (use True in \<open>auto simp: auto_playbook_def split: option.split\<close>)
next
  case False
  have p: "run_call R sr n = exec_call R sr n" using False by (simp add: run_call_def fun_eq_iff)
  have skip: "executeAutoApprovedPlaybook W R sr = State_Monad.return None"
    using False by (auto simp: executeAutoApprovedPlaybook_def auto_playbook_def)
  show ?thesis
    unfolding p run_approved_def skip
    using n by (auto simp: launchable_def intro!: add_finalizer_exec mint_names_exec launch_exec observe_exec)
qed

text \<open>
  Whatever the cache said, everything \<open>handleApproved\<close> does is for the object an uncached read has
  just returned, and only if that object is approved.
\<close>

definition approved_call :: "reconciler \<Rightarrow> string \<Rightarrow> string \<Rightarrow> nat \<Rightarrow> hist \<Rightarrow> call \<Rightarrow> bool" where
  "approved_call R ns nm n h c \<longleftrightarrow>
     (\<exists>r. c = GetSR False ns nm r) \<or>
     (\<exists>cur. GetSR False ns nm (Inr cur) \<in> recent n h \<and> Phase (Status cur) = Approved \<and> run_call R cur n h c)"

lemma handleApproved_emits:
  assumes n: "n \<le> length h"
  shows "emits (approved_call R (Namespace sr) (Name sr) n) (handleApproved W R sr) (\<lambda>r h'. True) h"
proof -
  let ?g = "GetSR False (Namespace sr) (Name sr)"
  have run: "emits (approved_call R (Namespace sr) (Name sr) n) (run_approved W R cur) (\<lambda>r h'. True) (h @ [?g (Inr cur)])"
    if "Phase (Status cur) = Approved" for cur
  proof (rule emits_mono2 [OF run_approved_exec])
    fix t c
    assume "run_call R cur n ((h @ [?g (Inr cur)]) @ t) c"
    then show "approved_call R (Namespace sr) (Name sr) n ((h @ [?g (Inr cur)]) @ t) c"
      using that n unfolding approved_call_def by (intro disjI2 exI [of _ cur]) simp
  qed (use n in simp_all)
  show ?thesis
    unfolding handleApproved_def
    by (rule emits_bind) (auto simp: prims approved_call_def [of _ _ _ _ h] run split: sum.split)
qed

end
