(* ===== verification/Lifecycle.thy ===== *)
theory Lifecycle
  imports PendingRequests ApprovedRequests
begin

text \<open>
  \<^verbatim>\<open>Reconcile\<close> as a whole: which handler's calls it makes, and for which object; the
  phase machine; and the decisions a human makes through \<^verbatim>\<open>Approve\<close>,
  \<^verbatim>\<open>Deny\<close> and \<^verbatim>\<open>VerifyApprovalToken\<close>.
\<close>

section \<open>Deletion\<close>

text \<open>
  A request that is being deleted is released, by a metadata write that removes the finalizer, only
  when no workload of it is left: there is no minted name, the Job is absent, or its deletion was
  accepted.
\<close>

definition deletion_call :: "reconciler \<Rightarrow> sudo_request \<Rightarrow> nat \<Rightarrow> hist \<Rightarrow> call \<Rightarrow> bool" where
  "deletion_call R sr n h c =
     (case c of
        UpdateSR obj r \<Rightarrow> obj = remove_finalizer sr \<and> job_settled R sr (recent n h)
      | GetJob ns nm r \<Rightarrow> (ns, nm) = job_site R sr
      | ListPods ns nm r \<Rightarrow> True
      | DeleteJob ns nm uid r \<Rightarrow> uid = None \<and> (\<exists>j. job_read R sr (recent n h) j \<and> ns = j_Namespace j \<and> nm = j_Name j)
      | _ \<Rightarrow> False)"

lemma release_emits:
  assumes n: "n \<le> length h" and settled: "job_settled R sr (recent n h)"
  shows "emits (deletion_call R sr n) (release W sr) (\<lambda>r h'. True) h"
  unfolding release_def
  using settled by (auto simp: prims deletion_call_def split: sum.split intro!: emits_attempt)

lemma getExecutorJob_deletion:
  assumes n: "n \<le> length h"
  shows "emits (deletion_call R sr n) (getExecutorJob W R sr)
     (\<lambda>r h'. (\<exists>t. h' = h @ t) \<and> (case r of
        Inr (Some j) \<Rightarrow> job_read R sr (recent n h') j
      | Inr None \<Rightarrow> job_absent R sr (recent n h')
      | Inl e \<Rightarrow> True)) h"
  by (rule emits_mono2 [OF getExecutorJob_emits [OF n]])
     (auto simp: job_site_def job_read_def job_absent_def deletion_call_def n split: sum.splits option.splits)

lemma stopJob_deletion:
  assumes n: "n \<le> length h" and j: "job_read R sr (recent n h) j"
  shows "emits (deletion_call R sr n) (stopJob W j)
     (\<lambda>r h'. (\<exists>t. h' = h @ t) \<and> (r = None \<longrightarrow> job_settled R sr (recent n h'))) h"
proof -
  have rd: "job_read R sr (recent n h \<union> X) j" for X by (rule settled_mono(2) [OF _ j]) simp
  have "emits (\<lambda>h c. (\<exists>r. c = DeleteJob (j_Namespace j) (j_Name j) None r) \<and> exec_call R sr n h c)
     (stopJob W j) (\<lambda>r h'. (\<exists>d. h' = h @ [DeleteJob (j_Namespace j) (j_Name j) None d] \<and>
         (r = None \<longleftrightarrow> d = None \<or> (\<exists>e. d = Some e \<and> is_not_found e))) \<and>
       (\<exists>t. h' = h @ t) \<and> (r = None \<longrightarrow> job_settled R sr (recent n h'))) h"
    by (rule emits_conj [OF stopJob_emits stopJob_exec [OF n j]])
  then show ?thesis
    by (rule emits_mono2) (use n rd in \<open>auto simp: deletion_call_def intro!: exI [of _ j]\<close>)
qed

lemma finalize_deletion_emits:
  assumes n: "n \<le> length h"
  shows "emits (deletion_call R sr n) (finalize_deletion W R sr)
     (\<lambda>r h'. executorCleanupFinalizer \<notin> set (Finalizers sr) \<longrightarrow> h' = h) h"
proof -
  have stop: "emits (deletion_call R sr n) (do {
      d \<leftarrow> stopJob W j;
      case d of Some e \<Rightarrow> State_Monad.return (Inl (w e)) | None \<Rightarrow> release W sr }) (\<lambda>r h'. True) (h @ t)"
    if "job_read R sr (recent n (h @ t)) j" for j t w
    by (rule emits_bind, rule emits_mono [OF stopJob_deletion])
       (use that n in \<open>auto split: option.split intro!: release_emits\<close>)
  show ?thesis
  proof (cases "executorCleanupFinalizer \<in> set (Finalizers sr)")
    case True
    have "emits (deletion_call R sr n) (finalize_deletion W R sr) (\<lambda>r h'. True) h"
      unfolding finalize_deletion_def
      using n True by (auto simp: job_settled_def split: sum.split option.split
          intro!: emits_attempt_ctx emits_mono [OF getExecutorJob_deletion] release_emits stop)
    then show ?thesis by (rule emits_mono) (simp add: True)
  qed (simp add: finalize_deletion_def)
qed

section \<open>Reconcile\<close>

definition handler_call :: "reconciler \<Rightarrow> sudo_request \<Rightarrow> nat \<Rightarrow> hist \<Rightarrow> call \<Rightarrow> bool" where
  "handler_call R sr n h c =
     (if DeletionTimestamp sr \<noteq> None
      then executorCleanupFinalizer \<in> set (Finalizers sr) \<and> deletion_call R sr n h c
      else case Phase (Status sr) of
        NoPhase \<Rightarrow> new_call R sr n h c
      | Pending \<Rightarrow> pending_call R sr n h c
      | Approved \<Rightarrow> approved_call R (Namespace sr) (Name sr) n h c
      | _ \<Rightarrow> False)"

lemma dispatch_emits:
  assumes n: "n \<le> length h"
  shows "emits (handler_call R sr n) (dispatch W R sr) (\<lambda>r h'. True) h"
proof (cases "DeletionTimestamp sr = None")
  case live: True
  show ?thesis
  proof (cases "Phase (Status sr)")
    case NoPhase
    then have "handler_call R sr n = new_call R sr n" using live by (simp add: handler_call_def fun_eq_iff)
    then show ?thesis using live NoPhase handleNew_emits [OF n] by (simp add: dispatch_def)
  next
    case Pending
    then have "handler_call R sr n = pending_call R sr n" using live by (simp add: handler_call_def fun_eq_iff)
    then show ?thesis using live Pending handlePending_emits [OF n] by (simp add: dispatch_def)
  next
    case Approved
    then have "handler_call R sr n = approved_call R (Namespace sr) (Name sr) n"
      using live by (simp add: handler_call_def fun_eq_iff)
    then show ?thesis using live Approved handleApproved_emits [OF n] by (simp add: dispatch_def)
  qed (use live in \<open>simp_all add: dispatch_def\<close>)
next
  case dying: False
  show ?thesis
  proof (cases "executorCleanupFinalizer \<in> set (Finalizers sr)")
    case True
    then have "handler_call R sr n = deletion_call R sr n" using dying by (auto simp: handler_call_def fun_eq_iff)
    then show ?thesis
      using dying emits_mono [OF finalize_deletion_emits [OF n]] by (auto simp: dispatch_def)
  qed (use dying in \<open>auto simp: dispatch_def finalize_deletion_def\<close>)
qed

definition reconcile_call :: "reconciler \<Rightarrow> string \<Rightarrow> string \<Rightarrow> nat \<Rightarrow> hist \<Rightarrow> call \<Rightarrow> bool" where
  "reconcile_call R ns nm n h c \<longleftrightarrow>
     (if length h = n then \<exists>r. c = GetSR True ns nm r
      else \<exists>sr. h ! n = GetSR True ns nm (Inr sr) \<and> handler_call R sr n h c)"

lemma Reconcile_emits:
  "emits (reconcile_call R ns nm (length h)) (Reconcile W R ns nm) (\<lambda>r h'. True) h"
proof -
  have run: "emits (reconcile_call R ns nm (length h)) (dispatch W R sr) (\<lambda>r h'. True) (h @ [GetSR True ns nm (Inr sr)])" for sr
    by (rule emits_mono2 [OF dispatch_emits [of "length h"]]) (auto simp: reconcile_call_def)
  show ?thesis
    unfolding Reconcile_def
    by (rule emits_bind) (auto simp: prims reconcile_call_def [of _ _ _ _ h] run split: sum.split)
qed

text \<open>Every call of a run of \<open>Reconcile\<close>: the cached read, or a call of the handler of what it returned.\<close>

lemma Reconcile_calls:
  assumes "calls (Reconcile W R ns nm) h = u @ c # v"
  shows "u = [] \<and> (\<exists>r. c = GetSR True ns nm r) \<or>
     (\<exists>sr w. u = GetSR True ns nm (Inr sr) # w \<and> handler_call R sr (length h) (h @ u) c)"
proof -
  have "reconcile_call R ns nm (length h) (h @ u) c"
    by (rule emits_callsD [OF Reconcile_emits assms])
  then show ?thesis by (cases u) (auto simp: reconcile_call_def nth_append)
qed

lemma Reconcile_handler:
  assumes "calls (Reconcile W R ns nm) h = u @ c # v" and "\<And>r. c \<noteq> GetSR True ns nm r"
  obtains sr where "GetSR True ns nm (Inr sr) \<in> set u" and "handler_call R sr (length h) (h @ u) c"
  using Reconcile_calls [OF assms(1)] assms(2) that by (metis list.set_intros(1))

section \<open>The calls, one kind at a time\<close>

text \<open>The cache said approved, and so did the uncached read that returned \<open>cur\<close>.\<close>

definition approved_now :: "sudo_request \<Rightarrow> call set \<Rightarrow> sudo_request \<Rightarrow> bool" where
  "approved_now sr cs cur \<longleftrightarrow> DeletionTimestamp sr = None \<and> Phase (Status sr) = Approved \<and>
     GetSR False (Namespace sr) (Name sr) (Inr cur) \<in> cs \<and> Phase (Status cur) = Approved"

lemma handler_cases:
  assumes "handler_call R sr n h c"
  obtains (deleting) "DeletionTimestamp sr \<noteq> None" "executorCleanupFinalizer \<in> set (Finalizers sr)" "deletion_call R sr n h c"
  | (new) "DeletionTimestamp sr = None" "Phase (Status sr) = NoPhase" "new_call R sr n h c"
  | (pending) "DeletionTimestamp sr = None" "Phase (Status sr) = Pending" "pending_call R sr n h c"
  | (reread) r where "DeletionTimestamp sr = None" "Phase (Status sr) = Approved" "c = GetSR False (Namespace sr) (Name sr) r"
  | (playbook) cur where "approved_now sr (recent n h) cur" "auto_playbook cur" "playbook_call R cur n h c"
  | (exec) cur where "approved_now sr (recent n h) cur" "\<not> auto_playbook cur" "exec_call R cur n h c"
  using assms unfolding handler_call_def approved_call_def approved_now_def run_call_def
  by (auto split: if_splits phase.splits)

lemma status_write_simps [simp]:
  "\<not> status_write f sr n h (CreateJob j r1)" "\<not> status_write f sr n h (DeleteJob ns nm uid r2)"
  "\<not> status_write f sr n h (CreateSecret s r3)" "\<not> status_write f sr n h (GetJob ns nm r4)"
  "\<not> status_write f sr n h (AskModel m q r5)" "\<not> status_write f sr n h (PostMessage form r6)"
  "\<not> status_write f sr n h (PublishEvent uid' e)" "\<not> status_write f sr n h (UpdateSR obj r7)"
  "\<not> status_write f sr n h (CreateSR g obj r7)" "\<not> status_write f sr n h (DeleteSecret ns nm r2)"
  by (simp_all add: status_write_def)

lemmas call_defs = deletion_call_def new_call_def pending_call_def expire_call_def deliver_call_def
  playbook_call_def exec_call_def exec_write_def announces_def job_call_def capture_call_def model_call_def

lemma handler_CreateJob:
  assumes "handler_call R sr n h (CreateJob j r)"
  shows "\<exists>cur. approved_now sr (recent n h) cur \<and> \<not> auto_playbook cur \<and> launchable R cur \<and> may_create R cur (recent n h) j"
  using assms by (cases rule: handler_cases) (auto simp: call_defs)

lemma handler_CreateSecret:
  assumes "handler_call R sr n h (CreateSecret s r)"
  shows "DeletionTimestamp sr = None \<and> Phase (Status sr) = NoPhase \<and> accepted_new R sr \<and> is_token_secret sr s \<or>
     (\<exists>cur. approved_now sr (recent n h) cur \<and> \<not> auto_playbook cur \<and>
        (launchable R cur \<and> job_call R cur n h (CreateSecret s r) \<or>
         (\<exists>j. job_read R cur (recent n h) j \<and> ours cur j \<and> capture_call R cur n h (CreateSecret s r))))"
  using assms
proof (cases rule: handler_cases)
  case (exec cur)
  then have "launchable R cur \<and> job_call R cur n h (CreateSecret s r) \<or>
      (\<exists>j. job_read R cur (recent n h) j \<and> ours cur j \<and> capture_call R cur n h (CreateSecret s r))"
    by (simp add: exec_call_def exec_write_def announces_def)
  with exec show ?thesis by blast
qed (auto simp: call_defs)

lemma handler_DeleteJob:
  assumes "handler_call R sr n h (DeleteJob ns nm uid r)"
  shows "DeletionTimestamp sr \<noteq> None \<and> executorCleanupFinalizer \<in> set (Finalizers sr) \<and> uid = None \<and>
       (\<exists>j. job_read R sr (recent n h) j \<and> ns = j_Namespace j \<and> nm = j_Name j) \<or>
     (\<exists>cur. approved_now sr (recent n h) cur \<and>
       (auto_playbook cur \<and> (\<exists>j. target_checked R cur (recent n h) j \<and> ns = j_Namespace j \<and> nm = j_Name j \<and> uid = Some (j_UID j)) \<or>
        \<not> auto_playbook cur \<and> (\<exists>j. ns = j_Namespace j \<and> nm = j_Name j \<and>
          (job_read R cur (recent n h) j \<or> created_here R cur (recent n h) j))))"
  using assms by (cases rule: handler_cases) (auto simp: call_defs)

lemma handler_PublishEvent:
  assumes "handler_call R sr n h (PublishEvent uid e)"
  shows "e_Type e = ''phase'' \<and> published (recent n h) uid (e_Phase e)"
  using assms by (cases rule: handler_cases) (auto simp: call_defs)

lemma handler_AskModel:
  assumes "handler_call R sr n h (AskModel m q r)"
  shows "DeletionTimestamp sr = None \<and> Phase (Status sr) = Pending \<and> live (recent n h) sr \<and>
     q = summarizer_content (Command (Spec sr)) (imageFor sr) (Reason (Spec sr)) (ai_context R sr)"
  using assms by (cases rule: handler_cases) (auto simp: call_defs)

lemma handler_PostMessage:
  assumes "handler_call R sr n h (PostMessage form r)"
  shows "DeletionTimestamp sr = None \<and> Phase (Status sr) = Pending \<and> live (recent n h) sr \<and>
     (\<exists>cur. in_hand sr (recent n h) cur \<and> approval_sent R cur (recent n h) form)"
  using assms by (cases rule: handler_cases) (auto simp: call_defs)

lemma handler_UpdateSR:
  assumes "handler_call R sr n h (UpdateSR obj r)"
  shows "DeletionTimestamp sr \<noteq> None \<and> executorCleanupFinalizer \<in> set (Finalizers sr) \<and> obj = remove_finalizer sr \<and>
       job_settled R sr (recent n h) \<or>
     (\<exists>cur. approved_now sr (recent n h) cur \<and> \<not> auto_playbook cur \<and> needs_finalizer R cur \<and>
       obj = cur\<lparr>Finalizers := Finalizers cur @ [executorCleanupFinalizer]\<rparr>)"
  using assms by (cases rule: handler_cases) (auto simp: call_defs)

section \<open>The phase machine\<close>

text \<open>The steps the controller takes, and those a human takes through the API.\<close>

inductive controller_step :: "phase \<Rightarrow> phase \<Rightarrow> bool" where
  rejected: "controller_step NoPhase Denied"
| admitted: "controller_step NoPhase Approved"
| parked_step: "controller_step NoPhase Pending"
| expired: "controller_step Pending Expired"
| executed: "controller_step Approved Executed"
| failed_step: "controller_step Approved Failed"

inductive human_step :: "phase \<Rightarrow> phase \<Rightarrow> bool" where
  granted: "human_step Pending Approved"
| refused: "human_step Pending Denied"

inductive_cases controller_stepE: "controller_step p q"
inductive_simps controller_step_simps [simp]:
  "controller_step NoPhase q" "controller_step Pending q" "controller_step Approved q" "controller_step Denied q"
  "controller_step Executed q" "controller_step Failed q" "controller_step Expired q" "controller_step (OtherPhase s) q"
inductive_simps human_step_simps [simp]: "human_step p q"

definition terminal :: "phase \<Rightarrow> bool" where
  "terminal p \<longleftrightarrow> p \<noteq> NoPhase \<and> p \<noteq> Pending \<and> p \<noteq> Approved"

lemma terminal_final: "terminal p \<Longrightarrow> \<not> controller_step p q \<and> \<not> human_step p q"
  by (auto simp: terminal_def elim: controller_stepE)

text \<open>The objects the API server has shown to a run.\<close>

definition seen :: "call set \<Rightarrow> sudo_request \<Rightarrow> bool" where
  "seen cs sr \<longleftrightarrow> (\<exists>cached ns nm. GetSR cached ns nm (Inr sr) \<in> cs) \<or> (\<exists>obj. UpdateStatus obj (Inr sr) \<in> cs)"

lemma seenI: "GetSR cached ns nm (Inr sr) \<in> cs \<Longrightarrow> seen cs sr" "UpdateStatus obj (Inr sr) \<in> cs \<Longrightarrow> seen cs sr"
  unfolding seen_def by blast+

text \<open>
  The written object is one the run was shown, with another status: its phase is kept, or it is a
  step from the phase of an object the run was shown, which is the same object unless it was approved
  or asks for a playbook; the identities the status records are written once, and its image is that of
  the spec.
\<close>

definition lawful_write :: "call set \<Rightarrow> sudo_request \<Rightarrow> bool" where
  "lawful_write cs obj \<longleftrightarrow>
     (\<exists>src base. seen cs src \<and> seen cs base \<and> same_request obj base \<and> writes_once (Status base) (Status obj) \<and>
        keeps_image obj base \<and>
        (Phase (Status obj) = Phase (Status base) \<or>
         controller_step (Phase (Status src)) (Phase (Status obj)) \<and>
         (src = base \<or> Phase (Status src) = Approved \<or> Playbook (Spec src) \<noteq> None)))"

lemma derived_write:
  assumes "derived cur base" and "writes_once (Status cur) t"
  shows "writes_once (Status base) t"
  using assms writes_once_same by (auto simp: derived_def)

text \<open>What a mutation of an object derived from \<open>base\<close> is applied to: that object, or a fresh read.\<close>

definition identities_kept :: "(sudo_request_status \<Rightarrow> sudo_request_status) \<Rightarrow> bool" where
  "identities_kept f \<longleftrightarrow> (\<forall>s. writes_once s (f s) \<and> ResolvedImage (f s) = ResolvedImage s)"

lemma identities_keptI [intro]:
  "(\<And>s. writes_once s (f s)) \<Longrightarrow> (\<And>s. ResolvedImage (f s) = ResolvedImage s) \<Longrightarrow> identities_kept f"
  by (simp add: identities_kept_def)

lemma identities_keptD: "identities_kept f \<Longrightarrow> writes_once s (f s)" "identities_kept f \<Longrightarrow> ResolvedImage (f s) = ResolvedImage s"
  by (simp_all add: identities_kept_def)

lemma mutated_base:
  assumes "status_write f cur n h (UpdateStatus obj r)" and "identities_kept f"
    and "seen (recent n h) base" "derived cur base"
  obtains "obj = Status_update f cur" "same_request obj base" "writes_once (Status base) (Status obj)" "keeps_image obj base"
  | b where "obj = Status_update f b" "seen (recent n h) b" "same_request obj b" "writes_once (Status b) (Status obj)"
      "keeps_image obj b"
proof -
  from status_write_base [OF assms(1)] obtain b where b: "obj = Status_update f b"
      "b = cur \<or> GetSR False (Namespace cur) (Name cur) (Inr b) \<in> recent n h" by blast
  have "writes_once (Status base) (f (Status cur))" by (rule derived_write [OF assms(4) identities_keptD(1) [OF assms(2)]])
  moreover have "keeps_image (Status_update f cur) base"
    using assms(4) keeps_image_simps(2) [OF identities_keptD(2) [OF assms(2)]] by (simp add: derived_def)
  ultimately show ?thesis
    using b identities_keptD [OF assms(2)] derivedD [OF assms(4)] that by (auto intro: seenI(1))
qed

lemma lawful_keep:
  assumes "status_write f cur n h (UpdateStatus obj r)" and f: "identities_kept f" "\<And>s. Phase (f s) = Phase s"
    and base: "seen (recent n h) base" "derived cur base" "Phase (Status cur) = Phase (Status base)"
  shows "lawful_write (recent n h) obj"
  using assms(1) f(1) base(1,2)
proof (cases rule: mutated_base)
  case 1
  with f(2) base show ?thesis unfolding lawful_write_def by (intro exI [of _ base]) simp
next
  case (2 b)
  with f(2) show ?thesis unfolding lawful_write_def by (intro exI [of _ b]) simp
qed

lemma lawful_step:
  assumes "status_write f cur n h (UpdateStatus obj r)" and f: "identities_kept f"
      "\<And>s. controller_step (Phase (Status src)) (Phase (f s))"
    and src: "seen (recent n h) src" and base: "seen (recent n h) base" "derived cur base" and ph: "Phase (Status src) = Approved"
  shows "lawful_write (recent n h) obj"
  using assms(1) f(1) base
proof (cases rule: mutated_base)
  case 1
  with f(2) src base ph show ?thesis unfolding lawful_write_def by (intro exI [of _ src] exI [of _ base]) simp
next
  case (2 b)
  with f(2) src ph show ?thesis unfolding lawful_write_def by (intro exI [of _ src] exI [of _ b]) simp
qed

lemma lawful_own:
  assumes "seen (recent n h) sr" "same_request obj sr" "controller_step (Phase (Status sr)) (Phase (Status obj))"
    and "writes_once (Status sr) (Status obj)" "keeps_image obj sr"
  shows "lawful_write (recent n h) obj"
  using assms unfolding lawful_write_def by blast

lemma playbook_prepared_playbook: "playbook_prepared R sr cs p \<Longrightarrow> Playbook (Spec sr) \<noteq> None"
  by (cases "Playbook (Spec sr)")
     (auto simp: playbook_prepared_def terminalJobCleanupParameters_def split: if_splits)

lemma new_mutations_once:
  "writes_once s (denied_status who t err s)" "writes_once s (auto_approved_status t s)"
  "writes_once s (pending_status hash expiry nm assess s)" "writes_once s (expired_status s)"
  "writes_once s (set_playbook_approved t p s)"
  by (simp_all add: writes_once_def denied_status_def auto_approved_status_def pending_status_def expired_status_def
      burn_token_def set_playbook_approved_def)

lemma new_mutations_image:
  "ResolvedImage (denied_status who t err s) = ResolvedImage s" "ResolvedImage (auto_approved_status t s) = ResolvedImage s"
  "ResolvedImage (pending_status hash expiry nm assess s) = ResolvedImage s" "ResolvedImage (expired_status s) = ResolvedImage s"
  "ResolvedImage (set_playbook_approved t p s) = ResolvedImage s"
  by (simp_all add: denied_status_def auto_approved_status_def pending_status_def expired_status_def
      burn_token_def set_playbook_approved_def)

lemma lawful_new:
  assumes w: "new_write R sr (recent n h) obj" and "Phase (Status sr) = NoPhase" and sr: "seen (recent n h) sr"
  shows "lawful_write (recent n h) obj"
proof -
  have own: "lawful_write (recent n h) (Status_update f base)"
    if "derived base sr" "Phase (f (Status base)) \<in> {Denied, Approved, Pending}" "writes_once (Status base) (f (Status base))"
      "\<And>s. ResolvedImage (f s) = ResolvedImage s" for base f
    using that(2) assms(2) derived_write [OF that(1,3)] derivedD [OF that(1)] keeps_image_simps(2) [of f, OF that(4)] that(1)
    by (intro lawful_own [OF sr]) (auto simp: derived_def)
  have again: "lawful_write (recent n h) (Status_update (set_playbook_approved t p) base)"
    if "GetSR False (Namespace sr) (Name sr) (Inr base) \<in> recent n h" "playbook_prepared R sr (recent n h) p'" for base t p p'
    using seenI(1) [OF that(1)] assms(2) sr playbook_prepared_playbook [OF that(2)] new_mutations_once(5) [of "Status base" t p]
    unfolding lawful_write_def
    by (intro exI [of _ sr] exI [of _ base]) (simp add: set_playbook_approved_def keeps_image_def)
  show ?thesis
    using w unfolding new_write_def parked_def
    by (elim disjE exE conjE)
       (auto intro: own again new_mutations_once new_mutations_image
         simp: denied_status_def set_playbook_approved_def auto_approved_status_def pending_status_def writes_once_def)
qed

lemma in_hand_seen:
  assumes "in_hand sr cs cur" and "seen cs sr"
  shows "\<exists>base. seen cs base \<and> derived cur base \<and> Phase (Status cur) = Phase (Status base)"
  using assms unfolding in_hand_def
proof (elim disjE exE conjE)
  fix a st stored
  assume "written_as (set_assessment a st) cs stored" "cur = Status_update (set_assessment a st) stored"
  then show ?thesis
    by (intro exI [of _ stored]) (auto simp: written_as_def set_assessment_def derived_def same_ids_def keeps_image_def intro: seenI(2))
qed auto

lemma lawful_deliver:
  assumes c: "deliver_call R cur n h (UpdateStatus obj r)"
    and base: "seen (recent n h) base" "derived cur base" "Phase (Status cur) = Phase (Status base)"
  shows "lawful_write (recent n h) obj"
proof -
  from c obtain f where "status_write f cur n h (UpdateStatus obj r)" "identities_kept f" "\<And>s. Phase (f s) = Phase s"
    by (auto simp: deliver_call_def identities_kept_def notify_failed.once notify_done.once notify_failed.image_of
        notify_done.image_of notify_failed.phase_of notify_done.phase_of)
  then show ?thesis using base by (rule lawful_keep)
qed

lemma lawful_pending:
  assumes c: "pending_call R sr n h (UpdateStatus obj r)" and ph: "Phase (Status sr) = Pending"
    and sr: "seen (recent n h) sr"
  shows "lawful_write (recent n h) obj"
proof -
  consider "obj = Status_update expired_status sr"
    | a st where "status_write (set_assessment a st) sr n h (UpdateStatus obj r)"
    | cur where "in_hand sr (recent n h) cur" "deliver_call R cur n h (UpdateStatus obj r)"
    using c by (auto simp: pending_call_def expire_call_def model_call_def)
  then show ?thesis
  proof cases
    case 1
    then show ?thesis using ph sr by (intro lawful_own [OF sr]) (simp_all add: expired_status_def new_mutations_once(4) [unfolded expired_status_def]
        new_mutations_image(4) [unfolded expired_status_def])
  next
    case 2
    then show ?thesis using sr by (intro lawful_keep [OF 2 identities_keptI [OF assessed.once assessed.image_of] assessed.phase_of sr]) simp_all
  next
    case 3
    then show ?thesis using in_hand_seen [OF 3(1) sr] lawful_deliver [OF 3(2)] by blast
  qed
qed

lemma lawful_exec:
  assumes c: "exec_write R cur n h (UpdateStatus obj r)" and ph: "Phase (Status cur) = Approved"
    and cur: "seen (recent n h) cur"
  shows "lawful_write (recent n h) obj"
proof -
  have keep: ?thesis if "status_write f cur n h (UpdateStatus obj r)" "identities_kept f" "\<And>s. Phase (f s) = Phase s" for f
    using that cur by (intro lawful_keep [OF that cur]) simp_all
  have step: ?thesis if "status_write f base n h (UpdateStatus obj r)" "derived base cur" "identities_kept f"
      "\<And>s. Phase (f s) \<in> {Executed, Failed}" for f base
    using that ph cur by (intro lawful_step [OF that(1,3) _ cur cur that(2) ph]) auto
  have final: "Phase (set_final r ec s) \<in> {Executed, Failed}" for r ec s by (simp add: set_final_def)
  have held: "derived (Status_update (applyCapturedOutputStatus co) cur) cur" for co
    by (simp add: derived_def same_ids_def applyCapturedOutputStatus_def keeps_image_def)
  have ids: "identities_kept (set_names a b)" "identities_kept (set_job_uid uid)" "identities_kept (applyCapturedOutputStatus co)"
    "identities_kept (set_final r' ec)" "identities_kept (set_failed reason)" for a b uid co r' ec reason
    by (rule identities_keptI, rule names.once job_uid.once captured_output.once final.once failed.once,
        rule names.image_of job_uid.image_of captured_output.image_of final.image_of failed.image_of)+
  show ?thesis
    using c unfolding exec_write_def
    by (elim disjE exE conjE)
       ((erule keep, rule ids, rule names.phase_of job_uid.phase_of captured_output.phase_of) |
        (erule step, rule derived_simps(1) held, rule ids, rule final) |
        (erule step, rule derived_simps(1), rule ids, simp add: failed.sets))+
qed

lemma lawful_playbook:
  assumes c: "playbook_call R cur n h (UpdateStatus obj r)" and ph: "Phase (Status cur) = Approved"
    and cur: "seen (recent n h) cur"
  shows "lawful_write (recent n h) obj"
proof -
  from c obtain f where f: "status_write f cur n h (UpdateStatus obj r)" "identities_kept f"
      "\<And>s. Phase (f s) \<in> {Executed, Failed}"
    by (auto simp: playbook_call_def announces_def identities_kept_def failed.image_of playbook_executed.image_of failed.once playbook_executed.once failed.sets playbook_executed.sets)
  then show ?thesis using ph cur by (intro lawful_step [OF f(1,2) _ cur cur _ ph]) auto
qed

lemma handler_UpdateStatus:
  assumes "handler_call R sr n h (UpdateStatus obj r)" and sr: "seen (recent n h) sr"
  shows "lawful_write (recent n h) obj"
  using assms(1)
proof (cases rule: handler_cases)
  case new
  then show ?thesis using lawful_new sr by (simp add: new_call_def announces_def)
next
  case pending
  then show ?thesis using lawful_pending sr by simp
next
  case (playbook cur)
  then show ?thesis by (intro lawful_playbook) (auto simp: approved_now_def intro: seenI(1))
next
  case (exec cur)
  then have "exec_write R cur n h (UpdateStatus obj r)" by (auto simp: exec_call_def announces_def job_call_def capture_call_def)
  with exec show ?thesis by (intro lawful_exec) (auto simp: approved_now_def intro: seenI(1))
qed (simp_all add: deletion_call_def)

section \<open>How an approved request ends\<close>

text \<open>
  The written object says how the request ended, on the evidence in \<open>cs\<close>: with a failure; with the
  exit code and the output captured from a pod of the recorded Job; or, once the Job is gone, with
  the exit code that an earlier run had recorded.
\<close>

definition final_outcome :: "reconciler \<Rightarrow> sudo_request \<Rightarrow> call set \<Rightarrow> sudo_request \<Rightarrow> bool" where
  "final_outcome R cur cs obj \<longleftrightarrow> job_settled R cur cs \<and>
     (Phase (Status obj) = Failed \<or>
      (\<exists>co. captured R cur cs co \<and> applyCapturedOutputStatus co (Status obj) = Status obj \<and>
         Phase (Status obj) = (if co_ExitCode co = 0 then Executed else Failed)) \<or>
      (\<exists>ec. job_absent R cur cs \<and> ExitCode (Status cur) = Some ec \<and> ExitCode (Status obj) = Some ec \<and>
         Phase (Status obj) = (if ec = 0 then Executed else Failed)))"

text \<open>The phase of the written object is new to the run.\<close>

definition enters :: "call set \<Rightarrow> sudo_request \<Rightarrow> bool" where
  "enters cs obj \<longleftrightarrow> (\<forall>b. seen cs b \<longrightarrow> Phase (Status b) \<noteq> Phase (Status obj))"

lemma enters_keep:
  assumes "status_write f cur n h (UpdateStatus obj r)" "\<And>s. Phase (f s) = Phase s"
    and "seen (recent n h) base" "Phase (Status cur) = Phase (Status base)" and "enters (recent n h) obj"
  shows False
proof -
  from status_write_base [OF assms(1)] obtain b where b: "obj = Status_update f b"
      "b = cur \<or> GetSR False (Namespace cur) (Name cur) (Inr b) \<in> recent n h" by blast
  then have "\<exists>b'. seen (recent n h) b' \<and> Phase (Status b') = Phase (Status obj)"
    using assms(2-4) seenI(1) by (elim disjE) (metis Status_update_meta(5))+
  with assms(5) show False by (auto simp: enters_def)
qed

lemma exec_final:
  assumes c: "exec_write R cur n h (UpdateStatus obj r)" and new: "enters (recent n h) obj"
    and cur: "seen (recent n h) cur"
  shows "final_outcome R cur (recent n h) obj"
proof -
  have keep: ?thesis if "status_write f cur n h (UpdateStatus obj r)" "\<And>s. Phase (f s) = Phase s" for f
    using enters_keep [OF that cur _ new] by simp
  from c show ?thesis
    unfolding exec_write_def
  proof (elim disjE exE conjE)
    fix reason
    assume "job_settled R cur (recent n h)" "status_write (set_failed reason) cur n h (UpdateStatus obj r)"
    then show ?thesis using status_write_base by (fastforce simp: final_outcome_def set_failed_def)
  next
    fix ec
    assume "job_absent R cur (recent n h)" "ExitCode (Status cur) = Some ec"
      and w: "status_write (set_final (Status cur) ec) cur n h (UpdateStatus obj r)"
    moreover from this have "job_settled R cur (recent n h)" by (simp add: job_settled_def)
    ultimately show ?thesis
      using status_write_base [OF w] by (auto simp: final_outcome_def set_final_def)
  next
    fix co
    assume "captured R cur (recent n h) co" "job_settled R cur (recent n h)"
      and w: "status_write (set_final (applyCapturedOutputStatus co (Status cur)) (co_ExitCode co))
        (Status_update (applyCapturedOutputStatus co) cur) n h (UpdateStatus obj r)"
    moreover have "applyCapturedOutputStatus co (Status obj) = Status obj"
      "Phase (Status obj) = (if co_ExitCode co = 0 then Executed else Failed)"
      using status_write_base [OF w] by (auto simp: set_final_def applyCapturedOutputStatus_def)
    ultimately show ?thesis unfolding final_outcome_def by blast
  qed (erule keep, simp add: set_names_def set_job_uid_def applyCapturedOutputStatus_def)+
qed

text \<open>Before the approval only the expiry enters a phase.\<close>

lemma pending_enters:
  assumes c: "pending_call R sr n h (UpdateStatus obj r)" and new: "enters (recent n h) obj"
    and sr: "seen (recent n h) sr"
  shows "obj = Status_update expired_status sr"
proof -
  consider "obj = Status_update expired_status sr"
    | a st where "status_write (set_assessment a st) sr n h (UpdateStatus obj r)"
    | cur f where "in_hand sr (recent n h) cur" "status_write f cur n h (UpdateStatus obj r)" "\<And>s. Phase (f s) = Phase s"
    using c by (auto simp: pending_call_def expire_call_def model_call_def deliver_call_def
        notification_failed_def notification_delivered_def)
  then show ?thesis
  proof cases
    case 2
    then show ?thesis using enters_keep [OF 2 _ sr refl new] by (simp add: set_assessment_def)
  next
    case 3
    from in_hand_seen [OF 3(1) sr] enters_keep [OF 3(2,3) _ _ new] show ?thesis by blast
  qed
qed

lemma handler_final:
  assumes "handler_call R sr n h (UpdateStatus obj r)" and new: "enters (recent n h) obj"
    and sr: "seen (recent n h) sr" and ph: "Phase (Status obj) \<in> {Executed, Failed}"
  shows "\<exists>cur. approved_now sr (recent n h) cur \<and> (auto_playbook cur \<or> final_outcome R cur (recent n h) obj)"
  using assms(1)
proof (cases rule: handler_cases)
  case new': new
  then have "Phase (Status obj) \<in> {Denied, Approved, Pending}"
    by (auto simp: new_call_def announces_def new_write_def parked_def denied_status_def set_playbook_approved_def
        auto_approved_status_def pending_status_def)
  with ph show ?thesis by auto
next
  case pending
  then have "obj = Status_update expired_status sr" using pending_enters new sr by blast
  with ph show ?thesis by (simp add: expired_status_def)
next
  case (playbook cur)
  then show ?thesis by blast
next
  case (exec cur)
  then have "exec_write R cur n h (UpdateStatus obj r)" by (auto simp: exec_call_def announces_def job_call_def capture_call_def)
  moreover have "seen (recent n h) cur" using exec(1) by (auto simp: approved_now_def intro: seenI(1))
  ultimately show ?thesis using exec_final new exec(1) by blast
qed (simp_all add: deletion_call_def)

lemma final_outcome_phase: "final_outcome R cur cs obj \<Longrightarrow> Phase (Status obj) \<in> {Executed, Failed}"
  by (auto simp: final_outcome_def split: if_splits)

lemma playbook_phase:
  assumes "playbook_call R cur n h (UpdateStatus obj r)"
  shows "Phase (Status obj) \<in> {Executed, Failed}"
  using assms status_write_base
  by (fastforce simp: playbook_call_def announces_def set_playbook_executed_def set_failed_def)

text \<open>A request enters Pending, Approved or Denied in Reconcile only through \<open>handleNew\<close>.\<close>

lemma handler_admits:
  assumes "handler_call R sr n h (UpdateStatus obj r)" and new: "enters (recent n h) obj"
    and sr: "seen (recent n h) sr" and ph: "Phase (Status obj) \<in> {Pending, Approved, Denied}"
  shows "DeletionTimestamp sr = None \<and> Phase (Status sr) = NoPhase \<and> new_write R sr (recent n h) obj"
  using assms(1)
proof (cases rule: handler_cases)
  case new': new
  then show ?thesis by (simp add: new_call_def announces_def)
next
  case pending
  then have "obj = Status_update expired_status sr" using pending_enters new sr by blast
  with ph show ?thesis by (simp add: expired_status_def)
next
  case (playbook cur)
  with playbook_phase ph show ?thesis by fastforce
next
  case (exec cur)
  then have "exec_write R cur n h (UpdateStatus obj r)" by (auto simp: exec_call_def announces_def job_call_def capture_call_def)
  moreover have "seen (recent n h) cur" using exec(1) by (auto simp: approved_now_def intro: seenI(1))
  ultimately have "final_outcome R cur (recent n h) obj" using exec_final new by blast
  with ph final_outcome_phase show ?thesis by fastforce
qed (simp_all add: deletion_call_def)

text \<open>Which of the writes of \<open>handleNew\<close> leads to which phase.\<close>

lemma new_write_phases:
  assumes "new_write R sr cs obj"
  shows "Phase (Status obj) = Denied \<Longrightarrow> \<not> accepted_new R sr"
    and "Phase (Status obj) = Pending \<Longrightarrow> accepted_new R sr \<and> parked R cs sr obj"
    and "Phase (Status obj) = Approved \<Longrightarrow> accepted_new R sr \<and>
      ((\<exists>p. playbook_prepared R sr cs p \<and> PlaybookAutoApproved (Status obj) \<and>
          PlaybookTargetUID (Status obj) = pp_targetUID p \<and> PlaybookTargetAbsent (Status obj) = pp_targetAbsent p) \<or>
       (\<exists>base. same_request base sr \<and> autoApproveTokens (rc_lib R) (rc_rules R) base \<noteq> None))"
  using assms derivedD
  by (fastforce simp: new_write_def parked_def denied_status_def set_playbook_approved_def auto_approved_status_def
      pending_status_def)+

section \<open>What leaves the cluster\<close>

lemma specExtrasText_relabel:
  assumes "decodePodExtras L sr = Inr x" and "decodePodExtras L (with_env e i sr) = Inr (relabel f x)"
    and "hasSpecExtras (with_env e i sr) = hasSpecExtras sr"
  shows "specExtrasText L (with_env e i sr) True cns = specExtrasText L sr True cns"
  using view_relabel [OF assms(1,2)] assms(3) by (simp add: specExtrasText_def)

lemma ai_context_relabel:
  assumes dec: "decodePodExtras (rc_lib R) sr = Inr x" "decodePodExtras (rc_lib R) (with_env e i sr) = Inr (relabel f x)"
    and f: "\<And>v. v \<noteq> '''' \<Longrightarrow> f v \<noteq> ''''" and has: "hasSpecExtras (with_env e i sr) = hasSpecExtras sr"
  shows "ai_context R (with_env e i sr) = ai_context R sr"
  using specExtrasText_relabel [OF dec has] display_pod_relabel [OF f has] dec has
  by (simp add: ai_context_def Let_def displayPodTemplate_def split: sum.split)

end
