(* ===== verification/Decisions.thy ===== *)
theory Decisions
  imports Lifecycle
begin

text \<open>
  The decisions of a human: \<^verbatim>\<open>Approve\<close> and \<^verbatim>\<open>Deny\<close> share one
  shape, proved once inside a locale that both interpret; \<^verbatim>\<open>VerifyApprovalToken\<close> is
  sound, because the comparison in constant time is equality.
\<close>

section \<open>Comparing in constant time\<close>

lemma unat_of_char: "unat (of_char c :: 8 word) = of_char c"
proof -
  have "unat (word_of_nat (of_char c) :: 8 word) = of_char c"
    using nat_of_char_less_256 [of c] by (simp add: unat_of_nat)
  then show ?thesis by (simp add: of_nat_of_char)
qed

lemma of_char_word_inj: "(of_char a :: 8 word) = of_char b \<longleftrightarrow> a = b"
proof
  assume "(of_char a :: 8 word) = of_char b"
  then have "(of_char a :: nat) = of_char b" by (metis unat_of_char)
  then show "a = b" by simp
qed simp

lemma or_eq_0: "or a b = (0 :: 8 word) \<longleftrightarrow> a = 0 \<and> b = 0"
  by (auto simp: bit_eq_iff bit_or_iff)

lemma xor_eq_0: "xor a b = (0 :: 8 word) \<longleftrightarrow> a = b"
  by (auto simp: bit_eq_iff bit_xor_iff)

lemma xor_fold_0: "length a = length b \<Longrightarrow> xor_fold d a b = 0 \<longleftrightarrow> d = 0 \<and> a = b"
  by (induction a b arbitrary: d rule: list_induct2) (auto simp: or_eq_0 xor_eq_0 of_char_word_inj)

lemma constantTimeEqual_iff: "constantTimeEqual a b \<longleftrightarrow> a = b"
  by (auto simp: constantTimeEqual_def xor_fold_0)

text \<open>
  The link in the form carries a token read from the Secret that the status of \<open>cur\<close> names, and its
  hash is the one the status committed to.
\<close>

definition carries_committed_token :: "reconciler \<Rightarrow> sudo_request \<Rightarrow> call set \<Rightarrow> (string \<times> string) list \<Rightarrow> bool" where
  "carries_committed_token R cur cs form \<longleftrightarrow>
     (\<exists>sec link token. GetSecret True (Namespace cur) (ApprovalTokenSecretName (Status cur)) (Inr sec) \<in> cs \<and>
        token = map_get (s_Data sec) ''token'' \<and> token \<noteq> '''' \<and>
        sha256_hex (rc_lib R) token = ApprovalTokenHash (Status cur) \<and>
        map_of form ''url'' = Some (approve_link link (UID cur) token))"

lemma approval_sent_carries: "approval_sent R cur cs form \<Longrightarrow> carries_committed_token R cur cs form"
  unfolding approval_sent_def carries_committed_token_def
  by (elim exE conjE, rule exI, rule exI, rule exI)
     (auto simp: token_matches_def constantTimeEqual_iff approval_form_def)

section \<open>The shape of a decision\<close>

text \<open>The request with the UID, as the cached list shows it.\<close>

definition listed :: "reconciler \<Rightarrow> string \<Rightarrow> call set \<Rightarrow> sudo_request \<Rightarrow> bool" where
  "listed R uid cs sr \<longleftrightarrow> UID sr = uid \<and>
     (\<exists>items. ListSR True (controllerNamespace R) (Inr items) \<in> cs \<and> sr \<in> set items)"

lemma listed_insert [simp]:
  "listed R uid (insert c cs) sr \<longleftrightarrow> UID sr = uid \<and>
     (case c of ListSR cached ns r \<Rightarrow> cached \<and> ns = controllerNamespace R \<and> (\<exists>items. r = Inr items \<and> sr \<in> set items)
      | _ \<Rightarrow> False) \<or> listed R uid cs sr"
  by (auto simp: listed_def split: call.splits)

text \<open>
  A decision writes one status, computed by \<open>mutate\<close> from a listed request that is pending; it
  deletes the token's Secret, and publishes, only after that write was accepted.
\<close>

definition decision_call :: "(int \<Rightarrow> sudo_request_status \<Rightarrow> sudo_request_status) \<Rightarrow> reconciler \<Rightarrow> string \<Rightarrow>
    nat \<Rightarrow> hist \<Rightarrow> call \<Rightarrow> bool" where
  "decision_call mutate R uid n h c =
     (case c of
        ListSR cached ns r \<Rightarrow> cached \<and> ns = controllerNamespace R
      | UpdateStatus obj r \<Rightarrow>
          (\<exists>sr t. listed R uid (recent n h) sr \<and> Phase (Status sr) = Pending \<and> obj = Status_update (mutate t) sr)
      | DeleteSecret ns nm r \<Rightarrow>
          (\<exists>sr t. listed R uid (recent n h) sr \<and> nm = ApprovalTokenSecretName (Status sr) \<and> nm \<noteq> '''' \<and>
             stored_in (recent n h) (Status_update (mutate t) sr) ns)
      | Now t \<Rightarrow> True
      | _ \<Rightarrow> announces n h c)"

text \<open>What both operations do, with the announcement as a parameter.\<close>

definition decide :: "world \<Rightarrow> reconciler \<Rightarrow> string \<Rightarrow> (int \<Rightarrow> sudo_request_status \<Rightarrow> sudo_request_status) \<Rightarrow>
    string \<Rightarrow> string \<Rightarrow> string \<Rightarrow> (sudo_request \<Rightarrow> event) \<Rightarrow> unit res prog" where
  "decide W R uid mutate et reason msg ev =
     attempt (findByUID W R uid) (\<lambda>sr.
       if Phase (Status sr) \<noteq> Pending then State_Monad.return (Inl (not_pending ''request not pending'' sr))
       else do {
         t \<leftarrow> now W;
         attempt (update_status_call W (Status_update (mutate t) sr)) (\<lambda>stored. do {
           deleteApprovalTokenSecret W (Namespace stored) (ApprovalTokenSecretName (Status sr));
           record_event et reason msg;
           publish (UID stored) (ev stored);
           State_Monad.return (Inr ()) }) })"

locale decision =
  fixes mutate :: "int \<Rightarrow> sudo_request_status \<Rightarrow> sudo_request_status"
    and p :: phase
  assumes enters: "Phase (mutate t s) = p"
    and burns: "ApprovalTokenHash (mutate t s) = ''''" "ApprovalTokenExpiresAt (mutate t s) = None"
      "ApprovalTokenSecretName (mutate t s) = ''''"
    and allowed: "human_step Pending p"
    and once: "writes_once s (mutate t s)"
    and image_of: "ResolvedImage (mutate t s) = ResolvedImage s"
begin

lemma decide_emits:
  assumes n: "n \<le> length h" and ev: "\<And>sr. e_Type (ev sr) = ''phase'' \<and> e_Phase (ev sr) = p"
  shows "emits (decision_call mutate R uid n) (decide W R uid mutate et reason msg ev)
     (\<lambda>r h'. r = Inr () \<longrightarrow> (\<exists>sr t stored. listed R uid (recent n h') sr \<and> Phase (Status sr) = Pending \<and>
        UpdateStatus (Status_update (mutate t) sr) (Inr stored) \<in> recent n h')) h"
proof -
  have found: "UID x = uid \<and> x \<in> set items" if "find (\<lambda>sr. UID sr = uid) items = Some x" for items x
    using that by (auto simp: find_Some_iff)
  show ?thesis
    unfolding decide_def findByUID_def deleteApprovalTokenSecret_def
    using n ev
    by (auto simp: prims decision_call_def announces_def enters dest!: found intro!: emits_rules
        split: sum.split option.split) blast+
qed

text \<open>Every write of a decision is a step of the machine from Pending, and burns the token.\<close>

lemma decided_write:
  assumes "calls (decide W R uid mutate et reason msg ev) h = u @ UpdateStatus obj r # v"
    and ev: "\<And>sr. e_Type (ev sr) = ''phase'' \<and> e_Phase (ev sr) = p"
  shows "\<exists>sr t. listed R uid (set u) sr \<and> Phase (Status sr) = Pending \<and> obj = Status_update (mutate t) sr \<and>
     human_step (Phase (Status sr)) (Phase (Status obj)) \<and> ApprovalTokenHash (Status obj) = '''' \<and>
     ApprovalTokenExpiresAt (Status obj) = None \<and> ApprovalTokenSecretName (Status obj) = ''''"
proof -
  have "decision_call mutate R uid (length h) (h @ u) (UpdateStatus obj r)"
    by (rule emits_callsD [OF decide_emits assms(1)]) (simp_all add: ev)
  then obtain sr t where "listed R uid (set u) sr" "Phase (Status sr) = Pending" "obj = Status_update (mutate t) sr"
    by (auto simp: decision_call_def)
  then show ?thesis using enters burns allowed by (intro exI [of _ sr] exI [of _ t]) simp
qed

end

interpretation approve: decision "\<lambda>t. approved_status t who" Approved for who
  by unfold_locales (simp_all add: approved_status_def burn_token_def writes_once_def)

interpretation deny: decision "\<lambda>t. denied_by_status t who reason" Denied for who reason
  by unfold_locales (simp_all add: denied_by_status_def burn_token_def writes_once_def)

lemma Approve_decide:
  "Approve W R uid who = decide W R uid (\<lambda>t. approved_status t who) ''Normal'' ''Approved'' (''Approved by '' @ who)
     (\<lambda>stored. (phase_event stored Approved)\<lparr>e_ApprovedBy := who\<rparr>)"
  by (simp only: Approve_def decide_def)

lemma Deny_decide:
  "Deny W R uid who reason = decide W R uid (\<lambda>t. denied_by_status t who reason) ''Warning'' ''Denied''
     (''Denied by '' @ who @ '': '' @ reason)
     (\<lambda>stored. (phase_event stored Denied)\<lparr>e_DeniedBy := who, e_DenialReason := reason\<rparr>)"
  by (simp only: Deny_def decide_def)

section \<open>VerifyApprovalToken\<close>

text \<open>An accepted token is the one whose hash a pending, unexpired request carries.\<close>

definition token_valid :: "reconciler \<Rightarrow> sudo_request \<Rightarrow> string \<Rightarrow> call set \<Rightarrow> bool" where
  "token_valid R sr token cs \<longleftrightarrow> Phase (Status sr) = Pending \<and>
     ApprovalTokenHash (Status sr) = sha256_hex (rc_lib R) token \<and>
     (\<exists>t expiry. Now t \<in> cs \<and> ApprovalTokenExpiresAt (Status sr) = Some expiry \<and> t \<le> expiry)"

lemma VerifyApprovalToken_emits:
  assumes n: "n \<le> length h"
  shows "emits (\<lambda>h c. case c of ListSR cached ns r \<Rightarrow> cached \<and> ns = controllerNamespace R | Now t \<Rightarrow> True | _ \<Rightarrow> False)
     (VerifyApprovalToken W R uid token)
     (\<lambda>r h'. \<forall>sr. r = Inr sr \<longrightarrow> listed R uid (recent n h') sr \<and> token_valid R sr token (recent n h')) h"
proof -
  have found: "UID x = uid \<and> x \<in> set items" if "find (\<lambda>sr. UID sr = uid) items = Some x" for items x
    using that by (auto simp: find_Some_iff)
  show ?thesis
    unfolding VerifyApprovalToken_def findByUID_def token_valid_def
    using n by (auto simp: prims constantTimeEqual_iff dest!: found intro!: emits_rules split: sum.split option.split)
      (metis not_less)
qed

end
