(* ===== verification/Samples.thy ===== *)
theory Samples
  imports Decisions
begin

text \<open>
  Concrete requests, libraries and worlds, on which the witnesses of the properties evaluate the
  program.  The libraries are simple functions with the documented behaviour on the inputs used.
\<close>

definition sample_lib :: lib where
  "sample_lib = \<lparr>sh_parse = \<lambda>s. if s = '''' then Inl ''empty'' else Inr (ShNode OtherSyntax []),
     shlex_split = \<lambda>s. Some [s],
     json_env = \<lambda>s. Inl s, json_env_from = \<lambda>s. Inl s, json_volume = \<lambda>s. Inl s, json_mount = \<lambda>s. Inl s,
     json_container = \<lambda>s. Inl s, json_secret_ref = \<lambda>s. Inr s,
     dns1123_label = \<lambda>s. [], dns1123_subdomain = \<lambda>s. [],
     yaml_pod = \<lambda>p. Inr ''spec'', spec_json = \<lambda>s i. Inr (Command s),
     sha256_hex = \<lambda>s. ''h'' @ s,
     json_permission = \<lambda>s. Inl s, json_pushover = \<lambda>s. Inr (1, s, []),
     url_parse = \<lambda>s. Inr \<lparr>pu_origin = s, pu_query = [], pu_fragment = ''''\<rparr>,
     json_body = \<lambda>s. Inr \<lparr>cb_Reason = ''why'', cb_Command = s, cb_Image = '''', cb_Profile = '''', cb_Playbook = None,
       cb_TTLSecondsAfterApproval = None, cb_Namespace = '''', cb_Stdin = '''', cb_Env = [], cb_EnvFrom = [],
       cb_Volumes = [], cb_VolumeMounts = [], cb_InitContainers = [], cb_ImagePullSecrets = [],
       cb_ClusterAdmin = None\<rparr>\<rparr>"

definition sample_reconciler :: reconciler where
  "sample_reconciler = \<lparr>rc_ControllerNamespace = ''ctl'', rc_Playbooks = Some [],
     rc_Pushover = \<lparr>po_Token = ''pt'', po_UserKey = ''pu''\<rparr>, rc_Summarizer = None,
     rc_PublicBaseURL = ''https://sudo'', rc_rules = [], rc_lib = sample_lib\<rparr>"

definition sample_spec :: sudo_request_spec where
  "sample_spec = \<lparr>Requester = ''ann'', SubmittedBy = ''ann'', RetryOfUID = '''', Reason = ''why'',
     Command = ''date'', Playbook = None, SpecImage = '''', Profile = '''',
     TTLSecondsAfterApproval = None, SpecNamespace = '''', Stdin = '''', Env = [], EnvFrom = [],
     Volumes = [], VolumeMounts = [], InitContainers = [], ImagePullSecrets = [], ClusterAdmin = None\<rparr>"

definition sample_request :: sudo_request where
  "sample_request = \<lparr>Name = ''r1'', Namespace = ''ctl'', UID = ''u1'', ResourceVersion = ''7'',
     CreationTimestamp = 0, DeletionTimestamp = None, Finalizers = [], Spec = sample_spec, Status = zero_status\<rparr>"

definition approved_request :: sudo_request where
  "approved_request = sample_request\<lparr>Status := zero_status\<lparr>Phase := Approved, ExecutorJobName := ''sudo-exec-1''\<rparr>\<rparr>"

text \<open>A world that stores one request, has no Jobs and accepts every write.\<close>

definition world_of :: "sudo_request \<Rightarrow> world" where
  "world_of sr = \<lparr>w_get_sr = \<lambda>h cached ns n. Inr sr, w_list_sr = \<lambda>h cached ns. Inr [sr],
     w_update_status = \<lambda>h obj. Inr obj, w_update_sr = \<lambda>h obj. Inr obj, w_create_sr = \<lambda>h g obj. Inr (obj\<lparr>UID := ''u2''\<rparr>),
     w_get_job = \<lambda>h ns n. Inl (ApiError NotFound n), w_create_job = \<lambda>h j. Inr (j\<lparr>j_UID := ''j1''\<rparr>),
     w_delete_job = \<lambda>h ns n uid. None,
     w_get_secret = \<lambda>h cached ns n. Inl (ApiError NotFound n), w_create_secret = \<lambda>h s. Inr (s\<lparr>s_Name := ''tok-1''\<rparr>),
     w_delete_secret = \<lambda>h ns n. None, w_list_secrets = \<lambda>h ns ls. Inr [], w_list_pods = \<lambda>h ns j. Inr [],
     w_pod_logs = \<lambda>h ns p c. Inr ([], None), w_now = \<lambda>h. 60000000000,
     w_random = \<lambda>h n. Inr (replicate n CHR ''a''), w_model = \<lambda>h m c. Inl (Text ''down''),
     w_post = \<lambda>h form. Inr (200, ''req''),
     w_token_review = \<lambda>h tok aud. Inr \<lparr>tr_Authenticated = (tok = ''good''), tr_Error = '''', tr_Audiences = [aud],
       tr_User = \<lparr>u_Username = ''ann'', u_UID = ''7'', u_Groups = [], u_Extra = []\<rparr>\<rparr>,
     w_access_review = \<lambda>h q. Inr \<lparr>ad_Allowed = True, ad_Reason = '''', ad_EvaluationError = ''''\<rparr>,
     w_verify_jwt = \<lambda>h raw. if raw = ''jwt'' then Inr (Inr \<lparr>hc_Subject = ''s'', hc_PreferredUsername = ''bob'',
       hc_Email = '''', hc_Groups = [''/admins'']\<rparr>) else Inl (Text ''bad token''),
     w_received = \<lambda>h who. [], w_order = \<lambda>h ks. ks, w_sort = \<lambda>h xs. xs, w_retries = 4\<rparr>"

section \<open>Scenarios\<close>

definition sample_job :: job where
  "sample_job = \<lparr>j_Name = ''sudo-exec-1'', j_Namespace = ''ctl'', j_UID = ''j1'', j_Labels = [], j_Owners = [],
     j_CreationTimestamp = 0, j_DeletionTimestamp = None, j_BackoffLimit = None, j_TTLSecondsAfterFinished = None,
     j_TemplateLabels = [], j_PodSpec = \<lparr>ps_RestartPolicy = '''', ps_ServiceAccountName = '''',
       ps_AutomountServiceAccountToken = None, ps_ImagePullSecrets = [], ps_RunAsNonRoot = None,
       ps_RunAsUser = None, ps_SeccompProfile = None, ps_InitContainers = [], ps_Containers = [], ps_Volumes = []\<rparr>,
     j_Succeeded = 1, j_Failed = 0, j_Conditions = [(''Complete'', ''True'')]\<rparr>"

definition sample_pod :: pod where
  "sample_pod = \<lparr>p_Name = ''pod-1'', p_Namespace = ''ctl'',
     p_Owners = [\<lparr>or_APIVersion = ''batch/v1'', or_Kind = ''Job'', or_Name = ''sudo-exec-1'', or_UID = ''j1'',
       or_Controller = Some True, or_BlockOwnerDeletion = None\<rparr>],
     p_InitContainerStatuses = [],
     p_ContainerStatuses = [\<lparr>st_Name = ''executor'', st_State = Terminated 0 0\<rparr>]\<rparr>"

text \<open>The Job has finished and is the recorded one; its log cannot be read.\<close>

definition running_request :: sudo_request where
  "running_request = Status_update (\<lambda>s. s\<lparr>ExecutorJobUID := ''j1''\<rparr>) approved_request"

definition finished_world :: world where
  "finished_world = (world_of running_request)\<lparr>w_get_job := \<lambda>h ns n. Inr sample_job,
     w_list_pods := \<lambda>h ns j. Inr [sample_pod], w_pod_logs := \<lambda>h ns p c. Inl (Text ''gone'')\<rparr>"

text \<open>A pending request with its token, and the Secret that holds it.\<close>

definition pending_request :: sudo_request where
  "pending_request = sample_request\<lparr>Status := zero_status\<lparr>Phase := Pending, NotificationState := NotifPending,
     ApprovalTokenHash := ''htok'', ApprovalTokenSecretName := ''tok-1'', ApprovalTokenExpiresAt := Some 3600000000000\<rparr>\<rparr>"

definition pending_world :: world where
  "pending_world = (world_of pending_request)\<lparr>w_get_secret := \<lambda>h cached ns n. Inr
     \<lparr>s_Name = n, s_GenerateName = '''', s_Namespace = ns, s_Labels = [], s_Owners = [], s_Type = '''',
      s_Data = [(''token'', ''tok'')]\<rparr>\<rparr>"

definition asked_request :: sudo_request where
  "asked_request = Status_update (\<lambda>s. s\<lparr>PermissionAssessmentState := AssessPending\<rparr>) pending_request"

definition asking_reconciler :: reconciler where
  "asking_reconciler = sample_reconciler\<lparr>rc_Summarizer := Some ''model''\<rparr>"

text \<open>A request whose playbook was approved without a human, and its target.\<close>

definition playbook_request :: sudo_request where
  "playbook_request = sample_request\<lparr>
     Spec := sample_spec\<lparr>Playbook := Some \<lparr>pb_Name = terminalJobCleanupPlaybook,
       pb_Parameters = [(''namespace'', ''ctl''), (''name'', ''sudo-exec-1'')]\<rparr>\<rparr>,
     Status := zero_status\<lparr>Phase := Approved, PlaybookAutoApproved := True, PlaybookTargetUID := ''j1''\<rparr>\<rparr>"

definition playbook_world :: world where
  "playbook_world = (world_of playbook_request)\<lparr>w_get_job := \<lambda>h ns n. Inr sample_job\<rparr>"

text \<open>A request that is being deleted, with the finalizer and a Job.\<close>

definition deleting_request :: sudo_request where
  "deleting_request = running_request\<lparr>DeletionTimestamp := Some 1, Finalizers := [executorCleanupFinalizer]\<rparr>"

definition deleting_world :: world where
  "deleting_world = (world_of deleting_request)\<lparr>w_get_job := \<lambda>h ns n. Inr sample_job\<rparr>"

section \<open>Evaluating a run\<close>

lemma makes:
  assumes "list_ex P cs"
  obtains u c v where "cs = u @ c # v" and "P c"
  using assms by (auto simp: list_ex_iff dest!: split_list)

lemma makes_first:
  assumes "list_ex P cs" and "list_all Q (takeWhile (\<lambda>c. \<not> P c) cs)"
  obtains u c v where "cs = u @ c # v" and "P c" and "list_all Q u"
proof -
  have "dropWhile (\<lambda>c. \<not> P c) cs \<noteq> []" using assms(1) by (auto simp: list_ex_iff)
  then have "cs = takeWhile (\<lambda>c. \<not> P c) cs @ hd (dropWhile (\<lambda>c. \<not> P c) cs) # tl (dropWhile (\<lambda>c. \<not> P c) cs)"
    by simp
  moreover have "P (hd (dropWhile (\<lambda>c. \<not> P c) cs))"
    using hd_dropWhile [OF \<open>dropWhile (\<lambda>c. \<not> P c) cs \<noteq> []\<close>] by simp
  ultimately show ?thesis using assms(2) that by blast
qed

text \<open>The call showed no object in phase \<open>p\<close>; the call stores an object in phase \<open>p\<close>.\<close>

definition not_shown :: "phase \<Rightarrow> call \<Rightarrow> bool" where
  "not_shown p c = (case c of
     GetSR cached ns nm (Inr sr) \<Rightarrow> Phase (Status sr) \<noteq> p
   | UpdateStatus obj (Inr sr) \<Rightarrow> Phase (Status sr) \<noteq> p
   | _ \<Rightarrow> True)"

definition stores :: "phase \<Rightarrow> call \<Rightarrow> bool" where
  "stores p c = (case c of UpdateStatus obj r \<Rightarrow> Phase (Status obj) = p | _ \<Rightarrow> False)"

lemma not_shown_enters: "list_all (not_shown p) u \<Longrightarrow> Phase (Status obj) = p \<Longrightarrow> enters (set u) obj"
  by (fastforce simp: enters_def seen_def list_all_iff not_shown_def)

lemma stores_first:
  assumes "list_ex (stores p) cs" and "list_all (not_shown p) (takeWhile (\<lambda>c. \<not> stores p c) cs)"
  obtains u obj r v where "cs = u @ UpdateStatus obj r # v" and "Phase (Status obj) = p" and "enters (set u) obj"
proof -
  from assms obtain u c v where "cs = u @ c # v" "stores p c" "list_all (not_shown p) u"
    by (rule makes_first)
  then show ?thesis using that not_shown_enters by (auto simp: stores_def split: call.splits)
qed

abbreviation run :: "world \<Rightarrow> reconciler \<Rightarrow> call list" where
  "run W R \<equiv> calls (Reconcile W R ''ctl'' ''r1'') []"

text \<open>Evaluation by rewriting, for the runs whose details need not be computed.\<close>

lemma run_bind: "run_state (State_Monad.bind m k) h = (case run_state m h of (a, h') \<Rightarrow> run_state (k a) h')"
  by (cases m) (auto simp: State_Monad.bind_def split: prod.split)

lemma run_attempt: "run_state (attempt m k) h =
   (case run_state m h of (r, h') \<Rightarrow> (case r of Inl e \<Rightarrow> (Inl e, h') | Inr a \<Rightarrow> run_state (k a) h'))"
  by (auto simp: attempt_def run_bind split: prod.split sum.split)

lemma run_attempt_ctx: "run_state (attempt_ctx ctx m k) h =
   (case run_state m h of (r, h') \<Rightarrow> (case r of Inl e \<Rightarrow> (Inl (Wrap ctx e), h') | Inr a \<Rightarrow> run_state (k a) h'))"
  by (auto simp: attempt_ctx_def run_bind split: prod.split sum.split)

lemmas runs = run_bind run_attempt run_attempt_ctx prims
lemmas samples = sample_lib_def sample_reconciler_def sample_spec_def sample_request_def zero_status_def

lemma sample_preflight:
  "resolveAndPreflight (rc_lib sample_reconciler) sample_request =
     Inr (Some kubectl_profile, pr_Image kubectl_profile, command_warnings ''date'')"
  by (simp add: samples resolveAndPreflight_def resolveExecutorProfile_def executorProfiles_def
      DefaultExecutorProfile_def preflightCommand_def profile_rejection_def visibleExecutables_def
      call_executable_def commandUsesPipefail_def kind_sets_pipefail_def shell_warnings_def
      commandUsesBashism_def kind_is_bashism_def List.map_filter_def)

lemma world_sel:
  "w_get_sr (world_of sr) h cached ns n = Inr sr" "w_update_status (world_of sr) h obj = Inr obj"
  "w_create_secret (world_of sr) h s = Inr (s\<lparr>s_Name := ''tok-1''\<rparr>)" "w_now (world_of sr) h = 60000000000"
  "w_random (world_of sr) h k = Inr (replicate k CHR ''a'')"
  by (simp_all add: world_of_def)

lemma sample_accepted: "accepted_new sample_reconciler sample_request"
  by (simp add: accepted_new_iff sample_preflight)
     (simp add: samples validateCommandSyntax_def spec_ok_def extras_ok_def decodePodExtras_def decode_field_def
       validatePlaybookSpec_def)

lemma sample_no_tokens: "autoApproveTokens (rc_lib sample_reconciler) (rc_rules sample_reconciler) sr = None"
  by (simp add: sample_reconciler_def no_rules_no_approval)

lemma sample_new:
  "handleNew W sample_reconciler sample_request =
     await_approval W sample_reconciler (resolved_new (resolveAndPreflight (rc_lib sample_reconciler) sample_request) sample_request)"
proof -
  have pb: "Playbook (Spec sample_request) = None" by (simp add: samples)
  show ?thesis
  using sample_accepted
  by (simp add: accepted_new_def handleNew_def admit_new_def prepareAutoApprovedPlaybook_def sample_no_tokens pb Let_def attempt_def)
qed
lemma sample_new_run:
  "list_ex (stores Pending) (run (world_of sample_request) sample_reconciler)"
  "list_all (not_shown Pending) (takeWhile (\<lambda>c. \<not> stores Pending c) (run (world_of sample_request) sample_reconciler))"
proof -
  have d: "DeletionTimestamp sample_request = None" "Phase (Status sample_request) = NoPhase" by (simp_all add: samples)
  show "list_ex (stores Pending) (run (world_of sample_request) sample_reconciler)"
    "list_all (not_shown Pending) (takeWhile (\<lambda>c. \<not> stores Pending c) (run (world_of sample_request) sample_reconciler))"
    by (simp_all add: calls_def Reconcile_def dispatch_def runs world_sel d sample_new await_approval_def randomToken_def
        Let_def pending_status_def stores_def not_shown_def)
qed

text \<open>A request that the shell parser rejects.\<close>

definition broken_request :: sudo_request where
  "broken_request = sample_request\<lparr>Spec := sample_spec\<lparr>Command := ''''\<rparr>\<rparr>"

lemma broken_run:
  "list_ex (stores Denied) (run (world_of broken_request) sample_reconciler)"
  "list_all (not_shown Denied) (takeWhile (\<lambda>c. \<not> stores Denied c) (run (world_of broken_request) sample_reconciler))"
proof -
  have b: "DeletionTimestamp broken_request = None" "Phase (Status broken_request) = NoPhase"
    "Command (Spec broken_request) = ''''"
    by (simp_all add: broken_request_def samples)
  have e: "validateCommandSyntax (rc_lib sample_reconciler) '''' = Some (Wrap ''invalid shell syntax'' (Text ''empty''))"
    by (simp add: validateCommandSyntax_def samples)
  show "list_ex (stores Denied) (run (world_of broken_request) sample_reconciler)"
    "list_all (not_shown Denied) (takeWhile (\<lambda>c. \<not> stores Denied c) (run (world_of broken_request) sample_reconciler))"
    by (simp_all add: calls_def Reconcile_def dispatch_def handleNew_def deny_new_def runs world_sel b e Let_def
        denied_status_def stores_def not_shown_def)
qed

text \<open>Requests whose executor runs in another namespace, or in the controller's.\<close>

definition away_request :: "bool \<Rightarrow> sudo_request" where
  "away_request away = sample_request\<lparr>Spec := sample_spec\<lparr>SpecNamespace := (if away then ''team'' else '''')\<rparr>\<rparr>"

definition sample_extras :: pod_extras where
  "sample_extras = \<lparr>px_Env = [], px_EnvFrom = [], px_Volumes = [], px_VolumeMounts = [],
     px_InitContainers = [], px_ImagePullSecrets = []\<rparr>"

end
