(* ===== verification/Collector.thy ===== *)
theory Collector
  imports Decisions
begin

text \<open>
  \<^verbatim>\<open>gc.go\<close>: the garbage collector.  It deletes the controller's Secrets whose
  \<^verbatim>\<open>expires-at\<close> label has passed, and expires the pending requests whose requeue was
  lost.  Errors of a round are logged by the loop and dropped.
\<close>

section \<open>The label\<close>

text \<open>\<open>strconv.ParseInt(s, 10, 64)\<close>: an optional sign, then digits only, within 64 bits.\<close>

definition digits_value :: "string \<Rightarrow> nat" where
  "digits_value ds = foldl (\<lambda>acc d. 10 * acc + (of_char d - 48)) 0 ds"

definition parse_nat :: "string \<Rightarrow> nat option" where
  "parse_nat ds = (if ds \<noteq> '''' \<and> list_all is_digit ds then Some (digits_value ds) else None)"

definition parse_int64 :: "string \<Rightarrow> int option" where
  "parse_int64 s =
     (let neg = (take 1 s = ''-''); ds = (if neg \<or> take 1 s = ''+'' then drop 1 s else s) in
      case parse_nat ds of
        None \<Rightarrow> None
      | Some n \<Rightarrow>
          if neg then (if n \<le> 2 ^ 63 then Some (- int n) else None)
          else (if n < 2 ^ 63 then Some (int n) else None))"

definition secret_expired :: "int \<Rightarrow> secret \<Rightarrow> bool" where
  "secret_expired unix s =
     (if map_get (s_Labels s) ''expires-at'' = '''' then False
      else case parse_int64 (map_get (s_Labels s) ''expires-at'') of
        None \<Rightarrow> False
      | Some exp \<Rightarrow> unix \<ge> exp)"

section \<open>The two sweeps\<close>

definition sweep_secret :: "world \<Rightarrow> int \<Rightarrow> secret \<Rightarrow> unit prog" where
  "sweep_secret W unix s =
     (if secret_expired unix s
      then do { e \<leftarrow> delete_secret W (s_Namespace s) (s_Name s); State_Monad.return () }
      else State_Monad.return ())"

definition sweepSecrets :: "world \<Rightarrow> string \<Rightarrow> gerr option prog" where
  "sweepSecrets W cns = do {
     r \<leftarrow> list_secrets W (configuredControllerNamespace cns) [(''app'', ''sudo-service'')];
     case r of
       Inl e \<Rightarrow> State_Monad.return (Some e)
     | Inr secs \<Rightarrow> do {
         t \<leftarrow> now W;
         for_each (sweep_secret W (seconds t)) secs;
         State_Monad.return None } }"

definition expire_pending :: "world \<Rightarrow> int \<Rightarrow> sudo_request \<Rightarrow> unit prog" where
  "expire_pending W t sr =
     (if Phase (Status sr) \<noteq> Pending then State_Monad.return ()
      else if time_sub t (CreationTimestamp sr) < PendingRequestTTL * second then State_Monad.return ()
      else do {
        r \<leftarrow> update_status_call W (Status_update expired_status sr);
        case r of
          Inl e \<Rightarrow> State_Monad.return ()
        | Inr stored \<Rightarrow> do {
            deleteApprovalTokenSecret W (Namespace stored) (ApprovalTokenSecretName (Status sr));
            publish (UID stored) (phase_event stored Expired) } })"

definition expirePending :: "world \<Rightarrow> string \<Rightarrow> gerr option prog" where
  "expirePending W cns = do {
     r \<leftarrow> list_sr W True (configuredControllerNamespace cns);
     case r of
       Inl e \<Rightarrow> State_Monad.return (Some e)
     | Inr items \<Rightarrow> do {
         t \<leftarrow> now W;
         for_each (expire_pending W t) items;
         State_Monad.return None } }"

text \<open>What wakes the loop up: its context is done, or five minutes have passed.\<close>

datatype wakeup = Done | Tick

fun Start :: "world \<Rightarrow> string \<Rightarrow> wakeup list \<Rightarrow> unit prog" where
  "Start W cns [] = State_Monad.return ()"
| "Start W cns (Done # ws) = State_Monad.return ()"
| "Start W cns (Tick # ws) = do { sweepSecrets W cns; expirePending W cns; Start W cns ws }"

section \<open>Reading the label back\<close>

lemma digit_char: "n < 10 \<Longrightarrow> is_digit (char_of (48 + n :: nat)) \<and> of_char (char_of (48 + n :: nat) :: char) = 48 + n"
  by (auto simp: is_digit_def in_range_def of_char_of)

lemma digits_value_snoc: "digits_value (ds @ [d]) = 10 * digits_value ds + (of_char d - 48)"
  by (simp add: digits_value_def)

lemma parse_show_digits: "parse_nat (show_digits n) = Some n"
proof -
  have "show_digits n \<noteq> '''' \<and> list_all is_digit (show_digits n) \<and> digits_value (show_digits n) = n"
  proof (induction n rule: show_digits.induct)
    case (1 n)
    show ?case
    proof (cases "n < 10")
      case True
      then show ?thesis using digit_char [of n] by (simp add: show_digits.simps [of n] digits_value_def)
    next
      case False
      with 1 have ih: "show_digits (n div 10) \<noteq> '''' \<and> list_all is_digit (show_digits (n div 10)) \<and>
          digits_value (show_digits (n div 10)) = n div 10" by blast
      with False show ?thesis
        using digit_char [of "n mod 10"] by (simp add: show_digits.simps [of n] digits_value_snoc)
    qed
  qed
  then show ?thesis by (simp add: parse_nat_def)
qed

lemma show_digits_head: "is_digit (hd (show_digits n)) \<and> show_digits n \<noteq> ''''"
  using parse_show_digits [of n] by (cases "show_digits n") (auto simp: parse_nat_def split: if_splits)

lemma parse_show_int:
  assumes "- (2 ^ 63) \<le> i" and "i < 2 ^ 63"
  shows "parse_int64 (show_int i) = Some i"
proof -
  obtain c cs where s: "show_digits (nat i) = c # cs" "is_digit c"
    using show_digits_head [of "nat i"] by (cases "show_digits (nat i)") auto
  have "c \<noteq> CHR ''-''" "c \<noteq> CHR ''+''" using s(2) by (auto simp: is_digit_def in_range_def)
  then show ?thesis
    using assms s parse_show_digits [of "nat i"] parse_show_digits [of "nat (- i)"]
    by (auto simp: parse_int64_def show_int_def Let_def nat_le_iff nat_less_iff)
qed

lemma show_int_nonempty: "show_int i \<noteq> ''''"
  using show_digits_head by (simp add: show_int_def)

lemma secret_expired_label:
  assumes "map_get (s_Labels s) ''expires-at'' = show_int i" and "- (2 ^ 63) \<le> i" "i < 2 ^ 63"
  shows "secret_expired unix s \<longleftrightarrow> i \<le> unix"
  using assms by (simp add: secret_expired_def parse_show_int show_int_nonempty)

section \<open>Every call of the collector\<close>

text \<open>
  A Secret is deleted only when it was listed, carries the label of the program and has expired, or
  when it is the token of a request whose expiry was accepted; a request is written only when it was
  listed as pending and is overdue.
\<close>

definition swept :: "string \<Rightarrow> call set \<Rightarrow> string \<Rightarrow> string \<Rightarrow> bool" where
  "swept cns cs ns nm \<longleftrightarrow>
     (\<exists>secs s t. ListSecrets cns [(''app'', ''sudo-service'')] (Inr secs) \<in> cs \<and> s \<in> set secs \<and> Now t \<in> cs \<and>
        secret_expired (seconds t) s \<and> ns = s_Namespace s \<and> nm = s_Name s)"

definition listed_overdue :: "string \<Rightarrow> call set \<Rightarrow> sudo_request \<Rightarrow> bool" where
  "listed_overdue cns cs sr \<longleftrightarrow>
     (\<exists>items. ListSR True cns (Inr items) \<in> cs \<and> sr \<in> set items) \<and> Phase (Status sr) = Pending \<and> overdue cs sr"

definition expiry_write :: "string \<Rightarrow> call set \<Rightarrow> sudo_request \<Rightarrow> bool" where
  "expiry_write cns cs obj \<longleftrightarrow> (\<exists>sr. listed_overdue cns cs sr \<and> obj = Status_update expired_status sr)"

definition expiry_token :: "string \<Rightarrow> call set \<Rightarrow> string \<Rightarrow> string \<Rightarrow> bool" where
  "expiry_token cns cs ns nm \<longleftrightarrow>
     (\<exists>sr. listed_overdue cns cs sr \<and> nm = ApprovalTokenSecretName (Status sr) \<and> nm \<noteq> '''' \<and>
        stored_in cs (Status_update expired_status sr) ns)"

definition collector_call :: "string \<Rightarrow> nat \<Rightarrow> hist \<Rightarrow> call \<Rightarrow> bool" where
  "collector_call cns n h c =
     (case c of
        ListSecrets ns ls r \<Rightarrow> ns = cns \<and> ls = [(''app'', ''sudo-service'')]
      | ListSR cached ns r \<Rightarrow> cached \<and> ns = cns
      | Now t \<Rightarrow> True
      | DeleteSecret ns nm r \<Rightarrow> swept cns (recent n h) ns nm \<or> expiry_token cns (recent n h) ns nm
      | UpdateStatus obj r \<Rightarrow> expiry_write cns (recent n h) obj
      | PublishEvent uid e \<Rightarrow> e_Type e = ''phase'' \<and> e_Phase e = Expired \<and> published (recent n h) uid Expired
      | _ \<Rightarrow> False)"

lemma sweptI:
  "ListSecrets cns [(''app'', ''sudo-service'')] (Inr secs) \<in> cs \<Longrightarrow> s \<in> set secs \<Longrightarrow> Now t \<in> cs \<Longrightarrow>
     secret_expired (seconds t) s \<Longrightarrow> swept cns cs (s_Namespace s) (s_Name s)"
  unfolding swept_def by blast

lemma swept_mono: "swept cns A ns nm \<Longrightarrow> A \<subseteq> B \<Longrightarrow> swept cns B ns nm"
  unfolding swept_def by blast

lemma listed_overdue_mono: "listed_overdue cns A sr \<Longrightarrow> A \<subseteq> B \<Longrightarrow> listed_overdue cns B sr"
  unfolding listed_overdue_def overdue_def by blast

lemma recent_mono: "n \<le> length h \<Longrightarrow> recent n h \<subseteq> recent n (h @ t)"
  by simp

lemma sweepSecrets_emits:
  assumes n: "n \<le> length h"
  shows "emits (collector_call (configuredControllerNamespace cns) n) (sweepSecrets W cns) (\<lambda>r h'. n \<le> length h') h"
proof -
  let ?cns = "configuredControllerNamespace cns"
  have loop: "emits (collector_call ?cns n) (for_each (sweep_secret W (seconds t)) secs) (\<lambda>_ h'. n \<le> length h') k"
    if "n \<le> length k" "ListSecrets ?cns [(''app'', ''sudo-service'')] (Inr secs) \<in> recent n k" "Now t \<in> recent n k" for secs t k
  proof (rule emits_mono [OF emits_for_each [where I = "\<lambda>k. n \<le> length k \<and>
        {ListSecrets ?cns [(''app'', ''sudo-service'')] (Inr secs), Now t} \<subseteq> recent n k"]])
    fix s k'
    assume "s \<in> set secs" "n \<le> length k' \<and> {ListSecrets ?cns [(''app'', ''sudo-service'')] (Inr secs), Now t} \<subseteq> recent n k'"
    then show "emits (collector_call ?cns n) (sweep_secret W (seconds t) s) (\<lambda>_ k. n \<le> length k \<and>
        {ListSecrets ?cns [(''app'', ''sudo-service'')] (Inr secs), Now t} \<subseteq> recent n k) k'"
      by (auto simp: sweep_secret_def prims collector_call_def intro!: emits_bind sweptI)
  qed (use that in auto)
  show ?thesis
    unfolding sweepSecrets_def
    by (intro emits_bind) (auto simp: prims n le_SucI collector_call_def intro!: emits_bind emits_mono [OF loop] split: sum.split)
qed

lemma expire_pending_emits:
  assumes n: "n \<le> length h" and l: "ListSR True cns (Inr items) \<in> recent n h" "Now t \<in> recent n h" "sr \<in> set items"
  shows "emits (collector_call cns n) (expire_pending W t sr) (\<lambda>_ h'. n \<le> length h' \<and> recent n h \<subseteq> recent n h') h"
proof (cases "Phase (Status sr) = Pending \<and> \<not> time_sub t (CreationTimestamp sr) < PendingRequestTTL * second")
  case True
  with l have o: "listed_overdue cns (recent n h) sr"
    by (auto simp: listed_overdue_def overdue_def)
  let ?obj = "Status_update expired_status sr"
  have w: "expiry_write cns (recent n h) ?obj" using o by (auto simp: expiry_write_def)
  have tok: "expiry_token cns (insert (UpdateStatus ?obj (Inr stored)) (recent n h)) (Namespace stored)
      (ApprovalTokenSecretName (Status sr))" if "ApprovalTokenSecretName (Status sr) \<noteq> ''''" for stored
    using that listed_overdue_mono [OF o, of "insert (UpdateStatus ?obj (Inr stored)) (recent n h)"]
    by (auto simp: expiry_token_def stored_in_def)
  from True n show ?thesis
    by (auto simp: expire_pending_def deleteApprovalTokenSecret_def prims collector_call_def w tok
        expired_status_def burn_token_def intro!: emits_bind split: sum.split)
next
  case False
  then show ?thesis using n by (auto simp: expire_pending_def)
qed

lemma expirePending_emits:
  assumes n: "n \<le> length h"
  shows "emits (collector_call (configuredControllerNamespace cns) n) (expirePending W cns) (\<lambda>r h'. n \<le> length h') h"
proof -
  let ?cns = "configuredControllerNamespace cns"
  have loop: "emits (collector_call ?cns n) (for_each (expire_pending W t) items) (\<lambda>_ h'. n \<le> length h') k"
    if "n \<le> length k" "ListSR True ?cns (Inr items) \<in> recent n k" "Now t \<in> recent n k" for items t k
  proof (rule emits_mono [OF emits_for_each [where I = "\<lambda>k. n \<le> length k \<and>
        {ListSR True ?cns (Inr items), Now t} \<subseteq> recent n k"]])
    fix sr k'
    assume "sr \<in> set items" "n \<le> length k' \<and> {ListSR True ?cns (Inr items), Now t} \<subseteq> recent n k'"
    then show "emits (collector_call ?cns n) (expire_pending W t sr) (\<lambda>_ k. n \<le> length k \<and>
        {ListSR True ?cns (Inr items), Now t} \<subseteq> recent n k) k'"
      by (intro emits_mono [OF expire_pending_emits]) auto
  qed (use that in auto)
  show ?thesis
    unfolding expirePending_def
    by (intro emits_bind) (auto simp: prims n le_SucI collector_call_def intro!: emits_bind emits_mono [OF loop] split: sum.split)
qed

lemma Start_emits:
  "n \<le> length h \<Longrightarrow> emits (collector_call (configuredControllerNamespace cns) n) (Start W cns ws) (\<lambda>r h'. n \<le> length h') h"
proof (induction W cns ws arbitrary: h rule: Start.induct)
  case (3 W cns ws)
  from 3 show ?case
    by (auto intro!: emits_bind emits_mono [OF sweepSecrets_emits] emits_mono [OF expirePending_emits])
qed simp_all

end
