(* ===== verification/Auth.thy ===== *)
theory Auth
  imports Collector
begin

text \<open>
  \<^verbatim>\<open>auth.go\<close>: who is asking.  A requester is a service account whose bearer token the
  API server has reviewed, and who may create \<^verbatim>\<open>sudorequests/submit\<close>; a human carries
  an ID token whose claims list the groups.  The verification of the signature is a call of the world.
\<close>

definition GroupName :: string where "GroupName = ''sudo.andrewgarrett.dev''"
definition GroupVersion :: string where "GroupVersion = ''v1alpha1''"
definition RequesterTokenAudience :: string where
  "RequesterTokenAudience = ''sudo-service.andrewgarrett.dev''"

section \<open>Humans\<close>

definition Verify :: "world \<Rightarrow> string \<Rightarrow> human_claims res prog" where
  "Verify W raw =
     attempt (verify_jwt W raw) (\<lambda>decoded.
       State_Monad.return (case decoded of
           Inl e \<Rightarrow> Inl (Wrap ''decode claims'' e)
         | Inr c \<Rightarrow> Inr c))"

definition IsInGroup :: "human_claims \<Rightarrow> string \<Rightarrow> bool" where
  "IsInGroup c g \<longleftrightarrow> list_ex (\<lambda>x. x = g \<or> x = ''/'' @ g \<or> trim_prefix x ''/'' = g) (hc_Groups c)"

section \<open>Requesters\<close>

definition Review :: "world \<Rightarrow> string \<Rightarrow> string \<Rightarrow> user_info res prog" where
  "Review W tok audience =
     attempt_ctx ''TokenReview'' (review_token W tok audience) (\<lambda>out. State_Monad.return (
       if \<not> tr_Authenticated out then Inl (Text (''TokenReview: not authenticated: '' @ tr_Error out))
       else if \<not> list_ex (\<lambda>a. a = audience) (tr_Audiences out)
       then Inl (Text (''TokenReview: token missing required audience '' @ go_quote audience))
       else if u_Username (tr_User out) = ''''
       then Inl (Text ''TokenReview: authenticated response has no username'')
       else Inr (tr_User out)))"

definition submit_review :: "string \<Rightarrow> user_info \<Rightarrow> access_review" where
  "submit_review cns identity = \<lparr>sar_User = u_Username identity, sar_UID = u_UID identity,
     sar_Groups = u_Groups identity, sar_Extra = u_Extra identity,
     sar_Namespace = configuredControllerNamespace cns, sar_Verb = ''create'', sar_Group = GroupName,
     sar_Version = GroupVersion, sar_Resource = ''sudorequests'', sar_Subresource = ''submit''\<rparr>"

text \<open>The answer, its reason, and the error that came with it.\<close>

definition AuthorizeSubmit :: "world \<Rightarrow> string \<Rightarrow> user_info \<Rightarrow> (bool \<times> string \<times> gerr option) prog" where
  "AuthorizeSubmit W cns identity = do {
     r \<leftarrow> review_access W (submit_review cns identity);
     State_Monad.return (case r of
         Inl e \<Rightarrow> (False, '''', Some (Wrap ''SubjectAccessReview'' e))
       | Inr out \<Rightarrow>
           if \<not> ad_Allowed out \<and> ad_EvaluationError out \<noteq> ''''
           then (False, ad_Reason out, Some (Text (''SubjectAccessReview evaluation: '' @ ad_EvaluationError out)))
           else (ad_Allowed out, ad_Reason out, None)) }"

section \<open>What a decision rests on\<close>

text \<open>Keycloak's leading slash is the only spelling of a group that is accepted beside the plain one.\<close>

lemma IsInGroup_iff: "IsInGroup c g \<longleftrightarrow> g \<in> set (hc_Groups c) \<or> ''/'' @ g \<in> set (hc_Groups c)"
proof -
  have "x = g \<or> x = ''/'' @ g \<or> trim_prefix x ''/'' = g \<longleftrightarrow> x = g \<or> x = ''/'' @ g" for x
    by (auto simp: trim_prefix_def has_prefix_iff)
  then show ?thesis by (auto simp: IsInGroup_def list_ex_iff)
qed

definition verified :: "call set \<Rightarrow> human_claims \<Rightarrow> bool" where
  "verified cs c \<longleftrightarrow> (\<exists>raw. VerifyJWT raw (Inr (Inr c)) \<in> cs)"

definition authenticated :: "call set \<Rightarrow> string \<Rightarrow> user_info \<Rightarrow> bool" where
  "authenticated cs audience u \<longleftrightarrow>
     (\<exists>tok out. TokenReview tok audience (Inr out) \<in> cs \<and> tr_Authenticated out \<and>
        audience \<in> set (tr_Audiences out) \<and> u = tr_User out \<and> u_Username u \<noteq> '''')"

definition may_submit :: "call set \<Rightarrow> string \<Rightarrow> user_info \<Rightarrow> bool" where
  "may_submit cs cns u \<longleftrightarrow> (\<exists>out. AccessReview (submit_review cns u) (Inr out) \<in> cs \<and> ad_Allowed out)"

lemma authenticatedI:
  "TokenReview tok audience (Inr out) \<in> cs \<Longrightarrow> tr_Authenticated out \<Longrightarrow> audience \<in> set (tr_Audiences out) \<Longrightarrow>
     u_Username (tr_User out) \<noteq> '''' \<Longrightarrow> authenticated cs audience (tr_User out)"
  unfolding authenticated_def by blast

lemma verified_mono: "verified A c \<Longrightarrow> A \<subseteq> B \<Longrightarrow> verified B c"
  unfolding verified_def by blast

lemma authenticated_mono: "authenticated A aud u \<Longrightarrow> A \<subseteq> B \<Longrightarrow> authenticated B aud u"
  unfolding authenticated_def by blast

lemma may_submit_mono: "may_submit A cns u \<Longrightarrow> A \<subseteq> B \<Longrightarrow> may_submit B cns u"
  unfolding may_submit_def by blast

lemma Verify_emits:
  assumes "n \<le> length h" and "\<And>r. P h (VerifyJWT raw r)"
  shows "emits P (Verify W raw) (\<lambda>r h'. n \<le> length h' \<and> recent n h \<subseteq> recent n h' \<and>
     (\<forall>c. r = Inr c \<longrightarrow> verified (recent n h') c)) h"
  unfolding Verify_def using assms
  by (auto simp: prims verified_def le_SucI intro!: emits_attempt split: sum.split)

lemma Review_emits:
  assumes "n \<le> length h" and "\<And>r. P h (TokenReview tok aud r)"
  shows "emits P (Review W tok aud) (\<lambda>r h'. n \<le> length h' \<and> recent n h \<subseteq> recent n h' \<and>
     (\<forall>u. r = Inr u \<longrightarrow> authenticated (recent n h') aud u)) h"
  unfolding Review_def using assms
  by (auto simp: prims list_ex_iff le_SucI intro!: emits_attempt_ctx authenticatedI split: sum.split)

lemma AuthorizeSubmit_emits:
  assumes "n \<le> length h" and "\<And>r. P h (AccessReview (submit_review cns u) r)"
  shows "emits P (AuthorizeSubmit W cns u) (\<lambda>(allowed, reason, err) h'. n \<le> length h' \<and> recent n h \<subseteq> recent n h' \<and>
     (allowed \<longrightarrow> err = None \<and> may_submit (recent n h') cns u)) h"
  unfolding AuthorizeSubmit_def using assms
  by (auto simp: prims may_submit_def le_SucI intro!: emits_bind split: sum.split)

end
