(* ===== verification/Retry.thy ===== *)
theory Retry
  imports Auth
begin

text \<open>
  \<^verbatim>\<open>retry.go\<close>: the fingerprint of what a request would execute, the search for an
  equivalent live request, and resubmission: at most one successor per request, under a name that is
  a function of its UID, linked from the predecessor.
\<close>

section \<open>The API server's view\<close>

record api_server =
  as_ControllerNamespace :: string
  as_APIReader :: bool
  as_AdminGroup :: string
  as_Reconciler :: reconciler

text \<open>
  \<open>as_APIReader\<close>: whether the uncached reader is configured.  The libraries are those of the reconciler.
\<close>

definition serverNamespace :: "api_server \<Rightarrow> string" where
  "serverNamespace A = configuredControllerNamespace (as_ControllerNamespace A)"

abbreviation as_lib :: "api_server \<Rightarrow> lib" where "as_lib A \<equiv> rc_lib (as_Reconciler A)"

definition list_requests :: "world \<Rightarrow> api_server \<Rightarrow> sudo_request list res prog" where
  "list_requests W A = list_sr W (\<not> as_APIReader A) (serverNamespace A)"

section \<open>The execution fingerprint\<close>

definition effective_spec :: "string \<Rightarrow> sudo_request_spec \<Rightarrow> sudo_request_spec" where
  "effective_spec cns s =
     (let e = s\<lparr>Requester := '''', Reason := '''', SubmittedBy := '''', RetryOfUID := ''''\<rparr>;
          e = (if SpecImage e = '''' \<and> Profile e = '''' then e\<lparr>Profile := DefaultExecutorProfile\<rparr> else e);
          e = (if SpecNamespace e = '''' then e\<lparr>SpecNamespace := cns\<rparr> else e);
          e = (if TTLSecondsAfterApproval e = None
               then e\<lparr>TTLSecondsAfterApproval := Some DefaultPostApproval\<rparr> else e)
      in if ClusterAdmin e = None then e\<lparr>ClusterAdmin := Some (SpecNamespace e = cns)\<rparr> else e)"

definition fingerprint_image :: "sudo_request \<Rightarrow> sudo_request_spec \<Rightarrow> string res" where
  "fingerprint_image sr effective =
     (if ResolvedImage (Status sr) \<noteq> '''' then Inr (ResolvedImage (Status sr))
      else case resolveExecutorProfile (sr\<lparr>Spec := effective\<rparr>) of
        Inl e \<Rightarrow> Inl e
      | Inr (_, img) \<Rightarrow> Inr img)"

definition executionFingerprint :: "lib \<Rightarrow> sudo_request \<Rightarrow> string \<Rightarrow> string res" where
  "executionFingerprint L sr cns =
     (let effective = effective_spec (configuredControllerNamespace cns) (Spec sr) in
      case fingerprint_image sr effective of
        Inl e \<Rightarrow> Inl e
      | Inr img \<Rightarrow> (case spec_json L effective img of
            Inl e \<Rightarrow> Inl e
          | Inr raw \<Rightarrow> Inr (sha256_hex L raw)))"

section \<open>Duplicates\<close>

definition undecided :: "phase \<Rightarrow> bool" where
  "undecided p \<longleftrightarrow> p = NoPhase \<or> p = Pending \<or> p = Approved"

definition duplicate_of :: "lib \<Rightarrow> string \<Rightarrow> sudo_request \<Rightarrow> string \<Rightarrow> sudo_request \<Rightarrow> bool" where
  "duplicate_of L cns candidate want current \<longleftrightarrow>
     undecided (Phase (Status current)) \<and> Requester (Spec current) = Requester (Spec candidate) \<and>
     executionFingerprint L current cns = Inr want"

definition findPendingDuplicate :: "world \<Rightarrow> api_server \<Rightarrow> sudo_request \<Rightarrow> sudo_request option res prog" where
  "findPendingDuplicate W A candidate =
     (case executionFingerprint (as_lib A) candidate (serverNamespace A) of
        Inl e \<Rightarrow> State_Monad.return (Inl e)
      | Inr want \<Rightarrow>
          attempt (list_requests W A) (\<lambda>items. State_Monad.return (Inr
            (find (duplicate_of (as_lib A) (serverNamespace A) candidate want) items))))"

section \<open>Eligibility and names\<close>

definition isTerminalPhase :: "phase \<Rightarrow> bool" where
  "isTerminalPhase p \<longleftrightarrow> p \<in> {Executed, Failed, Denied, Expired}"

definition requesterRetryable :: "phase \<Rightarrow> bool" where
  "requesterRetryable p \<longleftrightarrow> p = Expired \<or> p = Failed"

definition adminRetryable :: "phase \<Rightarrow> bool" where "adminRetryable p = isTerminalPhase p"

text \<open>\<open>strings.ToLower\<close>; the UIDs of the API server are ASCII.\<close>

definition lower_char :: "char \<Rightarrow> char" where
  "lower_char c = (if is_upper c then char_of (of_char c + 32 :: nat) else c)"

definition retryChildName :: "string \<Rightarrow> string" where
  "retryChildName uid = ''retry-'' @ map lower_char uid"

definition validateRetrySuccessor :: "lib \<Rightarrow> sudo_request \<Rightarrow> sudo_request \<Rightarrow> string \<Rightarrow> gerr option" where
  "validateRetrySuccessor L source successor cns =
     (if RetryOfUID (Spec successor) \<noteq> UID source \<or> Requester (Spec successor) \<noteq> Requester (Spec source)
      then Some (RetryError NameOccupiedUnrelated)
      else
        let unresolved = Status_update (\<lambda>s. s\<lparr>ResolvedImage := ''''\<rparr>) in
        case executionFingerprint L (unresolved source) cns of
          Inl e \<Rightarrow> Some (Wrap ''fingerprint retry source'' e)
        | Inr want \<Rightarrow> (case executionFingerprint L (unresolved successor) cns of
              Inl e \<Rightarrow> Some (Wrap ''fingerprint retry successor'' e)
            | Inr got \<Rightarrow> if got \<noteq> want then Some (RetryError NameOccupiedFields) else None))"

section \<open>Resubmission\<close>

definition set_superseded :: "string \<Rightarrow> sudo_request_status \<Rightarrow> sudo_request_status" where
  "set_superseded uid s = s\<lparr>SupersededByUID := uid\<rparr>"

definition link_body :: "world \<Rightarrow> api_server \<Rightarrow> string \<Rightarrow> string \<Rightarrow> string \<Rightarrow> unit res prog" where
  "link_body W A name sourceUID successorUID =
     attempt (get_sr W True (serverNamespace A) name) (\<lambda>current.
       if UID current \<noteq> sourceUID then State_Monad.return (Inl (RetryError (SourceReplaced name)))
       else if SupersededByUID (Status current) = successorUID then State_Monad.return (Inr ())
       else if SupersededByUID (Status current) \<noteq> ''''
       then State_Monad.return (Inl (RetryError (AlreadySuperseded (SupersededByUID (Status current)))))
       else attempt (update_status_call W (Status_update (set_superseded successorUID) current))
              (\<lambda>_. State_Monad.return (Inr ())))"

definition ensureSupersededLink :: "world \<Rightarrow> api_server \<Rightarrow> string \<Rightarrow> string \<Rightarrow> string \<Rightarrow> unit res prog" where
  "ensureSupersededLink W A name sourceUID successorUID =
     RetryOnConflict (w_retries W) (link_body W A name sourceUID successorUID)"

text \<open>
  \<open>retryRequest\<close> returns the successor, whether it was created, and an error; a duplicate comes with
  both an object and an error.
\<close>

type_synonym retry_result = "sudo_request option \<times> bool \<times> gerr option"

definition adoptRetrySuccessor :: "world \<Rightarrow> api_server \<Rightarrow> sudo_request \<Rightarrow> sudo_request \<Rightarrow> retry_result prog" where
  "adoptRetrySuccessor W A source successor =
     (case validateRetrySuccessor (as_lib A) source successor (serverNamespace A) of
        Some e \<Rightarrow> State_Monad.return (None, False, Some e)
      | None \<Rightarrow> do {
          r \<leftarrow> ensureSupersededLink W A (Name source) (UID source) (UID successor);
          State_Monad.return (case r of
              Inl e \<Rightarrow> (None, False, Some e)
            | Inr _ \<Rightarrow> (Some successor, False, None)) })"

definition new_successor :: "string \<Rightarrow> sudo_request \<Rightarrow> string \<Rightarrow> sudo_request" where
  "new_successor cns source submittedBy = \<lparr>Name = retryChildName (UID source), Namespace = cns, UID = '''',
     ResourceVersion = '''', CreationTimestamp = 0, DeletionTimestamp = None, Finalizers = [],
     Spec = (Spec source)\<lparr>RetryOfUID := UID source, SubmittedBy := submittedBy\<rparr>, Status = zero_status\<rparr>"

text \<open>The checks of a fresh submission, in the order of the code.\<close>

definition submission_error :: "lib \<Rightarrow> string \<Rightarrow> sudo_request \<Rightarrow> gerr option" where
  "submission_error L cns successor =
     (case resolveAndPreflight L successor of
        Inl e \<Rightarrow> Some (Wrap ''retry preflight'' e)
      | Inr _ \<Rightarrow>
     (case validateCommandSyntax L (Command (Spec successor)) of
        Some e \<Rightarrow> Some e
      | None \<Rightarrow>
     (case validateSpecExtras L successor cns of
        Some e \<Rightarrow> Some e
      | None \<Rightarrow> validatePlaybookSpec L successor)))"

definition link_created :: "world \<Rightarrow> api_server \<Rightarrow> sudo_request \<Rightarrow> sudo_request \<Rightarrow> bool \<Rightarrow> retry_result prog" where
  "link_created W A source successor created = do {
     r \<leftarrow> ensureSupersededLink W A (Name source) (UID source) (UID successor);
     State_Monad.return (case r of
         Inl e \<Rightarrow> (None, created, Some e)
       | Inr _ \<Rightarrow> (Some successor, created, None)) }"

definition create_successor :: "world \<Rightarrow> api_server \<Rightarrow> sudo_request \<Rightarrow> sudo_request \<Rightarrow> retry_result prog" where
  "create_successor W A source successor = do {
     r \<leftarrow> create_sr W '''' successor;
     case r of
       Inr stored \<Rightarrow> link_created W A source stored True
     | Inl e \<Rightarrow>
         if \<not> is_already_exists e then State_Monad.return (None, False, Some e)
         else do {
           g \<leftarrow> get_sr W True (serverNamespace A) (Name successor);
           case g of
             Inl e \<Rightarrow> State_Monad.return (None, False, Some e)
           | Inr found \<Rightarrow> (case validateRetrySuccessor (as_lib A) source found (serverNamespace A) of
                 Some e \<Rightarrow> State_Monad.return (None, False, Some e)
               | None \<Rightarrow> link_created W A source found False) } }"

definition submit_successor :: "world \<Rightarrow> api_server \<Rightarrow> sudo_request \<Rightarrow> sudo_request \<Rightarrow> retry_result prog" where
  "submit_successor W A source successor = do {
     d \<leftarrow> findPendingDuplicate W A successor;
     case d of
       Inl e \<Rightarrow> State_Monad.return (None, False, Some e)
     | Inr (Some duplicate) \<Rightarrow>
         if Name duplicate = Name successor then adoptRetrySuccessor W A source duplicate
         else State_Monad.return (Some duplicate, False, Some (PendingDuplicate (UID duplicate)))
     | Inr None \<Rightarrow> (case submission_error (as_lib A) (serverNamespace A) successor of
           Some e \<Rightarrow> State_Monad.return (None, False, Some e)
         | None \<Rightarrow> create_successor W A source successor) }"

definition retryRequest :: "world \<Rightarrow> api_server \<Rightarrow> sudo_request \<Rightarrow> string \<Rightarrow> bool \<Rightarrow> retry_result prog" where
  "retryRequest W A source submittedBy admin =
     (if UID source = '''' then State_Monad.return (None, False, Some (RetryError SourceNoUID))
      else if admin \<and> \<not> adminRetryable (Phase (Status source)) \<or>
              \<not> admin \<and> \<not> requesterRetryable (Phase (Status source))
      then State_Monad.return (None, False,
             Some (RetryError (PhaseNotEligible (phase_name (Phase (Status source))) admin)))
      else do {
        e \<leftarrow> get_sr W True (serverNamespace A) (retryChildName (UID source));
        case e of
          Inr existing \<Rightarrow> adoptRetrySuccessor W A source existing
        | Inl e \<Rightarrow>
            if \<not> is_not_found e then State_Monad.return (None, False, Some e)
            else if SupersededByUID (Status source) \<noteq> ''''
            then State_Monad.return (None, False, Some (RetryError (SuccessorUnavailable (SupersededByUID (Status source)))))
            else submit_successor W A source (new_successor (serverNamespace A) source submittedBy) })"

section \<open>What the fingerprint sees\<close>

lemma configured_idem [simp]: "configuredControllerNamespace (configuredControllerNamespace n) = configuredControllerNamespace n"
  by (simp add: configuredControllerNamespace_def DefaultControllerNamespace_def)

lemma serverNamespace_idem [simp]: "configuredControllerNamespace (serverNamespace A) = serverNamespace A"
  by (simp add: serverNamespace_def)

text \<open>Who asks, why, on whose behalf and after which predecessor does not matter.\<close>

definition attributed :: "string \<Rightarrow> string \<Rightarrow> string \<Rightarrow> string \<Rightarrow> sudo_request_spec \<Rightarrow> sudo_request_spec" where
  "attributed who why via pred s = s\<lparr>Requester := who, Reason := why, SubmittedBy := via, RetryOfUID := pred\<rparr>"

lemma effective_attributed [simp]: "effective_spec cns (attributed who why via pred s) = effective_spec cns s"
  by (simp add: effective_spec_def attributed_def Let_def)

lemma executionFingerprint_spec:
  assumes "effective_spec (configuredControllerNamespace cns) (Spec a) = effective_spec (configuredControllerNamespace cns) (Spec b)"
    and "ResolvedImage (Status a) = ResolvedImage (Status b)"
  shows "executionFingerprint L a cns = executionFingerprint L b cns"
proof -
  have "resolveExecutorProfile (a\<lparr>Spec := e\<rparr>) = resolveExecutorProfile (b\<lparr>Spec := e\<rparr>)" for e
    by (simp add: resolveExecutorProfile_def)
  then have "fingerprint_image a e = fingerprint_image b e" for e
    using assms(2) by (simp add: fingerprint_image_def)
  then show ?thesis using assms(1) by (simp add: executionFingerprint_def)
qed

lemma executionFingerprint_attributed:
  "executionFingerprint L (sr\<lparr>Spec := attributed who why via pred (Spec sr)\<rparr>) cns = executionFingerprint L sr cns"
  by (rule executionFingerprint_spec) simp_all

text \<open>
  The fields of a spec that make a difference: everything but the attribution, with the defaults
  filled in.
\<close>

lemma effective_spec_sel:
  "Requester (effective_spec cns s) = ''''" "Reason (effective_spec cns s) = ''''"
  "SubmittedBy (effective_spec cns s) = ''''" "RetryOfUID (effective_spec cns s) = ''''"
  "Command (effective_spec cns s) = Command s" "Playbook (effective_spec cns s) = Playbook s"
  "SpecImage (effective_spec cns s) = SpecImage s" "Stdin (effective_spec cns s) = Stdin s"
  "Env (effective_spec cns s) = Env s" "EnvFrom (effective_spec cns s) = EnvFrom s"
  "Volumes (effective_spec cns s) = Volumes s" "VolumeMounts (effective_spec cns s) = VolumeMounts s"
  "InitContainers (effective_spec cns s) = InitContainers s"
  "ImagePullSecrets (effective_spec cns s) = ImagePullSecrets s"
  "Profile (effective_spec cns s) = (if SpecImage s = '''' \<and> Profile s = '''' then DefaultExecutorProfile else Profile s)"
  "SpecNamespace (effective_spec cns s) = (if SpecNamespace s = '''' then cns else SpecNamespace s)"
  "TTLSecondsAfterApproval (effective_spec cns s) =
     Some (case TTLSecondsAfterApproval s of Some t \<Rightarrow> t | None \<Rightarrow> DefaultPostApproval)"
  "ClusterAdmin (effective_spec cns s) =
     Some (case ClusterAdmin s of Some b \<Rightarrow> b | None \<Rightarrow> SpecNamespace s = '''' \<or> SpecNamespace s = cns)"
  by (simp_all add: effective_spec_def Let_def split: option.split)

text \<open>Leaving a default out is writing it.\<close>

lemma effective_idem: "effective_spec cns (effective_spec cns s) = effective_spec cns s"
  by (rule sudo_request_spec.equality) (simp_all add: effective_spec_sel)

text \<open>The search does not see the requests of others.\<close>

lemma find_filter: "(\<And>x. P x \<Longrightarrow> Q x) \<Longrightarrow> find P (filter Q xs) = find P xs"
  by (induction xs) auto

lemma duplicates_of_others_invisible:
  "find (duplicate_of L cns candidate want) items =
   find (duplicate_of L cns candidate want) (filter (\<lambda>sr. Requester (Spec sr) = Requester (Spec candidate)) items)"
  by (rule find_filter [symmetric]) (simp add: duplicate_of_def)

lemma find_SomeD: "find P xs = Some x \<Longrightarrow> x \<in> set xs \<and> P x"
  by (auto simp: find_Some_iff)

section \<open>Every call of a resubmission\<close>

text \<open>The successor of the source: an object that was validated, or the one just created.\<close>

definition successor_known :: "api_server \<Rightarrow> sudo_request \<Rightarrow> call set \<Rightarrow> string \<Rightarrow> bool" where
  "successor_known A source cs uid \<longleftrightarrow>
     (\<exists>succ. uid = UID succ \<and>
        ((\<exists>obj. CreateSR '''' obj (Inr succ) \<in> cs) \<or>
         validateRetrySuccessor (as_lib A) source succ (serverNamespace A) = None \<and>
         (GetSR True (serverNamespace A) (retryChildName (UID source)) (Inr succ) \<in> cs \<or>
          Name succ = retryChildName (UID source) \<and>
          (\<exists>items. ListSR (\<not> as_APIReader A) (serverNamespace A) (Inr items) \<in> cs \<and> succ \<in> set items))))"

definition eligible :: "bool \<Rightarrow> sudo_request \<Rightarrow> bool" where
  "eligible admin source \<longleftrightarrow> UID source \<noteq> '''' \<and>
     (if admin then adminRetryable (Phase (Status source)) else requesterRetryable (Phase (Status source)))"

text \<open>No live request of the same requester would execute the same.\<close>

definition no_duplicate :: "api_server \<Rightarrow> sudo_request \<Rightarrow> call set \<Rightarrow> bool" where
  "no_duplicate A candidate cs \<longleftrightarrow>
     (\<exists>items want. ListSR (\<not> as_APIReader A) (serverNamespace A) (Inr items) \<in> cs \<and>
        executionFingerprint (as_lib A) candidate (serverNamespace A) = Inr want \<and>
        \<not> (\<exists>sr\<in>set items. duplicate_of (as_lib A) (serverNamespace A) candidate want sr))"

text \<open>The list was the last thing read: what the mutex of the server is held for.\<close>

definition just_checked :: "api_server \<Rightarrow> sudo_request \<Rightarrow> hist \<Rightarrow> bool" where
  "just_checked A candidate h \<longleftrightarrow> h \<noteq> [] \<and> no_duplicate A candidate {last h}"

lemma just_checkedI:
  "executionFingerprint (as_lib A) candidate (serverNamespace A) = Inr want \<Longrightarrow>
     find (duplicate_of (as_lib A) (serverNamespace A) candidate want) items = None \<Longrightarrow>
     just_checked A candidate (h @ [ListSR (\<not> as_APIReader A) (serverNamespace A) (Inr items)])"
  unfolding just_checked_def no_duplicate_def by (auto simp: find_None_iff)

definition first_successor :: "api_server \<Rightarrow> sudo_request \<Rightarrow> string \<Rightarrow> call set \<Rightarrow> sudo_request \<Rightarrow> bool" where
  "first_successor A source submittedBy cs obj \<longleftrightarrow>
     obj = new_successor (serverNamespace A) source submittedBy \<and> SupersededByUID (Status source) = '''' \<and>
     (\<exists>e. GetSR True (serverNamespace A) (retryChildName (UID source)) (Inl e) \<in> cs \<and> is_not_found e) \<and>
     no_duplicate A obj cs \<and> submission_error (as_lib A) (serverNamespace A) obj = None"

definition link_write :: "api_server \<Rightarrow> sudo_request \<Rightarrow> call set \<Rightarrow> sudo_request \<Rightarrow> bool" where
  "link_write A source cs obj \<longleftrightarrow>
     (\<exists>current uid. GetSR True (serverNamespace A) (Name source) (Inr current) \<in> cs \<and>
        UID current = UID source \<and> SupersededByUID (Status current) = '''' \<and>
        successor_known A source cs uid \<and> obj = Status_update (set_superseded uid) current)"

definition retry_call :: "api_server \<Rightarrow> sudo_request \<Rightarrow> string \<Rightarrow> bool \<Rightarrow> nat \<Rightarrow> hist \<Rightarrow> call \<Rightarrow> bool" where
  "retry_call A source submittedBy admin n h c \<longleftrightarrow> eligible admin source \<and>
     (case c of
        GetSR cached ns nm r \<Rightarrow> cached \<and> ns = serverNamespace A
      | ListSR cached ns r \<Rightarrow> ns = serverNamespace A
      | CreateSR gen obj r \<Rightarrow> gen = '''' \<and> first_successor A source submittedBy (recent n h) obj \<and> just_checked A obj h
      | UpdateStatus obj r \<Rightarrow> link_write A source (recent n h) obj
      | _ \<Rightarrow> False)"

lemma successor_known_mono: "successor_known A source X uid \<Longrightarrow> X \<subseteq> Y \<Longrightarrow> successor_known A source Y uid"
  unfolding successor_known_def by blast

lemma known_skip: "successor_known A source cs uid \<Longrightarrow> successor_known A source (insert c cs) uid"
  by (erule successor_known_mono) auto

lemma known_created: "successor_known A source (insert (CreateSR '''' obj (Inr succ)) cs) (UID succ)"
  unfolding successor_known_def by blast

lemma known_read:
  "validateRetrySuccessor (as_lib A) source succ (serverNamespace A) = None \<Longrightarrow>
     successor_known A source (insert (GetSR True (serverNamespace A) (retryChildName (UID source)) (Inr succ)) cs) (UID succ)"
  unfolding successor_known_def by blast

lemma known_listed:
  "validateRetrySuccessor (as_lib A) source succ (serverNamespace A) = None \<Longrightarrow> succ \<in> set items \<Longrightarrow>
     Name succ = retryChildName (UID source) \<Longrightarrow>
     successor_known A source (insert (ListSR (\<not> as_APIReader A) (serverNamespace A) (Inr items)) cs) (UID succ)"
  unfolding successor_known_def by blast

lemmas known_intros = known_created known_read known_listed known_skip

lemma link_writeI:
  "GetSR True (serverNamespace A) (Name source) (Inr current) \<in> cs \<Longrightarrow> UID current = UID source \<Longrightarrow>
     SupersededByUID (Status current) = '''' \<Longrightarrow> successor_known A source cs uid \<Longrightarrow>
     link_write A source cs (Status_update (set_superseded uid) current)"
  unfolding link_write_def by blast

text \<open>The source is linked to the successor: it was read so, or a write of the link was accepted.\<close>

definition linked :: "api_server \<Rightarrow> sudo_request \<Rightarrow> string \<Rightarrow> call set \<Rightarrow> bool" where
  "linked A source uid cs \<longleftrightarrow>
     (\<exists>current. GetSR True (serverNamespace A) (Name source) (Inr current) \<in> cs \<and> UID current = UID source \<and>
        (SupersededByUID (Status current) = uid \<or>
         (\<exists>stored. UpdateStatus (Status_update (set_superseded uid) current) (Inr stored) \<in> cs)))"

lemma linked_read:
  "UID current = UID source \<Longrightarrow> SupersededByUID (Status current) = uid \<Longrightarrow>
     linked A source uid (insert (GetSR True (serverNamespace A) (Name source) (Inr current)) cs)"
  unfolding linked_def by blast

lemma linked_written:
  "UID current = UID source \<Longrightarrow>
     linked A source uid (insert (GetSR True (serverNamespace A) (Name source) (Inr current))
       (insert (UpdateStatus (Status_update (set_superseded uid) current) (Inr stored)) cs))"
  unfolding linked_def by blast

definition retry_post :: "api_server \<Rightarrow> sudo_request \<Rightarrow> nat \<Rightarrow> retry_result \<Rightarrow> hist \<Rightarrow> bool" where
  "retry_post A source n res h \<longleftrightarrow>
     (case res of
        (Some s, created, None) \<Rightarrow> successor_known A source (recent n h) (UID s) \<and>
          linked A source (UID s) (recent n h) \<and> (created \<or> Requester (Spec s) = Requester (Spec source))
      | (None, created, None) \<Rightarrow> False
      | _ \<Rightarrow> True)"

lemma retry_post_error [simp]: "retry_post A source n (x, b, Some e) h"
  by (simp add: retry_post_def split: option.split)

lemma ensureSupersededLink_emits:
  assumes n: "n \<le> length h" and ok: "eligible admin source" and known: "successor_known A source (recent n h) uid"
  shows "emits (retry_call A source submittedBy admin n) (ensureSupersededLink W A (Name source) (UID source) uid)
     (\<lambda>r h'. (n \<le> length h' \<and> successor_known A source (recent n h') uid) \<and>
        (\<forall>x. r = Inr x \<longrightarrow> linked A source uid (recent n h'))) h"
  unfolding ensureSupersededLink_def
proof (rule emits_RetryOnConflict_inv)
  fix h
  assume I: "n \<le> length h \<and> successor_known A source (recent n h) uid"
  have k: "successor_known A source (insert c (recent n h)) uid" "successor_known A source (insert c (insert d (recent n h))) uid" for c d
    using I by (auto elim!: successor_known_mono)
  show "emits (retry_call A source submittedBy admin n) (link_body W A (Name source) (UID source) uid)
      (\<lambda>r h'. (n \<le> length h' \<and> successor_known A source (recent n h') uid) \<and>
         (\<forall>x. r = Inr x \<longrightarrow> linked A source uid (recent n h'))) h"
    unfolding link_body_def using I ok
    by (auto simp: prims retry_call_def k le_SucI intro!: emits_attempt link_writeI linked_read linked_written split: sum.split)
qed (simp add: n known)

lemma validated_requester:
  "validateRetrySuccessor L source succ cns = None \<Longrightarrow> Requester (Spec succ) = Requester (Spec source)"
  by (simp add: validateRetrySuccessor_def split: if_splits)

lemma adoptRetrySuccessor_emits:
  assumes n: "n \<le> length h" and ok: "eligible admin source"
    and known: "validateRetrySuccessor (as_lib A) source succ (serverNamespace A) = None \<Longrightarrow>
      successor_known A source (recent n h) (UID succ)"
  shows "emits (retry_call A source submittedBy admin n) (adoptRetrySuccessor W A source succ)
     (retry_post A source n) h"
  unfolding adoptRetrySuccessor_def
  by (auto simp: retry_post_def split: option.split sum.split
      intro!: emits_bind emits_mono [OF ensureSupersededLink_emits [OF n ok known]] validated_requester)

lemma link_created_emits:
  assumes "n \<le> length h" and "eligible admin source" and "successor_known A source (recent n h) (UID succ)"
    and "created \<or> Requester (Spec succ) = Requester (Spec source)"
  shows "emits (retry_call A source submittedBy admin n) (link_created W A source succ created)
     (retry_post A source n) h"
  unfolding link_created_def using assms(4)
  by (auto simp: retry_post_def split: option.split sum.split
      intro!: emits_bind emits_mono [OF ensureSupersededLink_emits [OF assms(1-3)]])

lemma create_successor_emits:
  assumes n: "n \<le> length h" and ok: "eligible admin source" and f: "first_successor A source submittedBy (recent n h) succ"
    and checked: "just_checked A succ h"
  shows "emits (retry_call A source submittedBy admin n) (create_successor W A source succ) (retry_post A source n) h"
proof -
  have nm: "Name succ = retryChildName (UID source)" using f by (simp add: first_successor_def new_successor_def)
  show ?thesis
    unfolding create_successor_def using n ok f checked
    by (auto simp: prims retry_call_def nm le_SucI split: sum.split option.split
        intro!: emits_bind link_created_emits simp: known_intros validated_requester)
qed

lemma submit_successor_emits:
  assumes n: "n \<le> length h" and ok: "eligible admin source"
    and new: "SupersededByUID (Status source) = ''''" "succ = new_successor (serverNamespace A) source submittedBy"
    and absent: "GetSR True (serverNamespace A) (retryChildName (UID source)) (Inl e) \<in> recent n h" "is_not_found e"
  shows "emits (retry_call A source submittedBy admin n) (submit_successor W A source succ) (retry_post A source n) h"
proof -
  have nm: "Name succ = retryChildName (UID source)" using new(2) by (simp add: new_successor_def)
  have f: "first_successor A source submittedBy (insert (ListSR (\<not> as_APIReader A) (serverNamespace A) (Inr items)) (recent n h)) succ"
    if "executionFingerprint (as_lib A) succ (serverNamespace A) = Inr want"
      "find (duplicate_of (as_lib A) (serverNamespace A) succ want) items = None"
      "submission_error (as_lib A) (serverNamespace A) succ = None" for items want
    using that new absent by (auto simp: first_successor_def no_duplicate_def find_None_iff)
  show ?thesis
    unfolding submit_successor_def findPendingDuplicate_def list_requests_def using n ok
    by (auto simp: prims retry_call_def nm le_SucI split: sum.split option.split dest!: find_SomeD
        intro!: emits_rules adoptRetrySuccessor_emits create_successor_emits f just_checkedI simp: known_intros)
qed

lemma retryRequest_emits:
  assumes n: "n \<le> length h"
  shows "emits (retry_call A source submittedBy admin n) (retryRequest W A source submittedBy admin)
     (retry_post A source n) h"
proof (cases "eligible admin source")
  case True
  then show ?thesis
    unfolding retryRequest_def using n
    by (auto simp: prims retry_call_def eligible_def le_SucI split: sum.split if_splits
        intro!: emits_bind adoptRetrySuccessor_emits submit_successor_emits simp: known_intros)
next
  case False
  then show ?thesis by (auto simp: retryRequest_def eligible_def split: if_splits)
qed

end
