(* ===== verification/Http.thy ===== *)
theory Http
  imports Retry
begin

text \<open>
  The shared ground of \<^verbatim>\<open>api.go\<close>: requests and replies, who is behind a request (a
  reviewed bearer token, a verified ID token), the CSRF token of the forms, and the status read back
  by a requester.  A handler is a program that returns the one reply it writes.
\<close>

section \<open>Requests and replies\<close>

text \<open>
  \<open>rq_Form\<close> is what \<^verbatim>\<open>ParseForm\<close> yields, \<open>None\<close> when it fails; a missing key of a
  header, query or form reads as the empty string.  \<open>rq_CanFlush\<close>: the response writer can stream.
\<close>

record http_request =
  rq_Method :: string
  rq_Path :: string
  rq_Header :: "(string \<times> string) list"
  rq_Query :: "(string \<times> string) list"
  rq_Form :: "(string \<times> string) list option"
  rq_Cookies :: "(string \<times> string) list"
  rq_Body :: string
  rq_CanFlush :: bool

record create_reply =
  cr_uid :: string
  cr_name :: string
  cr_duplicate :: bool
  cr_retryOfUID :: string
  cr_image :: string
  cr_profile :: string
  cr_warnings :: "string list"

record status_reply =
  sp_UID :: string
  sp_Name :: string
  sp_Phase :: phase
  sp_Requester :: string
  sp_SubmittedBy :: string
  sp_RetryOfUID :: string
  sp_SupersededByUID :: string
  sp_Command :: string
  sp_Playbook :: "playbook option"
  sp_Image :: string
  sp_Profile :: string
  sp_PreflightWarnings :: "string list"
  sp_Namespace :: string
  sp_ClusterAdmin :: bool
  sp_ApprovedBy :: string
  sp_ApprovedAt :: "int option"
  sp_DeniedBy :: string
  sp_DeniedAt :: "int option"
  sp_DenialReason :: string
  sp_FailureReason :: string
  sp_ExitCode :: "int option"
  sp_OutputSecretRef :: string
  sp_OutputCaptureState :: capture_state
  sp_OutputDeliveryState :: delivery_state
  sp_OutputFailureReason :: string
  sp_OutputTotalBytes :: "int option"
  sp_OutputRetainedBytes :: "int option"
  sp_OutputSHA256 :: string
  sp_Summary :: string
  sp_PermissionAssessment :: "permission_assessment option"
  sp_PermissionAssessmentState :: assess_state

text \<open>What the approval page shows of a request; times stay instants.\<close>

record review_view =
  rv_Requester :: string
  rv_SubmittedBy :: string
  rv_RetryOfUID :: string
  rv_SupersededByUID :: string
  rv_Phase :: phase
  rv_CanResubmit :: bool
  rv_Reason :: string
  rv_Command :: string
  rv_Playbook :: "playbook option"
  rv_Image :: string
  rv_Profile :: string
  rv_PreflightWarnings :: "string list"
  rv_Stdin :: string
  rv_Extras :: extras_view
  rv_PodTemplate :: string
  rv_Summary :: string
  rv_PermissionRequest :: string
  rv_PermissionEffects :: "string list"
  rv_AssessmentModel :: string
  rv_AssessmentPromptVersion :: string
  rv_AssessmentSchemaVersion :: string
  rv_CreatedAt :: int

record approve_view =
  av_UID :: string
  av_Token :: string
  av_User :: string
  av_UserEmail :: string
  av_CSRFToken :: string
  av_Error :: string
  av_Request :: "review_view option"

record result_view =
  re_Title :: string
  re_Message :: string
  re_UID :: string
  re_LinkUID :: bool
  re_Variant :: string
  re_User :: string
  re_UserEmail :: string

datatype reply =
    HttpError nat string
  | OkReply
  | CreatedReply create_reply
  | DuplicateReply string string
  | CatalogReply string "executor_profile list"
  | StatusReply status_reply
  | OutputReply string
  | StreamReply "event list"
  | IndexPage string string "sudo_request list" "sudo_request list"
  | ApprovePage "string option" approve_view
  | ResultPage nat result_view

text \<open>
  \<open>ApprovePage\<close> carries the CSRF cookie it sets; \<open>DuplicateReply\<close> is the 409 with an error text and a
  UID.
\<close>

definition not_found_reply :: reply where "not_found_reply = HttpError 404 ''404 page not found''"

section \<open>Who is asking\<close>

definition authenticateBearer :: "world \<Rightarrow> http_request \<Rightarrow> user_info res prog" where
  "authenticateBearer W req =
     (let auth = map_get (rq_Header req) ''Authorization'' in
      if \<not> has_prefix auth ''Bearer '' then State_Monad.return (Inl (Text ''missing bearer token''))
      else let tok = trim_space (trim_prefix auth ''Bearer '') in
        if tok = '''' then State_Monad.return (Inl (Text ''empty bearer token''))
        else Review W tok RequesterTokenAudience)"

text \<open>The ID token before the access token before a raw bearer token.\<close>

definition jwt_candidates :: "http_request \<Rightarrow> string list" where
  "jwt_candidates req =
     (let idt = map_get (rq_Header req) ''X-Auth-Request-Id-Token'';
          acc = map_get (rq_Header req) ''X-Auth-Request-Access-Token'';
          auth = map_get (rq_Header req) ''Authorization''
      in (if idt \<noteq> '''' then [idt] else []) @ (if acc \<noteq> '''' then [acc] else []) @
         (if has_prefix auth ''Bearer '' then [trim_prefix auth ''Bearer ''] else []))"

fun verify_first :: "world \<Rightarrow> string list \<Rightarrow> gerr \<Rightarrow> human_claims res prog" where
  "verify_first W [] lastErr = State_Monad.return (Inl (Wrap ''JWT verification failed'' lastErr))"
| "verify_first W (raw # rest) lastErr = do {
     r \<leftarrow> Verify W raw;
     case r of
       Inr claims \<Rightarrow> State_Monad.return (Inr claims)
     | Inl e \<Rightarrow> verify_first W rest e }"

definition authenticateHuman :: "world \<Rightarrow> http_request \<Rightarrow> human_claims res prog" where
  "authenticateHuman W req =
     (if jwt_candidates req = [] then State_Monad.return (Inl (Text ''no JWT in request''))
      else verify_first W (jwt_candidates req) (Text ''''))"

text \<open>The name an administrator acts under.\<close>

definition actor :: "human_claims \<Rightarrow> string" where
  "actor c = (if hc_PreferredUsername c \<noteq> '''' then hc_PreferredUsername c else hc_Subject c)"

section \<open>CSRF\<close>

definition csrfCookieName :: string where "csrfCookieName = ''__Host-sudo_service_csrf''"

definition ensureCSRFCookie :: "world \<Rightarrow> http_request \<Rightarrow> string res prog" where
  "ensureCSRFCookie W req =
     (if map_get (rq_Cookies req) csrfCookieName \<noteq> ''''
      then State_Monad.return (Inr (map_get (rq_Cookies req) csrfCookieName))
      else randomToken W 32)"

definition validateCSRF :: "http_request \<Rightarrow> (string \<times> string) list \<Rightarrow> gerr option" where
  "validateCSRF req form =
     (let cookie = map_get (rq_Cookies req) csrfCookieName; formToken = map_get form ''csrf_token'' in
      if cookie = '''' then Some (Text ''missing CSRF cookie'')
      else if formToken = '''' \<or> \<not> constantTimeEqual cookie formToken then Some (Text ''invalid CSRF token'')
      else None)"

lemma validateCSRF_iff:
  "validateCSRF req form = None \<longleftrightarrow>
     map_get form ''csrf_token'' \<noteq> '''' \<and> map_get (rq_Cookies req) csrfCookieName = map_get form ''csrf_token''"
  by (auto simp: validateCSRF_def Let_def constantTimeEqual_iff)

section \<open>Requests by UID\<close>

definition request_not_found :: "string \<Rightarrow> gerr" where
  "request_not_found uid = ApiError NotFound (''sudorequests.'' @ GroupName @ '' '' @ go_quote uid @ '' not found'')"

definition find_request :: "world \<Rightarrow> api_server \<Rightarrow> string \<Rightarrow> sudo_request res prog" where
  "find_request W A uid =
     attempt (list_requests W A) (\<lambda>items. State_Monad.return (case find (\<lambda>sr. UID sr = uid) items of
         Some sr \<Rightarrow> Inr sr
       | None \<Rightarrow> Inl (request_not_found uid)))"

section \<open>Replies about a request\<close>

definition writeCreateResponse :: "api_server \<Rightarrow> sudo_request \<Rightarrow> bool \<Rightarrow> reply" where
  "writeCreateResponse A sr duplicate = CreatedReply \<lparr>cr_uid = UID sr, cr_name = Name sr, cr_duplicate = duplicate,
     cr_retryOfUID = RetryOfUID (Spec sr), cr_image = imageFor sr, cr_profile = profileFor sr,
     cr_warnings = (if PreflightWarnings (Status sr) = []
       then (case resolveAndPreflight (as_lib A) sr of Inr (_, _, warnings) \<Rightarrow> warnings | Inl e \<Rightarrow> [])
       else PreflightWarnings (Status sr))\<rparr>"

definition status_of :: "api_server \<Rightarrow> sudo_request \<Rightarrow> status_reply" where
  "status_of A sr = (let st = Status sr in
     \<lparr>sp_UID = UID sr, sp_Name = Name sr, sp_Phase = Phase st, sp_Requester = Requester (Spec sr),
      sp_SubmittedBy = submittedByFor sr, sp_RetryOfUID = RetryOfUID (Spec sr),
      sp_SupersededByUID = SupersededByUID st, sp_Command = Command (Spec sr), sp_Playbook = Playbook (Spec sr),
      sp_Image = imageFor sr, sp_Profile = profileFor sr, sp_PreflightWarnings = PreflightWarnings st,
      sp_Namespace = executorNamespace sr (serverNamespace A), sp_ClusterAdmin = clusterAdminEnabled sr (serverNamespace A),
      sp_ApprovedBy = ApprovedBy st, sp_ApprovedAt = ApprovedAt st, sp_DeniedBy = DeniedBy st,
      sp_DeniedAt = DeniedAt st, sp_DenialReason = DenialReason st, sp_FailureReason = FailureReason st,
      sp_ExitCode = ExitCode st, sp_OutputSecretRef = OutputSecretRef st,
      sp_OutputCaptureState = OutputCaptureState st, sp_OutputDeliveryState = OutputDeliveryState st,
      sp_OutputFailureReason = OutputFailureReason st, sp_OutputTotalBytes = OutputTotalBytes st,
      sp_OutputRetainedBytes = OutputRetainedBytes st, sp_OutputSHA256 = OutputSHA256 st,
      sp_Summary = Summary st, sp_PermissionAssessment = PermissionAssessment st,
      sp_PermissionAssessmentState = PermissionAssessmentState st\<rparr>)"

definition snapshot_event :: "sudo_request \<Rightarrow> event" where
  "snapshot_event sr = (let st = Status sr in
     (zero_event ''snapshot'' (Phase st))\<lparr>e_ExitCode := ExitCode st, e_OutputSecretRef := OutputSecretRef st,
       e_DenialReason := DenialReason st, e_FailureReason := FailureReason st,
       e_OutputCaptureState := OutputCaptureState st, e_OutputDeliveryState := OutputDeliveryState st,
       e_OutputFailureReason := OutputFailureReason st, e_OutputTotalBytes := OutputTotalBytes st,
       e_OutputRetainedBytes := OutputRetainedBytes st, e_OutputSHA256 := OutputSHA256 st\<rparr>)"

text \<open>The stream forwards events until one announces a terminal phase or the client is gone.\<close>

fun forward :: "event list \<Rightarrow> event list" where
  "forward [] = []"
| "forward (e # es) = e # (if isTerminalPhase (e_Phase e) then [] else forward es)"

definition review_of :: "api_server \<Rightarrow> sudo_request \<Rightarrow> review_view" where
  "review_of A sr = (let st = Status sr; cns = serverNamespace A; pa = PermissionAssessment st in
     \<lparr>rv_Requester = Requester (Spec sr), rv_SubmittedBy = submittedByFor sr, rv_RetryOfUID = RetryOfUID (Spec sr),
      rv_SupersededByUID = SupersededByUID st, rv_Phase = Phase st,
      rv_CanResubmit = (adminRetryable (Phase st) \<and> SupersededByUID st = ''''),
      rv_Reason = Reason (Spec sr), rv_Command = Command (Spec sr), rv_Playbook = Playbook (Spec sr),
      rv_Image = imageFor sr, rv_Profile = profileFor sr, rv_PreflightWarnings = PreflightWarnings st,
      rv_Stdin = Stdin (Spec sr), rv_Extras = newSpecExtrasView (as_lib A) sr False cns,
      rv_PodTemplate = (case displayPodTemplate (as_lib A) (rc_rules (as_Reconciler A)) sr False cns of
          Inr tmpl \<Rightarrow> tmpl | Inl e \<Rightarrow> ''''),
      rv_Summary = Summary st,
      rv_PermissionRequest = (case pa of Some a \<Rightarrow> pa_Request a | None \<Rightarrow> ''''),
      rv_PermissionEffects = (case pa of Some a \<Rightarrow> map permissionEffectLabel (pa_Effects a) | None \<Rightarrow> []),
      rv_AssessmentModel = (case pa of Some a \<Rightarrow> pa_Model a | None \<Rightarrow> ''''),
      rv_AssessmentPromptVersion = (case pa of Some a \<Rightarrow> pa_PromptVersion a | None \<Rightarrow> ''''),
      rv_AssessmentSchemaVersion = (case pa of Some a \<Rightarrow> pa_SchemaVersion a | None \<Rightarrow> ''''),
      rv_CreatedAt = CreationTimestamp sr\<rparr>)"

end
