(* ===== verification/Api.thy ===== *)
theory Api
  imports Http
begin

text \<open>
  The handlers of \<^verbatim>\<open>api.go\<close> and \<^verbatim>\<open>retryRequester\<close> of
  \<^verbatim>\<open>retry.go\<close>, and the routes.  The mutex around submission and resubmission
  serialises them within one process, which theory \<open>Submissions\<close> takes up; other processes and direct
  writers remain, as answers of the world.
\<close>

section \<open>Gates\<close>

text \<open>An authenticated service account that may submit.\<close>

definition submitter :: "world \<Rightarrow> api_server \<Rightarrow> user_info \<Rightarrow> reply prog \<Rightarrow> reply prog" where
  "submitter W A identity k = do {
     (allowed, reason, err) \<leftarrow> AuthorizeSubmit W (as_ControllerNamespace A) identity;
     if err \<noteq> None then State_Monad.return (HttpError 503 ''request authorization unavailable'')
     else if \<not> allowed then State_Monad.return (HttpError 403 ''forbidden'')
     else k }"

definition bearer :: "world \<Rightarrow> http_request \<Rightarrow> (user_info \<Rightarrow> reply prog) \<Rightarrow> reply prog" where
  "bearer W req k = do {
     r \<leftarrow> authenticateBearer W req;
     case r of Inl e \<Rightarrow> State_Monad.return (HttpError 401 ''unauthorized'') | Inr identity \<Rightarrow> k identity }"

text \<open>An administrator; \<open>verbose\<close> handlers name the group they require.\<close>

definition admin_only :: "world \<Rightarrow> api_server \<Rightarrow> http_request \<Rightarrow> bool \<Rightarrow> (human_claims \<Rightarrow> reply prog) \<Rightarrow> reply prog" where
  "admin_only W A req verbose k = do {
     r \<leftarrow> authenticateHuman W req;
     case r of
       Inl e \<Rightarrow> State_Monad.return (HttpError 401 (''unauthorized: '' @ error_text e))
     | Inr claims \<Rightarrow>
         if \<not> IsInGroup claims (as_AdminGroup A)
         then State_Monad.return (HttpError 403
           (if verbose then ''forbidden: requires group '' @ go_quote (as_AdminGroup A) else ''forbidden''))
         else k claims }"

text \<open>A form that parses and carries the CSRF token of the cookie.\<close>

definition form_ok :: "http_request \<Rightarrow> ((string \<times> string) list \<Rightarrow> reply prog) \<Rightarrow> reply prog" where
  "form_ok req k =
     (case rq_Form req of
        None \<Rightarrow> State_Monad.return (HttpError 400 ''bad form'')
      | Some form \<Rightarrow>
          (case validateCSRF req form of
             Some e \<Rightarrow> State_Monad.return (HttpError 403 (''forbidden: '' @ error_text e))
           | None \<Rightarrow> k form))"

definition method_not_allowed :: reply where "method_not_allowed = HttpError 405 ''method not allowed''"

section \<open>Submission\<close>

definition submitted_request :: "string \<Rightarrow> user_info \<Rightarrow> create_body \<Rightarrow> sudo_request" where
  "submitted_request cns identity body = \<lparr>Name = '''', Namespace = cns, UID = '''', ResourceVersion = '''',
     CreationTimestamp = 0, DeletionTimestamp = None, Finalizers = [],
     Spec = \<lparr>Requester = u_Username identity, SubmittedBy = u_Username identity, RetryOfUID = '''',
       Reason = cb_Reason body, Command = cb_Command body, Playbook = cb_Playbook body, SpecImage = cb_Image body,
       Profile = cb_Profile body, TTLSecondsAfterApproval = cb_TTLSecondsAfterApproval body,
       SpecNamespace = cb_Namespace body, Stdin = cb_Stdin body, Env = cb_Env body, EnvFrom = cb_EnvFrom body,
       Volumes = cb_Volumes body, VolumeMounts = cb_VolumeMounts body, InitContainers = cb_InitContainers body,
       ImagePullSecrets = cb_ImagePullSecrets body, ClusterAdmin = cb_ClusterAdmin body\<rparr>,
     Status = zero_status\<rparr>"

text \<open>The first check that fails.\<close>

definition create_error :: "lib \<Rightarrow> string \<Rightarrow> sudo_request \<Rightarrow> gerr option" where
  "create_error L cns sr =
     (case validateCommandSyntax L (Command (Spec sr)) of
        Some e \<Rightarrow> Some e
      | None \<Rightarrow>
     (case resolveAndPreflight L sr of
        Inl e \<Rightarrow> Some e
      | Inr _ \<Rightarrow>
     (case validateSpecExtras L sr cns of
        Some e \<Rightarrow> Some e
      | None \<Rightarrow> validatePlaybookSpec L sr)))"

definition create_unless_duplicate :: "world \<Rightarrow> api_server \<Rightarrow> sudo_request \<Rightarrow> reply prog" where
  "create_unless_duplicate W A sr = do {
     d \<leftarrow> findPendingDuplicate W A sr;
     case d of
       Inl e \<Rightarrow> State_Monad.return (HttpError 500 (''check pending duplicates: '' @ error_text e))
     | Inr (Some duplicate) \<Rightarrow> State_Monad.return (writeCreateResponse A duplicate True)
     | Inr None \<Rightarrow> do {
         r \<leftarrow> create_sr W ''http-'' sr;
         State_Monad.return (case r of
             Inl e \<Rightarrow> HttpError 500 (''create: '' @ error_text e)
           | Inr stored \<Rightarrow> writeCreateResponse A stored False) } }"

definition createRequestHandler :: "world \<Rightarrow> api_server \<Rightarrow> http_request \<Rightarrow> reply prog" where
  "createRequestHandler W A req =
     (if rq_Method req \<noteq> ''POST'' then State_Monad.return method_not_allowed
      else bearer W req (\<lambda>identity. submitter W A identity
        (case json_body (as_lib A) (rq_Body req) of
           Inl err \<Rightarrow> State_Monad.return (HttpError 400 (''invalid JSON: '' @ err))
         | Inr body \<Rightarrow>
             if cb_Command body = '''' \<or> cb_Reason body = ''''
             then State_Monad.return (HttpError 400 ''command and reason are required'')
             else let sr = submitted_request (serverNamespace A) identity body in
               (case create_error (as_lib A) (serverNamespace A) sr of
                  Some e \<Rightarrow> State_Monad.return (HttpError 400 (error_text e))
                | None \<Rightarrow> create_unless_duplicate W A sr))))"

definition profilesHandler :: "world \<Rightarrow> api_server \<Rightarrow> http_request \<Rightarrow> reply prog" where
  "profilesHandler W A req =
     (if rq_Method req \<noteq> ''GET'' then State_Monad.return method_not_allowed
      else bearer W req (\<lambda>identity. submitter W A identity
        (State_Monad.return (CatalogReply DefaultExecutorProfile listExecutorProfiles))))"

section \<open>A requester's own request\<close>

definition serveOutput :: "world \<Rightarrow> api_server \<Rightarrow> sudo_request \<Rightarrow> reply prog" where
  "serveOutput W A sr =
     (if OutputSecretRef (Status sr) = '''' then State_Monad.return (HttpError 409 ''output not available yet'')
      else do {
        r \<leftarrow> get_secret W True (serverNamespace A) (OutputSecretRef (Status sr));
        State_Monad.return (case r of
            Inl e \<Rightarrow> HttpError 500 (''fetch output: '' @ error_text e)
          | Inr sec \<Rightarrow> OutputReply (map_get (s_Data sec) ''output'')) })"

text \<open>Subscribe first, then read the state again: what is missed by the read is on the channel.\<close>

definition serveEvents :: "world \<Rightarrow> api_server \<Rightarrow> http_request \<Rightarrow> sudo_request \<Rightarrow> reply prog" where
  "serveEvents W A req sr =
     (if \<not> rq_CanFlush req then State_Monad.return (HttpError 500 ''streaming unsupported'')
      else do {
        listen (Some (UID sr));
        fresh \<leftarrow> find_request W A (UID sr);
        let sr = (case fresh of Inr f \<Rightarrow> f | Inl e \<Rightarrow> sr);
        if isTerminalPhase (Phase (Status sr)) then State_Monad.return (StreamReply [snapshot_event sr])
        else do {
          events \<leftarrow> received W (Some (UID sr));
          State_Monad.return (StreamReply (snapshot_event sr # forward events)) } })"

text \<open>\<open>retryRequest\<close> never returns neither an object nor an error (\<open>retry_post\<close> of theory \<open>Retry\<close>).\<close>

definition retry_reply :: "api_server \<Rightarrow> retry_result \<Rightarrow> reply" where
  "retry_reply A res =
     (case res of
        (x, created, Some e) \<Rightarrow>
          (case root_error e of
             PendingDuplicate uid \<Rightarrow> DuplicateReply (error_text e) uid
           | _ \<Rightarrow> HttpError 409 (error_text e))
      | (Some successor, created, None) \<Rightarrow> writeCreateResponse A successor (\<not> created)
      | (None, created, None) \<Rightarrow> HttpError 500 '''')"

definition retryRequester :: "world \<Rightarrow> api_server \<Rightarrow> http_request \<Rightarrow> sudo_request \<Rightarrow> user_info \<Rightarrow> reply prog" where
  "retryRequester W A req source identity =
     (if rq_Method req \<noteq> ''POST'' then State_Monad.return method_not_allowed
      else submitter W A identity (do {
        res \<leftarrow> retryRequest W A source (u_Username identity) False;
        State_Monad.return (retry_reply A res) }))"

definition serve_subpath :: "world \<Rightarrow> api_server \<Rightarrow> http_request \<Rightarrow> user_info \<Rightarrow> sudo_request \<Rightarrow> string \<Rightarrow> reply prog" where
  "serve_subpath W A req identity sr subpath =
     (if subpath = '''' then State_Monad.return (StatusReply (status_of A sr))
      else if subpath = ''retry'' then retryRequester W A req sr identity
      else if subpath = ''output'' then serveOutput W A sr
      else if subpath = ''events'' then serveEvents W A req sr
      else State_Monad.return not_found_reply)"

text \<open>\<open>SplitN(rest, "/", 2)\<close>: the UID, and what follows the first slash.\<close>

definition path_uid :: "string \<Rightarrow> string" where
  "path_uid path = takeWhile (\<lambda>c. c \<noteq> CHR ''/'') (trim_prefix path ''/requests/'')"

definition path_sub :: "string \<Rightarrow> string" where
  "path_sub path = drop 1 (dropWhile (\<lambda>c. c \<noteq> CHR ''/'') (trim_prefix path ''/requests/''))"

definition requestSubpathHandler :: "world \<Rightarrow> api_server \<Rightarrow> http_request \<Rightarrow> reply prog" where
  "requestSubpathHandler W A req =
     (let uid = path_uid (rq_Path req) in
      if uid = '''' then State_Monad.return (HttpError 400 ''missing uid'')
      else bearer W req (\<lambda>identity. do {
        r \<leftarrow> find_request W A uid;
        case r of
          Inl e \<Rightarrow> State_Monad.return (HttpError 404 (error_text e))
        | Inr sr \<Rightarrow>
            if Requester (Spec sr) \<noteq> u_Username identity
            then State_Monad.return (HttpError 403 ''forbidden: not the requester'')
            else serve_subpath W A req identity sr (path_sub (rq_Path req)) }))"

section \<open>The pages of an administrator\<close>

definition indexHandler :: "world \<Rightarrow> api_server \<Rightarrow> http_request \<Rightarrow> reply prog" where
  "indexHandler W A req =
     (if rq_Path req \<noteq> ''/'' then State_Monad.return not_found_reply
      else admin_only W A req True (\<lambda>claims. do {
        r \<leftarrow> list_sr W True (serverNamespace A);
        case r of
          Inl e \<Rightarrow> State_Monad.return (HttpError 500 (''list requests: '' @ error_text e))
        | Inr items \<Rightarrow> do {
            items \<leftarrow> go_sort W (\<lambda>sr. - CreationTimestamp sr) items;
            State_Monad.return (IndexPage (hc_PreferredUsername claims) (hc_Email claims)
              (filter (\<lambda>sr. Phase (Status sr) = Pending) items)
              (take 20 (filter (\<lambda>sr. Phase (Status sr) \<noteq> Pending \<and> Phase (Status sr) \<noteq> NoPhase) items))) } }))"

text \<open>
  The request an approval page shows, and the token it keeps: an expired token falls back to the
  plain lookup, and is dropped when the request is still pending.
\<close>

definition request_to_review :: "world \<Rightarrow> api_server \<Rightarrow> human_claims \<Rightarrow> string \<Rightarrow> string \<Rightarrow>
    (sudo_request res \<times> string) prog" where
  "request_to_review W A claims uid token =
     (if token \<noteq> '''' then do {
        r \<leftarrow> VerifyApprovalToken W (as_Reconciler A) uid token;
        case r of
          Inr sr \<Rightarrow> State_Monad.return (Inr sr, token)
        | Inl e \<Rightarrow>
            if is_token_expired e \<and> IsInGroup claims (as_AdminGroup A) then do {
              r \<leftarrow> find_request W A uid;
              State_Monad.return (r, case r of
                  Inr sr \<Rightarrow> if Phase (Status sr) = Pending then '''' else token
                | Inl e \<Rightarrow> token) }
            else State_Monad.return (Inl e, token) }
      else do {
        r \<leftarrow> find_request W A uid;
        State_Monad.return (r, token) })"

definition approve_page :: "api_server \<Rightarrow> human_claims \<Rightarrow> string \<Rightarrow> string \<Rightarrow> string res \<Rightarrow> sudo_request res \<Rightarrow> reply" where
  "approve_page A claims uid token csrf r =
     ApprovePage (case csrf of Inr t \<Rightarrow> Some t | Inl e \<Rightarrow> None)
       \<lparr>av_UID = uid, av_Token = token, av_User = hc_PreferredUsername claims, av_UserEmail = hc_Email claims,
        av_CSRFToken = (case csrf of Inr t \<Rightarrow> t | Inl e \<Rightarrow> ''''),
        av_Error = (case r of
            Inl e \<Rightarrow> error_text e
          | Inr sr \<Rightarrow> (case csrf of Inl e \<Rightarrow> ''could not prepare the approval form'' | Inr t \<Rightarrow> '''')),
        av_Request = (case r of Inl e \<Rightarrow> None | Inr sr \<Rightarrow> Some (review_of A sr))\<rparr>"

definition renderApprovePage :: "world \<Rightarrow> api_server \<Rightarrow> http_request \<Rightarrow> human_claims \<Rightarrow> reply prog" where
  "renderApprovePage W A req claims =
     (let uid = map_get (rq_Query req) ''id''; token = map_get (rq_Query req) ''t'' in
      if uid = '''' then State_Monad.return (HttpError 400 ''missing id'')
      else if token = '''' \<and> \<not> IsInGroup claims (as_AdminGroup A)
      then State_Monad.return (HttpError 401 ''missing token or not an admin'')
      else do {
        (r, token) \<leftarrow> request_to_review W A claims uid token;
        csrf \<leftarrow> ensureCSRFCookie W req;
        State_Monad.return (approve_page A claims uid token csrf r) })"

text \<open>
  The token of a decision, when there is one: it must be the request's, unless it has expired, since
  an administrator may decide without one.  The group was checked before; the handlers check it again.
\<close>

definition token_checked :: "world \<Rightarrow> api_server \<Rightarrow> human_claims \<Rightarrow> string \<Rightarrow> string \<Rightarrow> string \<Rightarrow>
    reply prog \<Rightarrow> reply prog" where
  "token_checked W A claims what uid token k =
     (if token = '''' then
        (if \<not> IsInGroup claims (as_AdminGroup A)
         then State_Monad.return (HttpError 403 (''forbidden: admin required for token-less '' @ what))
         else k)
      else do {
        r \<leftarrow> VerifyApprovalToken W (as_Reconciler A) uid token;
        case r of
          Inl e \<Rightarrow>
            if \<not> is_token_expired e \<or> \<not> IsInGroup claims (as_AdminGroup A)
            then State_Monad.return (HttpError 400 (''approval token check failed: '' @ error_text e))
            else k
        | Inr sr \<Rightarrow> k })"

definition decision_page :: "string \<Rightarrow> string \<Rightarrow> string \<Rightarrow> human_claims \<Rightarrow> string \<Rightarrow> unit res \<Rightarrow> reply" where
  "decision_page what title msg claims uid r =
     (case r of
        Inl e \<Rightarrow> HttpError 500 (what @ '': '' @ error_text e)
      | Inr _ \<Rightarrow> ResultPage 200 \<lparr>re_Title = title, re_Message = msg, re_UID = uid, re_LinkUID = False,
          re_Variant = (if what = ''approve'' then ''success'' else ''error''),
          re_User = hc_PreferredUsername claims, re_UserEmail = hc_Email claims\<rparr>)"

definition handleApprovePost :: "world \<Rightarrow> api_server \<Rightarrow> http_request \<Rightarrow> human_claims \<Rightarrow> reply prog" where
  "handleApprovePost W A req claims =
     form_ok req (\<lambda>form. token_checked W A claims ''approval'' (map_get form ''id'') (map_get form ''t'') (do {
       r \<leftarrow> Approve W (as_Reconciler A) (map_get form ''id'') (actor claims);
       State_Monad.return
         (decision_page ''approve'' ''Approved'' ''This request will execute shortly.'' claims (map_get form ''id'') r) }))"

definition approveHandler :: "world \<Rightarrow> api_server \<Rightarrow> http_request \<Rightarrow> reply prog" where
  "approveHandler W A req = admin_only W A req True (\<lambda>claims.
     if rq_Method req = ''GET'' then renderApprovePage W A req claims
     else if rq_Method req = ''POST'' then handleApprovePost W A req claims
     else State_Monad.return method_not_allowed)"

definition denyHandlerWithClaims :: "world \<Rightarrow> api_server \<Rightarrow> http_request \<Rightarrow> human_claims \<Rightarrow> reply prog" where
  "denyHandlerWithClaims W A req claims =
     form_ok req (\<lambda>form. token_checked W A claims ''denial'' (map_get form ''id'') (map_get form ''t'') (do {
       r \<leftarrow> Deny W (as_Reconciler A) (map_get form ''id'') (actor claims) (map_get form ''reason'');
       State_Monad.return
         (decision_page ''deny'' ''Denied'' ''The requester has been notified.'' claims (map_get form ''id'') r) }))"

definition denyHandler :: "world \<Rightarrow> api_server \<Rightarrow> http_request \<Rightarrow> reply prog" where
  "denyHandler W A req =
     (if rq_Method req \<noteq> ''POST'' then State_Monad.return method_not_allowed
      else admin_only W A req False (denyHandlerWithClaims W A req))"

definition resubmit_page :: "human_claims \<Rightarrow> retry_result \<Rightarrow> reply" where
  "resubmit_page claims res =
     (let page = (\<lambda>title msg uid variant. \<lparr>re_Title = title, re_Message = msg, re_UID = uid, re_LinkUID = True,
            re_Variant = variant, re_User = hc_PreferredUsername claims, re_UserEmail = hc_Email claims\<rparr>)
      in case res of
        (x, created, Some e) \<Rightarrow>
          (case root_error e of
             PendingDuplicate uid \<Rightarrow> ResultPage 409 (page ''Equivalent request already pending''
               ''Use the active request below instead of creating another retry.'' uid ''error'')
           | _ \<Rightarrow> HttpError 409 (''resubmit: '' @ error_text e))
      | (Some successor, created, None) \<Rightarrow> ResultPage 200 (page ''Resubmitted''
          ''A new request was created for explicit review.'' (UID successor) ''success'')
      | (None, created, None) \<Rightarrow> HttpError 500 '''')"

definition resubmitHandlerWithClaims :: "world \<Rightarrow> api_server \<Rightarrow> http_request \<Rightarrow> human_claims \<Rightarrow> reply prog" where
  "resubmitHandlerWithClaims W A req claims =
     form_ok req (\<lambda>form. do {
       r \<leftarrow> find_request W A (map_get form ''id'');
       case r of
         Inl e \<Rightarrow> State_Monad.return (HttpError 404 (''source: '' @ error_text e))
       | Inr source \<Rightarrow> do {
           res \<leftarrow> retryRequest W A source (actor claims) True;
           State_Monad.return (resubmit_page claims res) } })"

definition resubmitHandler :: "world \<Rightarrow> api_server \<Rightarrow> http_request \<Rightarrow> reply prog" where
  "resubmitHandler W A req =
     (if rq_Method req \<noteq> ''POST'' then State_Monad.return method_not_allowed
      else admin_only W A req False (resubmitHandlerWithClaims W A req))"

definition globalEventsHandler :: "world \<Rightarrow> api_server \<Rightarrow> http_request \<Rightarrow> reply prog" where
  "globalEventsHandler W A req =
     (if \<not> rq_CanFlush req then State_Monad.return (HttpError 500 ''streaming unsupported'')
      else admin_only W A req True (\<lambda>claims. do {
        listen None;
        events \<leftarrow> received W None;
        State_Monad.return (StreamReply events) }))"

section \<open>Routes\<close>

definition ServeHTTP :: "world \<Rightarrow> api_server \<Rightarrow> http_request \<Rightarrow> reply prog" where
  "ServeHTTP W A req =
     (let path = rq_Path req in
      if path = ''/health'' then State_Monad.return OkReply
      else if path = ''/approve'' then approveHandler W A req
      else if path = ''/deny'' then denyHandler W A req
      else if path = ''/resubmit'' then resubmitHandler W A req
      else if path = ''/requests'' then createRequestHandler W A req
      else if has_prefix path ''/requests/'' then requestSubpathHandler W A req
      else if path = ''/profiles'' then profilesHandler W A req
      else if path = ''/events'' then globalEventsHandler W A req
      else indexHandler W A req)"

end
