(* ===== verification/Requests.thy ===== *)
theory Requests
  imports Api
begin

text \<open>
  Every call the HTTP API makes, and every reply it gives: who must have been authenticated before,
  and what of a request is shown to whom.
\<close>

section \<open>Who\<close>

definition is_requester :: "call set \<Rightarrow> user_info \<Rightarrow> bool" where
  "is_requester cs u \<longleftrightarrow> authenticated cs RequesterTokenAudience u"

definition is_admin :: "api_server \<Rightarrow> call set \<Rightarrow> human_claims \<Rightarrow> bool" where
  "is_admin A cs c \<longleftrightarrow> verified cs c \<and> IsInGroup c (as_AdminGroup A)"

definition is_submitter :: "api_server \<Rightarrow> call set \<Rightarrow> user_info \<Rightarrow> bool" where
  "is_submitter A cs u \<longleftrightarrow> is_requester cs u \<and> may_submit cs (as_ControllerNamespace A) u"

definition someone :: "api_server \<Rightarrow> call set \<Rightarrow> bool" where
  "someone A cs \<longleftrightarrow> (\<exists>u. is_requester cs u) \<or> (\<exists>c. is_admin A cs c)"

definition listed_request :: "api_server \<Rightarrow> call set \<Rightarrow> sudo_request \<Rightarrow> bool" where
  "listed_request A cs sr \<longleftrightarrow>
     (\<exists>items. ListSR (\<not> as_APIReader A) (serverNamespace A) (Inr items) \<in> cs \<and> sr \<in> set items)"

definition owns :: "api_server \<Rightarrow> call set \<Rightarrow> user_info \<Rightarrow> sudo_request \<Rightarrow> bool" where
  "owns A cs u sr \<longleftrightarrow> is_requester cs u \<and> listed_request A cs sr \<and> Requester (Spec sr) = u_Username u"

text \<open>A form posted with the CSRF token of the cookie.\<close>

definition posted :: "http_request \<Rightarrow> (string \<times> string) list \<Rightarrow> bool" where
  "posted req form \<longleftrightarrow> rq_Method req = ''POST'' \<and> rq_Form req = Some form \<and> validateCSRF req form = None"

section \<open>What may be called\<close>

definition human_decision :: "api_server \<Rightarrow> http_request \<Rightarrow> nat \<Rightarrow> hist \<Rightarrow> call \<Rightarrow> bool" where
  "human_decision A req n h c \<longleftrightarrow>
     (\<exists>form cl. posted req form \<and> is_admin A (recent n h) cl \<and>
        (decision_call (\<lambda>t. approved_status t (actor cl)) (as_Reconciler A) (map_get form ''id'') n h c \<or>
         decision_call (\<lambda>t. denied_by_status t (actor cl) (map_get form ''reason'')) (as_Reconciler A)
           (map_get form ''id'') n h c))"

text \<open>
  Who may resubmit \<open>source\<close>, and under which name: an administrator who posted a form, or the
  requester, who may submit.
\<close>

definition resubmitter :: "api_server \<Rightarrow> http_request \<Rightarrow> call set \<Rightarrow> sudo_request \<Rightarrow> string \<Rightarrow> bool \<Rightarrow> bool" where
  "resubmitter A req cs source via admin \<longleftrightarrow> rq_Method req = ''POST'' \<and> listed_request A cs source \<and>
     (if admin
      then \<exists>cl form. posted req form \<and> is_admin A cs cl \<and> UID source = map_get form ''id'' \<and> via = actor cl
      else \<exists>u. is_submitter A cs u \<and> Requester (Spec source) = via \<and> via = u_Username u)"

definition resubmission :: "api_server \<Rightarrow> http_request \<Rightarrow> nat \<Rightarrow> hist \<Rightarrow> call \<Rightarrow> bool" where
  "resubmission A req n h c \<longleftrightarrow>
     (\<exists>source via admin. resubmitter A req (recent n h) source via admin \<and> retry_call A source via admin n h c)"

definition submission :: "api_server \<Rightarrow> http_request \<Rightarrow> call set \<Rightarrow> string \<Rightarrow> sudo_request \<Rightarrow> bool" where
  "submission A req cs gen obj \<longleftrightarrow> gen = ''http-'' \<and> rq_Method req = ''POST'' \<and>
     (\<exists>u body. is_submitter A cs u \<and> json_body (as_lib A) (rq_Body req) = Inr body \<and>
        obj = submitted_request (serverNamespace A) u body \<and> cb_Command body \<noteq> '''' \<and> cb_Reason body \<noteq> '''' \<and>
        create_error (as_lib A) (serverNamespace A) obj = None \<and> no_duplicate A obj cs)"

definition http_call :: "api_server \<Rightarrow> http_request \<Rightarrow> nat \<Rightarrow> hist \<Rightarrow> call \<Rightarrow> bool" where
  "http_call A req n h c \<longleftrightarrow>
     (case c of
        TokenReview tok aud r \<Rightarrow> tok \<noteq> '''' \<and> aud = RequesterTokenAudience
      | AccessReview q r \<Rightarrow> (\<exists>u. is_requester (recent n h) u \<and> q = submit_review (as_ControllerNamespace A) u)
      | VerifyJWT raw r \<Rightarrow> raw \<in> set (jwt_candidates req)
      | CreateSR gen obj r \<Rightarrow>
          (submission A req (recent n h) gen obj \<or> resubmission A req n h c) \<and> just_checked A obj h
      | UpdateStatus obj r \<Rightarrow> human_decision A req n h c \<or> resubmission A req n h c
      | GetSecret cached ns nm r \<Rightarrow> (\<exists>u sr. owns A (recent n h) u sr \<and> nm = OutputSecretRef (Status sr))
      | Listen who \<Rightarrow> (case who of None \<Rightarrow> (\<exists>cl. is_admin A (recent n h) cl)
                                 | Some uid \<Rightarrow> (\<exists>u sr. owns A (recent n h) u sr \<and> uid = UID sr))
      | Received who r \<Rightarrow> (case who of None \<Rightarrow> (\<exists>cl. is_admin A (recent n h) cl)
                                     | Some uid \<Rightarrow> (\<exists>u sr. owns A (recent n h) u sr \<and> uid = UID sr))
      | DeleteSecret ns nm r \<Rightarrow> human_decision A req n h c
      | RecordEvent t reason msg \<Rightarrow> human_decision A req n h c
      | PublishEvent uid e \<Rightarrow> human_decision A req n h c
      | ListSR cached ns r \<Rightarrow> someone A (recent n h)
      | GetSR cached ns nm r \<Rightarrow> someone A (recent n h)
      | Now t \<Rightarrow> someone A (recent n h)
      | Random k r \<Rightarrow> someone A (recent n h)
      | _ \<Rightarrow> False)"

section \<open>What may be shown\<close>

definition reply_ok :: "api_server \<Rightarrow> nat \<Rightarrow> reply \<Rightarrow> hist \<Rightarrow> bool" where
  "reply_ok A n rep h \<longleftrightarrow>
     (case rep of
        CreatedReply cr \<Rightarrow> (\<exists>u. is_submitter A (recent n h) u \<and>
          (cr_duplicate cr \<longrightarrow> (\<exists>sr :: sudo_request. cr_uid cr = UID sr \<and> Requester (Spec sr) = u_Username u)))
      | DuplicateReply msg uid \<Rightarrow> (\<exists>u. is_submitter A (recent n h) u)
      | CatalogReply d ps \<Rightarrow> (\<exists>u. is_submitter A (recent n h) u)
      | StatusReply st \<Rightarrow> (\<exists>u sr. owns A (recent n h) u sr \<and> st = status_of A sr)
      | OutputReply out \<Rightarrow> (\<exists>u sr sec. owns A (recent n h) u sr \<and>
          GetSecret True (serverNamespace A) (OutputSecretRef (Status sr)) (Inr sec) \<in> recent n h \<and>
          out = map_get (s_Data sec) ''output'')
      | StreamReply es \<Rightarrow> (\<exists>cl. is_admin A (recent n h) cl) \<or> (\<exists>u sr. owns A (recent n h) u sr)
      | IndexPage user email ps hs \<Rightarrow> (\<exists>cl. is_admin A (recent n h) cl)
      | ApprovePage cookie v \<Rightarrow> (\<exists>cl. is_admin A (recent n h) cl)
      | ResultPage code v \<Rightarrow> (\<exists>cl. is_admin A (recent n h) cl)
      | _ \<Rightarrow> True)"

lemma reply_ok_error [simp]: "reply_ok A n (HttpError st msg) h" "reply_ok A n OkReply h"
    "reply_ok A n not_found_reply h" "reply_ok A n method_not_allowed h"
  by (simp_all add: reply_ok_def not_found_reply_def method_not_allowed_def)

lemma reply_created:
  "is_submitter A (recent n h) u \<Longrightarrow> (dup \<Longrightarrow> Requester (Spec sr) = u_Username u) \<Longrightarrow>
     reply_ok A n (writeCreateResponse A sr dup) h"
  unfolding reply_ok_def writeCreateResponse_def by auto

section \<open>Monotonicity\<close>

lemma is_requester_mono: "is_requester X u \<Longrightarrow> X \<subseteq> Y \<Longrightarrow> is_requester Y u"
  unfolding is_requester_def by (rule authenticated_mono)

lemma is_admin_mono: "is_admin A X c \<Longrightarrow> X \<subseteq> Y \<Longrightarrow> is_admin A Y c"
  unfolding is_admin_def using verified_mono by blast

lemma is_submitter_mono: "is_submitter A X u \<Longrightarrow> X \<subseteq> Y \<Longrightarrow> is_submitter A Y u"
  unfolding is_submitter_def using is_requester_mono may_submit_mono by blast

lemma listed_request_mono: "listed_request A X sr \<Longrightarrow> X \<subseteq> Y \<Longrightarrow> listed_request A Y sr"
  unfolding listed_request_def by blast

lemma owns_mono: "owns A X u sr \<Longrightarrow> X \<subseteq> Y \<Longrightarrow> owns A Y u sr"
  unfolding owns_def using is_requester_mono listed_request_mono by blast

lemmas who_monos = is_requester_mono is_admin_mono is_submitter_mono listed_request_mono owns_mono

lemma who_insert:
  "is_requester cs u \<Longrightarrow> is_requester (insert c cs) u" "is_admin A cs cl \<Longrightarrow> is_admin A (insert c cs) cl"
  "is_submitter A cs u \<Longrightarrow> is_submitter A (insert c cs) u" "listed_request A cs sr \<Longrightarrow> listed_request A (insert c cs) sr"
  "owns A cs u sr \<Longrightarrow> owns A (insert c cs) u sr"
  by (auto elim: who_monos)

lemma who_append:
  assumes "n \<le> length h"
  shows "is_requester (recent n h) u \<Longrightarrow> is_requester (recent n (h @ t)) u"
    "is_admin A (recent n h) cl \<Longrightarrow> is_admin A (recent n (h @ t)) cl"
    "is_submitter A (recent n h) u' \<Longrightarrow> is_submitter A (recent n (h @ t)) u'"
    "listed_request A (recent n h) sr \<Longrightarrow> listed_request A (recent n (h @ t)) sr"
    "owns A (recent n h) u'' sr' \<Longrightarrow> owns A (recent n (h @ t)) u'' sr'"
  using assms by (auto elim: who_monos)

lemma someoneI: "is_requester cs u \<Longrightarrow> someone A cs" "is_admin A cs c \<Longrightarrow> someone A cs"
    "is_submitter A cs u \<Longrightarrow> someone A cs"
  unfolding someone_def is_submitter_def by blast+

section \<open>The gates\<close>

lemma authenticateBearer_emits:
  assumes n: "n \<le> length h"
  shows "emits (http_call A req n) (authenticateBearer W req) (\<lambda>r h'. n \<le> length h' \<and> recent n h \<subseteq> recent n h' \<and>
     (\<forall>u. r = Inr u \<longrightarrow> is_requester (recent n h') u)) h"
  unfolding authenticateBearer_def is_requester_def
  by (auto simp: Let_def n http_call_def intro!: emits_mono [OF Review_emits [OF n]])

lemma bearer_emits:
  assumes n: "n \<le> length h"
    and k: "\<And>u h'. n \<le> length h' \<Longrightarrow> is_requester (recent n h') u \<Longrightarrow> emits (http_call A req n) (k u) (reply_ok A n) h'"
  shows "emits (http_call A req n) (bearer W req k) (reply_ok A n) h"
  unfolding bearer_def
  by (rule emits_bind, rule emits_mono [OF authenticateBearer_emits [OF n]]) (auto intro: k split: sum.split)

lemma submitter_emits:
  assumes n: "n \<le> length h" and u: "is_requester (recent n h) u"
    and k: "\<And>h'. n \<le> length h' \<Longrightarrow> is_submitter A (recent n h') u \<Longrightarrow> recent n h \<subseteq> recent n h' \<Longrightarrow>
      emits (http_call A req n) k (reply_ok A n) h'"
  shows "emits (http_call A req n) (submitter W A u k) (reply_ok A n) h"
proof -
  have "http_call A req n h (AccessReview (submit_review (as_ControllerNamespace A) u) r)" for r
    using u by (auto simp: http_call_def)
  then show ?thesis
    unfolding submitter_def
    by (intro emits_bind emits_mono [OF AuthorizeSubmit_emits [OF n]])
       (auto intro!: k is_requester_mono [OF u] simp: is_submitter_def)
qed

lemma verify_first_emits:
  "n \<le> length h \<Longrightarrow> set raws \<subseteq> set (jwt_candidates req) \<Longrightarrow>
     emits (http_call A req n) (verify_first W raws e) (\<lambda>r h'. n \<le> length h' \<and> recent n h \<subseteq> recent n h' \<and>
       (\<forall>c. r = Inr c \<longrightarrow> verified (recent n h') c)) h"
proof (induction W raws e arbitrary: h rule: verify_first.induct)
  case (2 W raw rest e)
  have "http_call A req n h (VerifyJWT raw r)" for r using "2.prems"(2) by (simp add: http_call_def)
  then show ?case
    using "2.prems" "2.IH"
    by (auto intro!: emits_bind emits_mono [OF Verify_emits [OF "2.prems"(1)]] emits_mono [OF "2.IH"] split: sum.split)
qed simp

lemma admin_only_emits:
  assumes n: "n \<le> length h"
    and k: "\<And>c h'. n \<le> length h' \<Longrightarrow> is_admin A (recent n h') c \<Longrightarrow> emits (http_call A req n) (k c) (reply_ok A n) h'"
  shows "emits (http_call A req n) (admin_only W A req verbose k) (reply_ok A n) h"
  unfolding admin_only_def authenticateHuman_def
  by (auto intro!: emits_bind emits_mono [OF verify_first_emits [OF n subset_refl]] k simp: is_admin_def split: sum.split)

lemma form_ok_emits:
  assumes "\<And>form. rq_Form req = Some form \<Longrightarrow> validateCSRF req form = None \<Longrightarrow> emits P (k form) (reply_ok A n) h"
  shows "emits P (form_ok req k) (reply_ok A n) h"
  unfolding form_ok_def by (auto intro: assms split: option.split)

section \<open>Shared steps\<close>

lemma find_request_emits:
  assumes n: "n \<le> length h" and who: "someone A (recent n h)"
  shows "emits (http_call A req n) (find_request W A uid) (\<lambda>r h'. n \<le> length h' \<and> recent n h \<subseteq> recent n h' \<and>
     (\<forall>sr. r = Inr sr \<longrightarrow> UID sr = uid \<and> listed_request A (recent n h') sr)) h"
  unfolding find_request_def list_requests_def
  by (auto simp: prims n who http_call_def listed_request_def le_SucI dest!: find_SomeD
      intro!: emits_attempt split: sum.split option.split)

lemma VerifyApprovalToken_http:
  assumes n: "n \<le> length h" and who: "someone A (recent n h)"
  shows "emits (http_call A req n) (VerifyApprovalToken W (as_Reconciler A) uid tok)
     (\<lambda>r h'. n \<le> length h' \<and> recent n h \<subseteq> recent n h') h"
proof -
  have w: "someone A (insert c (recent n h))" for c
    using who who_insert(1,2) unfolding someone_def by blast
  show ?thesis
    unfolding VerifyApprovalToken_def findByUID_def
    by (auto simp: prims n who w http_call_def le_SucI intro!: emits_rules split: sum.split option.split)
qed

section \<open>Sub-programs\<close>

text \<open>The calls of a decision and of a resubmission, made for someone who may ask for them.\<close>

lemma decision_call_cases:
  assumes "decision_call f R uid n h c"
  shows "(\<exists>cached ns r. c = ListSR cached ns r) \<or> (\<exists>t. c = Now t) \<or> (\<exists>obj r. c = UpdateStatus obj r) \<or>
     (\<exists>ns nm r. c = DeleteSecret ns nm r) \<or> (\<exists>t reason msg. c = RecordEvent t reason msg) \<or> (\<exists>u e. c = PublishEvent u e)"
  using assms by (cases c) (auto simp: decision_call_def announces_def)

lemma human_decision_http:
  assumes "human_decision A req n h c"
  shows "http_call A req n h c"
proof -
  from assms obtain form cl where "posted req form" "is_admin A (recent n h) cl" and
    d: "decision_call (\<lambda>t. approved_status t (actor cl)) (as_Reconciler A) (map_get form ''id'') n h c \<or>
        decision_call (\<lambda>t. denied_by_status t (actor cl) (map_get form ''reason'')) (as_Reconciler A) (map_get form ''id'') n h c"
    unfolding human_decision_def by blast
  moreover from this have "someone A (recent n h)" by (blast intro: someoneI)
  moreover from d have "(\<exists>cached ns r. c = ListSR cached ns r) \<or> (\<exists>t. c = Now t) \<or> (\<exists>obj r. c = UpdateStatus obj r) \<or>
     (\<exists>ns nm r. c = DeleteSecret ns nm r) \<or> (\<exists>t reason msg. c = RecordEvent t reason msg) \<or> (\<exists>u e. c = PublishEvent u e)"
    using decision_call_cases by blast
  ultimately show ?thesis using assms by (elim disjE exE) (simp_all add: http_call_def)
qed

lemma retry_call_cases:
  assumes "retry_call A source by admin n h c"
  shows "(\<exists>cached ns r. c = ListSR cached ns r) \<or> (\<exists>cached ns nm r. c = GetSR cached ns nm r) \<or>
     (\<exists>obj r. c = UpdateStatus obj r) \<or> (\<exists>gen obj r. c = CreateSR gen obj r)"
  using assms by (cases c) (auto simp: retry_call_def)

lemma resubmission_someone: "resubmission A req n h c \<Longrightarrow> someone A (recent n h)"
  unfolding resubmission_def resubmitter_def by (auto intro: someoneI split: if_splits)

lemma resubmission_http:
  assumes "resubmission A req n h c"
  shows "http_call A req n h c"
proof -
  from assms have "someone A (recent n h)" by (rule resubmission_someone)
  moreover from assms have "(\<exists>cached ns r. c = ListSR cached ns r) \<or> (\<exists>cached ns nm r. c = GetSR cached ns nm r) \<or>
     (\<exists>obj r. c = UpdateStatus obj r) \<or> (\<exists>gen obj r. c = CreateSR gen obj r)"
    unfolding resubmission_def using retry_call_cases by blast
  moreover have "just_checked A obj h" if "c = CreateSR gen obj r" for gen obj r
    using assms that by (auto simp: resubmission_def retry_call_def)
  ultimately show ?thesis using assms by (elim disjE exE) (simp_all add: http_call_def)
qed

lemma Approve_http:
  assumes n: "n \<le> length h" and cl: "is_admin A (recent n h) cl" and f: "posted req form"
  shows "emits (http_call A req n) (Approve W (as_Reconciler A) (map_get form ''id'') (actor cl))
     (\<lambda>r h'. is_admin A (recent n h') cl) h"
  unfolding Approve_decide
proof (rule emits_mono2 [OF approve.decide_emits [OF n]])
  fix t c
  assume "decision_call (\<lambda>t. approved_status t (actor cl)) (as_Reconciler A) (map_get form ''id'') n (h @ t) c"
  with f who_append(2) [OF n cl, of t] have "human_decision A req n (h @ t) c" unfolding human_decision_def by blast
  then show "http_call A req n (h @ t) c" by (rule human_decision_http)
qed (use who_append(2) [OF n cl] in simp_all)

lemma Deny_http:
  assumes n: "n \<le> length h" and cl: "is_admin A (recent n h) cl" and f: "posted req form"
  shows "emits (http_call A req n) (Deny W (as_Reconciler A) (map_get form ''id'') (actor cl) (map_get form ''reason''))
     (\<lambda>r h'. is_admin A (recent n h') cl) h"
  unfolding Deny_decide
proof (rule emits_mono2 [OF deny.decide_emits [OF n]])
  fix t c
  assume "decision_call (\<lambda>t. denied_by_status t (actor cl) (map_get form ''reason'')) (as_Reconciler A)
      (map_get form ''id'') n (h @ t) c"
  with f who_append(2) [OF n cl, of t] have "human_decision A req n (h @ t) c" unfolding human_decision_def by blast
  then show "http_call A req n (h @ t) c" by (rule human_decision_http)
qed (use who_append(2) [OF n cl] in simp_all)

lemma retry_by_admin:
  assumes n: "n \<le> length h" and cl: "is_admin A (recent n h) cl" and f: "posted req form"
    and s: "listed_request A (recent n h) source" "UID source = map_get form ''id''"
  shows "emits (http_call A req n) (retryRequest W A source (actor cl) True)
     (\<lambda>r h'. is_admin A (recent n h') cl \<and> retry_post A source n r h') h"
proof (rule emits_mono2 [OF retryRequest_emits [OF n]])
  fix t c
  assume c: "retry_call A source (actor cl) True n (h @ t) c"
  from f s(2) who_append(2) [OF n cl, of t] who_append(4) [OF n s(1), of t]
  have "resubmitter A req (recent n (h @ t)) source (actor cl) True" by (auto simp: resubmitter_def posted_def)
  with c have "resubmission A req n (h @ t) c" unfolding resubmission_def by blast
  then show "http_call A req n (h @ t) c" by (rule resubmission_http)
qed (use who_append(2) [OF n cl] in simp_all)

lemma retry_by_requester:
  assumes n: "n \<le> length h" and u: "is_submitter A (recent n h) u" and m: "rq_Method req = ''POST''"
    and s: "listed_request A (recent n h) source" "Requester (Spec source) = u_Username u"
  shows "emits (http_call A req n) (retryRequest W A source (u_Username u) False)
     (\<lambda>r h'. is_submitter A (recent n h') u \<and> retry_post A source n r h') h"
proof (rule emits_mono2 [OF retryRequest_emits [OF n]])
  fix t c
  assume c: "retry_call A source (u_Username u) False n (h @ t) c"
  from m s(2) who_append(3) [OF n u, of t] who_append(4) [OF n s(1), of t]
  have "resubmitter A req (recent n (h @ t)) source (u_Username u) False" by (auto simp: resubmitter_def)
  with c have "resubmission A req n (h @ t) c" unfolding resubmission_def by blast
  then show "http_call A req n (h @ t) c" by (rule resubmission_http)
qed (use who_append(3) [OF n u] in simp_all)

lemma token_checked_emits:
  assumes n: "n \<le> length h" and cl: "is_admin A (recent n h) cl"
    and k: "\<And>h'. n \<le> length h' \<Longrightarrow> is_admin A (recent n h') cl \<Longrightarrow> emits (http_call A req n) k (reply_ok A n) h'"
  shows "emits (http_call A req n) (token_checked W A cl what uid tok k) (reply_ok A n) h"
proof (cases "tok = ''''")
  case True
  then show ?thesis using n cl by (auto simp: token_checked_def intro: k)
next
  case False
  then show ?thesis
    unfolding token_checked_def
    by (auto intro!: emits_bind emits_mono [OF VerifyApprovalToken_http [OF n someoneI(2) [OF cl]]] k
        elim: is_admin_mono [OF cl] split: sum.split)
qed

section \<open>The handlers\<close>

lemma createRequestHandler_emits:
  assumes n: "n \<le> length h"
  shows "emits (http_call A req n) (createRequestHandler W A req) (reply_ok A n) h"
proof -
  have make: "emits (http_call A req n) (create_unless_duplicate W A obj) (reply_ok A n) k"
    if k: "n \<le> length k" "is_submitter A (recent n k) u" "rq_Method req = ''POST''"
      and b: "json_body (as_lib A) (rq_Body req) = Inr body" "cb_Command body \<noteq> ''''" "cb_Reason body \<noteq> ''''"
      and obj: "obj = submitted_request (serverNamespace A) u body" "create_error (as_lib A) (serverNamespace A) obj = None"
    for k u body obj
  proof -
    have req: "Requester (Spec obj) = u_Username u" using obj(1) by (simp add: submitted_request_def)
    show ?thesis
    proof (cases "executionFingerprint (as_lib A) obj (serverNamespace A)")
      case (Inl e)
      then show ?thesis by (auto simp: create_unless_duplicate_def findPendingDuplicate_def intro!: emits_bind)
    next
      case (Inr want)
      have sub: "submission A req (insert (ListSR (\<not> as_APIReader A) (serverNamespace A) (Inr items)) (recent n k)) ''http-'' obj"
        if "find (duplicate_of (as_lib A) (serverNamespace A) obj want) items = None" for items
        using that Inr k(2,3) b obj unfolding submission_def no_duplicate_def
        by (auto simp: find_None_iff intro!: exI [of _ u] exI [of _ body] who_insert)
      show ?thesis
        unfolding create_unless_duplicate_def findPendingDuplicate_def list_requests_def
        using k Inr someoneI(3) [OF k(2)] who_insert(3) [OF k(2)] who_insert(3) [OF who_insert(3) [OF k(2)]]
        by (auto simp: prims http_call_def le_SucI duplicate_of_def req sub just_checkedI
            dest!: find_SomeD intro!: emits_rules reply_created [of A n _ u] split: sum.split option.split)
    qed
  qed
  show ?thesis
    unfolding createRequestHandler_def
    by (auto simp: Let_def intro!: bearer_emits [OF n] submitter_emits make split: sum.split option.split)
qed

lemma profilesHandler_emits:
  assumes n: "n \<le> length h"
  shows "emits (http_call A req n) (profilesHandler W A req) (reply_ok A n) h"
  unfolding profilesHandler_def
  by (auto intro!: bearer_emits [OF n] submitter_emits) (auto simp: reply_ok_def)

lemma ownsI:
  "is_requester cs u \<Longrightarrow> listed_request A cs sr \<Longrightarrow> Requester (Spec sr) = u_Username u \<Longrightarrow> owns A cs u sr"
  by (simp add: owns_def)

lemma owns_someone: "owns A cs u sr \<Longrightarrow> someone A cs"
  by (auto simp: owns_def intro: someoneI)

lemma serveOutput_emits:
  assumes n: "n \<le> length h" and o: "owns A (recent n h) u sr"
  shows "emits (http_call A req n) (serveOutput W A sr) (reply_ok A n) h"
proof -
  have call: "http_call A req n h (GetSecret True (serverNamespace A) (OutputSecretRef (Status sr)) r)" for r
    using o by (auto simp: http_call_def)
  have rep: "reply_ok A n (OutputReply (map_get (s_Data sec) ''output''))
      (h @ [GetSecret True (serverNamespace A) (OutputSecretRef (Status sr)) (Inr sec)])" for sec
    unfolding reply_ok_def using n who_insert(5) [OF o]
    by (auto intro!: exI [of _ u] exI [of _ sr] exI [of _ sec])
  show ?thesis
    unfolding serveOutput_def by (auto simp: prims call rep intro!: emits_bind split: sum.split)
qed

lemma serveEvents_emits:
  assumes n: "n \<le> length h" and o: "owns A (recent n h) u sr"
  shows "emits (http_call A req n) (serveEvents W A req sr) (reply_ok A n) h"
proof -
  have own: "\<exists>u sr'. owns A X u sr'" if "recent n h \<subseteq> X" for X
    using owns_mono [OF o that] by blast
  have own_uid: "\<exists>u sr'. owns A X u sr' \<and> UID sr = UID sr'" if "recent n h \<subseteq> X" for X
    using owns_mono [OF o that] by blast
  have who: "someone A (insert c (recent n h))" for c
    by (rule owns_someone [OF who_insert(5) [OF o]])
  have rep: "reply_ok A n (StreamReply es) h'" if "recent n h \<subseteq> recent n h'" for es h'
    unfolding reply_ok_def using own [OF that] by simp
  have rep1: "reply_ok A n (StreamReply es) (h' @ [c])" if "recent n h \<subseteq> recent n h'" "n \<le> length h'" for es h' c
    by (rule rep) (use that in auto)
  have uid: "UID (case r of Inl e \<Rightarrow> sr | Inr f \<Rightarrow> f) = UID sr"
    if "\<forall>f. r = Inr f \<longrightarrow> UID f = UID sr" for r :: "sudo_request res"
    using that by (cases r) auto
  have rec: "http_call A req n h' (Received (Some uid') r)"
    if "recent n h \<subseteq> recent n h'" "uid' = UID sr" for h' uid' r
    using own_uid [OF that(1)] that(2) by (auto simp: http_call_def)
  have find: "emits (http_call A req n) (find_request W A (UID sr)) Q (h @ [Listen (Some (UID sr))])"
    if "\<And>r h'. n \<le> length h' \<Longrightarrow> recent n h \<subseteq> recent n h' \<Longrightarrow> (\<forall>f. r = Inr f \<longrightarrow> UID f = UID sr) \<Longrightarrow> Q r h'" for Q
    by (rule emits_mono [OF find_request_emits]) (use n who in \<open>auto intro!: that\<close>)
  have body: "emits (http_call A req n) (do {
        let sr = (case fresh of Inr f \<Rightarrow> f | Inl e \<Rightarrow> sr);
        if isTerminalPhase (Phase (Status sr)) then State_Monad.return (StreamReply [snapshot_event sr])
        else do {
          events \<leftarrow> received W (Some (UID sr));
          State_Monad.return (StreamReply (snapshot_event sr # forward events)) } }) (reply_ok A n) h'"
    if "n \<le> length h'" "recent n h \<subseteq> recent n h'" "\<forall>f. fresh = Inr f \<longrightarrow> UID f = UID sr" for fresh :: "sudo_request res" and h'
    unfolding Let_def using that
    by (auto simp: prims uid [OF that(3)] intro!: emits_bind rec rep1 intro: rep)
  have "http_call A req n h (Listen (Some (UID sr)))"
    using own_uid [OF subset_refl] by (simp add: http_call_def)
  then show ?thesis
    unfolding serveEvents_def
    by (auto simp: prims intro!: emits_bind find body)
qed

lemma retryRequester_emits:
  assumes n: "n \<le> length h" and o: "owns A (recent n h) u sr"
  shows "emits (http_call A req n) (retryRequester W A req sr u) (reply_ok A n) h"
proof -
  have u: "is_requester (recent n h) u" "Requester (Spec sr) = u_Username u" "listed_request A (recent n h) sr"
    using o by (simp_all add: owns_def)
  have rep: "reply_ok A n (retry_reply A res) h'"
    if "is_submitter A (recent n h') u" "retry_post A sr n res h'" for res h'
    using that u(2)
    by (auto simp: retry_reply_def retry_post_def split: option.splits gerr.split prod.splits
        intro!: reply_created) (auto simp: reply_ok_def)
  show ?thesis
    unfolding retryRequester_def
    by (auto intro!: submitter_emits [OF n u(1)] emits_bind emits_mono [OF retry_by_requester] rep
        simp: u(2) intro: listed_request_mono [OF u(3)])
qed

lemma requestSubpathHandler_emits:
  assumes n: "n \<le> length h"
  shows "emits (http_call A req n) (requestSubpathHandler W A req) (reply_ok A n) h"
proof -
  have serve: "emits (http_call A req n) (serve_subpath W A req u sr sub) (reply_ok A n) k"
    if k: "n \<le> length k" "owns A (recent n k) u sr" for k u sr sub
  proof -
    have "reply_ok A n (StatusReply (status_of A sr)) k"
      unfolding reply_ok_def using k(2) by auto
    with k show ?thesis
      unfolding serve_subpath_def by (auto intro: retryRequester_emits serveOutput_emits serveEvents_emits)
  qed
  have found: "emits (http_call A req n) (find_request W A uid) Q k"
    if "n \<le> length k" "is_requester (recent n k) u"
      "\<And>r k'. n \<le> length k' \<Longrightarrow> (\<forall>sr. r = Inr sr \<longrightarrow> listed_request A (recent n k') sr) \<Longrightarrow> is_requester (recent n k') u \<Longrightarrow> Q r k'"
    for k u uid Q
    by (rule emits_mono [OF find_request_emits [OF that(1) someoneI(1) [OF that(2)]]])
       (use is_requester_mono [OF that(2)] in \<open>auto intro!: that(3)\<close>)
  show ?thesis
    unfolding requestSubpathHandler_def
    by (auto simp: Let_def intro!: bearer_emits [OF n] emits_bind found serve ownsI split: sum.split)
qed

lemma admin_reply:
  assumes "is_admin A (recent n h) cl"
  shows "reply_ok A n (IndexPage user email ps hs) h" "reply_ok A n (ApprovePage cookie v) h"
    "reply_ok A n (ResultPage st r) h" "reply_ok A n (StreamReply es) h"
  using assms unfolding reply_ok_def by auto

lemma indexHandler_emits:
  assumes n: "n \<le> length h"
  shows "emits (http_call A req n) (indexHandler W A req) (reply_ok A n) h"
proof -
  have "http_call A req n k (ListSR True (serverNamespace A) r)" if "is_admin A (recent n k) c" for k r c
    using someoneI(2) [OF that] by (simp add: http_call_def)
  then show ?thesis
    unfolding indexHandler_def
    by (auto simp: prims intro!: admin_only_emits [OF n] emits_bind emits_go_sort admin_reply(1) who_insert(2)
        split: sum.split)
qed

lemma request_to_review_emits:
  assumes n: "n \<le> length h" and cl: "is_admin A (recent n h) cl"
  shows "emits (http_call A req n) (request_to_review W A cl uid tok) (\<lambda>r h'. n \<le> length h' \<and> is_admin A (recent n h') cl) h"
proof -
  have find: "emits (http_call A req n) (find_request W A uid) Q k"
    if "n \<le> length k" "is_admin A (recent n k) cl" "\<And>r k'. n \<le> length k' \<Longrightarrow> is_admin A (recent n k') cl \<Longrightarrow> Q r k'" for k Q
    by (rule emits_mono [OF find_request_emits [OF that(1) someoneI(2) [OF that(2)]]])
       (use is_admin_mono [OF that(2)] in \<open>auto intro!: that(3)\<close>)
  have verify: "emits (http_call A req n) (VerifyApprovalToken W (as_Reconciler A) uid tok) Q h"
    if "\<And>r k'. n \<le> length k' \<Longrightarrow> is_admin A (recent n k') cl \<Longrightarrow> Q r k'" for Q
    by (rule emits_mono [OF VerifyApprovalToken_http [OF n someoneI(2) [OF cl]]])
       (use is_admin_mono [OF cl] in \<open>auto intro!: that\<close>)
  show ?thesis
    unfolding request_to_review_def
    by (auto intro!: emits_bind find [OF n cl] verify find split: sum.split)
qed

lemma renderApprovePage_emits:
  assumes n: "n \<le> length h" and cl: "is_admin A (recent n h) cl"
  shows "emits (http_call A req n) (renderApprovePage W A req cl) (reply_ok A n) h"
proof -
  have csrf: "emits (http_call A req n) (ensureCSRFCookie W req) (\<lambda>r h'. is_admin A (recent n h') cl) k"
    if "n \<le> length k" "is_admin A (recent n k) cl" for k
    using that someoneI(2) [OF that(2)] who_insert(2) [OF that(2)]
    by (auto simp: ensureCSRFCookie_def randomToken_def prims http_call_def intro!: emits_rules split: sum.split)
  show ?thesis
    unfolding renderApprovePage_def approve_page_def Let_def
    by (auto intro!: emits_bind emits_mono [OF request_to_review_emits [OF n cl]] emits_mono [OF csrf] admin_reply(2))
qed

lemma handleApprovePost_emits:
  assumes n: "n \<le> length h" and cl: "is_admin A (recent n h) cl" and m: "rq_Method req = ''POST''"
  shows "emits (http_call A req n) (handleApprovePost W A req cl) (reply_ok A n) h"
  unfolding handleApprovePost_def
  by (auto simp: decision_page_def posted_def m split: sum.split
      intro!: form_ok_emits token_checked_emits [OF n cl] emits_bind emits_mono [OF Approve_http] admin_reply(3))

lemma approveHandler_emits:
  assumes n: "n \<le> length h"
  shows "emits (http_call A req n) (approveHandler W A req) (reply_ok A n) h"
  unfolding approveHandler_def
  by (auto intro!: admin_only_emits [OF n] renderApprovePage_emits handleApprovePost_emits)

lemma denyHandler_emits:
  assumes n: "n \<le> length h"
  shows "emits (http_call A req n) (denyHandler W A req) (reply_ok A n) h"
  unfolding denyHandler_def denyHandlerWithClaims_def
  by (auto simp: decision_page_def posted_def split: sum.split
      intro!: admin_only_emits [OF n] form_ok_emits token_checked_emits emits_bind emits_mono [OF Deny_http] admin_reply(3))

lemma resubmitHandler_emits:
  assumes n: "n \<le> length h"
  shows "emits (http_call A req n) (resubmitHandler W A req) (reply_ok A n) h"
proof -
  have rep: "reply_ok A n (resubmit_page cl res) h'" if "is_admin A (recent n h') cl" for cl res h'
    by (auto simp: resubmit_page_def Let_def intro!: admin_reply(3) [OF that]
        split: option.splits gerr.split prod.splits)
  have body: "emits (http_call A req n) (resubmitHandlerWithClaims W A req cl) (reply_ok A n) k"
    if k: "n \<le> length k" "is_admin A (recent n k) cl" and m: "rq_Method req = ''POST''" for k cl
    unfolding resubmitHandlerWithClaims_def
    by (auto simp: posted_def m is_admin_mono [OF k(2)] split: sum.split intro!: form_ok_emits emits_bind
        emits_mono [OF find_request_emits [OF k(1) someoneI(2) [OF k(2)]]] emits_mono [OF retry_by_admin] rep)
  show ?thesis
    unfolding resubmitHandler_def by (auto intro!: admin_only_emits [OF n] body)
qed

lemma globalEventsHandler_emits:
  assumes n: "n \<le> length h"
  shows "emits (http_call A req n) (globalEventsHandler W A req) (reply_ok A n) h"
proof -
  have "emits (http_call A req n) (do { listen None; events \<leftarrow> received W None; State_Monad.return (StreamReply events) })
      (reply_ok A n) k" if "n \<le> length k" "is_admin A (recent n k) c" for k c
    using that who_insert(2) [OF that(2)]
    by (auto simp: prims http_call_def intro!: emits_bind admin_reply(4) who_insert(2) exI [of "is_admin A _"])
  then show ?thesis
    unfolding globalEventsHandler_def by (auto intro!: admin_only_emits [OF n])
qed

theorem ServeHTTP_emits:
  assumes "n \<le> length h"
  shows "emits (http_call A req n) (ServeHTTP W A req) (reply_ok A n) h"
  unfolding ServeHTTP_def Let_def
  by (simp add: assms approveHandler_emits denyHandler_emits resubmitHandler_emits createRequestHandler_emits
      requestSubpathHandler_emits profilesHandler_emits globalEventsHandler_emits indexHandler_emits)

lemmas ServeHTTP_call = emits_callsD [OF ServeHTTP_emits [OF order_refl]]
lemmas ServeHTTP_reply = emits_calls(2) [OF ServeHTTP_emits [OF order_refl]]

end
