(* ===== verification/Clients.thy ===== *)
theory Clients
  imports Output
begin

text \<open>
  The clients of the cluster and of the identity provider, as \<^verbatim>\<open>auth.go\<close>,
  \<^verbatim>\<open>logs.go\<close>, \<^verbatim>\<open>pushover.go\<close>, \<^verbatim>\<open>summarizer.go\<close> and
  \<^verbatim>\<open>main.go\<close> build them.  The libraries they are built with are a record of functions; what
  is modelled is which step is taken with what, in which order, and which error it leaves.
\<close>

section \<open>The libraries\<close>

text \<open>
  \<open>ctrl.GetConfig\<close> reads its sources anew on every call: its replies are numbered.  A log stream is the
  chunks read and the error the reading ended with.
\<close>

record ('cfg, 'cs, 'prov) platform =
  pf_config :: "nat \<Rightarrow> 'cfg res"
  pf_clientset :: "'cfg \<Rightarrow> 'cs res"
  pf_logs :: "'cs \<Rightarrow> string \<Rightarrow> string \<Rightarrow> string \<Rightarrow> (string list \<times> gerr option) res"
  pf_manager :: "'cfg \<Rightarrow> string \<Rightarrow> gerr option"
  pf_provider :: "string \<Rightarrow> 'prov res"
  pf_reconciler :: "gerr option"
  pf_runnable :: "gerr option"

section \<open>Authentication\<close>

record 'prov jwt_verifier =
  jv_provider :: 'prov
  jv_audience :: string

definition NewJWTVerifier :: "('cfg, 'cs, 'prov) platform \<Rightarrow> string \<Rightarrow> string \<Rightarrow> 'prov jwt_verifier res" where
  "NewJWTVerifier P issuer audience =
     (case pf_provider P issuer of
        Inl e \<Rightarrow> Inl (Wrap ''OIDC provider'' e)
      | Inr p \<Rightarrow> Inr \<lparr>jv_provider = p, jv_audience = audience\<rparr>)"

definition NewTokenReviewer :: "('cfg, 'cs, 'prov) platform \<Rightarrow> nat \<Rightarrow> 'cs res" where
  "NewTokenReviewer P n =
     (case pf_config P n of
        Inl e \<Rightarrow> Inl e
      | Inr cfg \<Rightarrow> (case pf_clientset P cfg of Inl e \<Rightarrow> Inl e | Inr cs \<Rightarrow> Inr cs))"

record 'cs authorizer =
  az_client :: 'cs
  az_ControllerNamespace :: string

definition NewRequesterAuthorizer :: "('cfg, 'cs, 'prov) platform \<Rightarrow> nat \<Rightarrow> string \<Rightarrow> 'cs authorizer res" where
  "NewRequesterAuthorizer P n cns =
     (case pf_config P n of
        Inl e \<Rightarrow> Inl e
      | Inr cfg \<Rightarrow> (case pf_clientset P cfg of
          Inl e \<Rightarrow> Inl e
        | Inr cs \<Rightarrow> Inr \<lparr>az_client = cs, az_ControllerNamespace = cns\<rparr>))"

section \<open>Notification and review aid\<close>

record pushover_client =
  pc_sender :: pushover
  pc_Timeout :: nat
  pc_APIEndpoint :: string

definition NewPushoverClient :: "string \<Rightarrow> string \<Rightarrow> pushover_client" where
  "NewPushoverClient token userKey =
     \<lparr>pc_sender = \<lparr>po_Token = token, po_UserKey = userKey\<rparr>, pc_Timeout = 15,
      pc_APIEndpoint = ''https://api.pushover.net/1/messages.json''\<rparr>"

definition DefaultOpenAIBaseURL :: string where "DefaultOpenAIBaseURL = ''https://api.openai.com/v1''"
definition DefaultOpenAIModel :: string where "DefaultOpenAIModel = ''gpt-5.4-mini''"

record summarizer =
  sm_APIKey :: string
  sm_BaseURL :: string
  sm_Model :: string
  sm_Timeout :: nat

definition trim_right :: "char \<Rightarrow> string \<Rightarrow> string" where
  "trim_right c s = rev (dropWhile (\<lambda>x. x = c) (rev s))"

definition NewSummarizer :: "string \<Rightarrow> string \<Rightarrow> string \<Rightarrow> summarizer option" where
  "NewSummarizer apiKey baseURL model =
     (if apiKey = '''' then None
      else let baseURL = (if baseURL = '''' then DefaultOpenAIBaseURL else baseURL);
               model = (if model = '''' then DefaultOpenAIModel else model)
           in Some \<lparr>sm_APIKey = apiKey, sm_BaseURL = trim_right (CHR ''/'') baseURL, sm_Model = model, sm_Timeout = 30\<rparr>)"

lemma NewSummarizer_some:
  "NewSummarizer apiKey baseURL model = Some m \<Longrightarrow> sm_APIKey m \<noteq> '''' \<and> sm_Model m \<noteq> '''' \<and> \<not> suffix ''/'' (sm_BaseURL m)"
proof -
  have t: "\<not> suffix [c] (trim_right c s)" for c and s :: string
  proof -
    have "dropWhile (\<lambda>x. x = c) (rev s) \<noteq> c # xs" for xs using hd_dropWhile [of "\<lambda>x. x = c" "rev s"] by fastforce
    then show ?thesis by (auto simp: suffix_to_prefix trim_right_def prefix_def)
  qed
  assume "NewSummarizer apiKey baseURL model = Some m"
  then show ?thesis using t by (auto simp: NewSummarizer_def Let_def DefaultOpenAIModel_def split: if_splits)
qed

text \<open>The schema that the answer of the model is asked to follow, as a JSON value.\<close>

datatype json = JString string | JBool bool | JList "json list" | JObject "(string \<times> json) list"

definition permissionResponseSchema :: json where
  "permissionResponseSchema = JObject [
     (''type'', JString ''object''),
     (''additionalProperties'', JBool False),
     (''required'', JList [JString ''request'', JString ''effects'']),
     (''properties'', JObject [
       (''request'', JObject [
         (''type'', JString ''string''),
         (''description'', JString ''One imperative phrase of at most 30 words that completes the question 'Do you mind if I ...?'. Output only the completion, starting with the action verb; do not include the 'Do you mind if I' lead-in itself.'')]),
       (''effects'', JObject [
         (''type'', JString ''array''),
         (''items'', JObject [
           (''type'', JString ''string''),
           (''enum'', JList (map (\<lambda>e. JString (effect_name e)) [ReadOnly, ChangesCluster, CreatesResource,
              RestartsWorkload, DeletesResource, ExportsData,
              ReadsSecret, UsesCredentials, ExternalEgress,
              HostAccess, SecurityConfig, BroadScope,
              CleanupIncluded, NonDefaultImage]))])])])]"

fun json_field :: "string \<Rightarrow> json \<Rightarrow> json option" where
  "json_field k (JObject entries) = map_of entries k"
| "json_field k j = None"

fun json_path :: "string list \<Rightarrow> json \<Rightarrow> json option" where
  "json_path [] j = Some j"
| "json_path (k # ks) j = (case json_field k j of None \<Rightarrow> None | Some v \<Rightarrow> json_path ks v)"

text \<open>
  The schema and the check of the answer know the same effects: one that the schema offers is never
  reported as unknown, and one that the check knows can be given.
\<close>

lemma schema_effects:
  "json_path [''properties'', ''effects'', ''items'', ''enum''] permissionResponseSchema =
     Some (JList (map (\<lambda>e. JString (effect_name e)) permissionEffectOrder))"
  by (simp add: permissionResponseSchema_def permissionEffectOrder_def)

lemma offered_effects_known:
  assumes "json_path [''properties'', ''effects'', ''items'', ''enum''] permissionResponseSchema = Some (JList xs)"
  shows "xs = map (\<lambda>e. JString (effect_name e)) permissionEffectOrder" and "e \<in> set permissionEffectOrder \<longleftrightarrow> permissionEffectSet e \<noteq> None"
  using assms [unfolded schema_effects] permissionEffectSet_known [of e] by simp_all

section \<open>Pod logs\<close>

definition streamPodLogs :: "('cfg, 'cs, 'prov) platform \<Rightarrow> nat \<Rightarrow> string \<Rightarrow> string \<Rightarrow> string \<Rightarrow>
    (string list \<times> gerr option) res" where
  "streamPodLogs P n ns pod container =
     (case pf_config P n of
        Inl e \<Rightarrow> Inl e
      | Inr cfg \<Rightarrow> (case pf_clientset P cfg of
          Inl e \<Rightarrow> Inl e
        | Inr cs \<Rightarrow> pf_logs P cs ns pod container))"

text \<open>\<open>hook\<close> is the field \<open>PodLogs\<close>, which only tests set.\<close>

definition readPodLogs :: "(string \<Rightarrow> string \<Rightarrow> string \<Rightarrow> (string list \<times> gerr option) res) option \<Rightarrow>
    ('cfg, 'cs, 'prov) platform \<Rightarrow> nat \<Rightarrow> string \<Rightarrow> string \<Rightarrow> string \<Rightarrow> (string list \<times> gerr option) res" where
  "readPodLogs hook P n ns pod container =
     (case hook of
        Some f \<Rightarrow> f ns pod container
      | None \<Rightarrow> streamPodLogs P n ns pod container)"

text \<open>The world of the production program: its log reads are \<open>streamPodLogs\<close>.\<close>

definition production :: "('cfg, 'cs, 'prov) platform \<Rightarrow> world \<Rightarrow> world" where
  "production P W = W\<lparr>w_pod_logs := \<lambda>h ns pod container. readPodLogs None P (length h) ns pod container\<rparr>"

lemma production_sel [simp]:
  "w_pod_logs (production P W) h ns pod container = streamPodLogs P (length h) ns pod container"
  "w_list_pods (production P W) = w_list_pods W" "w_create_secret (production P W) = w_create_secret W"
  "w_now (production P W) = w_now W"
  by (simp_all add: production_def readPodLogs_def)

lemma client_fails:
  assumes "pf_config P n = Inl e \<or> (\<exists>cfg. pf_config P n = Inr cfg \<and> pf_clientset P cfg = Inl e)"
  shows "streamPodLogs P n ns pod container = Inl e" and "NewTokenReviewer P n = Inl e"
    and "NewRequesterAuthorizer P n cns = Inl e"
  using assms by (auto simp: streamPodLogs_def NewTokenReviewer_def NewRequesterAuthorizer_def)

text \<open>
  A finished Job whose logs cannot be read keeps its exit code: the failure is recorded with it, and
  no Secret is created.
\<close>

lemma production_log_errors:
  assumes pods: "w_list_pods W h (j_Namespace j) (j_Name j) = Inr pods"
    and pod: "find (\<lambda>p. controlled_by (p_Owners p) (j_UID j)) pods = Some p" "containerToReport p = Inr (ct, code)"
    and fails: "streamPodLogs P (Suc (length h)) (j_Namespace j) (p_Name p) ct = Inl e"
  shows "outcome (captureJobOutput (production P W) R sr j) h =
     (if job_running j then Inl (Wrap (''fetch logs from '' @ ct) e)
      else Inr ((captured_exit code)\<lparr>co_CaptureState := CaptureFailed,
        co_FailureReason := ''fetch logs from '' @ ct @ '': '' @ error_text e\<rparr>))"
proof -
  have "wp (captureJobOutput (production P W) R sr j) (\<lambda>r h'. r =
     (if job_running j then Inl (Wrap (''fetch logs from '' @ ct) e)
      else Inr ((captured_exit code)\<lparr>co_CaptureState := CaptureFailed,
        co_FailureReason := ''fetch logs from '' @ ct @ '': '' @ error_text e\<rparr>))) h"
    using assms by (simp add: captureJobOutput_def getJobPod_def capture_container_def capture_failed_def prims
        attempt_def attempt_ctx_def)
  then show ?thesis by (simp add: wp_def outcome_def case_prod_beta)
qed

end
