(* ===== verification/Wiring.thy ===== *)
theory Wiring
  imports Requests Clients
begin

text \<open>
  \<^verbatim>\<open>main.go\<close>: the configuration from the environment, the rule files, and the
  components built from them.  The environment, the files, their YAML decoders and the clients of the
  cluster and of the identity provider are arguments.
\<close>

section \<open>Configuration\<close>

record config =
  cf_ControllerNamespace :: string
  cf_BindAddress :: string
  cf_PublicBaseURL :: string
  cf_PushoverToken :: string
  cf_PushoverUserKey :: string
  cf_KeycloakIssuer :: string
  cf_KeycloakAudience :: string
  cf_AdminGroup :: string
  cf_CookieSigningKey :: string
  cf_OAuth2ProxyMode :: bool
  cf_AutoApproveConfigPath :: string
  cf_PlaybookConfigPath :: string
  cf_OpenAIAPIKey :: string
  cf_OpenAIBaseURL :: string
  cf_OpenAIModel :: string

type_synonym environment = "string \<Rightarrow> string"

text \<open>An unset variable reads as the empty string.\<close>

definition getenv :: "environment \<Rightarrow> string \<Rightarrow> string \<Rightarrow> string" where
  "getenv env k def = (if env k \<noteq> '''' then env k else def)"

definition config_of :: "environment \<Rightarrow> config" where
  "config_of env = \<lparr>
     cf_ControllerNamespace = configuredControllerNamespace (env ''POD_NAMESPACE''),
     cf_BindAddress = getenv env ''BIND_ADDRESS'' ''127.0.0.1:8080'',
     cf_PublicBaseURL = getenv env ''PUBLIC_BASE_URL'' ''https://sudo.andrewgarrett.dev'',
     cf_PushoverToken = env ''PUSHOVER_TOKEN'',
     cf_PushoverUserKey = env ''PUSHOVER_USER_KEY'',
     cf_KeycloakIssuer = getenv env ''KEYCLOAK_ISSUER'' ''https://id.andrewgarrett.dev/realms/master'',
     cf_KeycloakAudience = getenv env ''KEYCLOAK_AUDIENCE'' ''sudo-service'',
     cf_AdminGroup = getenv env ''ADMIN_GROUP'' ''cluster-admins'',
     cf_CookieSigningKey = env ''COOKIE_SIGNING_KEY'',
     cf_OAuth2ProxyMode = (List.map lower_char (env ''OAUTH2_PROXY_MODE'') = ''true''),
     cf_AutoApproveConfigPath = env ''AUTO_APPROVE_CONFIG'',
     cf_PlaybookConfigPath = env ''PLAYBOOK_CONFIG'',
     cf_OpenAIAPIKey = env ''OPENAI_API_KEY'',
     cf_OpenAIBaseURL = getenv env ''OPENAI_BASE_URL'' DefaultOpenAIBaseURL,
     cf_OpenAIModel = getenv env ''OPENAI_MODEL'' DefaultOpenAIModel\<rparr>"

definition loadConfig :: "lib \<Rightarrow> environment \<Rightarrow> config res" where
  "loadConfig L env =
     (let cfg = config_of env; problems = dns1123_label L (cf_ControllerNamespace cfg) in
      if cf_PushoverToken cfg = '''' \<or> cf_PushoverUserKey cfg = ''''
      then Inl (Text ''PUSHOVER_TOKEN and PUSHOVER_USER_KEY are required'')
      else if problems \<noteq> []
      then Inl (Text (''POD_NAMESPACE '' @ go_quote (cf_ControllerNamespace cfg) @
             '' is not a valid Kubernetes namespace: '' @ join problems ''; ''))
      else Inr cfg)"

section \<open>Rule files\<close>

text \<open>
  What the program reads: a file is its text, or an error with whether it says that the file does not
  exist; the two decoders are strict.
\<close>

record files =
  fl_read :: "string \<Rightarrow> (bool \<times> string) + string"
  fl_rules :: "string \<Rightarrow> string + auto_approve_rule list"
  fl_playbooks :: "string \<Rightarrow> string + cleanup_rule list"

text \<open>\<open>LoadAutoApproveConfig\<close>: the rules it installs; a missing file leaves none.\<close>

definition LoadAutoApproveConfig :: "files \<Rightarrow> string \<Rightarrow> auto_approve_rule list res" where
  "LoadAutoApproveConfig F path =
     (if path = '''' then Inr []
      else case fl_read F path of
        Inl (missing, err) \<Rightarrow>
          if missing then Inr [] else Inl (Wrap (''read auto-approve config '' @ path) (Text err))
      | Inr content \<Rightarrow>
          (case fl_rules F content of
             Inl err \<Rightarrow> Inl (Wrap (''unmarshal auto-approve config '' @ path) (Text err))
           | Inr rules \<Rightarrow> Inr rules))"

section \<open>The components\<close>

record ('cs, 'prov) system =
  sy_config :: config
  sy_reconciler :: reconciler
  sy_gc_namespace :: string
  sy_api :: api_server
  sy_verifier :: "'prov jwt_verifier"
  sy_reviewer :: 'cs
  sy_authorizer :: "'cs authorizer"
  sy_summarizer :: "summarizer option"
  sy_pushover :: pushover_client

text \<open>The values that the handlers share; the model's reconciler keeps what it uses of the two clients.\<close>

definition assemble :: "lib \<Rightarrow> config \<Rightarrow> auto_approve_rule list \<Rightarrow> cleanup_rule list \<Rightarrow>
    'prov jwt_verifier \<Rightarrow> 'cs \<Rightarrow> 'cs authorizer \<Rightarrow> ('cs, 'prov) system" where
  "assemble L cfg rules playbooks verifier reviewer authorizer =
     (let po = NewPushoverClient (cf_PushoverToken cfg) (cf_PushoverUserKey cfg);
          sm = NewSummarizer (cf_OpenAIAPIKey cfg) (cf_OpenAIBaseURL cfg) (cf_OpenAIModel cfg);
          R = \<lparr>rc_ControllerNamespace = cf_ControllerNamespace cfg, rc_Playbooks = Some playbooks,
            rc_Pushover = pc_sender po, rc_Summarizer = map_option sm_Model sm,
            rc_PublicBaseURL = cf_PublicBaseURL cfg, rc_rules = rules, rc_lib = L\<rparr>
      in \<lparr>sy_config = cfg, sy_reconciler = R, sy_gc_namespace = cf_ControllerNamespace cfg,
          sy_api = \<lparr>as_ControllerNamespace = cf_ControllerNamespace cfg, as_APIReader = True,
            as_AdminGroup = cf_AdminGroup cfg, as_Reconciler = R\<rparr>,
          sy_verifier = verifier, sy_reviewer = reviewer, sy_authorizer = authorizer,
          sy_summarizer = sm, sy_pushover = po\<rparr>)"

definition read_file :: "files \<Rightarrow> string \<Rightarrow> string + string" where
  "read_file F path = (case fl_read F path of Inl (missing, err) \<Rightarrow> Inl err | Inr content \<Rightarrow> Inr content)"

text \<open>The clients, in the order in which main builds them.\<close>

definition main_clients :: "('cfg, 'cs, 'prov) platform \<Rightarrow> config \<Rightarrow>
    ('prov jwt_verifier \<times> 'cs \<times> 'cs authorizer) res" where
  "main_clients P cfg =
     (case pf_config P 0 of
        Inl e \<Rightarrow> Inl e
      | Inr kube \<Rightarrow>
     (case pf_manager P kube (cf_ControllerNamespace cfg) of
        Some e \<Rightarrow> Inl e
      | None \<Rightarrow>
     (case NewJWTVerifier P (cf_KeycloakIssuer cfg) (cf_KeycloakAudience cfg) of
        Inl e \<Rightarrow> Inl e
      | Inr verifier \<Rightarrow>
     (case NewTokenReviewer P 1 of
        Inl e \<Rightarrow> Inl e
      | Inr reviewer \<Rightarrow>
     (case NewRequesterAuthorizer P 2 (cf_ControllerNamespace cfg) of
        Inl e \<Rightarrow> Inl e
      | Inr authorizer \<Rightarrow> Inr (verifier, reviewer, authorizer))))))"

text \<open>An error ends the process with status 1, before anything is served or reconciled.\<close>

definition main_setup :: "lib \<Rightarrow> files \<Rightarrow> ('cfg, 'cs, 'prov) platform \<Rightarrow> environment \<Rightarrow> ('cs, 'prov) system res" where
  "main_setup L F P env =
     (case loadConfig L env of
        Inl e \<Rightarrow> Inl e
      | Inr cfg \<Rightarrow>
     (case LoadAutoApproveConfig F (cf_AutoApproveConfigPath cfg) of
        Inl e \<Rightarrow> Inl e
      | Inr rules \<Rightarrow>
     (case LoadPlaybookConfig L (read_file F) (fl_playbooks F) (cf_PlaybookConfigPath cfg) of
        Inl e \<Rightarrow> Inl e
      | Inr playbooks \<Rightarrow>
     (case main_clients P cfg of
        Inl e \<Rightarrow> Inl e
      | Inr (verifier, reviewer, authorizer) \<Rightarrow>
     (case pf_reconciler P of
        Some e \<Rightarrow> Inl e
      | None \<Rightarrow>
     (case pf_runnable P of
        Some e \<Rightarrow> Inl e
      | None \<Rightarrow> Inr (assemble L cfg rules playbooks verifier reviewer authorizer)))))))"

section \<open>What a started system satisfies\<close>

lemma configured_not_empty: "configuredControllerNamespace ns \<noteq> ''''"
  by (simp add: configuredControllerNamespace_def DefaultControllerNamespace_def)

lemma configured_id: "ns \<noteq> '''' \<Longrightarrow> configuredControllerNamespace ns = ns"
  by (simp add: configuredControllerNamespace_def)

lemma main_clientsD:
  assumes "main_clients P cfg = Inr (verifier, reviewer, authorizer)"
  shows "jv_audience verifier = cf_KeycloakAudience cfg" and "az_ControllerNamespace authorizer = cf_ControllerNamespace cfg"
    and "pf_provider P (cf_KeycloakIssuer cfg) = Inr (jv_provider verifier)"
  using assms unfolding main_clients_def NewJWTVerifier_def NewRequesterAuthorizer_def
  by (auto split: sum.splits option.splits)

lemma main_setupD:
  assumes "main_setup L F P env = Inr sys"
  obtains rules playbooks verifier reviewer authorizer
  where "sys = assemble L (config_of env) rules playbooks verifier reviewer authorizer"
    and "cf_PushoverToken (config_of env) \<noteq> ''''" and "cf_PushoverUserKey (config_of env) \<noteq> ''''"
    and "dns1123_label L (cf_ControllerNamespace (config_of env)) = []"
    and "LoadPlaybookConfig L (read_file F) (fl_playbooks F) (cf_PlaybookConfigPath (config_of env)) = Inr playbooks"
    and "LoadAutoApproveConfig F (cf_AutoApproveConfigPath (config_of env)) = Inr rules"
    and "main_clients P (config_of env) = Inr (verifier, reviewer, authorizer)"
    and "pf_reconciler P = None" and "pf_runnable P = None"
  using assms unfolding main_setup_def loadConfig_def Let_def
  by (auto split: sum.splits option.splits if_splits)

lemma namespaces_agree:
  assumes "main_setup L F P env = Inr sys"
  shows "serverNamespace (sy_api sys) = cf_ControllerNamespace (config_of env)"
    and "controllerNamespace (sy_reconciler sys) = cf_ControllerNamespace (config_of env)"
    and "configuredControllerNamespace (sy_gc_namespace sys) = cf_ControllerNamespace (config_of env)"
    and "as_Reconciler (sy_api sys) = sy_reconciler sys"
    and "rc_lib (sy_reconciler sys) = L"
proof -
  have c: "configuredControllerNamespace (cf_ControllerNamespace (config_of env)) = cf_ControllerNamespace (config_of env)"
    by (simp add: config_of_def configured_id configured_not_empty)
  obtain rules playbooks verifier reviewer authorizer
    where sys: "sys = assemble L (config_of env) rules playbooks verifier reviewer authorizer"
    by (rule main_setupD [OF assms])
  show "serverNamespace (sy_api sys) = cf_ControllerNamespace (config_of env)"
    "controllerNamespace (sy_reconciler sys) = cf_ControllerNamespace (config_of env)"
    "configuredControllerNamespace (sy_gc_namespace sys) = cf_ControllerNamespace (config_of env)"
    "as_Reconciler (sy_api sys) = sy_reconciler sys" "rc_lib (sy_reconciler sys) = L"
    by (simp_all add: sys c assemble_def Let_def serverNamespace_def controllerNamespace_def)
qed

lemma validate_rules_None: "validate_rules L i rules = None \<longleftrightarrow> (\<forall>r\<in>set rules. validateTerminalJobCleanupRule L r = None)"
  by (induction rules arbitrary: i) (auto split: option.split)

lemma LoadPlaybookConfig_valid:
  "LoadPlaybookConfig L readFile unmarshal path = Inr rules \<Longrightarrow> r \<in> set rules \<Longrightarrow> validateTerminalJobCleanupRule L r = None"
  by (auto simp: LoadPlaybookConfig_def validate_rules_None split: if_splits sum.splits option.splits)

text \<open>What the handlers accept for submission is what the reconciler accepts.\<close>

lemma create_error_None:
  "create_error L cns sr = None \<longleftrightarrow> submission_error L cns sr = None"
  by (auto simp: create_error_def submission_error_def split: sum.split option.split prod.split)

lemma submission_accepted:
  assumes "submission_error (rc_lib R) (controllerNamespace R) sr = None"
  shows "accepted_new R sr"
  using assms
  by (auto simp: submission_error_def accepted_new_iff validateSpecExtras_None split: sum.splits option.splits prod.splits)

text \<open>Acceptance depends on the spec only.\<close>

lemma accepted_new_spec:
  assumes "Spec a = Spec b"
  shows "accepted_new R a = accepted_new R b"
proof -
  have "resolveAndPreflight (rc_lib R) a = resolveAndPreflight (rc_lib R) b"
    unfolding resolveAndPreflight_def resolveExecutorProfile_def assms by (rule refl)
  then show ?thesis
    using spec_ok_spec [OF assms] validatePlaybookSpec_spec [OF assms] assms by (simp add: accepted_new_iff)
qed

end
