(* ===== verification/HttpSamples.thy ===== *)
theory HttpSamples
  imports Samples Wiring
begin

text \<open>
  Concrete HTTP requests, and the runs of the handlers on them, for the witnesses of the properties
  of the API.
\<close>

section \<open>The HTTP API\<close>

definition sample_api :: api_server where
  "sample_api = \<lparr>as_ControllerNamespace = ''ctl'', as_APIReader = True, as_AdminGroup = ''admins'',
     as_Reconciler = sample_reconciler\<rparr>"

text \<open>Requests of a service account, and of an administrator who posts a form.\<close>

definition by_requester :: "string \<Rightarrow> string \<Rightarrow> http_request" where
  "by_requester meth path = \<lparr>rq_Method = meth, rq_Path = path, rq_Header = [(''Authorization'', ''Bearer good'')],
     rq_Query = [], rq_Form = None, rq_Cookies = [], rq_Body = ''date'', rq_CanFlush = True\<rparr>"

definition by_admin :: "string \<Rightarrow> string \<Rightarrow> http_request" where
  "by_admin path uid = \<lparr>rq_Method = ''POST'', rq_Path = path, rq_Header = [(''X-Auth-Request-Id-Token'', ''jwt'')],
     rq_Query = [], rq_Form = Some [(''id'', uid), (''csrf_token'', ''c'')], rq_Cookies = [(csrfCookieName, ''c'')],
     rq_Body = '''', rq_CanFlush = True\<rparr>"

abbreviation served :: "world \<Rightarrow> http_request \<Rightarrow> call list" where
  "served W req \<equiv> calls (ServeHTTP W sample_api req) []"

text \<open>A request that has failed, so that its requester may resubmit it; one with its output stored.\<close>

definition failed_request :: sudo_request where
  "failed_request = sample_request\<lparr>Status := zero_status\<lparr>Phase := Failed, OutputSecretRef := ''out-1''\<rparr>\<rparr>"

text \<open>A world in which the successor of a request does not exist yet.\<close>

definition retry_world :: world where
  "retry_world = (world_of failed_request)\<lparr>w_get_sr := \<lambda>h cached ns n.
     if n = ''r1'' then Inr failed_request else Inl (ApiError NotFound n)\<rparr>"

section \<open>Evaluating a handler\<close>

text \<open>The two people of the sample world.\<close>

definition bob :: human_claims where
  "bob = \<lparr>hc_Subject = ''s'', hc_PreferredUsername = ''bob'', hc_Email = '''', hc_Groups = [''/admins'']\<rparr>"

definition ann :: user_info where
  "ann = \<lparr>u_Username = ''ann'', u_UID = ''7'', u_Groups = [], u_Extra = []\<rparr>"

text \<open>A world that knows who they are, and lets them submit.\<close>

definition answers :: "world \<Rightarrow> bool" where
  "answers W \<longleftrightarrow>
    (\<forall>h. w_verify_jwt W h ''jwt'' = Inr (Inr bob)) \<and>
    (\<forall>h aud. w_token_review W h ''good'' aud = Inr \<lparr>tr_Authenticated = True, tr_Error = '''', tr_Audiences = [aud], tr_User = ann\<rparr>) \<and>
    (\<forall>h q. w_access_review W h q = Inr \<lparr>ad_Allowed = True, ad_Reason = '''', ad_EvaluationError = ''''\<rparr>)"

lemma world_of_answers: "answers (world_of sr)" "answers retry_world"
  by (simp_all add: answers_def retry_world_def world_of_def bob_def ann_def)

lemma bob_admin: "IsInGroup bob (as_AdminGroup sample_api)"
  by (simp add: IsInGroup_iff bob_def sample_api_def)

lemma sample_admin:
  assumes "answers W"
  shows "run_state (admin_only W sample_api (by_admin path uid) v k) h = run_state (k bob) (h @ [VerifyJWT ''jwt'' (Inr (Inr bob))])"
proof -
  have j: "jwt_candidates (by_admin path uid) = [''jwt'']" by (simp add: jwt_candidates_def by_admin_def map_get_def has_prefix_iff Let_def)
  show ?thesis using assms
    by (simp add: admin_only_def authenticateHuman_def j Verify_def runs answers_def bob_admin)
qed

lemma sample_form: "form_ok (by_admin path uid) k = k [(''id'', uid), (''csrf_token'', ''c'')]"
proof -
  have "validateCSRF (by_admin path uid) [(''id'', uid), (''csrf_token'', ''c'')] = None"
    by (simp add: validateCSRF_iff by_admin_def map_get_def)
  then show ?thesis by (simp add: form_ok_def by_admin_def)
qed

lemma good_token: "trim_space ''good'' = ''good''"
proof -
  have "\<forall>r\<in>set space_runes. hd r \<notin> set ''good''"
    by (auto simp: space_runes_def bytes_def upt_rec char_of_def)
  then have "space_at (c # s) = None" if "c \<in> set ''good''" for c s
    using that space_runes_nonempty by (fastforce simp: space_at_def find_None_iff prefix_def neq_Nil_conv)
  then show ?thesis by (simp add: trim_space_def)
qed

lemma sample_bearer:
  assumes "answers W"
  shows "run_state (bearer W (by_requester meth path) k) h =
    run_state (k ann) (h @ [TokenReview ''good'' RequesterTokenAudience (Inr \<lparr>tr_Authenticated = True, tr_Error = '''',
      tr_Audiences = [RequesterTokenAudience], tr_User = ann\<rparr>)])"
  using assms
  by (simp add: bearer_def authenticateBearer_def by_requester_def map_get_def has_prefix_iff Review_def runs answers_def
      trim_prefix_def ann_def Let_def good_token)

lemma sample_submitter:
  assumes "answers W"
  shows "run_state (submitter W sample_api u k) h = run_state k (h @ [AccessReview (submit_review ''ctl'' u)
     (Inr \<lparr>ad_Allowed = True, ad_Reason = '''', ad_EvaluationError = ''''\<rparr>)])"
  using assms by (simp add: submitter_def AuthorizeSubmit_def runs answers_def sample_api_def)


lemma api_world_sel:
  "w_list_sr (world_of sr) h cached ns = Inr [sr]" 
  "w_create_sr (world_of sr) h g obj = Inr (obj\<lparr>UID := ''u2''\<rparr>)"
  "w_delete_secret (world_of sr) h ns n = None"
  by (simp_all add: world_of_def)

lemma request_sel:
  "rq_Path (by_admin path uid) = path" "rq_Method (by_admin path uid) = ''POST''"
  "rq_Path (by_requester meth path) = path" "rq_Method (by_requester meth path) = meth"
  "rq_Body (by_requester meth path) = ''date''" "rq_CanFlush (by_requester meth path)"
  by (simp_all add: by_admin_def by_requester_def)

lemmas served_simps = calls_def ServeHTTP_def Let_def request_sel has_prefix_iff sample_admin sample_form sample_bearer
  sample_submitter world_of_answers runs world_sel api_world_sel map_get_def

lemma pending_sel:
  "UID pending_request = ''u1''" "Name pending_request = ''r1''" "Namespace pending_request = ''ctl''"
  "Phase (Status pending_request) = Pending" "ApprovalTokenSecretName (Status pending_request) = ''tok-1''"
  by (simp_all add: pending_request_def sample_request_def)

lemma approve_run:
  "list_ex (\<lambda>c. case c of UpdateStatus obj r \<Rightarrow> True | _ \<Rightarrow> False)
     (served (world_of pending_request) (by_admin ''/approve'' ''u1''))"
  by (simp add: served_simps bob_admin approveHandler_def handleApprovePost_def token_checked_def Approve_def findByUID_def
      deleteApprovalTokenSecret_def pending_sel)

lemma failed_sel:
  "UID failed_request = ''u1''" "Name failed_request = ''r1''" "Namespace failed_request = ''ctl''"
  "Phase (Status failed_request) = Failed" "Requester (Spec failed_request) = ''ann''"
  "OutputSecretRef (Status failed_request) = ''out-1''"
  by (simp_all add: failed_request_def sample_request_def sample_spec_def)

text \<open>The submission, and the resubmission, of the request for \<^verbatim>\<open>date\<close>: both are valid.\<close>

lemma sample_effective:
  assumes "Spec sr = sample_spec\<lparr>SubmittedBy := via, RetryOfUID := pred\<rparr>"
  shows "submission_error sample_lib ''ctl'' sr = None"
    and "ResolvedImage (Status sr) = '''' \<Longrightarrow> executionFingerprint sample_lib sr ''ctl'' = Inr ''hdate''"
proof -
  have p: "resolveAndPreflight sample_lib sr = Inr (Some kubectl_profile, pr_Image kubectl_profile, command_warnings ''date'')"
    by (simp add: assms samples resolveAndPreflight_def resolveExecutorProfile_def executorProfiles_def
        DefaultExecutorProfile_def preflightCommand_def profile_rejection_def visibleExecutables_def
        call_executable_def commandUsesPipefail_def kind_sets_pipefail_def shell_warnings_def
        commandUsesBashism_def kind_is_bashism_def List.map_filter_def)
  have "validateSpecExtras sample_lib sr ''ctl'' = None"
    by (simp add: validateSpecExtras_None spec_ok_def extras_ok_def decodePodExtras_def decode_field_def assms samples)
  then show "submission_error sample_lib ''ctl'' sr = None"
    by (simp add: submission_error_def p) (simp add: assms samples validateCommandSyntax_def validatePlaybookSpec_def)
  show "executionFingerprint sample_lib sr ''ctl'' = Inr ''hdate''" if "ResolvedImage (Status sr) = ''''"
    by (simp add: that executionFingerprint_def fingerprint_image_def effective_spec_def assms samples Let_def
        resolveExecutorProfile_def executorProfiles_def DefaultExecutorProfile_def)
qed

definition sample_body :: create_body where
  "sample_body = \<lparr>cb_Reason = ''why'', cb_Command = ''date'', cb_Image = '''', cb_Profile = '''',
     cb_Playbook = None, cb_TTLSecondsAfterApproval = None, cb_Namespace = '''', cb_Stdin = '''', cb_Env = [], cb_EnvFrom = [],
     cb_Volumes = [], cb_VolumeMounts = [], cb_InitContainers = [], cb_ImagePullSecrets = [], cb_ClusterAdmin = None\<rparr>"

lemma sample_api_sel:
  "as_lib sample_api = sample_lib" "serverNamespace sample_api = ''ctl''" "as_ControllerNamespace sample_api = ''ctl''"
  "as_APIReader sample_api"
  by (simp_all add: sample_api_def sample_reconciler_def serverNamespace_def configuredControllerNamespace_def)

lemma sample_submitted:
  "json_body sample_lib ''date'' = Inr sample_body"
  "Spec (submitted_request cns ann sample_body) = sample_spec\<lparr>SubmittedBy := ''ann'', RetryOfUID := ''''\<rparr>"
  "Spec (new_successor cns failed_request ''ann'') = sample_spec\<lparr>SubmittedBy := ''ann'', RetryOfUID := ''u1''\<rparr>"
  "Status (submitted_request cns ann sample_body) = zero_status" "Status (new_successor cns failed_request ''ann'') = zero_status"
  by (simp_all add: sample_lib_def sample_body_def submitted_request_def new_successor_def ann_def sample_spec_def
      failed_request_def sample_request_def)

lemma no_live_request: "\<not> duplicate_of L cns candidate want failed_request"
  by (simp add: duplicate_of_def undecided_def failed_sel)

text \<open>In a world that lists one request, which is decided, the submission is accepted.\<close>

definition lists_only :: "sudo_request \<Rightarrow> call \<Rightarrow> bool" where
  "lists_only x c \<longleftrightarrow> (case c of ListSR cached ns r \<Rightarrow> r = Inr [x] | _ \<Rightarrow> True)"

definition shows_only :: "sudo_request \<Rightarrow> call \<Rightarrow> bool" where
  "shows_only x c \<longleftrightarrow> (case c of GetSR cached ns nm (Inr sr) \<Rightarrow> sr = x | UpdateStatus obj (Inr sr) \<Rightarrow> False | _ \<Rightarrow> True)"

lemma create_run_of:
  assumes "\<not> undecided (Phase (Status x))"
  shows "list_ex (\<lambda>c. case c of CreateSR g obj r \<Rightarrow> Spec obj = sample_spec | _ \<Rightarrow> False)
     (served (world_of x) (by_requester ''POST'' ''/requests''))"
    and "list_all (lists_only x) (served (world_of x) (by_requester ''POST'' ''/requests''))"
proof -
  let ?sr = "submitted_request ''ctl'' ann sample_body"
  have e: "create_error sample_lib ''ctl'' ?sr = None"
    by (simp add: create_error_None sample_effective(1) [OF sample_submitted(2)])
  have f: "executionFingerprint sample_lib ?sr ''ctl'' = Inr ''hdate''"
    by (rule sample_effective(2) [OF sample_submitted(2)]) (simp add: sample_submitted zero_status_def)
  have sp: "Spec ?sr = sample_spec" by (simp add: sample_submitted(2) sample_spec_def)
  have b: "cb_Command sample_body \<noteq> ''''" "cb_Reason sample_body \<noteq> ''''" by (simp_all add: sample_body_def)
  have d: "\<not> duplicate_of L cns candidate want x" for L cns candidate want using assms by (simp add: duplicate_of_def)
  show "list_ex (\<lambda>c. case c of CreateSR g obj r \<Rightarrow> Spec obj = sample_spec | _ \<Rightarrow> False)
       (served (world_of x) (by_requester ''POST'' ''/requests''))"
    "list_all (lists_only x) (served (world_of x) (by_requester ''POST'' ''/requests''))"
    by (simp_all add: served_simps createRequestHandler_def sample_api_sel sample_submitted(1) b e f create_unless_duplicate_def
        findPendingDuplicate_def list_requests_def d sp lists_only_def)
qed

lemma create_run:
  "list_ex (\<lambda>c. case c of CreateSR g obj r \<Rightarrow> Spec obj = sample_spec | _ \<Rightarrow> False)
     (served (world_of failed_request) (by_requester ''POST'' ''/requests''))"
  by (rule create_run_of) (simp add: undecided_def failed_sel)

lemma retry_run:
  "list_ex (\<lambda>c. case c of CreateSR g obj r \<Rightarrow> True | _ \<Rightarrow> False)
     (served retry_world (by_requester ''POST'' ''/requests/u1/retry''))"
proof -
  let ?sr = "new_successor ''ctl'' failed_request ''ann''"
  have e: "submission_error sample_lib ''ctl'' ?sr = None" by (rule sample_effective(1) [OF sample_submitted(3)])
  have f: "executionFingerprint sample_lib ?sr ''ctl'' = Inr ''hdate''"
    by (rule sample_effective(2) [OF sample_submitted(3)]) (simp add: sample_submitted zero_status_def)
  have w: "w_list_sr retry_world h cached ns = Inr [failed_request]"
    "w_get_sr retry_world h cached ns n = (if n = ''r1'' then Inr failed_request else Inl (ApiError NotFound n))"
    "w_create_sr retry_world h g obj = Inr (obj\<lparr>UID := ''u2''\<rparr>)" "w_update_status retry_world h obj = Inr obj" for h cached ns n g obj
    by (simp_all add: retry_world_def world_of_def)
  have "w_retries retry_world \<noteq> 0" by (simp add: retry_world_def world_of_def)
  then obtain k where wr: "w_retries retry_world = Suc k" by (cases "w_retries retry_world") simp_all
  have p: "path_uid ''/requests/u1/retry'' = ''u1''" "path_sub ''/requests/u1/retry'' = ''retry''"
    by (simp_all add: path_uid_def path_sub_def trim_prefix_def has_prefix_iff)
  have nm: "retryChildName ''u1'' \<noteq> ''r1''" by (simp add: retryChildName_def)
  have el: "requesterRetryable Failed" by (simp add: requesterRetryable_def)
  have un: "u_Username ann = ''ann''" by (simp add: ann_def)
  have ss: "SupersededByUID (Status failed_request) = ''''" by (simp add: failed_request_def zero_status_def)
  show ?thesis
    by (simp add: served_simps requestSubpathHandler_def p find_request_def list_requests_def w failed_sel un serve_subpath_def
        retryRequester_def retryRequest_def el nm sample_api_sel submit_successor_def e f findPendingDuplicate_def no_live_request
        create_successor_def ss is_not_found_def
        link_created_def ensureSupersededLink_def wr link_body_def)
qed

end
