(* ===== verification/ApiProperties.thy ===== *)
theory ApiProperties
  imports HttpSamples
begin

text \<open>
  The properties of the HTTP API, of resubmission and of the collector.
  Each rests on the \<open>\<dots>_emits\<close> lemmas of the components.
\<close>

section \<open>Before authentication\<close>

lemma human_decision_someone: "human_decision A req n h c \<Longrightarrow> someone A (recent n h)"
  unfolding human_decision_def by (blast intro: someoneI)

lemma submission_someone: "submission A req cs gen obj \<Longrightarrow> someone A cs"
  unfolding submission_def by (blast intro: someoneI)

lemmas someone_behind = human_decision_someone resubmission_someone submission_someone owns_someone someoneI

definition asks_who :: "call \<Rightarrow> bool" where
  "asks_who c \<longleftrightarrow> (case c of TokenReview tok aud r \<Rightarrow> True | VerifyJWT raw r \<Rightarrow> True | _ \<Rightarrow> False)"

lemma http_call_someone:
  assumes "http_call A req n h c" and "\<not> asks_who c"
  shows "someone A (recent n h)"
  using assms
  by (cases c) (auto simp: http_call_def asks_who_def intro: someone_behind split: option.splits)

text \<open>
  C15: nothing is read, written, listened to or drawn for an HTTP request before the run has
  authenticated somebody: a service account whose token the API server reviewed for the audience of
  the program, or a member of the administrators' group whose ID token was verified.
\<close>

theorem nothing_before_authentication:
  assumes "calls (ServeHTTP W A req) h = u @ c # v" and "\<not> asks_who c"
  shows "(\<exists>t. authenticated (set u) RequesterTokenAudience t) \<or>
    (\<exists>cl. verified (set u) cl \<and> (as_AdminGroup A \<in> set (hc_Groups cl) \<or> ''/'' @ as_AdminGroup A \<in> set (hc_Groups cl)))"
  using http_call_someone [OF ServeHTTP_call [OF assms(1)] assms(2)]
  by (auto simp: someone_def is_requester_def is_admin_def IsInGroup_iff)

theorem nothing_before_authentication_witness:
  "\<exists>u obj r v cl. served (world_of pending_request) (by_admin ''/approve'' ''u1'') = u @ UpdateStatus obj r # v \<and>
    ((\<exists>t. authenticated (set u) RequesterTokenAudience t) \<or>
     verified (set u) cl \<and> (''admins'' \<in> set (hc_Groups cl) \<or> ''/admins'' \<in> set (hc_Groups cl)))"
proof -
  from approve_run obtain u obj r v where
    c: "served (world_of pending_request) (by_admin ''/approve'' ''u1'') = u @ UpdateStatus obj r # v"
    by (elim makes) (auto split: call.splits)
  from nothing_before_authentication [OF c] c show ?thesis by (fastforce simp: asks_who_def sample_api_def)
qed

section \<open>What is created\<close>

lemma http_create:
  assumes "calls (ServeHTTP W A req) h = u @ CreateSR gen obj r # v"
  shows "rq_Method req = ''POST'' \<and> Namespace obj = serverNamespace A \<and> Status obj = zero_status \<and>
    submission_error (as_lib A) (serverNamespace A) obj = None \<and> no_duplicate A obj (set u) \<and>
    ((\<exists>t body. is_submitter A (set u) t \<and> json_body (as_lib A) (rq_Body req) = Inr body \<and> gen = ''http-'' \<and>
        obj = submitted_request (serverNamespace A) t body \<and> Requester (Spec obj) = u_Username t) \<or>
     (\<exists>source via. listed_request A (set u) source \<and> SupersededByUID (Status source) = '''' \<and> gen = '''' \<and>
        obj = new_successor (serverNamespace A) source via \<and>
        ((\<exists>cl form. posted req form \<and> is_admin A (set u) cl \<and> via = actor cl \<and> adminRetryable (Phase (Status source))) \<or>
         (\<exists>t. is_submitter A (set u) t \<and> via = u_Username t \<and> Requester (Spec source) = via \<and>
            requesterRetryable (Phase (Status source))))))"
proof -
  have sub: "Namespace (submitted_request cns t body) = cns \<and> Status (submitted_request cns t body) = zero_status \<and>
      Requester (Spec (submitted_request cns t body)) = u_Username t" for cns t body
    by (simp add: submitted_request_def)
  have new: "Namespace (new_successor cns source via) = cns \<and> Status (new_successor cns source via) = zero_status" for cns source via
    by (simp add: new_successor_def)
  from ServeHTTP_call [OF assms] have "submission A req (set u) gen obj \<or> resubmission A req (length h) (h @ u) (CreateSR gen obj r)"
    by (simp add: http_call_def)
  then show ?thesis
  proof
    assume "submission A req (set u) gen obj"
    then show ?thesis unfolding submission_def by (auto simp: sub create_error_None)
  next
    assume "resubmission A req (length h) (h @ u) (CreateSR gen obj r)"
    then obtain source via admin where "resubmitter A req (set u) source via admin"
        "eligible admin source" "gen = ''''" "first_successor A source via (set u) obj"
      unfolding resubmission_def by (auto simp: retry_call_def)
    then show ?thesis
      by (cases admin) (auto simp: resubmitter_def first_successor_def new eligible_def)
  qed
qed

text \<open>
  C9: the API creates a request in two ways only.  A submission carries the body of a POST by an
  authenticated service account that may submit, with that account as its requester; a resubmission
  copies the spec of a listed, finished request without successor, on behalf of an administrator who
  posted a form with the CSRF token, or of its own requester.  Either way the request is in the
  namespace of the controller, has an empty status, passes the validation, and no live request of
  the same requester, in a list read in the same run, would execute the same.
\<close>

theorem requests_created_on_behalf_of_someone:
  assumes "calls (ServeHTTP W A req) h = u @ CreateSR gen obj r # v"
  shows "rq_Method req = ''POST'' \<and> Namespace obj = serverNamespace A \<and> Status obj = zero_status \<and>
    submission_error (as_lib A) (serverNamespace A) obj = None \<and> no_duplicate A obj (set u) \<and>
    ((\<exists>t body. is_submitter A (set u) t \<and> json_body (as_lib A) (rq_Body req) = Inr body \<and> gen = ''http-'' \<and>
        obj = submitted_request (serverNamespace A) t body \<and> Requester (Spec obj) = u_Username t) \<or>
     (\<exists>source via. listed_request A (set u) source \<and> SupersededByUID (Status source) = '''' \<and> gen = '''' \<and>
        obj = new_successor (serverNamespace A) source via \<and>
        ((\<exists>cl form. posted req form \<and> is_admin A (set u) cl \<and> via = actor cl \<and> adminRetryable (Phase (Status source))) \<or>
         (\<exists>t. is_submitter A (set u) t \<and> via = u_Username t \<and> Requester (Spec source) = via \<and>
            requesterRetryable (Phase (Status source))))))"
  by (rule http_create [OF assms])

theorem requests_created_on_behalf_of_someone_witness:
  "(\<exists>u gen obj r v. served (world_of failed_request) (by_requester ''POST'' ''/requests'') = u @ CreateSR gen obj r # v \<and>
      Status obj = zero_status \<and> no_duplicate sample_api obj (set u)) \<and>
   (\<exists>u gen obj r v. served retry_world (by_requester ''POST'' ''/requests/u1/retry'') = u @ CreateSR gen obj r # v \<and>
      Status obj = zero_status \<and> no_duplicate sample_api obj (set u))"
proof (intro conjI)
  from create_run obtain u gen obj r v where
    c: "served (world_of failed_request) (by_requester ''POST'' ''/requests'') = u @ CreateSR gen obj r # v"
    by (elim makes) (auto split: call.splits)
  from requests_created_on_behalf_of_someone [OF c] c
  show "\<exists>u gen obj r v. served (world_of failed_request) (by_requester ''POST'' ''/requests'') = u @ CreateSR gen obj r # v \<and>
      Status obj = zero_status \<and> no_duplicate sample_api obj (set u)" by blast
next
  from retry_run obtain u gen obj r v where
    c: "served retry_world (by_requester ''POST'' ''/requests/u1/retry'') = u @ CreateSR gen obj r # v"
    by (elim makes) (auto split: call.splits)
  from requests_created_on_behalf_of_someone [OF c] c
  show "\<exists>u gen obj r v. served retry_world (by_requester ''POST'' ''/requests/u1/retry'') = u @ CreateSR gen obj r # v \<and>
      Status obj = zero_status \<and> no_duplicate sample_api obj (set u)" by blast
qed

text \<open>The list that shows no duplicate is the call before the creation.\<close>

lemma created_checked:
  assumes "calls (ServeHTTP W A req) h = u @ CreateSR gen obj r # v"
  shows "u \<noteq> [] \<and> no_duplicate A obj {last u}"
proof -
  from ServeHTTP_call [OF assms] have c: "http_call A req (length h) (h @ u) (CreateSR gen obj r)" .
  then have "someone A (set u)" using http_call_someone [OF c] by (simp add: asks_who_def)
  then have "u \<noteq> []" by (auto simp: someone_def is_requester_def is_admin_def authenticated_def verified_def)
  with c show ?thesis by (simp add: http_call_def just_checked_def)
qed

section \<open>What is written\<close>

lemma http_status_write:
  assumes "calls (ServeHTTP W A req) h = u @ UpdateStatus obj r # v"
  shows "rq_Method req = ''POST'' \<and>
    ((\<exists>form cl sr. posted req form \<and> is_admin A (set u) cl \<and> listed (as_Reconciler A) (map_get form ''id'') (set u) sr \<and>
        same_request obj sr \<and> writes_once (Status sr) (Status obj) \<and>
        ResolvedImage (Status obj) = ResolvedImage (Status sr) \<and>
        human_step (Phase (Status sr)) (Phase (Status obj)) \<and>
        (if Phase (Status obj) = Approved then ApprovedBy (Status obj) else DeniedBy (Status obj)) = actor cl \<and>
        ApprovalTokenHash (Status obj) = '''' \<and> ApprovalTokenSecretName (Status obj) = '''') \<or>
     (\<exists>source via admin current uid. resubmitter A req (set u) source via admin \<and> eligible admin source \<and>
        GetSR True (serverNamespace A) (Name source) (Inr current) \<in> set u \<and> UID current = UID source \<and>
        SupersededByUID (Status current) = '''' \<and> successor_known A source (set u) uid \<and>
        obj = Status_update (set_superseded uid) current))"
proof -
  from ServeHTTP_call [OF assms] have "human_decision A req (length h) (h @ u) (UpdateStatus obj r) \<or>
      resubmission A req (length h) (h @ u) (UpdateStatus obj r)"
    by (simp add: http_call_def)
  then show ?thesis
  proof
    assume "human_decision A req (length h) (h @ u) (UpdateStatus obj r)"
    then obtain form cl sr t where w: "posted req form" "is_admin A (set u) cl" "Phase (Status sr) = Pending"
        "listed (as_Reconciler A) (map_get form ''id'') (set u) sr"
      and f: "obj = Status_update (approved_status t (actor cl)) sr \<or>
        obj = Status_update (denied_by_status t (actor cl) (map_get form ''reason'')) sr"
      unfolding human_decision_def decision_call_def by auto
    from f show ?thesis
      using w by (intro conjI disjI1 exI [of _ form] exI [of _ cl] exI [of _ sr])
        (auto simp: posted_def approved_status_def denied_by_status_def burn_token_def writes_once_def)
  next
    assume "resubmission A req (length h) (h @ u) (UpdateStatus obj r)"
    then obtain source via admin where "resubmitter A req (set u) source via admin" "eligible admin source"
        "link_write A source (set u) obj"
      unfolding resubmission_def by (auto simp: retry_call_def)
    then show ?thesis unfolding link_write_def resubmitter_def by blast
  qed
qed

text \<open>
  C11: the API writes a status for two reasons only.  A decision is made by a verified administrator
  who posted a form with the CSRF token of the cookie, moves a request with the UID of the form,
  listed as pending, to Approved or Denied by a human step, names the administrator, burns the token
  and keeps the identities and the image recorded in the status; a link changes nothing but the
  successor of a finished request, from none to the UID of a request that was created or validated as
  its successor.
\<close>

theorem status_written_for_someone:
  assumes "calls (ServeHTTP W A req) h = u @ UpdateStatus obj r # v"
  shows "rq_Method req = ''POST'' \<and>
    ((\<exists>form cl sr. posted req form \<and> is_admin A (set u) cl \<and> listed (as_Reconciler A) (map_get form ''id'') (set u) sr \<and>
        same_request obj sr \<and> writes_once (Status sr) (Status obj) \<and>
        ResolvedImage (Status obj) = ResolvedImage (Status sr) \<and>
        human_step (Phase (Status sr)) (Phase (Status obj)) \<and>
        (if Phase (Status obj) = Approved then ApprovedBy (Status obj) else DeniedBy (Status obj)) = actor cl \<and>
        ApprovalTokenHash (Status obj) = '''' \<and> ApprovalTokenSecretName (Status obj) = '''') \<or>
     (\<exists>source via admin current uid. resubmitter A req (set u) source via admin \<and> eligible admin source \<and>
        GetSR True (serverNamespace A) (Name source) (Inr current) \<in> set u \<and> UID current = UID source \<and>
        SupersededByUID (Status current) = '''' \<and> successor_known A source (set u) uid \<and>
        obj = Status_update (set_superseded uid) current))"
  by (rule http_status_write [OF assms])

theorem status_written_for_someone_witness:
  "\<exists>u obj r v. served (world_of pending_request) (by_admin ''/approve'' ''u1'') = u @ UpdateStatus obj r # v \<and>
    rq_Method (by_admin ''/approve'' ''u1'') = ''POST''"
proof -
  from approve_run obtain u obj r v where
    c: "served (world_of pending_request) (by_admin ''/approve'' ''u1'') = u @ UpdateStatus obj r # v"
    by (elim makes) (auto split: call.splits)
  from status_written_for_someone [OF c] c show ?thesis by blast
qed

section \<open>What is shown\<close>


section \<open>Resubmission\<close>

lemma retryRequest_eligible:
  assumes "outcome (retryRequest W A source via admin) h = (x, created, None)"
  shows "eligible admin source"
proof (rule ccontr)
  assume "\<not> eligible admin source"
  then have "\<exists>e. retryRequest W A source via admin = State_Monad.return (None, False, Some e)"
    by (cases admin) (auto simp: retryRequest_def eligible_def)
  with assms show False by (auto simp: outcome_def)
qed

lemma retry_again:
  assumes "eligible admin source"
    and "w_get_sr W h True (serverNamespace A) (retryChildName (UID source)) = Inr existing"
    and "validateRetrySuccessor (as_lib A) source existing (serverNamespace A) = None"
    and "w_get_sr W (h @ [GetSR True (serverNamespace A) (retryChildName (UID source)) (Inr existing)]) True
      (serverNamespace A) (Name source) = Inr current"
    and "UID current = UID source" and "SupersededByUID (Status current) = UID existing"
  shows "outcome (retryRequest W A source via admin) h = (Some existing, False, None) \<and>
    calls (retryRequest W A source via admin) h =
      [GetSR True (serverNamespace A) (retryChildName (UID source)) (Inr existing),
       GetSR True (serverNamespace A) (Name source) (Inr current)]"
proof -
  have once: "run_state (RetryOnConflict k body) g = (Inr a, g')" if "run_state body g = (Inr a, g')"
    for k and body :: "unit res prog" and a g g'
    using that by (cases k) (simp_all add: runs)
  have link: "run_state (ensureSupersededLink W A (Name source) (UID source) (UID existing))
      (h @ [GetSR True (serverNamespace A) (retryChildName (UID source)) (Inr existing)]) =
    (Inr (), h @ [GetSR True (serverNamespace A) (retryChildName (UID source)) (Inr existing),
       GetSR True (serverNamespace A) (Name source) (Inr current)])"
    unfolding ensureSupersededLink_def by (rule once) (simp add: link_body_def runs assms)
  show ?thesis
    using assms(1) by (cases admin) (simp_all add: outcome_def calls_def retryRequest_def eligible_def runs assms(2,3)
        adoptRetrySuccessor_def link)
qed

text \<open>A successor that exists already, and is linked.\<close>

definition successor_request :: sudo_request where
  "successor_request = sample_request\<lparr>Name := ''retry-u1'', UID := ''u2'',
     Spec := sample_spec\<lparr>RetryOfUID := ''u1'', SubmittedBy := ''ann''\<rparr>\<rparr>"

definition linked_world :: world where
  "linked_world = (world_of failed_request)\<lparr>w_get_sr := \<lambda>h cached ns n.
     if n = ''r1'' then Inr (Status_update (set_superseded ''u2'') failed_request) else Inr successor_request\<rparr>"

lemma successor_valid: "validateRetrySuccessor sample_lib failed_request successor_request ''ctl'' = None"
proof -
  let ?f = "Status_update (\<lambda>s. s\<lparr>ResolvedImage := ''''\<rparr>)"
  have "executionFingerprint sample_lib (?f failed_request) ''ctl'' = Inr ''hdate''"
    "executionFingerprint sample_lib (?f successor_request) ''ctl'' = Inr ''hdate''"
    by (rule sample_effective(2) [where via = "''ann''" and pred = "''''"], simp_all add: failed_request_def sample_request_def sample_spec_def)
       (rule sample_effective(2) [where via = "''ann''" and pred = "''u1''"], simp_all add: successor_request_def sample_request_def sample_spec_def)
  then show ?thesis
    by (simp add: validateRetrySuccessor_def Let_def)
       (simp add: successor_request_def failed_request_def sample_request_def sample_spec_def)
qed

lemma linked_run:
  "outcome (retryRequest linked_world sample_api failed_request ''ann'' False) [] = (Some successor_request, False, None)"
proof -
  have n: "retryChildName ''u1'' = ''retry-u1''" by (simp add: retryChildName_def lower_char_def is_upper_def in_range_def)
  show ?thesis
    using retry_again [of False failed_request linked_world "[]" sample_api successor_request
        "Status_update (set_superseded ''u2'') failed_request" "''ann''"]
    by (simp add: linked_world_def failed_sel sample_api_sel successor_valid n eligible_def requesterRetryable_def set_superseded_def)
       (simp add: successor_request_def)
qed

text \<open>
  C22: a resubmission that succeeds was of a finished request (for its requester: one that failed or
  expired), and leaves the request linked to the successor it returns: the link was read or its write
  was accepted, on the object with the UID of the source.  The successor was created by this very
  call, or read under the name derived from that UID and validated: it names the source, has the same
  requester and the same execution fingerprint.
\<close>

theorem retry_links_its_successor:
  assumes "outcome (retryRequest W A source via admin) h = (Some s, created, None)"
  shows "eligible admin source \<and> linked A source (UID s) (set (calls (retryRequest W A source via admin) h)) \<and>
    successor_known A source (set (calls (retryRequest W A source via admin) h)) (UID s) \<and>
    (created \<or> Requester (Spec s) = Requester (Spec source))"
  using retryRequest_eligible [OF assms] assms
    emits_calls(2) [OF retryRequest_emits [OF order_refl], of A source h W via admin]
  by (simp add: retry_post_def)

theorem retry_links_its_successor_witness:
  "outcome (retryRequest linked_world sample_api failed_request ''ann'' False) [] = (Some successor_request, False, None) \<and>
   linked sample_api failed_request ''u2'' (set (calls (retryRequest linked_world sample_api failed_request ''ann'' False) []))"
  using retry_links_its_successor [OF linked_run] linked_run by (simp add: successor_request_def)

text \<open>
  C23: resubmission is idempotent: when the successor exists and is linked, a further resubmission
  reads the two objects, writes nothing, creates nothing and returns the same successor.
\<close>

theorem retry_is_idempotent:
  assumes "eligible admin source"
    and "w_get_sr W h True (serverNamespace A) (retryChildName (UID source)) = Inr existing"
    and "validateRetrySuccessor (as_lib A) source existing (serverNamespace A) = None"
    and "w_get_sr W (h @ [GetSR True (serverNamespace A) (retryChildName (UID source)) (Inr existing)]) True
      (serverNamespace A) (Name source) = Inr current"
    and "UID current = UID source" and "SupersededByUID (Status current) = UID existing"
  shows "outcome (retryRequest W A source via admin) h = (Some existing, False, None) \<and>
    calls (retryRequest W A source via admin) h =
      [GetSR True (serverNamespace A) (retryChildName (UID source)) (Inr existing),
       GetSR True (serverNamespace A) (Name source) (Inr current)]"
  by (rule retry_again [OF assms])

theorem retry_is_idempotent_witness:
  "outcome (retryRequest linked_world sample_api failed_request ''ann'' False) [] = (Some successor_request, False, None)"
proof -
  have n: "retryChildName ''u1'' = ''retry-u1''" by (simp add: retryChildName_def lower_char_def is_upper_def in_range_def)
  show ?thesis
    using retry_is_idempotent [of False failed_request linked_world "[]" sample_api successor_request
        "Status_update (set_superseded ''u2'') failed_request" "''ann''"]
    by (simp add: linked_world_def failed_sel sample_api_sel successor_valid n eligible_def requesterRetryable_def set_superseded_def)
       (simp add: successor_request_def)
qed

section \<open>Duplicates\<close>

text \<open>A world whose lists show the requests of one requester only.\<close>

definition without_others :: "string \<Rightarrow> world \<Rightarrow> world" where
  "without_others who W = W\<lparr>w_list_sr := \<lambda>h cached ns.
     map_sum id (filter (\<lambda>sr. Requester (Spec sr) = who)) (w_list_sr W h cached ns)\<rparr>"

text \<open>
  C24: the search for a duplicate tells a requester nothing of the requests of others: it answers the
  same when they are taken out of every list.  What it finds is a live request of the same requester
  with the same fingerprint.
\<close>

theorem duplicates_reveal_nothing_of_others:
  "outcome (findPendingDuplicate (without_others (Requester (Spec candidate)) W) A candidate) h =
     outcome (findPendingDuplicate W A candidate) h \<and>
   (case outcome (findPendingDuplicate W A candidate) h of
      Inr (Some sr) \<Rightarrow> Requester (Spec sr) = Requester (Spec candidate) \<and> undecided (Phase (Status sr)) \<and>
        executionFingerprint (as_lib A) sr (serverNamespace A) = executionFingerprint (as_lib A) candidate (serverNamespace A)
    | _ \<Rightarrow> True)"
proof (cases "executionFingerprint (as_lib A) candidate (serverNamespace A)")
  case (Inl e)
  then show ?thesis by (simp add: findPendingDuplicate_def outcome_def)
next
  case (Inr want)
  show ?thesis
  proof (cases "w_list_sr W h (\<not> as_APIReader A) (serverNamespace A)")
    case err: (Inl e)
    with Inr show ?thesis
      by (simp add: findPendingDuplicate_def outcome_def list_requests_def runs without_others_def)
  next
    case items: (Inr items)
    then have "w_list_sr (without_others (Requester (Spec candidate)) W) h (\<not> as_APIReader A) (serverNamespace A) =
        Inr (filter (\<lambda>sr. Requester (Spec sr) = Requester (Spec candidate)) items)"
      by (simp add: without_others_def)
    with Inr items show ?thesis
      by (auto simp: findPendingDuplicate_def outcome_def list_requests_def runs duplicate_of_def
          duplicates_of_others_invisible [of _ _ candidate _ items] dest!: find_SomeD split: option.split)
  qed
qed

section \<open>The collector\<close>

lemma collector_status_write:
  assumes "calls (Start W cns ws) h = u @ UpdateStatus obj r # v"
  shows "\<exists>sr. listed_overdue (configuredControllerNamespace cns) (set u) sr \<and> obj = Status_update expired_status sr"
  using emits_callsD [OF Start_emits [OF order_refl] assms] by (simp add: collector_call_def expiry_write_def)

text \<open>
  C21: the collector destroys nothing that is live.  It deletes a Secret only when it listed it with
  the label of the program and the expires-at label had passed on the clock,
  or when it is the approval token of a request whose expiry the API server has just accepted; it
  writes a status only to expire a request it listed as pending and found older than the hour a
  request may wait; it publishes only expiries that were accepted.
\<close>

theorem collector_spares_the_live:
  assumes "calls (Start W cns ws) h = u @ c # v"
  shows "case c of
      DeleteSecret ns nm r \<Rightarrow>
        (\<exists>secs s t. ListSecrets (configuredControllerNamespace cns) [(''app'', ''sudo-service'')] (Inr secs) \<in> set u \<and>
           s \<in> set secs \<and> Now t \<in> set u \<and> secret_expired (seconds t) s \<and> ns = s_Namespace s \<and> nm = s_Name s) \<or>
        (\<exists>sr stored. listed_overdue (configuredControllerNamespace cns) (set u) sr \<and>
           nm = ApprovalTokenSecretName (Status sr) \<and> nm \<noteq> '''' \<and>
           UpdateStatus (Status_update expired_status sr) (Inr stored) \<in> set u \<and> ns = Namespace stored)
    | UpdateStatus obj r \<Rightarrow>
        (\<exists>sr. listed_overdue (configuredControllerNamespace cns) (set u) sr \<and> obj = Status_update expired_status sr \<and>
           controller_step (Phase (Status sr)) (Phase (Status obj)))
    | PublishEvent uid e \<Rightarrow> e_Phase e = Expired \<and> published (set u) uid Expired
    | ListSecrets ns ls r \<Rightarrow> True
    | ListSR cached ns r \<Rightarrow> True
    | Now t \<Rightarrow> True
    | _ \<Rightarrow> False"
proof -
  have "collector_call (configuredControllerNamespace cns) (length h) (h @ u) c"
    by (rule emits_callsD [OF Start_emits [OF order_refl] assms])
  then show ?thesis
    by (cases c) (auto simp: collector_call_def swept_def expiry_token_def expiry_write_def stored_in_def
        listed_overdue_def expired_status_def)
qed

text \<open>A round of the collector over an overdue request.\<close>

definition late_world :: "sudo_request \<Rightarrow> world" where
  "late_world sr = (world_of sr)\<lparr>w_now := \<lambda>h. 3600000000000\<rparr>"

definition expires :: "sudo_request \<Rightarrow> call \<Rightarrow> bool" where
  "expires sr c \<longleftrightarrow> (case c of UpdateStatus obj r \<Rightarrow> obj = Status_update expired_status sr | _ \<Rightarrow> False)"

lemma late_run:
  assumes "Phase (Status sr) = Pending" and "CreationTimestamp sr = 0"
  shows "list_ex (expires sr) (calls (Start (late_world sr) ''ctl'' [Tick]) [])"
    and "list_all (\<lambda>c. lists_only sr c \<and> shows_only sr c)
      (takeWhile (\<lambda>c. \<not> expires sr c) (calls (Start (late_world sr) ''ctl'' [Tick]) []))"
proof -
  have w: "w_list_secrets (late_world sr) h ns ls = Inr []" "w_list_sr (late_world sr) h cached ns = Inr [sr]"
    "w_now (late_world sr) h = 3600000000000" "w_update_status (late_world sr) h obj = Inr obj"
    "w_delete_secret (late_world sr) h ns n = None" for h ns ls cached obj n
    by (simp_all add: late_world_def world_of_def)
  have s: "PendingRequestTTL * second \<le> time_sub 3600000000000 0"
    by (simp add: PendingRequestTTL_def second_def time_sub_def)
  show "list_ex (expires sr) (calls (Start (late_world sr) ''ctl'' [Tick]) [])"
    "list_all (\<lambda>c. lists_only sr c \<and> shows_only sr c)
      (takeWhile (\<lambda>c. \<not> expires sr c) (calls (Start (late_world sr) ''ctl'' [Tick]) []))"
    using s by (simp_all add: calls_def runs sweepSecrets_def expirePending_def w expire_pending_def assms
        deleteApprovalTokenSecret_def expires_def lists_only_def shows_only_def)
qed

theorem collector_spares_the_live_witness:
  "\<exists>u obj r v sr. calls (Start (late_world pending_request) ''ctl'' [Tick]) [] = u @ UpdateStatus obj r # v \<and>
    obj = Status_update expired_status sr \<and> Phase (Status sr) = Pending"
proof -
  have t: "CreationTimestamp pending_request = 0" by (simp add: pending_request_def sample_request_def)
  from late_run(1) [OF pending_sel(4) t] obtain u obj r v where
    c: "calls (Start (late_world pending_request) ''ctl'' [Tick]) [] = u @ UpdateStatus obj r # v"
    by (elim makes) (auto simp: expires_def split: call.splits)
  from collector_spares_the_live [OF c] c show ?thesis by (fastforce simp: listed_overdue_def)
qed

end
