(* ===== verification/Store.thy ===== *)
theory Store
  imports ApiProperties
begin

text \<open>
  The stored versions of one request, as the API server keeps them while the reconciler, the HTTP API
  and the collector write to it: an optimistic write is accepted only on the latest version.  The
  phases of the versions refine the phase machine, whatever the runs interleave and however stale
  their reads are.
\<close>

section \<open>The specification\<close>

text \<open>
  The steps of a request: those of the controller, those of a human, and the correction of a
  finished outcome by a second run that was still finishing the same Job.
\<close>

inductive lifecycle_step :: "phase \<Rightarrow> phase \<Rightarrow> bool" where
  by_controller: "controller_step p q \<Longrightarrow> lifecycle_step p q"
| by_human: "human_step p q \<Longrightarrow> lifecycle_step p q"
| finished_again: "p \<in> {Executed, Failed} \<Longrightarrow> q \<in> {Executed, Failed} \<Longrightarrow> lifecycle_step p q"

inductive_simps lifecycle_step_simps: "lifecycle_step p q"

lemma lifecycle_from:
  "lifecycle_step NoPhase q \<longleftrightarrow> q \<in> {Pending, Approved, Denied}"
  "lifecycle_step Pending q \<longleftrightarrow> q \<in> {Expired, Approved, Denied}"
  "lifecycle_step Approved q \<longleftrightarrow> q \<in> {Executed, Failed}"
  "lifecycle_step Executed q \<longleftrightarrow> q \<in> {Executed, Failed}"
  "lifecycle_step Failed q \<longleftrightarrow> q \<in> {Executed, Failed}"
  "\<not> lifecycle_step Denied q" "\<not> lifecycle_step Expired q" "\<not> lifecycle_step (OtherPhase s) q"
  by (auto simp: lifecycle_step_simps)

definition keeps_or_steps :: "sudo_request \<Rightarrow> sudo_request \<Rightarrow> bool" where
  "keeps_or_steps new old \<longleftrightarrow>
     Phase (Status new) = Phase (Status old) \<or> lifecycle_step (Phase (Status old)) (Phase (Status new))"

section \<open>Stored versions\<close>

text \<open>Every object a run was shown, lists included.\<close>

definition offered :: "call set \<Rightarrow> sudo_request \<Rightarrow> bool" where
  "offered cs sr \<longleftrightarrow> seen cs sr \<or> (\<exists>cached ns items. ListSR cached ns (Inr items) \<in> cs \<and> sr \<in> set items)"

text \<open>
  The optimistic write of a status: it carries the UID and the resource version of the stored object,
  and replaces its status only.
\<close>

definition accepted_write :: "sudo_request \<Rightarrow> sudo_request \<Rightarrow> sudo_request \<Rightarrow> bool" where
  "accepted_write cur obj new \<longleftrightarrow> UID obj = UID cur \<and> ResourceVersion obj = ResourceVersion cur \<and>
     UID new = UID cur \<and> Spec new = Spec cur \<and> Status new = Status obj"

definition metadata_write :: "sudo_request \<Rightarrow> sudo_request \<Rightarrow> bool" where
  "metadata_write cur new \<longleftrightarrow> UID new = UID cur \<and> Spec new = Spec cur \<and> Status new = Status cur"

definition fresh_version :: "sudo_request \<Rightarrow> sudo_request list \<Rightarrow> bool" where
  "fresh_version new vs \<longleftrightarrow> ResourceVersion new \<notin> ResourceVersion ` set vs"

text \<open>Versions are told apart by their resource version, and share UID and spec.\<close>

definition one_object :: "sudo_request list \<Rightarrow> bool" where
  "one_object vs \<longleftrightarrow> vs \<noteq> [] \<and> distinct (List.map ResourceVersion vs) \<and>
     (\<forall>x\<in>set vs. UID x = UID (hd vs) \<and> Spec x = Spec (hd vs))"

lemma one_object_step:
  "one_object (cur # past) \<Longrightarrow> UID new = UID cur \<Longrightarrow> Spec new = Spec cur \<Longrightarrow> fresh_version new (cur # past) \<Longrightarrow>
     one_object (new # cur # past)"
  by (auto simp: one_object_def fresh_version_def)

lemma same_version:
  assumes "one_object vs" and "x \<in> set vs" "y \<in> set vs" "ResourceVersion x = ResourceVersion y"
  shows "x = y"
  using assms by (auto simp: one_object_def distinct_map inj_on_def)

lemma same_spec: "one_object vs \<Longrightarrow> x \<in> set vs \<Longrightarrow> y \<in> set vs \<Longrightarrow> Spec x = Spec y"
  by (metis one_object_def)

text \<open>Between two versions lies a path of the machine.\<close>

lemma earlier_reaches:
  assumes "successively keeps_or_steps (cur # past)" and "x \<in> set (cur # past)"
  shows "lifecycle_step\<^sup>*\<^sup>* (Phase (Status x)) (Phase (Status cur))"
  using assms
proof (induction past arbitrary: cur)
  case Nil
  then show ?case by simp
next
  case (Cons old past)
  then have step: "keeps_or_steps cur old" and rest: "successively keeps_or_steps (old # past)" by simp_all
  show ?case
  proof (cases "x = cur")
    case False
    with Cons.IH [OF rest] Cons.prems(2) have "lifecycle_step\<^sup>*\<^sup>* (Phase (Status x)) (Phase (Status old))" by simp
    with step show ?thesis by (auto simp: keeps_or_steps_def)
  qed simp
qed

lemma after_approval: "lifecycle_step\<^sup>*\<^sup>* Approved q \<Longrightarrow> q \<in> {Approved, Executed, Failed}"
  by (induction rule: rtranclp_induct) (auto simp: lifecycle_from)

section \<open>The writers\<close>

text \<open>
  What every part of the program that writes a status promises: the object is one the writer was
  shown, of the same request, with its identities written once; its phase is kept, or is a step from
  the phase of a shown object, which is the same one unless that was approved, or asks for a playbook.
  Then a write that the API server accepts is a step of the specification, from the stored version.
\<close>

locale status_writer =
  fixes writes :: "call set \<Rightarrow> sudo_request \<Rightarrow> bool"
    and shown :: "call set \<Rightarrow> sudo_request \<Rightarrow> sudo_request \<Rightarrow> bool"
  assumes lawful: "writes cs obj \<Longrightarrow> UID obj = UID cur \<Longrightarrow>
    \<exists>src base. shown cs cur src \<and> shown cs cur base \<and> same_request obj base \<and> writes_once (Status base) (Status obj) \<and>
      keeps_image obj base \<and> (Phase (Status obj) = Phase (Status base) \<or>
       lifecycle_step (Phase (Status src)) (Phase (Status obj)) \<and>
       (src = base \<or> Phase (Status src) = Approved \<or> Playbook (Spec src) \<noteq> None))"
begin

lemma accepted_base:
  assumes "one_object (cur # past)" and "writes cs obj" and "accepted_write cur obj new"
    and shown: "\<And>sr. shown cs cur sr \<Longrightarrow> sr \<in> set (cur # past)"
  obtains src where "src \<in> set (cur # past)" and "writes_once (Status cur) (Status new)" and "keeps_image new cur"
    and "Phase (Status new) = Phase (Status cur) \<or>
       lifecycle_step (Phase (Status src)) (Phase (Status new)) \<and>
       (src = cur \<or> Phase (Status src) = Approved \<or> Playbook (Spec src) \<noteq> None)"
proof -
  have w: "UID obj = UID cur" "ResourceVersion obj = ResourceVersion cur" "Status new = Status obj"
    using assms(3) by (simp_all add: accepted_write_def)
  from lawful [OF assms(2) w(1)] obtain src base where l: "shown cs cur src" "shown cs cur base" "same_request obj base"
    "writes_once (Status base) (Status obj)" "keeps_image obj base"
    "Phase (Status obj) = Phase (Status base) \<or> lifecycle_step (Phase (Status src)) (Phase (Status obj)) \<and>
       (src = base \<or> Phase (Status src) = Approved \<or> Playbook (Spec src) \<noteq> None)" by blast
  have "ResourceVersion base = ResourceVersion cur" using l(3) w(2) by (simp add: same_request_def)
  then have "base = cur" using same_version [OF assms(1) shown [OF l(2)]] by simp
  with l w(3) shown [OF l(1)] show ?thesis by (intro that [of src]) (auto simp: keeps_image_def)
qed

lemma refines:
  assumes vs: "one_object (cur # past)" "successively keeps_or_steps (cur # past)"
    and pb: "Playbook (Spec cur) = None"
    and w: "writes cs obj" "accepted_write cur obj new" "\<And>sr. shown cs cur sr \<Longrightarrow> sr \<in> set (cur # past)"
  shows "keeps_or_steps new cur"
proof (rule accepted_base [OF vs(1) w])
  fix src
  assume src: "src \<in> set (cur # past)" and step: "Phase (Status new) = Phase (Status cur) \<or>
       lifecycle_step (Phase (Status src)) (Phase (Status new)) \<and>
       (src = cur \<or> Phase (Status src) = Approved \<or> Playbook (Spec src) \<noteq> None)"
  have "Playbook (Spec src) = None" using vs(1) src pb by (auto simp: one_object_def)
  with step consider "Phase (Status new) = Phase (Status cur)" | "lifecycle_step (Phase (Status cur)) (Phase (Status new))"
    | "Phase (Status src) = Approved" "lifecycle_step Approved (Phase (Status new))" by auto
  then show ?thesis
  proof cases
    case 3
    with earlier_reaches [OF vs(2) src] after_approval [of "Phase (Status cur)"]
    have "Phase (Status cur) \<in> {Approved, Executed, Failed}" by auto
    with 3(2) show ?thesis by (auto simp: keeps_or_steps_def lifecycle_from)
  qed (simp_all add: keeps_or_steps_def)
qed

lemma keeps_identities:
  assumes "one_object (cur # past)" "writes cs obj" "accepted_write cur obj new"
    and "\<And>sr. shown cs cur sr \<Longrightarrow> sr \<in> set (cur # past)"
  shows "writes_once (Status cur) (Status new) \<and> keeps_image new cur"
  by (rule accepted_base [OF assms]) auto

end

text \<open>
  The three writers.  What \<open>Reconcile\<close> reads under the name of the request is the request; the API
  and the collector look it up by its UID in what they are shown.
\<close>

definition reconciler_writes :: "reconciler \<Rightarrow> call set \<Rightarrow> sudo_request \<Rightarrow> bool" where
  "reconciler_writes R cs obj \<longleftrightarrow> (\<exists>W ns nm h u r v. calls (Reconcile W R ns nm) h = u @ UpdateStatus obj r # v \<and> cs = set u)"

definition api_writes :: "api_server \<Rightarrow> call set \<Rightarrow> sudo_request \<Rightarrow> bool" where
  "api_writes A cs obj \<longleftrightarrow> (\<exists>W req h u r v. calls (ServeHTTP W A req) h = u @ UpdateStatus obj r # v \<and> cs = set u)"

definition collector_writes :: "string \<Rightarrow> call set \<Rightarrow> sudo_request \<Rightarrow> bool" where
  "collector_writes cns cs obj \<longleftrightarrow> (\<exists>W ws h u r v. calls (Start W cns ws) h = u @ UpdateStatus obj r # v \<and> cs = set u)"

definition shown_by_name :: "call set \<Rightarrow> sudo_request \<Rightarrow> sudo_request \<Rightarrow> bool" where
  "shown_by_name cs cur sr \<longleftrightarrow> seen cs sr"

definition shown_by_uid :: "call set \<Rightarrow> sudo_request \<Rightarrow> sudo_request \<Rightarrow> bool" where
  "shown_by_uid cs cur sr \<longleftrightarrow> offered cs sr \<and> UID sr = UID cur"

lemma same_requestUID: "same_request obj base \<Longrightarrow> UID obj = UID cur \<Longrightarrow> UID base = UID cur"
  by (simp add: same_request_def)

interpretation reconciler_writer: status_writer "reconciler_writes R" shown_by_name for R
proof
  fix cs and obj cur :: sudo_request
  assume "reconciler_writes R cs obj"
  then obtain W ns nm h u r v where c: "calls (Reconcile W R ns nm) h = u @ UpdateStatus obj r # v" "cs = set u"
    unfolding reconciler_writes_def by blast
  have "lawful_write cs obj"
  proof (rule Reconcile_handler [OF c(1)])
    fix sr
    assume "GetSR True ns nm (Inr sr) \<in> set u" "handler_call R sr (length h) (h @ u) (UpdateStatus obj r)"
    then show ?thesis using handler_UpdateStatus [of R sr "length h" "h @ u" obj r] c(2) by (simp add: seenI(1))
  qed simp
  then show "\<exists>src base. shown_by_name cs cur src \<and> shown_by_name cs cur base \<and> same_request obj base \<and>
      writes_once (Status base) (Status obj) \<and> keeps_image obj base \<and>
      (Phase (Status obj) = Phase (Status base) \<or>
       lifecycle_step (Phase (Status src)) (Phase (Status obj)) \<and>
       (src = base \<or> Phase (Status src) = Approved \<or> Playbook (Spec src) \<noteq> None))"
    unfolding lawful_write_def shown_by_name_def using by_controller by blast
qed

interpretation api_writer: status_writer "api_writes A" shown_by_uid for A
proof
  fix cs and obj cur :: sudo_request
  assume "api_writes A cs obj" and uid: "UID obj = UID cur"
  then obtain W req h u r v where c: "calls (ServeHTTP W A req) h = u @ UpdateStatus obj r # v" "cs = set u"
    unfolding api_writes_def by blast
  from http_status_write [OF c(1)] obtain base where base: "same_request obj base" "offered cs base"
    "writes_once (Status base) (Status obj)" "keeps_image obj base"
    "Phase (Status obj) = Phase (Status base) \<or> human_step (Phase (Status base)) (Phase (Status obj))"
  proof (elim conjE disjE exE)
    fix form cl sr
    assume "listed (as_Reconciler A) (map_get form ''id'') (set u) sr" "same_request obj sr"
      "writes_once (Status sr) (Status obj)" "ResolvedImage (Status obj) = ResolvedImage (Status sr)"
      "human_step (Phase (Status sr)) (Phase (Status obj))"
    then show thesis using that [of sr] c(2) unfolding listed_def offered_def by auto
  next
    fix source via admin current uid
    assume "GetSR True (serverNamespace A) (Name source) (Inr current) \<in> set u"
      "obj = Status_update (set_superseded uid) current" "SupersededByUID (Status current) = ''''"
    then show thesis using that [of current] c(2)
      by (auto simp: offered_def set_superseded_def writes_once_def intro: seenI(1))
  qed
  then show "\<exists>src base. shown_by_uid cs cur src \<and> shown_by_uid cs cur base \<and> same_request obj base \<and>
      writes_once (Status base) (Status obj) \<and> keeps_image obj base \<and>
      (Phase (Status obj) = Phase (Status base) \<or>
       lifecycle_step (Phase (Status src)) (Phase (Status obj)) \<and>
       (src = base \<or> Phase (Status src) = Approved \<or> Playbook (Spec src) \<noteq> None))"
    unfolding shown_by_uid_def using by_human same_requestUID [OF base(1) uid] by blast
qed

interpretation collector_writer: status_writer "collector_writes cns" shown_by_uid for cns
proof
  fix cs and obj cur :: sudo_request
  assume "collector_writes cns cs obj" and uid: "UID obj = UID cur"
  then obtain W ws h u r v where c: "calls (Start W cns ws) h = u @ UpdateStatus obj r # v" "cs = set u"
    unfolding collector_writes_def by blast
  from collector_status_write [OF c(1)] obtain sr where sr: "offered cs sr" "Phase (Status sr) = Pending"
    "obj = Status_update expired_status sr"
    unfolding listed_overdue_def offered_def c(2) by blast
  then show "\<exists>src base. shown_by_uid cs cur src \<and> shown_by_uid cs cur base \<and> same_request obj base \<and>
      writes_once (Status base) (Status obj) \<and> keeps_image obj base \<and>
      (Phase (Status obj) = Phase (Status base) \<or>
       lifecycle_step (Phase (Status src)) (Phase (Status obj)) \<and>
       (src = base \<or> Phase (Status src) = Approved \<or> Playbook (Spec src) \<noteq> None))"
    using uid new_mutations_once(4) [of "Status sr"]
    by (intro exI [of _ sr]) (simp add: shown_by_uid_def lifecycle_from expired_status_def keeps_image_def burn_token_def)
qed

section \<open>The versions of one request\<close>

text \<open>The latest version is the first.  A run reads any versions, however old.\<close>

inductive evolves :: "reconciler \<Rightarrow> api_server \<Rightarrow> string \<Rightarrow> sudo_request list \<Rightarrow> bool"
  for R :: reconciler and A :: api_server and cns :: string where
  born: "Phase (Status sr) = NoPhase \<Longrightarrow> evolves R A cns [sr]"
| touched: "evolves R A cns (cur # past) \<Longrightarrow> metadata_write cur new \<Longrightarrow> fresh_version new (cur # past) \<Longrightarrow>
     evolves R A cns (new # cur # past)"
| reconciled: "evolves R A cns (cur # past) \<Longrightarrow> reconciler_writes R cs obj \<Longrightarrow>
     (\<And>sr. shown_by_name cs cur sr \<Longrightarrow> sr \<in> set (cur # past)) \<Longrightarrow>
     accepted_write cur obj new \<Longrightarrow> fresh_version new (cur # past) \<Longrightarrow> evolves R A cns (new # cur # past)"
| served: "evolves R A cns (cur # past) \<Longrightarrow> api_writes A cs obj \<Longrightarrow>
     (\<And>sr. shown_by_uid cs cur sr \<Longrightarrow> sr \<in> set (cur # past)) \<Longrightarrow>
     accepted_write cur obj new \<Longrightarrow> fresh_version new (cur # past) \<Longrightarrow> evolves R A cns (new # cur # past)"
| collected: "evolves R A cns (cur # past) \<Longrightarrow> collector_writes cns cs obj \<Longrightarrow>
     (\<And>sr. shown_by_uid cs cur sr \<Longrightarrow> sr \<in> set (cur # past)) \<Longrightarrow>
     accepted_write cur obj new \<Longrightarrow> fresh_version new (cur # past) \<Longrightarrow> evolves R A cns (new # cur # past)"

lemma evolves_one_object: "evolves R A cns vs \<Longrightarrow> one_object vs"
proof (induction rule: evolves.induct)
  case (born sr)
  then show ?case by (simp add: one_object_def)
qed (auto intro!: one_object_step simp: metadata_write_def accepted_write_def)

lemma evolves_refines:
  "evolves R A cns vs \<Longrightarrow> Playbook (Spec (hd vs)) = None \<Longrightarrow> successively keeps_or_steps vs"
proof (induction rule: evolves.induct)
  case (reconciled cur past cs obj new)
  then show ?case
    using reconciler_writer.refines [OF evolves_one_object [OF reconciled.hyps(1)] _ _ reconciled.hyps(2,4,3)]
    by (simp add: accepted_write_def)
next
  case (served cur past cs obj new)
  then show ?case
    using api_writer.refines [OF evolves_one_object [OF served.hyps(1)] _ _ served.hyps(2,4,3)]
    by (simp add: accepted_write_def)
next
  case (collected cur past cs obj new)
  then show ?case
    using collector_writer.refines [OF evolves_one_object [OF collected.hyps(1)] _ _ collected.hyps(2,4,3)]
    by (simp add: accepted_write_def)
qed (simp_all add: metadata_write_def keeps_or_steps_def)

lemma evolves_writes:
  "evolves R A cns vs \<Longrightarrow> successively (\<lambda>new old. writes_once (Status old) (Status new) \<and> keeps_image new old) vs"
proof (induction rule: evolves.induct)
  case (reconciled cur past cs obj new)
  then show ?case
    using reconciler_writer.keeps_identities [OF evolves_one_object [OF reconciled.hyps(1)] reconciled.hyps(2,4,3)] by simp
next
  case (served cur past cs obj new)
  then show ?case
    using api_writer.keeps_identities [OF evolves_one_object [OF served.hyps(1)] served.hyps(2,4,3)] by simp
next
  case (collected cur past cs obj new)
  then show ?case
    using collector_writer.keeps_identities [OF evolves_one_object [OF collected.hyps(1)] collected.hyps(2,4,3)] by simp
qed (simp_all add: metadata_write_def)

lemma evolves_once: "evolves R A cns vs \<Longrightarrow> successively (\<lambda>new old. writes_once (Status old) (Status new)) vs"
  by (drule evolves_writes) (erule successively_mono, simp)

lemma evolves_image: "evolves R A cns vs \<Longrightarrow> successively keeps_image vs"
  by (drule evolves_writes) (erule successively_mono, simp)

lemma evolves_nonempty: "evolves R A cns vs \<Longrightarrow> vs \<noteq> []"
  by (induction rule: evolves.induct) simp_all

section \<open>Histories\<close>

lemma later_reached:
  assumes "successively keeps_or_steps (later @ sr # earlier)" and "x \<in> set later"
  shows "lifecycle_step\<^sup>*\<^sup>* (Phase (Status sr)) (Phase (Status x))"
proof -
  from assms(2) obtain a b where "later = a @ x # b" by (meson split_list)
  with assms(1) have "successively keeps_or_steps (x # b @ sr # earlier)" by (simp add: successively_append_iff)
  then show ?thesis by (rule earlier_reaches) simp
qed

lemma evolves_last: "evolves R A cns vs \<Longrightarrow> Phase (Status (last vs)) = NoPhase"
  by (induction rule: evolves.induct) simp_all

lemma finished_after_approval:
  "successively keeps_or_steps (cur # past) \<Longrightarrow> Phase (Status (last (cur # past))) = NoPhase \<Longrightarrow>
     Phase (Status cur) \<in> {Executed, Failed} \<Longrightarrow> \<exists>x\<in>set past. Phase (Status x) = Approved"
proof (induction past arbitrary: cur)
  case Nil
  then show ?case by auto
next
  case (Cons old past)
  then have "keeps_or_steps cur old" by simp
  with Cons.prems(3) have "Phase (Status old) \<in> {Approved, Executed, Failed}"
    by (cases "Phase (Status old)") (auto simp: keeps_or_steps_def lifecycle_from)
  with Cons show ?case by auto
qed

text \<open>A name, once stored, is the name of every version that has one.\<close>

lemma later_once:
  assumes "successively (\<lambda>new old. writes_once (Status old) (Status new)) (cur # past)" and "x \<in> set (cur # past)"
  shows "writes_once (Status x) (Status cur)"
  using assms
proof (induction past arbitrary: cur)
  case Nil
  then show ?case by simp
next
  case (Cons old past)
  then show ?case using writes_once_trans by (cases "x = cur") auto
qed

lemma one_name:
  assumes "evolves R A cns vs" and "x \<in> set vs" "y \<in> set vs"
    and "ExecutorJobName (Status x) \<noteq> ''''" "ExecutorJobName (Status y) \<noteq> ''''"
  shows "ExecutorJobName (Status x) = ExecutorJobName (Status y)"
proof (cases vs)
  case (Cons cur past)
  then have "writes_once (Status x) (Status cur)" "writes_once (Status y) (Status cur)"
    using later_once evolves_once [OF assms(1)] assms(2,3) by auto
  with assms(4,5) show ?thesis by (simp add: writes_once_def)
qed (use assms(2) in simp)

lemma created_name:
  assumes "calls (Reconcile W R ns nm) h = u @ CreateJob j r # v"
  obtains cur where "seen (set u) cur" and "ExecutorJobName (Status cur) \<noteq> ''''"
    and "j_Name j = ExecutorJobName (Status cur)" and "j_Namespace j = executorNamespace cur (controllerNamespace R)"
proof (rule Reconcile_handler [OF assms])
  fix sr
  assume "GetSR True ns nm (Inr sr) \<in> set u" "handler_call R sr (length h) (h @ u) (CreateJob j r)"
  then obtain cur where cur: "approved_now sr (set u) cur" "launchable R cur" "may_create R cur (set u) j"
    using handler_CreateJob by fastforce
  from cur(1) have "seen (set u) cur" by (auto simp: approved_now_def intro: seenI(1))
  with cur(2,3) show ?thesis using that [of cur]
    by (auto simp: launchable_def may_create_def executor_job_def buildExecutorJob_def Let_def)
qed simp

section \<open>Properties\<close>

text \<open>A first version, and the version a run of the reconciler makes of it by its first write.\<close>

definition writes_to :: "sudo_request \<Rightarrow> phase \<Rightarrow> call \<Rightarrow> bool" where
  "writes_to x p c \<longleftrightarrow> (case c of UpdateStatus obj r \<Rightarrow> Phase (Status obj) = p \<and> same_request obj x | _ \<Rightarrow> False)"

lemma shows_only_seen: "list_all (shows_only x) u \<Longrightarrow> seen (set u) sr \<Longrightarrow> sr = x"
  by (fastforce simp: seen_def list_all_iff shows_only_def)

lemma write_history:
  assumes past: "evolves R A cns (x # past)"
    and "list_ex P (run W R)" and "list_all (shows_only x) (takeWhile (\<lambda>c. \<not> P c) (run W R))"
    and P: "\<And>c. P c \<Longrightarrow> \<exists>obj r. c = UpdateStatus obj r \<and> same_request obj x \<and> obj\<lparr>ResourceVersion := v\<rparr> \<in> N"
    and "v \<notin> ResourceVersion ` set (x # past)"
  obtains new where "evolves R A cns (new # x # past)" and "new \<in> N" and "Spec new = Spec x" and "ResourceVersion new = v"
proof -
  obtain u c w where r: "run W R = u @ c # w" "P c" "list_all (shows_only x) u"
    using assms(2,3) by (rule makes_first)
  then obtain obj a where c: "run W R = u @ UpdateStatus obj a # w" "same_request obj x" "obj\<lparr>ResourceVersion := v\<rparr> \<in> N"
    using P by blast
  let ?new = "obj\<lparr>ResourceVersion := v\<rparr>"
  have "evolves R A cns (?new # x # past)"
  proof (rule evolves.reconciled [OF past])
    show "reconciler_writes R (set u) obj" using c(1) unfolding reconciler_writes_def by blast
    show "\<And>sr. shown_by_name (set u) x sr \<Longrightarrow> sr \<in> set (x # past)" using shows_only_seen [OF r(3)] by (simp add: shown_by_name_def)
    show "accepted_write x obj ?new" using c(2) by (simp add: accepted_write_def same_request_def)
    show "fresh_version ?new (x # past)" using assms(5) by (simp add: fresh_version_def)
  qed
  then show ?thesis using that [of ?new] c(2,3) by (simp add: same_request_def)
qed

lemma first_write_history:
  assumes "list_ex (writes_to x p) (run W R)"
    and "list_all (shows_only x) (takeWhile (\<lambda>c. \<not> writes_to x p c) (run W R))"
    and "Phase (Status x) = NoPhase" and "ResourceVersion x = ''7''"
  obtains new where "evolves R A cns [new, x]" and "Phase (Status new) = p" and "Spec new = Spec x"
    and "ResourceVersion new = ''8''"
proof (rule write_history [OF born [OF assms(3)] assms(1,2), of "''8''" "{new. Phase (Status new) = p}"])
  show "\<exists>obj r. c = UpdateStatus obj r \<and> same_request obj x \<and> obj\<lparr>ResourceVersion := ''8''\<rparr> \<in> {new. Phase (Status new) = p}"
    if "writes_to x p c" for c
    using that by (auto simp: writes_to_def split: call.splits)
qed (use that assms(4) in auto)

lemma sample_first_write:
  "list_ex (writes_to sample_request Pending) (run (world_of sample_request) sample_reconciler)"
  "list_all (shows_only sample_request)
     (takeWhile (\<lambda>c. \<not> writes_to sample_request Pending c) (run (world_of sample_request) sample_reconciler))"
proof -
  have d: "DeletionTimestamp sample_request = None" "Phase (Status sample_request) = NoPhase" by (simp_all add: samples)
  show "list_ex (writes_to sample_request Pending) (run (world_of sample_request) sample_reconciler)"
    "list_all (shows_only sample_request)
       (takeWhile (\<lambda>c. \<not> writes_to sample_request Pending c) (run (world_of sample_request) sample_reconciler))"
    by (simp_all add: calls_def Reconcile_def dispatch_def runs world_sel d sample_new await_approval_def randomToken_def
        Let_def pending_status_def shows_only_def writes_to_def)
qed

lemma parked_history:
  obtains new where "evolves sample_reconciler sample_api ''ctl'' [new, sample_request]" and "Phase (Status new) = Pending"
    and "Spec new = Spec sample_request"
proof -
  have "Phase (Status sample_request) = NoPhase" "ResourceVersion sample_request = ''7''" by (simp_all add: samples)
  with first_write_history [OF sample_first_write] that show ?thesis by blast
qed

lemma refused_history:
  obtains new where "evolves sample_reconciler sample_api ''ctl'' [new, broken_request]" and "Phase (Status new) = Denied"
    and "Spec new = Spec broken_request" and "ResourceVersion new = ''8''"
proof -
  have b: "DeletionTimestamp broken_request = None" "Phase (Status broken_request) = NoPhase"
    "Command (Spec broken_request) = ''''"
    by (simp_all add: broken_request_def samples)
  have e: "validateCommandSyntax (rc_lib sample_reconciler) '''' = Some (Wrap ''invalid shell syntax'' (Text ''empty''))"
    by (simp add: validateCommandSyntax_def samples)
  have r: "list_ex (writes_to broken_request Denied) (run (world_of broken_request) sample_reconciler)"
    "list_all (shows_only broken_request)
       (takeWhile (\<lambda>c. \<not> writes_to broken_request Denied c) (run (world_of broken_request) sample_reconciler))"
    by (simp_all add: calls_def Reconcile_def dispatch_def handleNew_def deny_new_def runs world_sel b e Let_def
        denied_status_def shows_only_def writes_to_def)
  have "ResourceVersion broken_request = ''7''" by (simp add: broken_request_def samples)
  with first_write_history [OF r b(2)] that show ?thesis by blast
qed

text \<open>
  C6: the stored phases refine the phase machine.  Take the versions of a request without a playbook
  as the API server keeps them while runs of Reconcile, of the HTTP API and of the collector
  interleave with reads as stale as any cache, writes being accepted on the latest version only: from
  each version to the next the phase is kept, or it makes a step of the machine.
\<close>

theorem stored_phases_refine_the_lifecycle:
  assumes "evolves R A cns vs" and "Playbook (Spec (hd vs)) = None"
  shows "successively (\<lambda>new old. Phase (Status new) = Phase (Status old) \<or>
    lifecycle_step (Phase (Status old)) (Phase (Status new))) vs"
  using evolves_refines [OF assms] by (simp add: keeps_or_steps_def [abs_def])

theorem stored_phases_refine_the_lifecycle_witness:
  "\<exists>new. evolves sample_reconciler sample_api ''ctl'' [new, sample_request] \<and>
    lifecycle_step (Phase (Status sample_request)) (Phase (Status new))"
proof -
  obtain new where n: "evolves sample_reconciler sample_api ''ctl'' [new, sample_request]" "Phase (Status new) = Pending"
      "Spec new = Spec sample_request"
    by (rule parked_history)
  moreover have "Phase (Status sample_request) = NoPhase" "Playbook (Spec sample_request) = None" by (simp_all add: samples)
  ultimately show ?thesis using stored_phases_refine_the_lifecycle [OF n(1)] by auto
qed

text \<open>
  C7: a decision is final.  In the same histories, a request that was stored as denied or expired is
  so in every later version; and a request is stored as executed or failed only after a version that
  was stored as approved.
\<close>

theorem denial_is_final_and_execution_needs_approval:
  assumes "evolves R A cns (later @ sr # earlier)" and "Playbook (Spec sr) = None"
  shows "(Phase (Status sr) \<in> {Denied, Expired} \<longrightarrow> (\<forall>x\<in>set later. Phase (Status x) = Phase (Status sr))) \<and>
    (Phase (Status sr) \<in> {Executed, Failed} \<longrightarrow> (\<exists>x\<in>set earlier. Phase (Status x) = Approved))"
proof (intro conjI impI ballI)
  have "Playbook (Spec (hd (later @ sr # earlier))) = None"
    using evolves_one_object [OF assms(1)] assms(2) by (auto simp: one_object_def)
  then have chain: "successively keeps_or_steps (later @ sr # earlier)" by (rule evolves_refines [OF assms(1)])
  show "Phase (Status x) = Phase (Status sr)" if "Phase (Status sr) \<in> {Denied, Expired}" "x \<in> set later" for x
    using later_reached [OF chain that(2)] that(1) by (auto elim: converse_rtranclpE simp: lifecycle_from)
  show "\<exists>x\<in>set earlier. Phase (Status x) = Approved" if "Phase (Status sr) \<in> {Executed, Failed}"
    using finished_after_approval [of sr earlier] chain evolves_last [OF assms(1)] that
    by (simp add: successively_append_iff)
qed

theorem denial_is_final_and_execution_needs_approval_witness:
  "\<exists>later new. evolves sample_reconciler sample_api ''ctl'' [later, new, broken_request] \<and>
    Phase (Status new) = Denied \<and> Phase (Status later) = Denied"
proof -
  obtain new where n: "evolves sample_reconciler sample_api ''ctl'' [new, broken_request]" "Phase (Status new) = Denied"
      "Spec new = Spec broken_request" "ResourceVersion new = ''8''"
    by (rule refused_history)
  have b: "ResourceVersion broken_request = ''7''" "Playbook (Spec broken_request) = None"
    by (simp_all add: broken_request_def samples)
  let ?later = "new\<lparr>Finalizers := [executorCleanupFinalizer], ResourceVersion := ''9''\<rparr>"
  have e: "evolves sample_reconciler sample_api ''ctl'' [?later, new, broken_request]"
    by (rule touched [OF n(1)]) (simp_all add: metadata_write_def fresh_version_def n(4) b)
  with denial_is_final_and_execution_needs_approval [of sample_reconciler sample_api "''ctl''" "[?later]" new "[broken_request]"] n b
  show ?thesis by (intro exI [of _ ?later] exI [of _ new]) simp
qed

text \<open>A request that a rule lists, approved, named and started by three runs.\<close>

definition listing_reconciler :: reconciler where
  "listing_reconciler = sample_reconciler\<lparr>rc_rules := [\<lparr>ar_Exact = [''date''], ar_Prefix = [], ar_Image = ''''\<rparr>]\<rparr>"

definition listed_request :: sudo_request where
  "listed_request = sample_request\<lparr>ResourceVersion := ''8'', Status := zero_status\<lparr>Phase := Approved,
     ResolvedImage := pr_Image kubectl_profile, ResolvedProfile := pr_Name kubectl_profile,
     PreflightWarnings := command_warnings ''date'', ApprovedBy := ''auto-approve'', ApprovedAt := Some 60000000000\<rparr>\<rparr>"

definition named_request :: sudo_request where
  "named_request = listed_request\<lparr>ResourceVersion := ''9'',
     Status := (Status listed_request)\<lparr>ExecutorJobName := ''sudo-exec-6161616161616161''\<rparr>\<rparr>"

definition stores_next :: "sudo_request \<Rightarrow> sudo_request \<Rightarrow> call \<Rightarrow> bool" where
  "stores_next x y c \<longleftrightarrow> (case c of UpdateStatus obj r \<Rightarrow>
     obj\<lparr>ResourceVersion := ResourceVersion y\<rparr> = y \<and> ResourceVersion obj = ResourceVersion x | _ \<Rightarrow> False)"

lemma stores_nextD:
  assumes "stores_next x y c" and "same_request (y\<lparr>ResourceVersion := ResourceVersion x\<rparr>) x"
  shows "\<exists>obj r. c = UpdateStatus obj r \<and> same_request obj x \<and> obj\<lparr>ResourceVersion := ResourceVersion y\<rparr> \<in> {y}"
proof -
  from assms(1) obtain obj r where o: "c = UpdateStatus obj r" "obj\<lparr>ResourceVersion := ResourceVersion y\<rparr> = y"
      "ResourceVersion obj = ResourceVersion x"
    by (auto simp: stores_next_def split: call.splits)
  from o(2,3) have "obj = y\<lparr>ResourceVersion := ResourceVersion x\<rparr>" by (cases obj; cases y) simp
  with assms(2) o(1,2) show ?thesis by simp
qed

lemma listing_accepted: "accepted_new listing_reconciler sample_request"
  using sample_accepted
  by (simp add: accepted_new_def spec_error_new_def controllerNamespace_def listing_reconciler_def)

lemma listing_tokens:
  "autoApproveTokens (rc_lib listing_reconciler) (rc_rules listing_reconciler)
     (resolved_new (Inr (Some kubectl_profile, pr_Image kubectl_profile, ws)) sample_request) = Some [''date'']"
  by code_simp

lemma listing_new:
  "handleNew W listing_reconciler sample_request =
     auto_approve_new W (resolved_new (resolveAndPreflight (rc_lib sample_reconciler) sample_request) sample_request)"
proof -
  have pb: "Playbook (Spec sample_request) = None" by (simp add: samples)
  have "rc_lib listing_reconciler = rc_lib sample_reconciler" by (simp add: listing_reconciler_def)
  with listing_accepted listing_tokens show ?thesis
    by (simp add: accepted_new_def handleNew_def admit_new_def prepareAutoApprovedPlaybook_def pb Let_def attempt_def sample_preflight)
qed

lemma listed_run:
  "list_ex (stores_next sample_request listed_request) (run (world_of sample_request) listing_reconciler)"
  "list_all (shows_only sample_request)
     (takeWhile (\<lambda>c. \<not> stores_next sample_request listed_request c) (run (world_of sample_request) listing_reconciler))"
proof -
  have d: "DeletionTimestamp sample_request = None" "Phase (Status sample_request) = NoPhase"
    "ResourceVersion sample_request = ''7''" "ResourceVersion listed_request = ''8''" by (simp_all add: samples listed_request_def)
  have "Status_update (auto_approved_status 60000000000)
      (resolved_new (resolveAndPreflight (rc_lib sample_reconciler) sample_request) sample_request)
    = listed_request\<lparr>ResourceVersion := ''7''\<rparr>"
    unfolding sample_preflight
    by (simp add: resolved_new_def resolve_status_def auto_approved_status_def listed_request_def Let_def
        sample_request_def zero_status_def)
  moreover have "listed_request\<lparr>ResourceVersion := ''8''\<rparr> = listed_request" by (simp add: listed_request_def)
  ultimately show "list_ex (stores_next sample_request listed_request) (run (world_of sample_request) listing_reconciler)"
    "list_all (shows_only sample_request)
       (takeWhile (\<lambda>c. \<not> stores_next sample_request listed_request c) (run (world_of sample_request) listing_reconciler))"
    by (simp_all add: calls_def Reconcile_def dispatch_def runs world_sel d listing_new auto_approve_new_def
        stores_next_def shows_only_def)
qed

lemma named_run:
  "list_ex (stores_next listed_request named_request) (run (world_of listed_request) listing_reconciler)"
  "list_all (shows_only listed_request)
     (takeWhile (\<lambda>c. \<not> stores_next listed_request named_request c) (run (world_of listed_request) listing_reconciler))"
  by code_simp+

text \<open>The creation of the Job is lost once, and made again.\<close>

definition losing_world :: world where
  "losing_world = (world_of named_request)\<lparr>w_create_job := \<lambda>h j. Inl (Text ''timeout'')\<rparr>"

definition creates_job :: "call \<Rightarrow> bool" where
  "creates_job c \<longleftrightarrow> (case c of CreateJob j r \<Rightarrow> True | _ \<Rightarrow> False)"

lemma starting_run:
  "list_ex creates_job (run (world_of named_request) listing_reconciler)"
  "list_all (shows_only named_request)
     (takeWhile (\<lambda>c. \<not> creates_job c) (run (world_of named_request) listing_reconciler))"
  "list_ex creates_job (run losing_world listing_reconciler)"
  "list_all (shows_only named_request) (takeWhile (\<lambda>c. \<not> creates_job c) (run losing_world listing_reconciler))"
  by code_simp+

lemma creating_run:
  assumes "list_ex creates_job (run W R)" and "list_all (shows_only x) (takeWhile (\<lambda>c. \<not> creates_job c) (run W R))"
  obtains u j r v where "run W R = u @ CreateJob j r # v" and "\<And>sr. seen (set u) sr \<Longrightarrow> sr = x"
proof -
  obtain u c v where u: "run W R = u @ c # v" "creates_job c" "list_all (shows_only x) u"
    using assms by (rule makes_first)
  then show ?thesis using that shows_only_seen [OF u(3)] by (auto simp: creates_job_def split: call.splits)
qed

lemma named_history: "evolves listing_reconciler A cns [named_request, listed_request, sample_request]"
proof -
  have v: "ResourceVersion sample_request = ''7''" "ResourceVersion listed_request = ''8''" "ResourceVersion named_request = ''9''"
    by (simp_all add: samples listed_request_def named_request_def)
  have s: "same_request (listed_request\<lparr>ResourceVersion := ResourceVersion sample_request\<rparr>) sample_request"
    "same_request (named_request\<lparr>ResourceVersion := ResourceVersion listed_request\<rparr>) listed_request"
    by (simp_all add: same_request_def samples listed_request_def named_request_def)
  have "Phase (Status sample_request) = NoPhase" by (simp add: samples)
  then have "evolves listing_reconciler A cns [sample_request]" by (rule born)
  then have "evolves listing_reconciler A cns [listed_request, sample_request]"
    by (rule write_history [OF _ listed_run stores_nextD]) (use s v in auto)
  then show ?thesis
    by (rule write_history [OF _ named_run stores_nextD]) (use s v in auto)
qed

text \<open>
  C8: a request has one executor Job name.  Take two runs of Reconcile in such a history, at any two
  points of it, with reads as stale as any cache: the Jobs they ask the API server to create have the
  same name and namespace, so at most one of them can exist at a time, whatever number of runs,
  crashes and retries lies between.
\<close>

theorem one_job_name_per_request:
  assumes "evolves R A cns vs"
    and "calls (Reconcile W R ns nm) h = u @ CreateJob j r # v" and "\<And>sr. seen (set u) sr \<Longrightarrow> sr \<in> set vs"
    and "calls (Reconcile W' R ns' nm') h' = u' @ CreateJob j' r' # v'" and "\<And>sr. seen (set u') sr \<Longrightarrow> sr \<in> set vs"
  shows "j_Name j = j_Name j' \<and> j_Namespace j = j_Namespace j'"
proof (rule created_name [OF assms(2)], rule created_name [OF assms(4)])
  fix cur cur'
  assume c: "seen (set u) cur" "ExecutorJobName (Status cur) \<noteq> ''''" "j_Name j = ExecutorJobName (Status cur)"
    "j_Namespace j = executorNamespace cur (controllerNamespace R)"
    and c': "seen (set u') cur'" "ExecutorJobName (Status cur') \<noteq> ''''" "j_Name j' = ExecutorJobName (Status cur')"
    "j_Namespace j' = executorNamespace cur' (controllerNamespace R)"
  note vs = assms(3) [OF c(1)] assms(5) [OF c'(1)]
  have "Spec cur = Spec cur'" by (rule same_spec [OF evolves_one_object [OF assms(1)] vs])
  then show ?thesis
    using c c' one_name [OF assms(1) vs c(2) c'(2)] by (simp add: executorNamespace_def)
qed

theorem one_job_name_per_request_witness:
  "\<exists>u j r v u' j' r' v'. run losing_world listing_reconciler = u @ CreateJob j r # v \<and>
    run (world_of named_request) listing_reconciler = u' @ CreateJob j' r' # v' \<and>
    evolves listing_reconciler sample_api ''ctl'' [named_request, listed_request, sample_request] \<and>
    j_Name j = j_Name j' \<and> j_Namespace j = j_Namespace j'"
proof -
  obtain u j r v where c: "run losing_world listing_reconciler = u @ CreateJob j r # v"
    and u: "\<And>sr. seen (set u) sr \<Longrightarrow> sr = named_request"
    using starting_run(3,4) by (rule creating_run) blast
  obtain u' j' r' v' where c': "run (world_of named_request) listing_reconciler = u' @ CreateJob j' r' # v'"
    and u': "\<And>sr. seen (set u') sr \<Longrightarrow> sr = named_request"
    using starting_run(1,2) by (rule creating_run) blast
  have "j_Name j = j_Name j' \<and> j_Namespace j = j_Namespace j'"
    by (rule one_job_name_per_request [OF named_history c _ c']) (use u u' in auto)
  with c c' named_history show ?thesis by blast
qed

end
