(* ===== verification/Submissions.thy ===== *)
theory Submissions
  imports Store
begin

text \<open>
  Submissions one after the other: the mutex of the server (\<^verbatim>\<open>requestMu\<close>) is held from the search for a
  duplicate to the creation, so that no other request is created in between.  The requests created
  this way, each with its history of stored versions, never hold two live equivalent requests of one
  requester.
\<close>

section \<open>The fingerprint of a history\<close>

text \<open>The recorded image is the one the spec resolves to, so recording it does not change the fingerprint.\<close>

definition own_image :: "sudo_request \<Rightarrow> bool" where
  "own_image sr \<longleftrightarrow> ResolvedImage (Status sr) = '''' \<or> (\<exists>p. resolveExecutorProfile sr = Inr (p, ResolvedImage (Status sr)))"

lemma resolve_spec: "Spec a = Spec b \<Longrightarrow> resolveExecutorProfile a = resolveExecutorProfile b"
  by (simp add: resolveExecutorProfile_def)

lemma own_image_step: "keeps_image new old \<Longrightarrow> Spec new = Spec old \<Longrightarrow> own_image old \<Longrightarrow> own_image new"
  using resolve_spec [of new old] by (auto simp: own_image_def keeps_image_def)

lemma resolve_effective: "resolveExecutorProfile (sr\<lparr>Spec := effective_spec cns (Spec sr)\<rparr>) = resolveExecutorProfile sr"
  by (auto simp: resolveExecutorProfile_def effective_spec_sel Let_def split: option.split)

lemma own_image_fingerprint:
  assumes "own_image a" "own_image b" "Spec a = Spec b"
  shows "executionFingerprint L a cns = executionFingerprint L b cns"
proof -
  have "fingerprint_image x (effective_spec c (Spec x)) = map_sum id snd (resolveExecutorProfile x)" if "own_image x" for x c
    using that by (auto simp: fingerprint_image_def resolve_effective own_image_def split: sum.split)
  from this [OF assms(1)] this [OF assms(2)] show ?thesis
    by (simp add: executionFingerprint_def Let_def assms(3) resolve_spec [OF assms(3)])
qed

lemma history_own_image:
  assumes "successively keeps_image vs" and "\<forall>x\<in>set vs. Spec x = s" and "vs \<noteq> []" and "own_image (last vs)"
  shows "\<forall>x\<in>set vs. own_image x"
  using assms
proof (induction vs)
  case (Cons new vs)
  show ?case
  proof (cases vs)
    case (Cons old past)
    with Cons.prems have "\<forall>x\<in>set vs. own_image x" by (intro Cons.IH) simp_all
    moreover have "own_image new"
      by (rule own_image_step [of _ old]) (use Cons Cons.prems(1,2) calculation in simp_all)
    ultimately show ?thesis by simp
  qed (use Cons.prems(4) in simp)
qed simp

text \<open>A history that began with an empty status: what the API creates.\<close>

definition member_history :: "reconciler \<Rightarrow> api_server \<Rightarrow> string \<Rightarrow> sudo_request list \<Rightarrow> bool" where
  "member_history R A cns vs \<longleftrightarrow> evolves R A cns vs \<and> Status (last vs) = zero_status"

lemma member_same:
  assumes "member_history R A cns vs" and "x \<in> set vs" "y \<in> set vs"
  shows "Spec x = Spec y" and "executionFingerprint L x n = executionFingerprint L y n"
proof -
  have e: "evolves R A cns vs" and z: "Status (last vs) = zero_status" using assms(1) by (simp_all add: member_history_def)
  have one: "\<forall>x\<in>set vs. Spec x = Spec (hd vs)" using evolves_one_object [OF e] unfolding one_object_def by blast
  have "own_image (last vs)" using z by (simp add: own_image_def zero_status_def)
  then have "\<forall>x\<in>set vs. own_image x"
    by (rule history_own_image [OF evolves_image [OF e] one evolves_nonempty [OF e]])
  moreover show "Spec x = Spec y" by (rule same_spec [OF evolves_one_object [OF e] assms(2,3)])
  ultimately show "executionFingerprint L x n = executionFingerprint L y n"
    using assms(2,3) by (intro own_image_fingerprint) simp_all
qed

text \<open>Decided once, decided for good.\<close>

lemma decided_step: "lifecycle_step p q \<Longrightarrow> \<not> undecided p \<Longrightarrow> \<not> undecided q"
  by (cases p) (auto simp: undecided_def lifecycle_from)

lemma decided_reaches: "lifecycle_step\<^sup>*\<^sup>* p q \<Longrightarrow> \<not> undecided p \<Longrightarrow> \<not> undecided q"
  by (induction rule: rtranclp_induct) (auto dest: decided_step)

lemma member_decided:
  assumes "member_history R A cns vs" and "Playbook (Spec (hd vs)) = None" and "x \<in> set vs"
    and "\<not> undecided (Phase (Status x))"
  shows "\<not> undecided (Phase (Status (hd vs)))"
proof -
  from assms(3) obtain cur past where v: "vs = cur # past" by (cases vs) auto
  have "successively keeps_or_steps vs" using assms(1) evolves_refines [OF _ assms(2)] unfolding member_history_def by blast
  with assms(3) v have "lifecycle_step\<^sup>*\<^sup>* (Phase (Status x)) (Phase (Status cur))" by (intro earlier_reaches) simp_all
  from decided_reaches [OF this assms(4)] v show ?thesis by simp
qed

section \<open>The requests created by the API\<close>

text \<open>
  The histories of the requests, the latest created first.  A creation is the next call of a run of
  the API after a list which, the mutex being held and the reader uncached, shows some version of every
  request created before; the response to the creation may be lost.  Then any history grows as in
  \<open>evolves\<close>, and requests are deleted.
\<close>

inductive population :: "reconciler \<Rightarrow> api_server \<Rightarrow> string \<Rightarrow> sudo_request list list \<Rightarrow> bool"
  for R :: reconciler and A :: api_server and cns :: string where
  nobody: "population R A cns []"
| submitted: "population R A cns P \<Longrightarrow> calls (ServeHTTP W A req) h = u @ CreateSR gen obj r # v \<Longrightarrow>
     (\<And>cached ns shown vs. last u = ListSR cached ns (Inr shown) \<Longrightarrow> vs \<in> set P \<Longrightarrow> set shown \<inter> set vs \<noteq> {}) \<Longrightarrow>
     Spec new = Spec obj \<Longrightarrow> Status new = Status obj \<Longrightarrow> population R A cns ([new] # P)"
| written: "population R A cns (newer @ vs # older) \<Longrightarrow> evolves R A cns (new # vs) \<Longrightarrow>
     population R A cns (newer @ (new # vs) # older)"
| removed: "population R A cns (newer @ vs # older) \<Longrightarrow> population R A cns (newer @ older)"

text \<open>A request that an equivalent one was created after has been decided.\<close>

definition settled :: "api_server \<Rightarrow> sudo_request list \<Rightarrow> sudo_request list \<Rightarrow> bool" where
  "settled A vs ws \<longleftrightarrow>
     (Playbook (Spec (hd ws)) = None \<and> Requester (Spec (hd vs)) = Requester (Spec (hd ws)) \<and>
      (\<exists>want. executionFingerprint (as_lib A) (hd vs) (serverNamespace A) = Inr want \<and>
         executionFingerprint (as_lib A) (hd ws) (serverNamespace A) = Inr want) \<longrightarrow>
      \<not> undecided (Phase (Status (hd ws))))"

lemma member_grown:
  assumes "member_history R A cns vs" and "evolves R A cns (new # vs)"
  shows "member_history R A cns (new # vs)" and "Spec new = Spec (hd vs)"
    and "executionFingerprint L new n = executionFingerprint L (hd vs) n"
    and "Playbook (Spec new) = None \<Longrightarrow> undecided (Phase (Status new)) \<Longrightarrow> undecided (Phase (Status (hd vs)))"
proof -
  have ne: "vs \<noteq> []" using assms(1) evolves_nonempty by (auto simp: member_history_def)
  with assms show m: "member_history R A cns (new # vs)" by (simp add: member_history_def)
  have i: "new \<in> set (new # vs)" "hd vs \<in> set (new # vs)" using ne by simp_all
  show "Spec new = Spec (hd vs)" "executionFingerprint L new n = executionFingerprint L (hd vs) n"
    by (rule member_same [OF m i])+
  show "Playbook (Spec new) = None \<Longrightarrow> undecided (Phase (Status new)) \<Longrightarrow> undecided (Phase (Status (hd vs)))"
    using member_decided [OF m _ i(2)] by auto
qed

lemma settled_grown:
  assumes "member_history R A cns vs" and "evolves R A cns (new # vs)"
  shows "settled A vs ws \<Longrightarrow> settled A (new # vs) ws" and "settled A ws vs \<Longrightarrow> settled A ws (new # vs)"
  using member_grown [OF assms] by (auto simp: settled_def)

text \<open>The list before the creation shows that every earlier equivalent request is decided.\<close>

lemma settled_created:
  assumes c: "calls (ServeHTTP W A req) h = u @ CreateSR gen obj r # v"
    and shown: "\<And>cached ns shown. last u = ListSR cached ns (Inr shown) \<Longrightarrow> set shown \<inter> set vs \<noteq> {}"
    and new: "Spec new = Spec obj" "Status new = Status obj" and vs: "member_history R A cns vs"
  shows "settled A [new] vs"
proof -
  let ?fp = "\<lambda>sr. executionFingerprint (as_lib A) sr (serverNamespace A)"
  from created_checked [OF c] obtain its want where l: "last u = ListSR (\<not> as_APIReader A) (serverNamespace A) (Inr its)"
    and want: "?fp obj = Inr want" and free: "\<not> (\<exists>sr\<in>set its. duplicate_of (as_lib A) (serverNamespace A) obj want sr)"
    unfolding no_duplicate_def by (auto dest: sym)
  from shown [OF l] obtain x where x: "x \<in> set its" "x \<in> set vs" by blast
  have hd: "hd vs \<in> set vs" using x(2) by (cases vs) simp_all
  have "?fp new = Inr want" using executionFingerprint_spec [of "serverNamespace A" new obj "as_lib A"] new want by simp
  moreover have "\<not> duplicate_of (as_lib A) (serverNamespace A) obj want x" using free x(1) by blast
  moreover note same = member_same [OF vs x(2) hd]
  ultimately show ?thesis
    unfolding settled_def using same(1) same(2) [of "as_lib A" "serverNamespace A"] new(1) member_decided [OF vs _ x(2)]
    by (auto simp: duplicate_of_def)
qed

lemma population_inv:
  "population R A cns P \<Longrightarrow> (\<forall>vs\<in>set P. member_history R A cns vs) \<and> sorted_wrt (settled A) P"
proof (induction rule: population.induct)
  case (submitted P W req h u gen obj r v new)
  have "Status new = zero_status" using http_create [OF submitted.hyps(2)] submitted.hyps(5) by simp
  then have "member_history R A cns [new]" by (simp add: member_history_def zero_status_def evolves.born)
  moreover have "settled A [new] vs" if "vs \<in> set P" for vs
    by (rule settled_created [OF submitted.hyps(2)]) (use submitted.hyps(3-5) submitted.IH that in auto)
  ultimately show ?case using submitted.IH by simp
next
  case (written newer vs older new)
  then have m: "member_history R A cns vs" by simp
  show ?case
    using written.IH settled_grown [OF m written.hyps(2)] member_grown(1) [OF m written.hyps(2)]
    by (auto simp: sorted_wrt_append)
qed (auto simp: sorted_wrt_append)

section \<open>Properties\<close>

text \<open>A request that waits for a human until the collector expires it.\<close>

lemma offered_only:
  "list_all (\<lambda>c. lists_only x c \<and> shows_only x c) u \<Longrightarrow> offered (set u) sr \<Longrightarrow> sr = x"
  using shows_only_seen [of x u sr] by (fastforce simp: offered_def list_all_iff lists_only_def)

lemma expired_history:
  assumes "evolves R A ''ctl'' (x # past)" and "Phase (Status x) = Pending" and "CreationTimestamp x = 0"
    and "v \<notin> ResourceVersion ` set (x # past)"
  shows "evolves R A ''ctl'' ((Status_update expired_status x)\<lparr>ResourceVersion := v\<rparr> # x # past)"
proof -
  obtain u c w where r: "calls (Start (late_world x) ''ctl'' [Tick]) [] = u @ c # w" "expires x c"
    "list_all (\<lambda>c. lists_only x c \<and> shows_only x c) u"
    using late_run [OF assms(2,3)] by (rule makes_first)
  then obtain obj a where o: "c = UpdateStatus obj a" "obj = Status_update expired_status x"
    by (auto simp: expires_def split: call.splits)
  show ?thesis
  proof (rule evolves.collected [OF assms(1), of "set u" obj])
    show "collector_writes ''ctl'' (set u) obj" using r(1) o(1) unfolding collector_writes_def by blast
    show "sr \<in> set (x # past)" if "shown_by_uid (set u) x sr" for sr
      using that offered_only [OF r(3)] by (simp add: shown_by_uid_def)
  qed (use o(2) assms(4) in \<open>simp_all add: accepted_write_def fresh_version_def\<close>)
qed

lemma abandoned_history:
  obtains last mid where "evolves sample_reconciler sample_api ''ctl'' [mid, sample_request]"
    and "evolves sample_reconciler sample_api ''ctl'' [last, mid, sample_request]"
    and "Phase (Status last) = Expired" and "Spec last = sample_spec"
proof -
  let ?N = "{new. Phase (Status new) = Pending \<and> CreationTimestamp new = 0}"
  have s: "Phase (Status sample_request) = NoPhase" "ResourceVersion sample_request = ''7''"
    "CreationTimestamp sample_request = 0" "Spec sample_request = sample_spec" by (simp_all add: samples)
  obtain mid where m: "evolves sample_reconciler sample_api ''ctl'' [mid, sample_request]" "mid \<in> ?N"
    "Spec mid = Spec sample_request" "ResourceVersion mid = ''8''"
  proof (rule write_history [OF evolves.born [OF s(1)] sample_first_write, of "''8''" ?N])
    show "\<exists>obj r. c = UpdateStatus obj r \<and> same_request obj sample_request \<and> obj\<lparr>ResourceVersion := ''8''\<rparr> \<in> ?N"
      if "writes_to sample_request Pending c" for c
      using that s(3) by (auto simp: writes_to_def same_request_def split: call.splits)
  qed (use s(2) in auto)
  then have "evolves sample_reconciler sample_api ''ctl''
      [(Status_update expired_status mid)\<lparr>ResourceVersion := ''9''\<rparr>, mid, sample_request]"
    using s(2) by (intro expired_history) simp_all
  from that [OF m(1) this] m(3) s(4) show ?thesis by (simp add: expired_status_def)
qed

lemma population_submit:
  assumes "population R sample_api cns P" and "\<not> undecided (Phase (Status x))"
    and "\<And>vs. vs \<in> set P \<Longrightarrow> x \<in> set vs"
  shows "population R sample_api cns ([sample_request] # P)"
proof -
  from create_run_of [OF assms(2)] obtain u gen obj r v where
    c: "served (world_of x) (by_requester ''POST'' ''/requests'') = u @ CreateSR gen obj r # v" "Spec obj = sample_spec"
      "list_all (lists_only x) u"
    by (elim makes) (auto split: call.splits)
  show ?thesis
  proof (rule submitted [OF assms(1) c(1)])
    fix cached ns shown vs
    assume l: "last u = ListSR cached ns (Inr shown)" and "vs \<in> set P"
    have "u \<noteq> []" using created_checked [OF c(1)] by simp
    then have "lists_only x (last u)" using c(3) by (simp add: list_all_iff)
    then have "shown = [x]" using l by (simp add: lists_only_def)
    with assms(3) \<open>vs \<in> set P\<close> show "set shown \<inter> set vs \<noteq> {}" by auto
  qed (use http_create [OF c(1)] c(2) in \<open>simp_all add: samples\<close>)
qed

text \<open>
  C10: no two live equivalent requests.  Take the requests the API creates, submitted or resubmitted, one
  creation after the other (the list before each shows some version of every request there is), while
  the reconciler, the API and the collector write to them and requests are deleted.  When two of them
  have the same requester and would execute the same, and the older asks for no playbook, then the
  older one has been decided: it is executed, failed, denied or expired.
\<close>

theorem equivalent_requests_never_both_live:
  assumes "population R A cns P" and "i < j" and "j < length P"
    and "Playbook (Spec (hd (P ! j))) = None" and "Requester (Spec (hd (P ! i))) = Requester (Spec (hd (P ! j)))"
    and "executionFingerprint (as_lib A) (hd (P ! i)) (serverNamespace A) = Inr want"
    and "executionFingerprint (as_lib A) (hd (P ! j)) (serverNamespace A) = Inr want"
  shows "\<not> undecided (Phase (Status (hd (P ! j))))"
  using population_inv [OF assms(1)] assms(2-) by (auto simp: sorted_wrt_iff_nth_less settled_def)

theorem equivalent_requests_never_both_live_witness:
  "\<exists>last mid. population sample_reconciler sample_api ''ctl'' [[sample_request], [last, mid, sample_request]] \<and>
    executionFingerprint sample_lib last ''ctl'' = executionFingerprint sample_lib sample_request ''ctl'' \<and>
    \<not> undecided (Phase (Status last))"
proof -
  obtain last mid where e: "evolves sample_reconciler sample_api ''ctl'' [mid, sample_request]"
    "evolves sample_reconciler sample_api ''ctl'' [last, mid, sample_request]"
    and l: "Phase (Status last) = Expired" "Spec last = sample_spec" by (rule abandoned_history)
  have s: "Spec sample_request = sample_spec" "Status sample_request = zero_status" by (simp_all add: samples)
  let ?pop = "population sample_reconciler sample_api ''ctl''"
  have "?pop [[sample_request]]"
    by (rule population_submit [OF nobody, of failed_request]) (simp_all add: undecided_def failed_sel)
  then have "?pop [[mid, sample_request]]" using written [of _ _ _ "[]" "[sample_request]" "[]"] e(1) by simp
  then have "?pop [[last, mid, sample_request]]" using written [of _ _ _ "[]" "[mid, sample_request]" "[]"] e(2) by simp
  then have p: "?pop [[sample_request], [last, mid, sample_request]]"
    by (rule population_submit [of _ _ _ last]) (simp_all add: undecided_def l)
  have f: "executionFingerprint sample_lib sample_request ''ctl'' = Inr ''hdate''"
    by (rule sample_effective(2) [where via = "''ann''" and pred = "''''"]) (simp_all add: samples)
  have m: "member_history sample_reconciler sample_api ''ctl'' [last, mid, sample_request]"
    using e(2) s(2) by (simp add: member_history_def)
  have g: "executionFingerprint sample_lib last ''ctl'' = executionFingerprint sample_lib sample_request ''ctl''"
    by (rule member_same(2) [OF m]) simp_all
  have "\<not> undecided (Phase (Status (hd ([[sample_request], [last, mid, sample_request]] ! 1))))"
    by (rule equivalent_requests_never_both_live [OF p, of 0 1 "''hdate''"])
       (use f g in \<open>simp_all add: l s sample_api_sel\<close>, simp_all add: samples)
  with p g show ?thesis by auto
qed

end
