(* ===== verification/StatusProperties.thy ===== *)
theory StatusProperties
  imports Samples
begin

text \<open>
  Bounds, wrap-around and errors: the number of calls of a status update, the 64-bit product of the
  sleep check, the report of a field that does not decode, and a status update whose retry forgets
  why it was made.
\<close>

text \<open>
  The sleep check multiplies in 64 bits: it compares the signed residue of the product with five
  minutes, and a count of days large enough to wrap is not reported as long.
\<close>

lemma sleep_check_wraps:
  "(sleep_is_long n u \<longleftrightarrow> 300 \<le> (int n * int (sleep_multiplier u) + 2 ^ 63) mod 2 ^ 64 - 2 ^ 63) \<and>
   \<not> sleep_is_long 106751991167301 ''d'' \<and> sleep_is_long 106751991167300 ''d'' \<and> sleep_is_long 5 ''m'' \<and> \<not> sleep_is_long 299 ''s''"
proof -
  have s: "sint (word_of_int x :: 64 word) = (x + 2 ^ 63) mod 2 ^ 64 - 2 ^ 63" for x
    by (simp add: signed_of_int signed_take_bit_eq_take_bit_shift take_bit_eq_mod)
  have i: "sleep_is_long m v \<longleftrightarrow> 300 \<le> (int m * int (sleep_multiplier v) + 2 ^ 63) mod 2 ^ 64 - 2 ^ 63" for m v
    using s [of "int m * int (sleep_multiplier v)"] by (simp add: sleep_is_long_def)
  show ?thesis by (simp add: i sleep_multiplier_def)
qed

text \<open>
  C37: decoding a widened pod field is total and exact: it yields the decodings of the non-empty items
  in order, or reports the name of the field, the position of the first item that fails and the error
  of that item, every item before it being empty or decodable.
\<close>

theorem decoding_is_exact:
  "case decode_field field dec raws of
     Inr vs \<Rightarrow> map Inr vs = map dec (filter (\<lambda>raw. raw \<noteq> '''') raws)
   | Inl e \<Rightarrow> \<exists>k err. e = SpecError (DecodeField field k err) \<and> k < length raws \<and> raws ! k \<noteq> '''' \<and>
       dec (raws ! k) = Inl err \<and> list_all (\<lambda>raw. raw = '''' \<or> (\<exists>v. dec raw = Inr v)) (take k raws)"
proof (cases "decodeRawList dec 0 raws")
  case (Inr vs)
  then show ?thesis using decodeRawList_Inr [of dec 0 raws vs] by (simp add: decode_field_def)
next
  case (Inl p)
  then obtain k err where e: "decodeRawList dec 0 raws = Inl (k, err)" by (cases p) auto
  from decodeRawList_Inl [OF e] have k: "k < length raws" "raws ! k \<noteq> ''''" "dec (raws ! k) = Inl err"
      "\<forall>j<k. raws ! j = '''' \<or> (\<exists>v. dec (raws ! j) = Inr v)" by auto
  from k(1,4) have "list_all (\<lambda>raw. raw = '''' \<or> (\<exists>v. dec raw = Inr v)) (take k raws)"
    by (simp add: list_all_length)
  with e k show ?thesis by (simp add: decode_field_def)
qed

definition is_status_write :: "call \<Rightarrow> bool" where
  "is_status_write c \<longleftrightarrow> (case c of UpdateStatus obj r \<Rightarrow> True | _ \<Rightarrow> False)"

text \<open>The calls of a program, counted, with its success witnessed by the last of them.\<close>

definition spends :: "'a res prog \<Rightarrow> hist \<Rightarrow> (call \<Rightarrow> bool) \<Rightarrow> nat \<Rightarrow> nat \<Rightarrow> ('a \<Rightarrow> call \<Rightarrow> bool) \<Rightarrow> bool" where
  "spends m h P k j Q \<longleftrightarrow> (\<exists>cs a. run_state m h = (a, h @ cs) \<and> length cs \<le> k \<and> length (filter P cs) \<le> j \<and>
     (case a of Inl e \<Rightarrow> True | Inr x \<Rightarrow> \<exists>u c. cs = u @ [c] \<and> Q x c))"

lemma retry_body_spends:
  "spends (retry_body W sr mutate) h is_status_write 2 1
     (\<lambda>stored c. \<exists>base. c = UpdateStatus (Status_update mutate base) (Inr stored))"
  by (auto simp: spends_def retry_body_def runs is_status_write_def split: sum.split)

lemma RetryOnConflict_spends:
  assumes "\<And>h. spends body h P m k Q"
  shows "spends (RetryOnConflict n body) h P (Suc n * m) (Suc n * k) Q"
proof (induction n arbitrary: h)
  case 0
  show ?case using assms [of h] by simp
next
  case (Suc n)
  obtain cs a where b: "run_state body h = (a, h @ cs)" "length cs \<le> m" "length (filter P cs) \<le> k"
      "case a of Inl e \<Rightarrow> True | Inr x \<Rightarrow> \<exists>u c. cs = u @ [c] \<and> Q x c"
    using assms [of h] unfolding spends_def by blast
  obtain ds b' where r: "run_state (RetryOnConflict n body) (h @ cs) = (b', (h @ cs) @ ds)"
      "length ds \<le> Suc n * m" "length (filter P ds) \<le> Suc n * k"
      "case b' of Inl e \<Rightarrow> True | Inr x \<Rightarrow> \<exists>u c. ds = u @ [c] \<and> Q x c"
    using Suc.IH [of "h @ cs"] unfolding spends_def by blast
  show ?case
  proof (cases "\<exists>e. a = Inl e \<and> is_conflict e")
    case False
    with b show ?thesis
      unfolding spends_def by (intro exI [of _ cs] exI [of _ a]) (auto simp: runs split: sum.splits)
  next
    case True
    with b r have "run_state (RetryOnConflict (Suc n) body) h = (b', h @ cs @ ds)" by (auto simp: runs)
    moreover have "case b' of Inl e \<Rightarrow> True | Inr x \<Rightarrow> \<exists>u c. cs @ ds = u @ [c] \<and> Q x c"
      using r(4) by (force split: sum.splits)
    ultimately show ?thesis
      using b(2,3) r(2,3) unfolding spends_def by (intro exI [of _ "cs @ ds"] exI [of _ b']) simp
  qed
qed

lemma RetryOnConflict_first:
  assumes "\<And>h. spends body h P m k Q" and "run_state body h = (a, h @ cs)"
  shows "\<exists>ds b. run_state (RetryOnConflict n body) h = (b, h @ cs @ ds)"
proof (cases n)
  case 0
  then show ?thesis using assms(2) by simp
next
  case (Suc n')
  have "\<exists>ds b. run_state (RetryOnConflict n' body) (h @ cs) = (b, h @ cs @ ds)"
    using RetryOnConflict_spends [OF assms(1), of n' "h @ cs"] by (auto simp: spends_def)
  then show ?thesis using Suc assms(2) by (auto simp: runs split: sum.split)
qed


text \<open>
  C34: the approval of a playbook without a human does not look again before it writes: when its write
  meets a conflict, the request that was stored meanwhile is approved whatever its phase, be it a
  denial.
\<close>

theorem playbook_approval_ignores_concurrent_decision:
  assumes "w_update_status W (h @ [Now (w_now W h)]) (Status_update (set_playbook_approved (w_now W h) p) sr) = Inl e"
    and "is_conflict e"
    and "w_get_sr W (h @ [Now (w_now W h), UpdateStatus (Status_update (set_playbook_approved (w_now W h) p) sr) (Inl e)])
      False (Namespace sr) (Name sr) = Inr latest"
  shows "\<exists>u r v. calls (approve_playbook W sr p) h =
      u @ UpdateStatus (Status_update (set_playbook_approved (w_now W h) p) latest) r # v \<and>
    Phase (Status (Status_update (set_playbook_approved (w_now W h) p) latest)) = Approved"
proof -
  let ?f = "set_playbook_approved (w_now W h) p"
  let ?h = "h @ [Now (w_now W h), UpdateStatus (Status_update ?f sr) (Inl e)]"
  let ?again = "[GetSR False (Namespace sr) (Name sr) (Inr latest),
    UpdateStatus (Status_update ?f latest) (w_update_status W (?h @ [GetSR False (Namespace sr) (Name sr) (Inr latest)]) (Status_update ?f latest))]"
  have "\<exists>a. run_state (retry_body W (Status_update ?f sr) ?f) ?h = (a, ?h @ ?again)"
    using assms(3) by (auto simp: retry_body_def runs split: sum.split)
  then obtain ds b where "run_state (RetryOnConflict (w_retries W) (retry_body W (Status_update ?f sr) ?f)) ?h = (b, ?h @ ?again @ ds)"
    using RetryOnConflict_first [OF retry_body_spends] by blast
  then have "\<exists>w. calls (approve_playbook W sr p) h = [Now (w_now W h), UpdateStatus (Status_update ?f sr) (Inl e)] @ ?again @ w"
    using assms(1,2) by (auto simp: calls_def approve_playbook_def updateStatus_def runs split: sum.split prod.split option.split)
  then obtain w where "calls (approve_playbook W sr p) h = ([Now (w_now W h), UpdateStatus (Status_update ?f sr) (Inl e),
      GetSR False (Namespace sr) (Name sr) (Inr latest)]) @ UpdateStatus (Status_update ?f latest)
        (w_update_status W (?h @ [GetSR False (Namespace sr) (Name sr) (Inr latest)]) (Status_update ?f latest)) # w"
    by auto
  then show ?thesis by (intro exI conjI) (assumption, simp add: set_playbook_approved_def)
qed

text \<open>A request that is denied while its playbook is being approved.\<close>

definition denied_request :: sudo_request where
  "denied_request = sample_request\<lparr>Status := zero_status\<lparr>Phase := Denied\<rparr>\<rparr>"

definition denied_meanwhile :: world where
  "denied_meanwhile = (world_of denied_request)\<lparr>w_update_status :=
     \<lambda>h obj. if length h = 1 then Inl (ApiError Conflict '''') else Inr obj\<rparr>"

theorem playbook_approval_ignores_concurrent_decision_witness:
  "\<exists>u obj r v. calls (approve_playbook denied_meanwhile sample_request \<lparr>pp_targetUID = ''j1'', pp_targetAbsent = False\<rparr>) [] =
      u @ UpdateStatus obj r # v \<and> Phase (Status obj) = Approved \<and> same_request obj denied_request \<and>
      Phase (Status denied_request) = Denied"
proof -
  let ?p = "\<lparr>pp_targetUID = ''j1'', pp_targetAbsent = False\<rparr>"
  have w: "w_update_status denied_meanwhile ([] @ [Now (w_now denied_meanwhile [])]) obj = Inl (ApiError Conflict '''')"
    "w_get_sr denied_meanwhile k False ns nm = Inr denied_request" for k obj ns nm
    by (simp_all add: denied_meanwhile_def world_of_def)
  have e: "is_conflict (ApiError Conflict '''')" by (simp add: is_conflict_def)
  have "Phase (Status denied_request) = Denied" by (simp add: denied_request_def)
  with playbook_approval_ignores_concurrent_decision [OF w(1) e w(2), of sample_request ?p] same_request_simps(1,2)
  show ?thesis by blast
qed

end
