(* ===== verification/Copies.thy ===== *)
theory Copies
  imports Types "HOL-Library.State_Monad"
begin

text \<open>
  The hand-written deep copies of \<^verbatim>\<open>types.go\<close>, over an explicit store: pointers, slices and
  maps are addresses of cells, so that what two values share can be said.  The rest of the development
  passes requests as values where the code works on a deep copy; the theorem at the end is what that
  rests on: a change of a copy is not seen through the original, nor the other way round.
\<close>

section \<open>The store\<close>

type_synonym addr = nat

text \<open>
  The structs as they lie in memory: the fields that are plain values, in the record of theory
  \<open>Types\<close>, whose other fields are not used, and the address of each pointer, slice or map field.
\<close>

record spec_mem =
  sm_Values :: sudo_request_spec
  sm_Playbook :: "addr option"
  sm_TTLSecondsAfterApproval :: "addr option"
  sm_Env :: "addr option"
  sm_EnvFrom :: "addr option"
  sm_Volumes :: "addr option"
  sm_VolumeMounts :: "addr option"
  sm_InitContainers :: "addr option"
  sm_ImagePullSecrets :: "addr option"
  sm_ClusterAdmin :: "addr option"

record status_mem =
  tm_Values :: sudo_request_status
  tm_PreflightWarnings :: "addr option"
  tm_PermissionAssessment :: "addr option"
  tm_ApprovedAt :: "addr option"
  tm_DeniedAt :: "addr option"
  tm_ExitCode :: "addr option"
  tm_OutputTotalBytes :: "addr option"
  tm_OutputRetainedBytes :: "addr option"
  tm_ApprovalTokenExpiresAt :: "addr option"
  tm_NotificationLastAttemptAt :: "addr option"
  tm_NotificationNextAttemptAt :: "addr option"
  tm_NotificationDeliveredAt :: "addr option"

text \<open>The metadata, with the fields the code uses.\<close>

record meta_mem =
  mm_Name :: string
  mm_Namespace :: string
  mm_UID :: string
  mm_ResourceVersion :: string
  mm_CreationTimestamp :: int
  mm_DeletionTimestamp :: "addr option"
  mm_Finalizers :: "addr option"

record request_mem =
  rm_Meta :: meta_mem
  rm_Spec :: spec_mem
  rm_Status :: status_mem

text \<open>
  A cell holds what a pointer refers to, the array of a slice, or a map.  A
  \<^verbatim>\<open>runtime.RawExtension\<close> is the slice of its bytes.
\<close>

datatype cell =
    IntCell int
  | BoolCell bool
  | BytesCell string
  | StringsCell "string list"
  | EffectsCell "effect list"
  | MapCell "(string \<times> string) list"
  | PlaybookCell string "addr option"
  | AssessmentCell permission_assessment "addr option"
  | RawsCell "addr option list"
  | RequestCell request_mem
  | RequestsCell "request_mem list"

record store =
  st_at :: "addr \<Rightarrow> cell"
  st_next :: addr

type_synonym 'a copying = "(store, 'a) state"

definition load :: "addr \<Rightarrow> cell copying" where
  "load a = State (\<lambda>h. (st_at h a, h))"

definition alloc :: "cell \<Rightarrow> addr copying" where
  "alloc c = State (\<lambda>h. (st_next h, h\<lparr>st_at := (st_at h)(st_next h := c), st_next := Suc (st_next h)\<rparr>))"

text \<open>The content of a cell; every address is used at one type only.\<close>

definition int_of :: "cell \<Rightarrow> int" where "int_of c = (case c of IntCell i \<Rightarrow> i | _ \<Rightarrow> 0)"
definition bool_of :: "cell \<Rightarrow> bool" where "bool_of c = (case c of BoolCell b \<Rightarrow> b | _ \<Rightarrow> False)"
definition bytes_of :: "cell \<Rightarrow> string" where "bytes_of c = (case c of BytesCell s \<Rightarrow> s | _ \<Rightarrow> '''')"
definition strings_of :: "cell \<Rightarrow> string list" where "strings_of c = (case c of StringsCell xs \<Rightarrow> xs | _ \<Rightarrow> [])"
definition effects_of :: "cell \<Rightarrow> effect list" where "effects_of c = (case c of EffectsCell xs \<Rightarrow> xs | _ \<Rightarrow> [])"
definition map_in :: "cell \<Rightarrow> (string \<times> string) list" where "map_in c = (case c of MapCell m \<Rightarrow> m | _ \<Rightarrow> [])"
definition raws_of :: "cell \<Rightarrow> addr option list" where "raws_of c = (case c of RawsCell xs \<Rightarrow> xs | _ \<Rightarrow> [])"

definition playbook_of :: "cell \<Rightarrow> string \<times> addr option" where
  "playbook_of c = (case c of PlaybookCell n p \<Rightarrow> (n, p) | _ \<Rightarrow> ('''', None))"

definition assessment_of :: "cell \<Rightarrow> permission_assessment \<times> addr option" where
  "assessment_of c = (case c of AssessmentCell a p \<Rightarrow> (a, p)
     | _ \<Rightarrow> (\<lparr>pa_Request = '''', pa_Effects = [], pa_SchemaVersion = '''', pa_PromptVersion = '''', pa_Model = '''',
              pa_GeneratedAt = 0\<rparr>, None))"

text \<open>The zero value of a request.\<close>

definition zero_request_mem :: request_mem where
  "zero_request_mem = \<lparr>
     rm_Meta = \<lparr>mm_Name = '''', mm_Namespace = '''', mm_UID = '''', mm_ResourceVersion = '''',
       mm_CreationTimestamp = 0, mm_DeletionTimestamp = None, mm_Finalizers = None\<rparr>,
     rm_Spec = \<lparr>sm_Values = \<lparr>Requester = '''', SubmittedBy = '''', RetryOfUID = '''', Reason = '''', Command = '''',
         Playbook = None, SpecImage = '''', Profile = '''', TTLSecondsAfterApproval = None, SpecNamespace = '''',
         Stdin = '''', Env = [], EnvFrom = [], Volumes = [], VolumeMounts = [], InitContainers = [],
         ImagePullSecrets = [], ClusterAdmin = None\<rparr>,
       sm_Playbook = None, sm_TTLSecondsAfterApproval = None, sm_Env = None, sm_EnvFrom = None,
       sm_Volumes = None, sm_VolumeMounts = None, sm_InitContainers = None, sm_ImagePullSecrets = None,
       sm_ClusterAdmin = None\<rparr>,
     rm_Status = \<lparr>tm_Values = zero_status, tm_PreflightWarnings = None, tm_PermissionAssessment = None,
       tm_ApprovedAt = None, tm_DeniedAt = None, tm_ExitCode = None, tm_OutputTotalBytes = None,
       tm_OutputRetainedBytes = None, tm_ApprovalTokenExpiresAt = None, tm_NotificationLastAttemptAt = None,
       tm_NotificationNextAttemptAt = None, tm_NotificationDeliveredAt = None\<rparr>\<rparr>"

definition request_of :: "cell \<Rightarrow> request_mem" where
  "request_of c = (case c of RequestCell m \<Rightarrow> m | _ \<Rightarrow> zero_request_mem)"

definition requests_of :: "cell \<Rightarrow> request_mem list" where
  "requests_of c = (case c of RequestsCell ms \<Rightarrow> ms | _ \<Rightarrow> [])"

lemmas contents = int_of_def bool_of_def bytes_of_def strings_of_def effects_of_def map_in_def raws_of_def
  playbook_of_def assessment_of_def request_of_def requests_of_def

section \<open>Ways to copy\<close>

text \<open>
  \<open>copy_value\<close> is assignment, \<open>copy_boxed\<close> copies what an address refers to into a new cell (nil stays
  nil), \<open>copy_list\<close> is the loop over the elements of a new slice, and \<open>copy_append\<close> is
  \<^verbatim>\<open>append([]T(nil), xs...)\<close>, which makes nil of an empty slice.
\<close>

definition copy_value :: "'a \<Rightarrow> 'a copying" where
  "copy_value x = State_Monad.return x"

definition copy_pair :: "('a \<Rightarrow> 'a copying) \<Rightarrow> ('b \<Rightarrow> 'b copying) \<Rightarrow> 'a \<times> 'b \<Rightarrow> ('a \<times> 'b) copying" where
  "copy_pair f g p = (case p of (x, y) \<Rightarrow> do { x' \<leftarrow> f x; y' \<leftarrow> g y; State_Monad.return (x', y') })"

definition copy_boxed :: "(cell \<Rightarrow> 'a) \<Rightarrow> ('a \<Rightarrow> cell) \<Rightarrow> ('a \<Rightarrow> 'a copying) \<Rightarrow> addr option \<Rightarrow> addr option copying" where
  "copy_boxed content mk f p =
     (case p of
        None \<Rightarrow> State_Monad.return None
      | Some a \<Rightarrow> do { c \<leftarrow> load a; x \<leftarrow> f (content c); b \<leftarrow> alloc (mk x); State_Monad.return (Some b) })"

definition copy_append :: "(cell \<Rightarrow> 'a list) \<Rightarrow> ('a list \<Rightarrow> cell) \<Rightarrow> addr option \<Rightarrow> addr option copying" where
  "copy_append content mk p =
     (case p of
        None \<Rightarrow> State_Monad.return None
      | Some a \<Rightarrow> do {
          c \<leftarrow> load a;
          if content c = [] then State_Monad.return None
          else do { b \<leftarrow> alloc (mk (content c)); State_Monad.return (Some b) } })"

fun copy_list :: "('a \<Rightarrow> 'a copying) \<Rightarrow> 'a list \<Rightarrow> 'a list copying" where
  "copy_list f [] = State_Monad.return []"
| "copy_list f (x # xs) = do { y \<leftarrow> f x; ys \<leftarrow> copy_list f xs; State_Monad.return (y # ys) }"

section \<open>The copies of the code\<close>

text \<open>The loop over the parameters fills the new map with the entries of the old one.\<close>

definition copy_parameters :: "addr option \<Rightarrow> addr option copying" where
  "copy_parameters = copy_boxed map_in MapCell copy_value"

definition copy_playbook :: "addr option \<Rightarrow> addr option copying" where
  "copy_playbook = copy_boxed playbook_of (\<lambda>(n, p). PlaybookCell n p) (copy_pair copy_value copy_parameters)"

definition copy_int :: "addr option \<Rightarrow> addr option copying" where
  "copy_int = copy_boxed int_of IntCell copy_value"

definition copy_bool :: "addr option \<Rightarrow> addr option copying" where
  "copy_bool = copy_boxed bool_of BoolCell copy_value"

definition copyRaw :: "(addr option \<Rightarrow> addr option copying) \<Rightarrow> addr option \<Rightarrow> addr option copying" where
  "copyRaw raw_copy = copy_boxed raws_of RawsCell (copy_list raw_copy)"

definition spec_DeepCopyInto :: "(addr option \<Rightarrow> addr option copying) \<Rightarrow> spec_mem \<Rightarrow> spec_mem copying" where
  "spec_DeepCopyInto raw_copy m = do {
     playbook \<leftarrow> copy_playbook (sm_Playbook m);
     ttl \<leftarrow> copy_int (sm_TTLSecondsAfterApproval m);
     env \<leftarrow> copyRaw raw_copy (sm_Env m);
     envFrom \<leftarrow> copyRaw raw_copy (sm_EnvFrom m);
     volumes \<leftarrow> copyRaw raw_copy (sm_Volumes m);
     mounts \<leftarrow> copyRaw raw_copy (sm_VolumeMounts m);
     inits \<leftarrow> copyRaw raw_copy (sm_InitContainers m);
     pulls \<leftarrow> copyRaw raw_copy (sm_ImagePullSecrets m);
     admin \<leftarrow> copy_bool (sm_ClusterAdmin m);
     State_Monad.return (m\<lparr>sm_Playbook := playbook, sm_TTLSecondsAfterApproval := ttl, sm_Env := env,
       sm_EnvFrom := envFrom, sm_Volumes := volumes, sm_VolumeMounts := mounts, sm_InitContainers := inits,
       sm_ImagePullSecrets := pulls, sm_ClusterAdmin := admin\<rparr>) }"

definition copy_warnings :: "addr option \<Rightarrow> addr option copying" where
  "copy_warnings = copy_append strings_of StringsCell"

definition copy_effects :: "addr option \<Rightarrow> addr option copying" where
  "copy_effects = copy_append effects_of EffectsCell"

definition copy_assessment :: "addr option \<Rightarrow> addr option copying" where
  "copy_assessment = copy_boxed assessment_of (\<lambda>(a, p). AssessmentCell a p) (copy_pair copy_value copy_effects)"

definition status_DeepCopyInto :: "status_mem \<Rightarrow> status_mem copying" where
  "status_DeepCopyInto m = do {
     warnings \<leftarrow> copy_warnings (tm_PreflightWarnings m);
     assessment \<leftarrow> copy_assessment (tm_PermissionAssessment m);
     approved \<leftarrow> copy_int (tm_ApprovedAt m);
     denied \<leftarrow> copy_int (tm_DeniedAt m);
     exit \<leftarrow> copy_int (tm_ExitCode m);
     all_bytes \<leftarrow> copy_int (tm_OutputTotalBytes m);
     retained \<leftarrow> copy_int (tm_OutputRetainedBytes m);
     expires \<leftarrow> copy_int (tm_ApprovalTokenExpiresAt m);
     lastAttempt \<leftarrow> copy_int (tm_NotificationLastAttemptAt m);
     nextAttempt \<leftarrow> copy_int (tm_NotificationNextAttemptAt m);
     delivered \<leftarrow> copy_int (tm_NotificationDeliveredAt m);
     State_Monad.return (m\<lparr>tm_PreflightWarnings := warnings, tm_PermissionAssessment := assessment,
       tm_ApprovedAt := approved, tm_DeniedAt := denied, tm_ExitCode := exit, tm_OutputTotalBytes := all_bytes,
       tm_OutputRetainedBytes := retained, tm_ApprovalTokenExpiresAt := expires,
       tm_NotificationLastAttemptAt := lastAttempt, tm_NotificationNextAttemptAt := nextAttempt,
       tm_NotificationDeliveredAt := delivered\<rparr>) }"

text \<open>The copies of the metadata and of a raw extension are the library's.\<close>

definition request_DeepCopyInto :: "(meta_mem \<Rightarrow> meta_mem copying) \<Rightarrow> (addr option \<Rightarrow> addr option copying) \<Rightarrow>
    request_mem \<Rightarrow> request_mem copying" where
  "request_DeepCopyInto meta_copy raw_copy m = do {
     meta \<leftarrow> meta_copy (rm_Meta m);
     spec \<leftarrow> spec_DeepCopyInto raw_copy (rm_Spec m);
     status \<leftarrow> status_DeepCopyInto (rm_Status m);
     State_Monad.return (m\<lparr>rm_Meta := meta, rm_Spec := spec, rm_Status := status\<rparr>) }"

definition DeepCopy :: "(meta_mem \<Rightarrow> meta_mem copying) \<Rightarrow> (addr option \<Rightarrow> addr option copying) \<Rightarrow>
    addr option \<Rightarrow> addr option copying" where
  "DeepCopy meta_copy raw_copy = copy_boxed request_of RequestCell (request_DeepCopyInto meta_copy raw_copy)"

text \<open>The items of a list; its metadata is the library's.\<close>

definition list_DeepCopyInto :: "(meta_mem \<Rightarrow> meta_mem copying) \<Rightarrow> (addr option \<Rightarrow> addr option copying) \<Rightarrow>
    addr option \<Rightarrow> addr option copying" where
  "list_DeepCopyInto meta_copy raw_copy =
     copy_boxed requests_of RequestsCell (copy_list (request_DeepCopyInto meta_copy raw_copy))"

section \<open>Independence\<close>

definition extends :: "store \<Rightarrow> store \<Rightarrow> bool" where
  "extends h g \<longleftrightarrow> st_next h \<le> st_next g \<and> (\<forall>a< st_next h. st_at g a = st_at h a)"

definition agree_off :: "addr set \<Rightarrow> store \<Rightarrow> store \<Rightarrow> bool" where
  "agree_off A h g \<longleftrightarrow> (\<forall>a. a \<notin> A \<longrightarrow> st_at g a = st_at h a)"

definition allocated :: "store \<Rightarrow> addr set" where
  "allocated h = {..< st_next h}"

lemma extends_refl [simp]: "extends h h"
  by (simp add: extends_def)

lemma extends_trans: "extends h g \<Longrightarrow> extends g k \<Longrightarrow> extends h k"
  by (auto simp: extends_def)

lemma extends_allocated: "extends h g \<Longrightarrow> allocated h \<subseteq> allocated g"
  by (auto simp: extends_def allocated_def)

lemma extends_at: "extends h g \<Longrightarrow> A \<subseteq> allocated h \<Longrightarrow> \<forall>a\<in>A. st_at g a = st_at h a"
  by (auto simp: extends_def allocated_def)

text \<open>
  What a deep copy promises: nothing that exists is changed, the copy shows the same value, and lies
  in new cells.  \<open>view\<close> is the value a representation shows, \<open>cells\<close> are the cells it can reach, and
  both depend on those cells only.
\<close>

locale deep_copier =
  fixes copy :: "'m \<Rightarrow> 'm copying" and view :: "store \<Rightarrow> 'm \<Rightarrow> 'v" and cells :: "store \<Rightarrow> 'm \<Rightarrow> addr set"
  assumes grows: "run_state (copy m) h = (m', h') \<Longrightarrow> extends h h'"
    and shows_same: "run_state (copy m) h = (m', h') \<Longrightarrow> cells h m \<subseteq> allocated h \<Longrightarrow> view h' m' = view h m"
    and new_cells: "run_state (copy m) h = (m', h') \<Longrightarrow> cells h m \<subseteq> allocated h \<Longrightarrow>
      cells h' m' \<subseteq> allocated h' - allocated h"
    and view_local: "\<forall>a\<in>cells h m. st_at g a = st_at h a \<Longrightarrow> view g m = view h m"
    and cells_local: "\<forall>a\<in>cells h m. st_at g a = st_at h a \<Longrightarrow> cells g m = cells h m"
begin

lemma unseen:
  assumes "\<forall>a\<in>cells h m. st_at g a = st_at h a"
  shows "view g m = view h m \<and> cells g m = cells h m"
  using view_local [OF assms] cells_local [OF assms] by simp

lemma kept:
  assumes "extends h g" and "cells h m \<subseteq> allocated h"
  shows "view g m = view h m" and "cells g m = cells h m"
  using view_local cells_local extends_at [OF assms] by blast+

lemma independent:
  assumes c: "run_state (copy m) h = (m', h')" and a: "cells h m \<subseteq> allocated h"
  shows "view h' m' = view h m \<and> (\<forall>g. agree_off (cells h' m') h' g \<longrightarrow> view g m = view h m) \<and>
    (\<forall>g. agree_off (cells h m) h' g \<longrightarrow> view g m' = view h m)"
proof (intro conjI allI impI)
  note n = new_cells [OF c a] and k = kept [OF grows [OF c] a] and s = shows_same [OF c a]
  show "view h' m' = view h m" by (rule s)
  show "view g m = view h m" if "agree_off (cells h' m') h' g" for g
  proof -
    have "\<forall>b\<in>cells h' m. st_at g b = st_at h' b" using that n a k(2) by (auto simp: agree_off_def)
    with k(1) view_local show ?thesis by simp
  qed
  show "view g m' = view h m" if "agree_off (cells h m) h' g" for g
  proof -
    have "\<forall>b\<in>cells h' m'. st_at g b = st_at h' b" using that n a by (auto simp: agree_off_def)
    with s view_local show ?thesis by simp
  qed
qed

end

section \<open>Each way to copy is deep\<close>

definition no_cells :: "store \<Rightarrow> 'a \<Rightarrow> addr set" where
  "no_cells h x = {}"

definition view_pair :: "(store \<Rightarrow> 'a \<Rightarrow> 'v) \<Rightarrow> (store \<Rightarrow> 'b \<Rightarrow> 'w) \<Rightarrow> store \<Rightarrow> 'a \<times> 'b \<Rightarrow> 'v \<times> 'w" where
  "view_pair v w h p = (v h (fst p), w h (snd p))"

definition cells_pair :: "(store \<Rightarrow> 'a \<Rightarrow> addr set) \<Rightarrow> (store \<Rightarrow> 'b \<Rightarrow> addr set) \<Rightarrow> store \<Rightarrow> 'a \<times> 'b \<Rightarrow> addr set" where
  "cells_pair c d h p = c h (fst p) \<union> d h (snd p)"

definition view_boxed :: "(cell \<Rightarrow> 'a) \<Rightarrow> (store \<Rightarrow> 'a \<Rightarrow> 'v) \<Rightarrow> store \<Rightarrow> addr option \<Rightarrow> 'v option" where
  "view_boxed content v h p = map_option (\<lambda>a. v h (content (st_at h a))) p"

definition cells_boxed :: "(cell \<Rightarrow> 'a) \<Rightarrow> (store \<Rightarrow> 'a \<Rightarrow> addr set) \<Rightarrow> store \<Rightarrow> addr option \<Rightarrow> addr set" where
  "cells_boxed content c h p = (case p of None \<Rightarrow> {} | Some a \<Rightarrow> insert a (c h (content (st_at h a))))"

definition view_slice :: "(cell \<Rightarrow> 'a list) \<Rightarrow> store \<Rightarrow> addr option \<Rightarrow> 'a list" where
  "view_slice content h p = (case p of None \<Rightarrow> [] | Some a \<Rightarrow> content (st_at h a))"

definition view_list :: "(store \<Rightarrow> 'a \<Rightarrow> 'v) \<Rightarrow> store \<Rightarrow> 'a list \<Rightarrow> 'v list" where
  "view_list v h xs = List.map (v h) xs"

definition cells_list :: "(store \<Rightarrow> 'a \<Rightarrow> addr set) \<Rightarrow> store \<Rightarrow> 'a list \<Rightarrow> addr set" where
  "cells_list c h xs = (\<Union>x\<in>set xs. c h x)"

lemma run_load [simp]: "run_state (load a) h = (st_at h a, h)"
  by (simp add: load_def)

lemma run_alloc [simp]:
  "run_state (alloc c) h = (st_next h, h\<lparr>st_at := (st_at h)(st_next h := c), st_next := Suc (st_next h)\<rparr>)"
  by (simp add: alloc_def)

lemma deep_value: "deep_copier copy_value (\<lambda>h x. x) no_cells"
  by unfold_locales (auto simp: copy_value_def no_cells_def)

lemma deep_pair:
  assumes f: "deep_copier f v c" and g: "deep_copier g w d"
  shows "deep_copier (copy_pair f g) (view_pair v w) (cells_pair c d)"
proof -
  have step: "extends h h'' \<and> (cells_pair c d h p \<subseteq> allocated h \<longrightarrow>
      view_pair v w h'' p' = view_pair v w h p \<and> cells_pair c d h'' p' \<subseteq> allocated h'' - allocated h)"
    if "run_state (copy_pair f g p) h = (p', h'')" for p h p' h''
  proof -
    obtain x y where p: "p = (x, y)" by (cases p)
    obtain x' h' where x: "run_state (f x) h = (x', h')" by (cases "run_state (f x) h")
    with that p obtain y' where y: "run_state (g y) h' = (y', h'')" "p' = (x', y')"
      by (auto simp: copy_pair_def split: prod.splits)
    note e = deep_copier.grows [OF f x] deep_copier.grows [OF g y(1)]
    show ?thesis
    proof (intro conjI impI)
      show "extends h h''" using e by (rule extends_trans)
    next
      assume "cells_pair c d h p \<subseteq> allocated h"
      then have al: "c h x \<subseteq> allocated h" "d h y \<subseteq> allocated h" by (simp_all add: cells_pair_def p)
      note x1 = deep_copier.shows_same [OF f x al(1)] deep_copier.new_cells [OF f x al(1)]
      note x2 = deep_copier.kept [OF f e(2), of x'] and y0 = deep_copier.kept [OF g e(1) al(2)]
      have "d h' y \<subseteq> allocated h'" using y0(2) al(2) extends_allocated [OF e(1)] by simp
      note y1 = deep_copier.shows_same [OF g y(1) this] deep_copier.new_cells [OF g y(1) this]
      have x'': "v h'' x' = v h x" "c h'' x' \<subseteq> allocated h' - allocated h" using x1 x2 by auto
      show "view_pair v w h'' p' = view_pair v w h p" using x''(1) y1(1) y0(1) by (simp add: view_pair_def p y(2))
      show "cells_pair c d h'' p' \<subseteq> allocated h'' - allocated h"
        using x''(2) y1(2) extends_allocated [OF e(1)] extends_allocated [OF e(2)] by (auto simp: cells_pair_def y(2))
    qed
  qed
  show ?thesis
  proof
    show "view_pair v w k p = view_pair v w h p" "cells_pair c d k p = cells_pair c d h p"
      if "\<forall>a\<in>cells_pair c d h p. st_at k a = st_at h a" for k h p
      using that deep_copier.unseen [OF f, of h "fst p" k] deep_copier.unseen [OF g, of h "snd p" k]
      by (simp_all add: view_pair_def cells_pair_def)
  qed (use step in auto)
qed

text \<open>Copying into a new cell, whatever part of the content is kept.\<close>

lemma deep_boxed:
  assumes f: "deep_copier f v c" and mk: "\<And>x. content (mk x) = x"
  shows "deep_copier (copy_boxed content mk f) (view_boxed content v) (cells_boxed content c)"
proof -
  have step: "extends h h' \<and> (cells_boxed content c h p \<subseteq> allocated h \<longrightarrow>
      view_boxed content v h' q = view_boxed content v h p \<and>
      cells_boxed content c h' q \<subseteq> allocated h' - allocated h)"
    if "run_state (copy_boxed content mk f p) h = (q, h')" for p h q h'
  proof (cases p)
    case None
    with that show ?thesis by (auto simp: copy_boxed_def view_boxed_def cells_boxed_def)
  next
    case (Some a)
    let ?x = "content (st_at h a)"
    obtain y k where y: "run_state (f ?x) h = (y, k)" by (cases "run_state (f ?x) h")
    with that Some have q: "q = Some (st_next k)"
      and h': "h' = k\<lparr>st_at := (st_at k)(st_next k := mk y), st_next := Suc (st_next k)\<rparr>"
      by (auto simp: copy_boxed_def)
    have k: "extends h k" by (rule deep_copier.grows [OF f y])
    have kh: "extends k h'" by (simp add: extends_def h')
    show ?thesis
    proof (intro conjI impI)
      show "extends h h'" using k kh by (rule extends_trans)
    next
      assume "cells_boxed content c h p \<subseteq> allocated h"
      then have al: "c h ?x \<subseteq> allocated h" by (simp add: cells_boxed_def Some)
      note s = deep_copier.shows_same [OF f y al] and n = deep_copier.new_cells [OF f y al]
      have "v h' y = v k y" "c h' y = c k y" using deep_copier.kept [OF f kh, of y] n by auto
      with s n have vy: "v h' y = v h ?x" "c h' y \<subseteq> allocated k - allocated h" by simp_all
      show "view_boxed content v h' q = view_boxed content v h p"
        using vy(1) by (simp add: view_boxed_def Some q h' mk)
      show "cells_boxed content c h' q \<subseteq> allocated h' - allocated h"
        using vy(2) k by (auto simp: cells_boxed_def q h' mk allocated_def extends_def)
    qed
  qed
  show ?thesis
  proof
    show "view_boxed content v g p = view_boxed content v h p" "cells_boxed content c g p = cells_boxed content c h p"
      if "\<forall>a\<in>cells_boxed content c h p. st_at g a = st_at h a" for g h p
      using that deep_copier.unseen [OF f, of h "content (st_at h (the p))" g]
      by (cases p; simp add: view_boxed_def cells_boxed_def)+
  qed (use step in auto)
qed

lemma deep_append:
  assumes mk: "\<And>x. content (mk x) = x"
  shows "deep_copier (copy_append content mk) (view_slice content) (cells_boxed content no_cells)"
proof
  show "view_slice content g p = view_slice content h p" "cells_boxed content no_cells g p = cells_boxed content no_cells h p"
    if "\<forall>a\<in>cells_boxed content no_cells h p. st_at g a = st_at h a" for g h p
    using that by (auto simp: view_slice_def cells_boxed_def no_cells_def split: option.splits)
qed (auto simp: copy_append_def view_slice_def cells_boxed_def no_cells_def extends_def allocated_def mk
      split: option.splits if_splits)

lemma deep_list:
  assumes f: "deep_copier f v c"
  shows "deep_copier (copy_list f) (view_list v) (cells_list c)"
proof -
  have step: "extends h h' \<and> (cells_list c h xs \<subseteq> allocated h \<longrightarrow>
      view_list v h' ys = view_list v h xs \<and> cells_list c h' ys \<subseteq> allocated h' - allocated h)"
    if "run_state (copy_list f xs) h = (ys, h')" for xs ys h h'
    using that
  proof (induction xs arbitrary: ys h)
    case Nil
    then show ?case by (simp add: view_list_def cells_list_def)
  next
    case (Cons x xs)
    obtain y k where y: "run_state (f x) h = (y, k)" by (cases "run_state (f x) h")
    with Cons.prems obtain zs where zs: "run_state (copy_list f xs) k = (zs, h')" "ys = y # zs"
      by (auto split: prod.splits)
    note IH = Cons.IH [OF zs(1)]
    have k: "extends h k" by (rule deep_copier.grows [OF f y])
    from IH have kh: "extends k h'" by simp
    show ?case
    proof (intro conjI impI)
      show "extends h h'" using k kh by (rule extends_trans)
    next
      assume "cells_list c h (x # xs) \<subseteq> allocated h"
      then have al: "c h x \<subseteq> allocated h" "\<forall>z\<in>set xs. c h z \<subseteq> allocated h" by (auto simp: cells_list_def)
      note s = deep_copier.shows_same [OF f y al(1)] and n = deep_copier.new_cells [OF f y al(1)]
      have "v h' y = v k y" "c h' y = c k y" using deep_copier.kept [OF f kh, of y] n by auto
      with s n have vy: "v h' y = v h x" "c h' y \<subseteq> allocated k - allocated h" by simp_all
      have "\<forall>z\<in>set xs. v k z = v h z \<and> c k z = c h z" using deep_copier.kept [OF f k] al(2) by blast
      then have "view_list v k xs = view_list v h xs" "cells_list c k xs = cells_list c h xs"
        by (simp_all add: view_list_def cells_list_def)
      moreover have "cells_list c h xs \<subseteq> allocated k" using al(2) extends_allocated [OF k] by (auto simp: cells_list_def)
      ultimately have rest: "view_list v h' zs = view_list v h xs" "cells_list c h' zs \<subseteq> allocated h' - allocated k"
        using IH by simp_all
      show "view_list v h' ys = view_list v h (x # xs)" using vy(1) rest(1) by (simp add: view_list_def zs(2))
      show "cells_list c h' ys \<subseteq> allocated h' - allocated h"
        using vy(2) rest(2) extends_allocated [OF k] extends_allocated [OF kh] by (auto simp: cells_list_def zs(2))
    qed
  qed
  show ?thesis
  proof
    show "view_list v g xs = view_list v h xs" "cells_list c g xs = cells_list c h xs"
      if "\<forall>a\<in>cells_list c h xs. st_at g a = st_at h a" for g h xs
    proof -
      have "v g x = v h x \<and> c g x = c h x" if "x \<in> set xs" for x
        using deep_copier.unseen [OF f, of h x g] that \<open>\<forall>a\<in>cells_list c h xs. st_at g a = st_at h a\<close>
        by (auto simp: cells_list_def)
      then show "view_list v g xs = view_list v h xs" "cells_list c g xs = cells_list c h xs"
        by (simp_all add: view_list_def cells_list_def)
    qed
  qed (use step in auto)
qed

text \<open>A struct: \<open>parts\<close> are its addresses, and the copy is the struct with the new ones.\<close>

lemma deep_struct:
  assumes f: "deep_copier f v c"
    and run: "\<And>m h. run_state (copy m) h = (case run_state (f (parts m)) h of (ps, h') \<Rightarrow> (put ps m, h'))"
    and parts: "\<And>ps m. parts (put ps m) = ps" and w: "\<And>ps m x. w (put ps m) x = w m x"
  shows "deep_copier copy (\<lambda>h m. w m (v h (parts m))) (\<lambda>h m. c h (parts m))"
proof -
  have step: "\<exists>ps. run_state (f (parts m)) h = (ps, h') \<and> m' = put ps m"
    if "run_state (copy m) h = (m', h')" for m h m' h'
    using that by (auto simp: run split: prod.splits)
  show ?thesis
  proof
    show "extends h h'" if "run_state (copy m) h = (m', h')" for m h m' h'
      using step [OF that] deep_copier.grows [OF f] by blast
    show "w m' (v h' (parts m')) = w m (v h (parts m))" "c h' (parts m') \<subseteq> allocated h' - allocated h"
      if "run_state (copy m) h = (m', h')" "c h (parts m) \<subseteq> allocated h" for m h m' h'
      using step [OF that(1)] deep_copier.shows_same [OF f _ that(2)] deep_copier.new_cells [OF f _ that(2)]
      by (auto simp: parts w)
    show "w m (v g (parts m)) = w m (v h (parts m))" "c g (parts m) = c h (parts m)"
      if "\<forall>a\<in>c h (parts m). st_at g a = st_at h a" for g h m
      using deep_copier.unseen [OF f that] by simp_all
  qed
qed

lemma deep_view:
  assumes f: "deep_copier f v c"
  shows "deep_copier f (\<lambda>h m. r (v h m)) c"
proof
  show "r (v h' m') = r (v h m)" if "run_state (f m) h = (m', h')" "c h m \<subseteq> allocated h" for m h m' h'
    using deep_copier.shows_same [OF f that] by simp
  show "r (v g m) = r (v h m)" "c g m = c h m" if "\<forall>a\<in>c h m. st_at g a = st_at h a" for g h m
    using deep_copier.unseen [OF f that] by simp_all
qed (use deep_copier.grows [OF f] deep_copier.new_cells [OF f] in blast)+

section \<open>What the structs show\<close>

definition view_value :: "store \<Rightarrow> 'a \<Rightarrow> 'a" where
  "view_value h x = x"

definition read_int :: "store \<Rightarrow> addr option \<Rightarrow> int option" where
  "read_int = view_boxed int_of view_value"

definition read_bool :: "store \<Rightarrow> addr option \<Rightarrow> bool option" where
  "read_bool = view_boxed bool_of view_value"

text \<open>A raw extension shows its bytes; nil and empty slices and maps show the same value.\<close>

definition read_raw :: "store \<Rightarrow> addr option \<Rightarrow> string" where
  "read_raw h p = (case p of None \<Rightarrow> '''' | Some a \<Rightarrow> bytes_of (st_at h a))"

definition items :: "'a list option \<Rightarrow> 'a list" where
  "items xs = (case xs of None \<Rightarrow> [] | Some ys \<Rightarrow> ys)"

definition read_raws :: "store \<Rightarrow> addr option \<Rightarrow> string list" where
  "read_raws h p = items (view_boxed raws_of (view_list read_raw) h p)"

definition read_playbook :: "store \<Rightarrow> addr option \<Rightarrow> playbook option" where
  "read_playbook h p = map_option (\<lambda>(n, ps). \<lparr>pb_Name = n, pb_Parameters = items ps\<rparr>)
     (view_boxed playbook_of (view_pair view_value (view_boxed map_in view_value)) h p)"

definition read_assessment :: "store \<Rightarrow> addr option \<Rightarrow> permission_assessment option" where
  "read_assessment h p = map_option (\<lambda>(a, es). a\<lparr>pa_Effects := es\<rparr>)
     (view_boxed assessment_of (view_pair view_value (view_slice effects_of)) h p)"

definition read_spec :: "store \<Rightarrow> spec_mem \<Rightarrow> sudo_request_spec" where
  "read_spec h m = (sm_Values m)\<lparr>Playbook := read_playbook h (sm_Playbook m),
     TTLSecondsAfterApproval := read_int h (sm_TTLSecondsAfterApproval m),
     Env := read_raws h (sm_Env m), EnvFrom := read_raws h (sm_EnvFrom m), Volumes := read_raws h (sm_Volumes m),
     VolumeMounts := read_raws h (sm_VolumeMounts m), InitContainers := read_raws h (sm_InitContainers m),
     ImagePullSecrets := read_raws h (sm_ImagePullSecrets m), ClusterAdmin := read_bool h (sm_ClusterAdmin m)\<rparr>"

definition read_status :: "store \<Rightarrow> status_mem \<Rightarrow> sudo_request_status" where
  "read_status h m = (tm_Values m)\<lparr>PreflightWarnings := view_slice strings_of h (tm_PreflightWarnings m),
     PermissionAssessment := read_assessment h (tm_PermissionAssessment m),
     ApprovedAt := read_int h (tm_ApprovedAt m), DeniedAt := read_int h (tm_DeniedAt m),
     ExitCode := read_int h (tm_ExitCode m), OutputTotalBytes := read_int h (tm_OutputTotalBytes m),
     OutputRetainedBytes := read_int h (tm_OutputRetainedBytes m),
     ApprovalTokenExpiresAt := read_int h (tm_ApprovalTokenExpiresAt m),
     NotificationLastAttemptAt := read_int h (tm_NotificationLastAttemptAt m),
     NotificationNextAttemptAt := read_int h (tm_NotificationNextAttemptAt m),
     NotificationDeliveredAt := read_int h (tm_NotificationDeliveredAt m)\<rparr>"

definition read_request :: "store \<Rightarrow> request_mem \<Rightarrow> sudo_request" where
  "read_request h m = \<lparr>Name = mm_Name (rm_Meta m), Namespace = mm_Namespace (rm_Meta m), UID = mm_UID (rm_Meta m),
     ResourceVersion = mm_ResourceVersion (rm_Meta m), CreationTimestamp = mm_CreationTimestamp (rm_Meta m),
     DeletionTimestamp = read_int h (mm_DeletionTimestamp (rm_Meta m)),
     Finalizers = view_slice strings_of h (mm_Finalizers (rm_Meta m)),
     Spec = read_spec h (rm_Spec m), Status = read_status h (rm_Status m)\<rparr>"

text \<open>The cells they reach.\<close>

definition raw_cells :: "store \<Rightarrow> addr option \<Rightarrow> addr set" where
  "raw_cells = cells_boxed bytes_of no_cells"

definition raws_cells :: "store \<Rightarrow> addr option \<Rightarrow> addr set" where
  "raws_cells = cells_boxed raws_of (cells_list raw_cells)"

definition playbook_cells :: "store \<Rightarrow> addr option \<Rightarrow> addr set" where
  "playbook_cells = cells_boxed playbook_of (cells_pair no_cells (cells_boxed map_in no_cells))"

definition assessment_cells :: "store \<Rightarrow> addr option \<Rightarrow> addr set" where
  "assessment_cells = cells_boxed assessment_of (cells_pair no_cells (cells_boxed effects_of no_cells))"

definition spec_cells :: "store \<Rightarrow> spec_mem \<Rightarrow> addr set" where
  "spec_cells h m = playbook_cells h (sm_Playbook m) \<union> (cells_boxed int_of no_cells h (sm_TTLSecondsAfterApproval m) \<union>
     (raws_cells h (sm_Env m) \<union> (raws_cells h (sm_EnvFrom m) \<union> (raws_cells h (sm_Volumes m) \<union>
     (raws_cells h (sm_VolumeMounts m) \<union> (raws_cells h (sm_InitContainers m) \<union>
     (raws_cells h (sm_ImagePullSecrets m) \<union> cells_boxed bool_of no_cells h (sm_ClusterAdmin m))))))))"

definition time_cells :: "store \<Rightarrow> addr option \<Rightarrow> addr set" where
  "time_cells = cells_boxed int_of no_cells"

definition status_cells :: "store \<Rightarrow> status_mem \<Rightarrow> addr set" where
  "status_cells h m = cells_boxed strings_of no_cells h (tm_PreflightWarnings m) \<union>
     (assessment_cells h (tm_PermissionAssessment m) \<union> (time_cells h (tm_ApprovedAt m) \<union>
     (time_cells h (tm_DeniedAt m) \<union> (time_cells h (tm_ExitCode m) \<union> (time_cells h (tm_OutputTotalBytes m) \<union>
     (time_cells h (tm_OutputRetainedBytes m) \<union> (time_cells h (tm_ApprovalTokenExpiresAt m) \<union>
     (time_cells h (tm_NotificationLastAttemptAt m) \<union> (time_cells h (tm_NotificationNextAttemptAt m) \<union>
     time_cells h (tm_NotificationDeliveredAt m))))))))))"

definition meta_cells :: "store \<Rightarrow> meta_mem \<Rightarrow> addr set" where
  "meta_cells h m = time_cells h (mm_DeletionTimestamp m) \<union> cells_boxed strings_of no_cells h (mm_Finalizers m)"

definition request_cells :: "store \<Rightarrow> request_mem \<Rightarrow> addr set" where
  "request_cells h m = meta_cells h (rm_Meta m) \<union> (spec_cells h (rm_Spec m) \<union> status_cells h (rm_Status m))"

text \<open>What the metadata shows: the fields the code uses.\<close>

definition read_meta :: "store \<Rightarrow> meta_mem \<Rightarrow> string \<times> string \<times> string \<times> string \<times> int \<times> int option \<times> string list" where
  "read_meta h m = (mm_Name m, mm_Namespace m, mm_UID m, mm_ResourceVersion m, mm_CreationTimestamp m,
     read_int h (mm_DeletionTimestamp m), view_slice strings_of h (mm_Finalizers m))"

section \<open>The copies of the code are deep\<close>

lemma deep_value': "deep_copier copy_value view_value no_cells"
  using deep_value by (simp add: view_value_def [abs_def])

interpretation int_copy: deep_copier copy_int read_int time_cells
  unfolding copy_int_def read_int_def time_cells_def by (rule deep_boxed [OF deep_value']) (simp add: contents)

interpretation bool_copy: deep_copier copy_bool read_bool "cells_boxed bool_of no_cells"
  unfolding copy_bool_def read_bool_def by (rule deep_boxed [OF deep_value']) (simp add: contents)

interpretation warnings_copy: deep_copier copy_warnings "view_slice strings_of" "cells_boxed strings_of no_cells"
  unfolding copy_warnings_def by (rule deep_append) (simp add: contents)

interpretation playbook_copy: deep_copier copy_playbook read_playbook playbook_cells
  unfolding copy_playbook_def read_playbook_def [abs_def] playbook_cells_def copy_parameters_def
  by (rule deep_view, rule deep_boxed, rule deep_pair [OF deep_value'], rule deep_boxed [OF deep_value'])
     (auto simp: contents)

interpretation assessment_copy: deep_copier copy_assessment read_assessment assessment_cells
  unfolding copy_assessment_def read_assessment_def [abs_def] assessment_cells_def copy_effects_def
  by (rule deep_view, rule deep_boxed, rule deep_pair [OF deep_value'], rule deep_append)
     (auto simp: contents)

lemma deep_raws:
  assumes "deep_copier raw_copy read_raw raw_cells"
  shows "deep_copier (copyRaw raw_copy) read_raws raws_cells"
  unfolding copyRaw_def read_raws_def [abs_def] raws_cells_def
  by (rule deep_view, rule deep_boxed, rule deep_list [OF assms]) (simp add: contents)

lemma deep_spec:
  assumes raw: "deep_copier raw_copy read_raw raw_cells"
  shows "deep_copier (spec_DeepCopyInto raw_copy) read_spec spec_cells"
proof -
  note r = deep_raws [OF raw]
  let ?c = "copyRaw raw_copy"
  let ?f = "copy_pair copy_playbook (copy_pair copy_int (copy_pair ?c (copy_pair ?c (copy_pair ?c (copy_pair ?c
      (copy_pair ?c (copy_pair ?c copy_bool)))))))"
  let ?v = "view_pair read_playbook (view_pair read_int (view_pair read_raws (view_pair read_raws (view_pair read_raws
      (view_pair read_raws (view_pair read_raws (view_pair read_raws read_bool)))))))"
  let ?d = "cells_pair playbook_cells (cells_pair time_cells (cells_pair raws_cells (cells_pair raws_cells
      (cells_pair raws_cells (cells_pair raws_cells (cells_pair raws_cells (cells_pair raws_cells
      (cells_boxed bool_of no_cells))))))))"
  let ?parts = "\<lambda>m. (sm_Playbook m, sm_TTLSecondsAfterApproval m, sm_Env m, sm_EnvFrom m, sm_Volumes m,
      sm_VolumeMounts m, sm_InitContainers m, sm_ImagePullSecrets m, sm_ClusterAdmin m)"
  let ?put = "\<lambda>(pb, ttl, env, ef, vs, vm, ic, ps, ca) m. m\<lparr>sm_Playbook := pb, sm_TTLSecondsAfterApproval := ttl,
      sm_Env := env, sm_EnvFrom := ef, sm_Volumes := vs, sm_VolumeMounts := vm, sm_InitContainers := ic,
      sm_ImagePullSecrets := ps, sm_ClusterAdmin := ca\<rparr>"
  let ?w = "\<lambda>m (pb, ttl, env, ef, vs, vm, ic, ps, ca). (sm_Values m)\<lparr>Playbook := pb, TTLSecondsAfterApproval := ttl,
      Env := env, EnvFrom := ef, Volumes := vs, VolumeMounts := vm, InitContainers := ic, ImagePullSecrets := ps,
      ClusterAdmin := ca\<rparr>"
  have v: "read_spec = (\<lambda>h m. ?w m (?v h (?parts m)))"
    by (intro ext) (simp add: read_spec_def view_pair_def)
  have c: "spec_cells = (\<lambda>h m. ?d h (?parts m))"
    by (intro ext) (simp add: spec_cells_def cells_pair_def time_cells_def)
  show ?thesis unfolding v c
  proof (rule deep_struct [where put = ?put])
    show "deep_copier ?f ?v ?d"
      by (intro deep_pair r playbook_copy.deep_copier_axioms int_copy.deep_copier_axioms bool_copy.deep_copier_axioms)
  qed (auto simp: spec_DeepCopyInto_def copy_pair_def split: prod.splits)
qed

interpretation status_copy: deep_copier status_DeepCopyInto read_status status_cells
proof -
  let ?i = copy_int and ?r = read_int and ?t = time_cells
  let ?f = "copy_pair copy_warnings (copy_pair copy_assessment (copy_pair ?i (copy_pair ?i (copy_pair ?i (copy_pair ?i
      (copy_pair ?i (copy_pair ?i (copy_pair ?i (copy_pair ?i ?i)))))))))"
  let ?v = "view_pair (view_slice strings_of) (view_pair read_assessment (view_pair ?r (view_pair ?r (view_pair ?r
      (view_pair ?r (view_pair ?r (view_pair ?r (view_pair ?r (view_pair ?r ?r)))))))))"
  let ?d = "cells_pair (cells_boxed strings_of no_cells) (cells_pair assessment_cells (cells_pair ?t (cells_pair ?t
      (cells_pair ?t (cells_pair ?t (cells_pair ?t (cells_pair ?t (cells_pair ?t (cells_pair ?t ?t)))))))))"
  let ?parts = "\<lambda>m. (tm_PreflightWarnings m, tm_PermissionAssessment m, tm_ApprovedAt m, tm_DeniedAt m, tm_ExitCode m,
      tm_OutputTotalBytes m, tm_OutputRetainedBytes m, tm_ApprovalTokenExpiresAt m, tm_NotificationLastAttemptAt m,
      tm_NotificationNextAttemptAt m, tm_NotificationDeliveredAt m)"
  let ?put = "\<lambda>(pw, pa, aa, da, ec, ot, orb, ex, la, na, nd) m. m\<lparr>tm_PreflightWarnings := pw,
      tm_PermissionAssessment := pa, tm_ApprovedAt := aa, tm_DeniedAt := da, tm_ExitCode := ec,
      tm_OutputTotalBytes := ot, tm_OutputRetainedBytes := orb, tm_ApprovalTokenExpiresAt := ex,
      tm_NotificationLastAttemptAt := la, tm_NotificationNextAttemptAt := na, tm_NotificationDeliveredAt := nd\<rparr>"
  let ?w = "\<lambda>m (pw, pa, aa, da, ec, ot, orb, ex, la, na, nd). (tm_Values m)\<lparr>PreflightWarnings := pw,
      PermissionAssessment := pa, ApprovedAt := aa, DeniedAt := da, ExitCode := ec,
      OutputTotalBytes := ot, OutputRetainedBytes := orb, ApprovalTokenExpiresAt := ex,
      NotificationLastAttemptAt := la, NotificationNextAttemptAt := na, NotificationDeliveredAt := nd\<rparr>"
  have v: "read_status = (\<lambda>h m. ?w m (?v h (?parts m)))"
    by (intro ext) (simp add: read_status_def view_pair_def)
  have c: "status_cells = (\<lambda>h m. ?d h (?parts m))"
    by (intro ext) (simp add: status_cells_def cells_pair_def)
  show "deep_copier status_DeepCopyInto read_status status_cells" unfolding v c
  proof (rule deep_struct [where put = ?put])
    show "deep_copier ?f ?v ?d"
      by (intro deep_pair warnings_copy.deep_copier_axioms assessment_copy.deep_copier_axioms int_copy.deep_copier_axioms)
  qed (auto simp: status_DeepCopyInto_def copy_pair_def split: prod.splits)
qed

lemma deep_request:
  assumes meta: "deep_copier meta_copy read_meta meta_cells" and raw: "deep_copier raw_copy read_raw raw_cells"
  shows "deep_copier (request_DeepCopyInto meta_copy raw_copy) read_request request_cells"
proof -
  let ?f = "copy_pair meta_copy (copy_pair (spec_DeepCopyInto raw_copy) status_DeepCopyInto)"
  let ?v = "view_pair read_meta (view_pair read_spec read_status)"
  let ?d = "cells_pair meta_cells (cells_pair spec_cells status_cells)"
  let ?parts = "\<lambda>m. (rm_Meta m, rm_Spec m, rm_Status m)"
  let ?w = "\<lambda>(m :: request_mem) ((n, ns, u, rv, ct, dt, fs), sp, st). \<lparr>Name = n, Namespace = ns, UID = u,
      ResourceVersion = rv, CreationTimestamp = ct, DeletionTimestamp = dt, Finalizers = fs, Spec = sp, Status = st\<rparr>"
  have v: "read_request = (\<lambda>h m. ?w m (?v h (?parts m)))"
    by (intro ext) (simp add: read_request_def read_meta_def view_pair_def)
  have c: "request_cells = (\<lambda>h m. ?d h (?parts m))"
    by (intro ext) (simp add: request_cells_def cells_pair_def)
  show ?thesis unfolding v c
  proof (rule deep_struct [where w = ?w and v = ?v and c = ?d and parts = ?parts
        and put = "\<lambda>(mt, sp, st) m. m\<lparr>rm_Meta := mt, rm_Spec := sp, rm_Status := st\<rparr>"])
    show "deep_copier ?f ?v ?d" by (intro deep_pair meta deep_spec [OF raw] status_copy.deep_copier_axioms)
  qed (auto simp: request_DeepCopyInto_def copy_pair_def split: prod.splits)
qed

definition read_pointer :: "store \<Rightarrow> addr option \<Rightarrow> sudo_request option" where
  "read_pointer = view_boxed request_of read_request"

definition pointer_cells :: "store \<Rightarrow> addr option \<Rightarrow> addr set" where
  "pointer_cells = cells_boxed request_of request_cells"

definition read_items :: "store \<Rightarrow> addr option \<Rightarrow> sudo_request list option" where
  "read_items = view_boxed requests_of (view_list read_request)"

definition items_cells :: "store \<Rightarrow> addr option \<Rightarrow> addr set" where
  "items_cells = cells_boxed requests_of (cells_list request_cells)"

lemma deep_pointer:
  assumes "deep_copier meta_copy read_meta meta_cells" and "deep_copier raw_copy read_raw raw_cells"
  shows "deep_copier (DeepCopy meta_copy raw_copy) read_pointer pointer_cells"
    and "deep_copier (list_DeepCopyInto meta_copy raw_copy) read_items items_cells"
proof -
  note r = deep_request [OF assms]
  show "deep_copier (DeepCopy meta_copy raw_copy) read_pointer pointer_cells"
    unfolding DeepCopy_def read_pointer_def pointer_cells_def by (rule deep_boxed [OF r]) (simp add: contents)
  show "deep_copier (list_DeepCopyInto meta_copy raw_copy) read_items items_cells"
    unfolding list_DeepCopyInto_def read_items_def items_cells_def
    by (rule deep_boxed [OF deep_list [OF r]]) (simp add: contents)
qed

section \<open>Properties\<close>

text \<open>The copies of the library, on a concrete store.\<close>

definition sample_raw_copy :: "addr option \<Rightarrow> addr option copying" where
  "sample_raw_copy = copy_boxed bytes_of BytesCell copy_value"

definition sample_meta_copy :: "meta_mem \<Rightarrow> meta_mem copying" where
  "sample_meta_copy m = do {
     deleted \<leftarrow> copy_int (mm_DeletionTimestamp m);
     finalizers \<leftarrow> copy_append strings_of StringsCell (mm_Finalizers m);
     State_Monad.return (m\<lparr>mm_DeletionTimestamp := deleted, mm_Finalizers := finalizers\<rparr>) }"

interpretation sample_raw: deep_copier sample_raw_copy read_raw raw_cells
proof -
  have v: "read_raw = (\<lambda>h p. case view_boxed bytes_of view_value h p of None \<Rightarrow> '''' | Some s \<Rightarrow> s)"
    by (intro ext) (simp add: read_raw_def view_boxed_def view_value_def split: option.split)
  show "deep_copier sample_raw_copy read_raw raw_cells"
    unfolding sample_raw_copy_def raw_cells_def v
    by (rule deep_view, rule deep_boxed [OF deep_value']) (simp add: contents)
qed

interpretation sample_meta: deep_copier sample_meta_copy read_meta meta_cells
proof -
  let ?w = "\<lambda>m (dt, fs). (mm_Name m, mm_Namespace m, mm_UID m, mm_ResourceVersion m, mm_CreationTimestamp m, dt, fs)"
  let ?parts = "\<lambda>m. (mm_DeletionTimestamp m, mm_Finalizers m)"
  have v: "read_meta = (\<lambda>h m. ?w m (view_pair read_int (view_slice strings_of) h (?parts m)))"
    by (intro ext) (simp add: read_meta_def view_pair_def)
  have c: "meta_cells = (\<lambda>h m. cells_pair time_cells (cells_boxed strings_of no_cells) h (?parts m))"
    by (intro ext) (simp add: meta_cells_def cells_pair_def)
  show "deep_copier sample_meta_copy read_meta meta_cells" unfolding v c
  proof (rule deep_struct [where put = "\<lambda>(dt, fs) m. m\<lparr>mm_DeletionTimestamp := dt, mm_Finalizers := fs\<rparr>"])
    show "deep_copier (copy_pair copy_int copy_warnings) (view_pair read_int (view_slice strings_of))
        (cells_pair time_cells (cells_boxed strings_of no_cells))"
      by (intro deep_pair int_copy.deep_copier_axioms warnings_copy.deep_copier_axioms)
  qed (auto simp: sample_meta_copy_def copy_warnings_def copy_pair_def split: prod.splits)
qed

text \<open>
  C29: a deep copy of a request shows the same request, and the two
  share no memory: whatever is later written to the cells of the copy, the original still shows that
  request, and whatever is later written to the cells of the original, the copy does; provided the
  copies of the library, of the metadata and of the raw pod fields, are deep in this sense.
\<close>

theorem deep_copy_is_independent:
  assumes "deep_copier meta_copy read_meta meta_cells" and "deep_copier raw_copy read_raw raw_cells"
    and "run_state (DeepCopy meta_copy raw_copy p) h = (q, h')" and "pointer_cells h p \<subseteq> allocated h"
  shows "read_pointer h' q = read_pointer h p \<and>
    (\<forall>g. agree_off (pointer_cells h' q) h' g \<longrightarrow> read_pointer g p = read_pointer h p) \<and>
    (\<forall>g. agree_off (pointer_cells h p) h' g \<longrightarrow> read_pointer g q = read_pointer h p)"
  by (rule deep_copier.independent [OF deep_pointer(1) [OF assms(1,2)] assms(3,4)])

text \<open>A request with a playbook, a raw field and an expiry.\<close>

definition sample_store :: store where
  "sample_store = \<lparr>st_at = (\<lambda>a. IntCell 0)(0 := RequestCell (zero_request_mem\<lparr>
       rm_Spec := (rm_Spec zero_request_mem)\<lparr>sm_Playbook := Some 1, sm_Env := Some 3\<rparr>,
       rm_Status := (rm_Status zero_request_mem)\<lparr>tm_ApprovalTokenExpiresAt := Some 5\<rparr>\<rparr>),
     1 := PlaybookCell ''clean'' (Some 2), 2 := MapCell [(''name'', ''j'')], 3 := RawsCell [Some 4, None],
     4 := BytesCell ''{}'', 5 := IntCell 7), st_next = 6\<rparr>"

lemma sample_pointer: "pointer_cells sample_store (Some 0) = {0, 1, 2, 3, 4, 5}"
  by (simp add: sample_store_def pointer_cells_def request_cells_def meta_cells_def spec_cells_def status_cells_def
      playbook_cells_def assessment_cells_def raws_cells_def raw_cells_def time_cells_def cells_boxed_def cells_pair_def
      cells_list_def no_cells_def contents zero_request_mem_def insert_commute)

theorem deep_copy_is_independent_witness:
  "\<exists>q h'. run_state (DeepCopy sample_meta_copy sample_raw_copy (Some 0)) sample_store = (q, h') \<and>
     map_option (\<lambda>sr. (Env (Spec sr), ApprovalTokenExpiresAt (Status sr))) (read_pointer h' q) = Some ([''{}'', ''''], Some 7)"
proof -
  obtain q h' where c: "run_state (DeepCopy sample_meta_copy sample_raw_copy (Some 0)) sample_store = (q, h')"
    by (cases "run_state (DeepCopy sample_meta_copy sample_raw_copy (Some 0)) sample_store")
  have "pointer_cells sample_store (Some 0) \<subseteq> allocated sample_store"
    unfolding sample_pointer by (auto simp: allocated_def sample_store_def)
  with deep_copy_is_independent [OF sample_meta.deep_copier_axioms sample_raw.deep_copier_axioms c]
  have "read_pointer h' q = read_pointer sample_store (Some 0)" by simp
  moreover have "map_option (\<lambda>sr. (Env (Spec sr), ApprovalTokenExpiresAt (Status sr))) (read_pointer sample_store (Some 0))
      = Some ([''{}'', ''''], Some 7)"
    by (simp add: sample_store_def read_pointer_def read_request_def read_spec_def read_status_def read_raws_def
        read_raw_def view_boxed_def view_list_def items_def read_int_def view_value_def contents zero_request_mem_def)
  ultimately show ?thesis using c by auto
qed

end
