(* ===== verification/Progress.thy ===== *)
theory Progress
  imports Samples
begin

text \<open>
  Runs of \<open>Reconcile\<close> one after the other, in a cluster that answers: reads show what is stored, writes
  are accepted, and Jobs come to an end.  An approved request is then executed or failed after a
  bounded number of runs, wherever earlier runs, or crashes between them, have left it.
\<close>

section \<open>What is stored\<close>

text \<open>The request after the writes of a history, the last one accepted.\<close>

definition stored_by :: "sudo_request \<Rightarrow> call \<Rightarrow> sudo_request" where
  "stored_by cur c = (case c of UpdateStatus obj (Inr s) \<Rightarrow> s | UpdateSR obj (Inr s) \<Rightarrow> s | _ \<Rightarrow> cur)"

definition version_after :: "sudo_request \<Rightarrow> hist \<Rightarrow> sudo_request" where
  "version_after sr0 h = foldl stored_by sr0 h"

lemma version_after_simps [simp]:
  "version_after sr0 [] = sr0" "version_after sr0 (h @ t) = version_after (version_after sr0 h) t"
  "version_after sr0 (c # t) = version_after (stored_by sr0 c) t"
  by (simp_all add: version_after_def)

definition writes_request :: "call \<Rightarrow> bool" where
  "writes_request c \<longleftrightarrow> (case c of UpdateStatus obj r \<Rightarrow> True | UpdateSR obj r \<Rightarrow> True | _ \<Rightarrow> False)"

lemma quiet_stored: "\<forall>c\<in>set t. \<not> writes_request c \<Longrightarrow> version_after sr t = sr"
  by (induction t) (auto simp: writes_request_def stored_by_def split: call.splits)

section \<open>Total correctness of a run\<close>

lemma wp_attempt [simp]:
  "wp (attempt m k) Q h = wp m (\<lambda>r. case r of Inl e \<Rightarrow> Q (Inl e) | Inr a \<Rightarrow> wp (k a) Q) h"
  by (auto simp: attempt_def intro!: arg_cong [where f = "\<lambda>X. wp m X h"] ext split: sum.split)

lemma wp_attempt_ctx [simp]:
  "wp (attempt_ctx ctx m k) Q h = wp m (\<lambda>r. case r of Inl e \<Rightarrow> Q (Inl (Wrap ctx e)) | Inr a \<Rightarrow> wp (k a) Q) h"
  by (auto simp: attempt_ctx_def intro!: arg_cong [where f = "\<lambda>X. wp m X h"] ext split: sum.split)

lemma wp_emits:
  assumes "emits P m Q h" and "\<And>a t. trace_ok P h t \<Longrightarrow> Q a (h @ t) \<Longrightarrow> R a (h @ t)"
  shows "wp m R h"
  using assms by (fastforce simp: emits_def wp_def split: prod.splits)

text \<open>A program that does not write the request.\<close>

lemma wp_quiet:
  assumes "emits P m Q h" and "\<And>h c. P h c \<Longrightarrow> \<not> writes_request c"
    and "\<And>a t. \<forall>c\<in>set t. \<not> writes_request c \<Longrightarrow> Q a (h @ t) \<Longrightarrow> R a (h @ t)"
  shows "wp m R h"
proof (rule wp_emits [OF assms(1)])
  fix a t
  assume t: "trace_ok P h t" and q: "Q a (h @ t)"
  from t assms(2) have "trace_ok (\<lambda>_ c. \<not> writes_request c) h t" by (rule trace_ok_mono)
  then have "\<forall>c\<in>set t. \<not> writes_request c" by (simp only: trace_ok_ball)
  then show "R a (h @ t)" using q by (rule assms(3))
qed

section \<open>A cluster that answers\<close>

definition versioned :: "sudo_request \<Rightarrow> sudo_request \<Rightarrow> bool" where
  "versioned obj s \<longleftrightarrow> s = obj\<lparr>ResourceVersion := ResourceVersion s\<rparr>"

text \<open>
  Uncached reads show what is stored; cached ones may lag while the request is approved.  Writes of
  the request, creations of Secrets and deletions are accepted; a Job is created, or refused for good;
  a Job that is read is not being deleted.  Pods, logs, events, messages and the clock are free.
\<close>

definition answers :: "world \<Rightarrow> sudo_request \<Rightarrow> bool" where
  "answers W sr0 \<longleftrightarrow>
     (\<forall>h ns n. w_get_sr W h False ns n = Inr (version_after sr0 h)) \<and>
     (\<forall>h ns n. case w_get_sr W h True ns n of Inl e \<Rightarrow> False
        | Inr c \<Rightarrow> DeletionTimestamp c = None \<and> Phase (Status c) \<in> {Approved, Phase (Status (version_after sr0 h))}) \<and>
     (\<forall>h obj. case w_update_status W h obj of Inl e \<Rightarrow> False | Inr s \<Rightarrow> versioned obj s) \<and>
     (\<forall>h obj. case w_update_sr W h obj of Inl e \<Rightarrow> False | Inr s \<Rightarrow> versioned obj s) \<and>
     (\<forall>h k. case w_random W h k of Inl e \<Rightarrow> False | Inr bs \<Rightarrow> True) \<and>
     (\<forall>h ns n. case w_get_job W h ns n of Inl e \<Rightarrow> is_not_found e
        | Inr j \<Rightarrow> j_DeletionTimestamp j = None \<and> j_UID j \<noteq> '''') \<and>
     (\<forall>h j. case w_create_job W h j of Inl e \<Rightarrow> permanent_rejection e | Inr s \<Rightarrow> j_UID s \<noteq> '''') \<and>
     (\<forall>h ns n uid. w_delete_job W h ns n uid = None) \<and>
     (\<forall>h ns n. case w_get_secret W h False ns n of Inl e \<Rightarrow> is_not_found e | Inr s \<Rightarrow> True) \<and>
     (\<forall>h s. case w_create_secret W h s of Inl e \<Rightarrow> False | Inr stored \<Rightarrow> True) \<and>
     (\<forall>h ns j. case w_list_pods W h ns j of Inl e \<Rightarrow> False | Inr pods \<Rightarrow> True)"

lemma answersD:
  assumes "answers W sr0"
  shows "w_get_sr W h False ns n = Inr (version_after sr0 h)"
    and "\<exists>c. w_get_sr W h True ns n = Inr c \<and> DeletionTimestamp c = None \<and>
      Phase (Status c) \<in> {Approved, Phase (Status (version_after sr0 h))}"
    and "\<exists>s. w_update_status W h obj = Inr s \<and> versioned obj s"
    and "\<exists>s. w_update_sr W h obj = Inr s \<and> versioned obj s"
    and "\<exists>bs. w_random W h k = Inr bs"
    and "w_get_job W h ns n = Inl e \<Longrightarrow> is_not_found e"
    and "w_get_job W h ns n = Inr j \<Longrightarrow> j_DeletionTimestamp j = None \<and> j_UID j \<noteq> ''''"
    and "w_create_job W h cj = Inl e \<Longrightarrow> permanent_rejection e"
    and "w_create_job W h cj = Inr j \<Longrightarrow> j_UID j \<noteq> ''''"
    and "w_delete_job W h ns n uid = None"
    and "w_get_secret W h False ns n = Inl e \<Longrightarrow> is_not_found e"
    and "\<exists>stored. w_create_secret W h sec = Inr stored"
    and "\<exists>pods. w_list_pods W h ns n = Inr pods"
proof -
  note a = assms [unfolded answers_def]
  show "w_get_sr W h False ns n = Inr (version_after sr0 h)" by (simp only: a)
  show "w_delete_job W h ns n uid = None" by (simp only: a)
  have "case w_get_sr W h True ns n of Inl e \<Rightarrow> False
        | Inr c \<Rightarrow> DeletionTimestamp c = None \<and> Phase (Status c) \<in> {Approved, Phase (Status (version_after sr0 h))}"
    by (simp only: a)
  then show "\<exists>c. w_get_sr W h True ns n = Inr c \<and> DeletionTimestamp c = None \<and>
      Phase (Status c) \<in> {Approved, Phase (Status (version_after sr0 h))}" by (simp split: sum.splits)
  have "case w_update_status W h obj of Inl e \<Rightarrow> False | Inr s \<Rightarrow> versioned obj s" by (simp only: a)
  then show "\<exists>s. w_update_status W h obj = Inr s \<and> versioned obj s" by (simp split: sum.splits)
  have "case w_update_sr W h obj of Inl e \<Rightarrow> False | Inr s \<Rightarrow> versioned obj s" by (simp only: a)
  then show "\<exists>s. w_update_sr W h obj = Inr s \<and> versioned obj s" by (simp split: sum.splits)
  have "case w_random W h k of Inl e \<Rightarrow> False | Inr bs \<Rightarrow> True" by (simp only: a)
  then show "\<exists>bs. w_random W h k = Inr bs" by (simp split: sum.splits)
  have j: "case w_get_job W h ns n of Inl e \<Rightarrow> is_not_found e
        | Inr j \<Rightarrow> j_DeletionTimestamp j = None \<and> j_UID j \<noteq> ''''" by (simp only: a)
  show "is_not_found e" if "w_get_job W h ns n = Inl e" using j that by simp
  show "j_DeletionTimestamp j = None \<and> j_UID j \<noteq> ''''" if "w_get_job W h ns n = Inr j" using j that by simp
  have k: "case w_create_job W h cj of Inl e \<Rightarrow> permanent_rejection e | Inr s \<Rightarrow> j_UID s \<noteq> ''''" by (simp only: a)
  show "permanent_rejection e" if "w_create_job W h cj = Inl e" using k that by simp
  show "j_UID j \<noteq> ''''" if "w_create_job W h cj = Inr j" using k that by simp
  have "case w_get_secret W h False ns n of Inl e \<Rightarrow> is_not_found e | Inr s \<Rightarrow> True" by (simp only: a)
  then show "is_not_found e" if "w_get_secret W h False ns n = Inl e" using that by simp
  have "case w_create_secret W h sec of Inl e \<Rightarrow> False | Inr stored \<Rightarrow> True" by (simp only: a)
  then show "\<exists>stored. w_create_secret W h sec = Inr stored" by (simp split: sum.splits)
  have "case w_list_pods W h ns n of Inl e \<Rightarrow> False | Inr pods \<Rightarrow> True" by (simp only: a)
  then show "\<exists>pods. w_list_pods W h ns n = Inr pods" by (simp split: sum.splits)
qed

text \<open>Jobs end: one that has not is read at most \<open>K\<close> times.\<close>

definition polls :: "hist \<Rightarrow> nat" where
  "polls h = length (filter (\<lambda>c. case c of GetJob ns n (Inr j) \<Rightarrow> \<not> job_finished j | _ \<Rightarrow> False) h)"

definition jobs_end :: "world \<Rightarrow> nat \<Rightarrow> bool" where
  "jobs_end W K \<longleftrightarrow> (\<forall>h ns n. case w_get_job W h ns n of Inl e \<Rightarrow> True | Inr j \<Rightarrow> job_finished j \<or> polls h < K)"

lemma polls_mono: "polls h \<le> polls (h @ t)"
  by (simp add: polls_def)

section \<open>How far a request has come\<close>

definition over :: "sudo_request \<Rightarrow> bool" where
  "over sr \<longleftrightarrow> Phase (Status sr) = Executed \<or> Phase (Status sr) = Failed"

text \<open>
  What remains to be done: the finalizer, the names, the Job and its UID, the outcome.
\<close>

definition remaining :: "reconciler \<Rightarrow> sudo_request \<Rightarrow> nat" where
  "remaining R sr = (if over sr then 0
     else if needs_finalizer R sr then 4
     else if ExecutorJobName (Status sr) = '''' then 3
     else if ExecutorJobUID (Status sr) = '''' then 2 else 1)"

text \<open>A request on the executor path, with fields that decode.\<close>

definition executing :: "reconciler \<Rightarrow> sudo_request \<Rightarrow> bool" where
  "executing R sr \<longleftrightarrow> Phase (Status sr) \<in> {Approved, Executed, Failed} \<and> \<not> auto_playbook sr \<and>
     (case decodePodExtras (rc_lib R) sr of Inl e \<Rightarrow> False | Inr x \<Rightarrow> True)"

text \<open>A step of a run: nothing is lost, and if \<open>strict\<close>, something is done.\<close>

definition advances :: "reconciler \<Rightarrow> bool \<Rightarrow> sudo_request \<Rightarrow> sudo_request \<Rightarrow> bool" where
  "advances R strict sr new \<longleftrightarrow> executing R new \<and> remaining R new \<le> remaining R sr \<and>
     (strict \<longrightarrow> remaining R new < remaining R sr)"

lemma advances_weaken: "advances R True sr new \<Longrightarrow> advances R strict sr new"
  by (simp add: advances_def)

lemma remaining_positive: "0 < remaining R sr \<longleftrightarrow> \<not> over sr"
  by (simp add: remaining_def)

lemma versionedD:
  assumes "versioned obj s"
  shows "Status s = Status obj" "Spec s = Spec obj" "Finalizers s = Finalizers obj"
  by (subst assms [unfolded versioned_def], simp)+

lemma executing_kept:
  assumes "executing R sr" and "Spec s = Spec sr" and "PlaybookAutoApproved (Status s) = PlaybookAutoApproved (Status sr)"
    and "Phase (Status s) \<in> {Approved, Executed, Failed}"
  shows "executing R s"
  using assms decodePodExtras_spec [OF assms(2)] by (simp add: executing_def auto_playbook_def)

text \<open>Only the phase and the identities of the status count.\<close>

lemma remaining_kept:
  assumes "Spec s = Spec sr" and "Finalizers s = Finalizers sr"
  shows "needs_finalizer R s = needs_finalizer R sr"
  using assms by (simp add: needs_finalizer_def executorNamespace_def)

lemma wp_updateStatus:
  assumes a: "answers W sr0"
    and Q: "\<And>s. versioned (Status_update f sr) s \<Longrightarrow> version_after sr0 (h @ [UpdateStatus (Status_update f sr) (Inr s)]) = s \<Longrightarrow>
      Q (s, None) (h @ [UpdateStatus (Status_update f sr) (Inr s)])"
  shows "wp (updateStatus W sr f) Q h"
proof -
  obtain s where s: "w_update_status W h (Status_update f sr) = Inr s" "versioned (Status_update f sr) s"
    using answersD(3) [OF a] by blast
  then show ?thesis using Q [OF s(2)] by (simp add: updateStatus_def prims stored_by_def)
qed

text \<open>The request reaches its end.\<close>

lemma ended_advances:
  assumes "versioned (Status_update f sr) s" and "executing R sr" and "\<not> over sr"
    and "PlaybookAutoApproved (f (Status sr)) = PlaybookAutoApproved (Status sr)"
    and "Phase (f (Status sr)) = Executed \<or> Phase (f (Status sr)) = Failed"
  shows "advances R strict sr s"
proof -
  note v = versionedD [OF assms(1)]
  have "executing R s" by (rule executing_kept [OF assms(2)]) (use v assms(4,5) in auto)
  moreover have "over s" using v assms(5) by (simp add: over_def)
  ultimately show ?thesis using assms(3) remaining_positive [of R sr] by (simp add: advances_def remaining_def)
qed

lemma markFailed_wp:
  assumes a: "answers W sr0" and sr: "executing R sr" "\<not> over sr"
  shows "wp (markFailed W sr reason) (\<lambda>r h'. advances R strict sr (version_after sr0 h')) h"
  unfolding markFailed_def wp_bind
  by (rule wp_updateStatus [OF a])
     (use sr in \<open>auto simp: prims stored_by_def set_failed_def intro!: ended_advances\<close>)

lemma finalize_wp:
  assumes a: "answers W sr0" and sr: "executing R sr" "\<not> over sr"
    and cur: "cur = Status_update g sr" "\<And>s. PlaybookAutoApproved (g s) = PlaybookAutoApproved s"
  shows "wp (finalizeFromRecordedResult W cur ec) (\<lambda>r h'. advances R strict sr (version_after sr0 h')) h"
proof -
  have c: "Status_update (set_final r ec) cur = Status_update (\<lambda>s. set_final r ec (g s)) sr" for r
    by (simp add: cur(1))
  have e: "advances R strict sr s" if "versioned (Status_update (set_final r ec) cur) s" for r s
    using that unfolding c by (rule ended_advances [OF _ sr]) (simp_all add: set_final_def cur(2))
  show ?thesis
    unfolding finalizeFromRecordedResult_def wp_bind Let_def
    by (rule wp_updateStatus [OF a]) (auto simp: prims stored_by_def intro: e)
qed

lemma stopJob_wp:
  assumes "answers W sr0" and "\<And>c. Q None (h @ [DeleteJob (j_Namespace j) (j_Name j) None c])"
  shows "wp (stopJob W j) Q h"
  using assms(2) by (simp add: stopJob_def prims answersD(10) [OF assms(1)])

lemma getExecutorJob_wp:
  assumes a: "answers W sr0" and site: "job_site R sr = (ns, n)"
    and gone: "\<And>e. Q (Inr None) (h @ [GetJob ns n (Inl e)])"
    and there: "\<And>j. w_get_job W h ns n = Inr j \<Longrightarrow> Q (Inr (Some j)) (h @ [GetJob ns n (Inr j)])"
  shows "wp (getExecutorJob W R sr) Q h"
  using site gone there answersD(6) [OF a] by (auto simp: getExecutorJob_def job_site_def prims split: sum.splits)

lemma failApproved_wp:
  assumes a: "answers W sr0" and sr: "executing R sr" "\<not> over sr"
  shows "wp (failApproved W R sr reason) (\<lambda>r h'. advances R strict sr (version_after sr0 h')) h"
proof (cases "ExecutorJobName (Status sr) = ''''")
  case False
  then show ?thesis
    by (auto simp: failApproved_def intro!: getExecutorJob_wp [OF a, OF surjective_pairing] stopJob_wp [OF a] markFailed_wp [OF a sr])
qed (simp add: failApproved_def markFailed_wp [OF assms])

text \<open>A write that keeps the phase: nothing is lost.\<close>

lemma phase_kept:
  assumes "versioned (Status_update f sr) s" and "executing R sr" and "\<not> over sr"
    and "PlaybookAutoApproved (f (Status sr)) = PlaybookAutoApproved (Status sr)" and "Phase (f (Status sr)) = Phase (Status sr)"
    and "ExecutorJobName (Status sr) \<noteq> '''' \<longrightarrow> ExecutorJobName (f (Status sr)) \<noteq> ''''"
    and "ExecutorJobUID (Status sr) \<noteq> '''' \<longrightarrow> ExecutorJobUID (f (Status sr)) \<noteq> ''''"
  shows "executing R s" and "\<not> over s" and "needs_finalizer R s = needs_finalizer R sr"
    and "remaining R s \<le> remaining R sr"
proof -
  note v = versionedD [OF assms(1)]
  show "executing R s"
    by (rule executing_kept [OF assms(2)]) (use v assms(2,4,5) in \<open>auto simp: executing_def\<close>)
  show "\<not> over s" using assms(3,5) v by (simp add: over_def)
  show f: "needs_finalizer R s = needs_finalizer R sr" by (rule remaining_kept) (simp_all add: v)
  show "remaining R s \<le> remaining R sr" using assms(3,6,7) \<open>\<not> over s\<close> v by (simp add: remaining_def f)
qed

section \<open>Launching\<close>

text \<open>A Secret for stdin is created; a Job is found or created, or refused for good.\<close>

lemma ensureStdinSecret_wp:
  assumes a: "answers W sr0" and Q: "\<And>t. version_after sr0 (h @ t) = version_after sr0 h \<Longrightarrow> Q None (h @ t)"
  shows "wp (ensureStdinSecret W sr j) Q h"
proof -
  obtain stored where c: "w_create_secret W h (stdin_secret sr j) = Inr stored" using answersD(12) [OF a] by blast
  show ?thesis
    using Q [of "[]"] Q [of "[CreateSecret (stdin_secret sr j) (Inr stored)]"]
    by (simp add: ensureStdinSecret_def prims stored_by_def c)
qed

lemma permanent_simps [simp]:
  "permanent_rejection (Wrap ctx e) = permanent_rejection e" "permanent_rejection (DisallowedSecret n b)"
  "permanent_rejection ForeignChildObject"
  by (simp_all add: permanent_rejection_def is_invalid_def is_forbidden_def is_not_found_def is_foreign_def is_disallowed_def)

definition settles :: "sudo_request \<Rightarrow> hist \<Rightarrow> gerr option \<Rightarrow> hist \<Rightarrow> bool" where
  "settles sr0 h r h' \<longleftrightarrow> version_after sr0 h' = version_after sr0 h \<and>
     (case r of Some e \<Rightarrow> permanent_rejection e | None \<Rightarrow> True)"

lemma settles_from: "version_after sr0 h1 = version_after sr0 h \<Longrightarrow> settles sr0 h1 = settles sr0 h"
  by (simp add: settles_def fun_eq_iff)

lemma check_secret_wp:
  assumes a: "answers W sr0"
  shows "wp (check_secret W ns x) (settles sr0 h) h"
  using answersD(11) [OF a, of h ns x]
  by (auto simp: check_secret_def prims settles_def stored_by_def split: sum.splits)

lemma first_check_wp:
  assumes a: "answers W sr0"
  shows "wp (first_err (check_secret W ns) names) (settles sr0 h) h"
proof (induction names arbitrary: h)
  case (Cons x xs)
  show ?case
    unfolding first_err.simps wp_bind
  proof (rule wp_mono [OF check_secret_wp [OF a]])
    fix r h'
    assume r: "settles sr0 h r h'"
    then have "settles sr0 h' = settles sr0 h" by (intro settles_from) (simp add: settles_def)
    with Cons.IH [of h'] r show "wp (case r of Some e \<Rightarrow> State_Monad.return (Some e)
        | None \<Rightarrow> first_err (check_secret W ns) xs) (settles sr0 h) h'"
      by (cases r) simp_all
  qed
qed (simp add: settles_def)

lemma wp_go_range: "(\<And>xs. Q xs h) \<Longrightarrow> wp (go_range W ks) Q h"
  by (simp add: go_range_def wp_def State_Monad.get_def)

definition finds :: "sudo_request \<Rightarrow> hist \<Rightarrow> job res \<Rightarrow> hist \<Rightarrow> bool" where
  "finds sr0 h r h' \<longleftrightarrow> version_after sr0 h' = version_after sr0 h \<and>
     (case r of Inl e \<Rightarrow> permanent_rejection e | Inr j \<Rightarrow> j_UID j \<noteq> '''')"

lemma finds_from: "version_after sr0 h1 = version_after sr0 h \<Longrightarrow> finds sr0 h1 = finds sr0 h"
  by (simp add: finds_def fun_eq_iff)

lemma start_job_wp:
  assumes a: "answers W sr0"
  shows "wp (start_job W R sr x) (finds sr0 h) h"
  using answersD(8,9) [OF a, of h "executor_job R sr x"]
  by (auto simp: start_job_def prims stored_by_def finds_def split: sum.splits intro!: ensureStdinSecret_wp [OF a])

lemma adopt_job_wp:
  assumes a: "answers W sr0" and j: "j_DeletionTimestamp j = None" "j_UID j \<noteq> ''''"
  shows "wp (adopt_job W R sr j) (finds sr0 h) h"
  using j by (auto simp: adopt_job_def Let_def finds_def intro!: ensureStdinSecret_wp [OF a])

lemma findOrCreateJob_wp:
  assumes a: "answers W sr0" and sr: "executing R sr"
  shows "wp (findOrCreateJob W R sr) (finds sr0 h) h"
proof -
  let ?ns = "executorNamespace sr (controllerNamespace R)"
  let ?g = "\<lambda>r. h @ [GetJob ?ns (ExecutorJobName (Status sr)) r]"
  obtain x where x: "decodePodExtras (rc_lib R) sr = Inr x"
    using sr by (auto simp: executing_def split: sum.splits)
  have g: "finds sr0 (?g r) = finds sr0 h" for r by (rule finds_from) (simp add: stored_by_def)
  have adopt: "wp (adopt_job W R sr j) (finds sr0 h) (?g r)"
    if "w_get_job W h ?ns (ExecutorJobName (Status sr)) = Inr j" for j r
    using adopt_job_wp [OF a, of j R sr "?g r"] answersD(7) [OF a that] by (simp only: g simp_thms)
  have start: "wp (start_job W R sr x) (finds sr0 h) (?g r @ t)" if "version_after sr0 (?g r @ t) = version_after sr0 h" for r t
    using start_job_wp [OF a, of R sr x "?g r @ t"] finds_from [OF that] by simp
  have check: "wp (rejectServiceAccountTokenSecrets W ?ns x) (\<lambda>bad. wp (case bad of Some e \<Rightarrow> State_Monad.return (Inl e)
      | None \<Rightarrow> start_job W R sr x) (finds sr0 h)) (?g r)" for r
    unfolding rejectServiceAccountTokenSecrets_def wp_bind
  proof (rule wp_go_range)
    fix names
    show "wp (first_err (check_secret W ?ns) names) (\<lambda>bad. wp (case bad of Some e \<Rightarrow> State_Monad.return (Inl e)
      | None \<Rightarrow> start_job W R sr x) (finds sr0 h)) (?g r)"
    proof (rule wp_mono [OF first_check_wp [OF a]])
      fix bad h'
      assume "settles sr0 (?g r) bad h'"
      then have s: "version_after sr0 h' = version_after sr0 h" "case bad of Some e \<Rightarrow> permanent_rejection e | None \<Rightarrow> True"
        by (simp_all add: settles_def stored_by_def)
      show "wp (case bad of Some e \<Rightarrow> State_Monad.return (Inl e) | None \<Rightarrow> start_job W R sr x) (finds sr0 h) h'"
        using s start_job_wp [OF a, of R sr x h'] finds_from [OF s(1)] by (cases bad) (simp_all add: finds_def)
    qed
  qed
  show ?thesis
    unfolding findOrCreateJob_def
    using answersD(6) [OF a] adopt start [of "Inl _" "[]"] check
    by (auto simp: prims Let_def x stored_by_def split: sum.split)
qed

section \<open>The steps of a run\<close>

text \<open>The UID is recorded, or the request fails.\<close>

lemma record_job_wp:
  assumes a: "answers W sr0" and sr: "executing R sr" "\<not> over sr" "\<not> needs_finalizer R sr"
    "ExecutorJobName (Status sr) \<noteq> ''''" "ExecutorJobUID (Status sr) = ''''" and j: "j_UID j \<noteq> ''''"
  shows "wp (record_job W sr j) (\<lambda>r h'. advances R True sr (version_after sr0 h')) h"
proof -
  have "advances R True sr s" if s: "versioned (Status_update (set_job_uid (j_UID j)) sr) s" for s
  proof -
    note k = phase_kept [OF s sr(1,2)]
    have "executing R s" "\<not> over s" "needs_finalizer R s = needs_finalizer R sr"
      by (rule k; simp add: set_job_uid_def)+
    then show ?thesis using versionedD [OF s] sr j by (simp add: advances_def remaining_def set_job_uid_def)
  qed
  then show ?thesis
    unfolding record_job_def wp_bind by (intro wp_updateStatus [OF a]) (simp add: stored_by_def)
qed

lemma launch_wp:
  assumes a: "answers W sr0" and sr: "executing R sr" "\<not> over sr" "\<not> needs_finalizer R sr"
    "ExecutorJobName (Status sr) \<noteq> ''''" "ExecutorJobUID (Status sr) = ''''"
  shows "wp (launch W R sr) (\<lambda>r h'. advances R True sr (version_after sr0 h')) h"
  unfolding launch_def wp_bind
  by (rule wp_mono [OF findOrCreateJob_wp [OF a sr(1)]])
     (auto simp: finds_def split: sum.splits intro!: record_job_wp [OF a sr] failApproved_wp [OF a sr(1,2)])

lemma mint_names_wp:
  assumes a: "answers W sr0" and sr: "executing R sr" "\<not> over sr" "\<not> needs_finalizer R sr" "ExecutorJobName (Status sr) = ''''"
  shows "wp (mint_names W sr) (\<lambda>r h'. advances R True sr (version_after sr0 h')) h"
proof -
  have w: "advances R True sr s" if s: "versioned (Status_update (set_names (''sudo-exec-'' @ b) c) sr) s" for b c s
  proof -
    note k = phase_kept [OF s sr(1,2)]
    have "executing R s" "\<not> over s" "needs_finalizer R s = needs_finalizer R sr"
      by (rule k; simp add: set_names_def sr(4))+
    then show ?thesis using versionedD [OF s] sr by (simp add: advances_def remaining_def set_names_def)
  qed
  have rand: "\<exists>bs. w_random W h' 8 = Inr bs" for h' using answersD(5) [OF a] .
  then obtain bs where bs: "\<And>h'. w_random W h' 8 = Inr (bs h')" by metis
  show ?thesis
    unfolding mint_names_def randomToken_def
    by (auto simp: prims bs stored_by_def intro!: wp_updateStatus [OF a] w)
qed

lemma add_finalizer_wp:
  assumes a: "answers W sr0" and sr: "executing R sr" "\<not> over sr" "needs_finalizer R sr"
  shows "wp (add_finalizer W sr) (\<lambda>r h'. advances R True sr (version_after sr0 h')) h"
proof -
  let ?obj = "sr\<lparr>Finalizers := Finalizers sr @ [executorCleanupFinalizer]\<rparr>"
  obtain s where s: "w_update_sr W h ?obj = Inr s" "versioned ?obj s" using answersD(4) [OF a] by blast
  note v = versionedD [OF s(2)]
  have "executing R s" by (rule executing_kept [OF sr(1)]) (use v sr(1) in \<open>auto simp: executing_def\<close>)
  then have "advances R True sr s"
    using v sr(2,3) by (simp add: advances_def remaining_def over_def needs_finalizer_def executorNamespace_def)
  then show ?thesis by (simp add: add_finalizer_def prims s(1) stored_by_def)
qed

text \<open>Collecting the result.\<close>

lemma job_gone_wp:
  assumes a: "answers W sr0" and sr: "executing R sr" "\<not> over sr"
  shows "wp (job_gone W sr) (\<lambda>r h'. advances R strict sr (version_after sr0 h')) h"
proof -
  have "wp (finalizeFromRecordedResult W sr ec) (\<lambda>r h'. advances R strict sr (version_after sr0 h')) h" for ec
    by (rule finalize_wp [OF a sr, where g = "\<lambda>s. s"]) simp_all
  then show ?thesis by (auto simp: job_gone_def split: option.split intro!: markFailed_wp [OF a sr])
qed

lemma conclude_wp:
  assumes a: "answers W sr0" and sr: "executing R sr" "\<not> over sr"
  shows "wp (conclude W sr co) (\<lambda>r h'. advances R strict sr (version_after sr0 h')) h"
  unfolding conclude_def by (rule finalize_wp [OF a sr refl]) (simp add: applyCapturedOutputStatus_def)

lemma record_captured_wp:
  assumes a: "answers W sr0" and sr: "executing R sr" "\<not> over sr"
  shows "wp (record_captured W sr co) (\<lambda>r h'. advances R False sr (version_after sr0 h')) h"
proof -
  have "advances R False sr s" if s: "versioned (Status_update (applyCapturedOutputStatus co) sr) s" for s
  proof -
    note k = phase_kept [OF s sr]
    have "executing R s" "remaining R s \<le> remaining R sr" by (rule k; simp add: applyCapturedOutputStatus_def)+
    then show ?thesis by (simp add: advances_def)
  qed
  then show ?thesis
    unfolding record_captured_def wp_bind by (intro wp_updateStatus [OF a]) (simp add: stored_by_def)
qed

lemma finish_wp:
  assumes a: "answers W sr0" and sr: "executing R sr" "\<not> over sr" and v: "version_after sr0 h = sr"
  shows "wp (finish W R sr j jf) (\<lambda>r h'. advances R jf sr (version_after sr0 h')) h"
  unfolding finish_def wp_bind
proof (rule wp_quiet [OF captureJobOutput_emits [where R = R and sr = sr, OF order_refl]])
  fix r t
  assume "\<forall>c\<in>set t. \<not> writes_request c"
  then have "version_after sr0 (h @ t) = sr" by (simp add: quiet_stored v)
  then have ret: "advances R False sr (version_after sr0 (h @ t))" using sr(1) by (simp add: advances_def)
  show "wp (case r of
       Inl e \<Rightarrow>
         if \<not> jf then State_Monad.return (Inl (Wrap (''capture output while sidecar holds job '' @ j_Name j @ '' open'') e))
         else markFailed W sr (''Failed to determine executor result: '' @ error_text e)
     | Inr co \<Rightarrow>
         if jf then conclude W sr co
         else if ExitCode (Status sr) = None then record_captured W sr co
         else do {
           d \<leftarrow> stopJob W j;
           case d of
             Some e \<Rightarrow> State_Monad.return (Inl (Wrap (''stop job '' @ j_Name j @
                 '' after executor completion (injected sidecar?)'') e))
           | None \<Rightarrow> conclude W sr co }) (\<lambda>r h'. advances R jf sr (version_after sr0 h')) (h @ t)"
    using ret by (auto split: sum.split intro!: markFailed_wp [OF a sr] conclude_wp [OF a sr]
        record_captured_wp [OF a sr] stopJob_wp [OF a])
qed (auto simp: capture_call_def writes_request_def split: call.splits)

section \<open>A run\<close>

lemma wp_conj: "wp m Q h \<Longrightarrow> wp m R h \<Longrightarrow> wp m (\<lambda>r h'. Q r h' \<and> R r h') h"
  by (auto simp: wp_def split: prod.splits)

lemma wp_extends: "emits P m Q h \<Longrightarrow> wp m (\<lambda>r h'. \<exists>t. h' = h @ t) h"
  by (rule wp_emits) auto

lemma executorStartTimedOut_quiet:
  "emits (\<lambda>_ c. \<not> writes_request c) (executorStartTimedOut W j) (\<lambda>r h'. True) h"
  unfolding executorStartTimedOut_def getJobPod_def
  by (auto simp: prims writes_request_def split: sum.split option.split intro!: emits_rules)

lemma watch_job_wp:
  assumes a: "answers W sr0" and sr: "executing R sr" "\<not> over sr" and v: "version_after sr0 h = sr"
  shows "wp (watch_job W R sr j) (\<lambda>r h'. advances R (job_finished j) sr (version_after sr0 h')) h"
proof -
  have ret: "advances R False sr (version_after sr0 (h @ t))" if "\<forall>c\<in>set t. \<not> writes_request c" for t
    using sr(1) quiet_stored [OF that] v by (simp add: advances_def)
  obtain pods where pods: "w_list_pods W h (j_Namespace j) (j_Name j) = Inr pods" using answersD(13) [OF a] by blast
  let ?h = "h @ [ListPods (j_Namespace j) (j_Name j) (Inr pods)]"
  have h: "version_after sr0 ?h = sr" by (simp add: v stored_by_def)
  have late: "wp (attempt (executorStartTimedOut W j) (\<lambda>(timedOut, reason).
      if timedOut then failApproved W R sr (msg reason) else State_Monad.return (Inr (requeue_after d))))
      (\<lambda>r h'. advances R False sr (version_after sr0 h')) ?h" for msg d
    unfolding attempt_def wp_bind
  proof (rule wp_quiet [OF executorStartTimedOut_quiet])
    fix r :: "(bool \<times> string) res" and t
    assume "\<forall>c\<in>set t. \<not> writes_request c"
    then have "advances R False sr (version_after sr0 (?h @ t))"
      using ret [of "ListPods (j_Namespace j) (j_Name j) (Inr pods) # t"] by (simp add: writes_request_def)
    then show "wp (case r of Inl e \<Rightarrow> State_Monad.return (Inl e) | Inr a \<Rightarrow> (case a of (timedOut, reason) \<Rightarrow>
        if timedOut then failApproved W R sr (msg reason) else State_Monad.return (Inr (requeue_after d))))
        (\<lambda>r h'. advances R False sr (version_after sr0 h')) (?h @ t)"
      by (auto split: sum.split intro!: failApproved_wp [OF a sr])
  qed simp
  show ?thesis
    unfolding watch_job_def getJobPod_def Let_def
    using late by (auto simp: prims pods job_finished_def intro!: finish_wp [OF a sr h])
qed

text \<open>
  What a run does to an approved request on the executor path: it loses nothing, and it does
  something, or has seen a Job that has not finished.
\<close>

definition moves :: "reconciler \<Rightarrow> nat \<Rightarrow> sudo_request \<Rightarrow> hist \<Rightarrow> sudo_request \<Rightarrow> hist \<Rightarrow> bool" where
  "moves R K sr h new h' \<longleftrightarrow> advances R False sr new \<and>
     (over sr \<or> remaining R new < remaining R sr \<or> polls h < polls h' \<and> polls h < K)"

lemma advances_moves: "advances R True sr new \<Longrightarrow> moves R K sr h new h'"
  by (simp add: moves_def advances_def)

lemma moves_from: "moves R K sr (h @ [c]) new h' \<Longrightarrow> polls [c] = 0 \<Longrightarrow> moves R K sr h new h'"
  by (simp add: moves_def polls_def)

lemma observe_wp:
  assumes a: "answers W sr0" and e: "jobs_end W K" and sr: "executing R sr" "\<not> over sr" and v: "version_after sr0 h = sr"
    and uid: "ExecutorJobUID (Status sr) \<noteq> ''''"
  shows "wp (observe W R sr) (\<lambda>r h'. moves R K sr h (version_after sr0 h') h') h"
proof -
  obtain ns n where site: "job_site R sr = (ns, n)" by (cases "job_site R sr")
  let ?h = "\<lambda>r. h @ [GetJob ns n r]"
  have gone: "wp (job_gone W sr) (\<lambda>r h'. moves R K sr h (version_after sr0 h') h') (?h r)" for r
    by (rule wp_mono [OF job_gone_wp [OF a sr, where strict = True] advances_moves])
  have failed: "wp (failApproved W R sr reason) (\<lambda>r h'. moves R K sr h (version_after sr0 h') h') (?h r)" for r reason
    by (rule wp_mono [OF failApproved_wp [OF a sr, where strict = True] advances_moves])
  have watched: "wp (watch_job W R sr j) (\<lambda>r h'. moves R K sr h (version_after sr0 h') h') (?h (Inr j))"
    if j: "w_get_job W h ns n = Inr j" and ours: "j_UID j = ExecutorJobUID (Status sr)" for j
  proof -
    have "wp (watch_job W R sr j) (\<lambda>r h'. \<exists>t. h' = ?h (Inr j) @ t) (?h (Inr j))"
      by (rule wp_extends, rule watch_job_exec [where n = "length h" and R = R and sr = sr])
         (use site uid ours in \<open>simp_all add: job_read_def ours_def\<close>)
    from wp_conj [OF watch_job_wp [OF a sr, of "?h (Inr j)" j] this]
    show ?thesis
    proof (rule wp_mono)
      show "version_after sr0 (?h (Inr j)) = sr" by (simp add: v stored_by_def)
      fix r h'
      assume h': "advances R (job_finished j) sr (version_after sr0 h') \<and> (\<exists>t. h' = ?h (Inr j) @ t)"
      show "moves R K sr h (version_after sr0 h') h'"
      proof (cases "job_finished j")
        case False
        moreover have "case w_get_job W h ns n of Inl e \<Rightarrow> True | Inr j \<Rightarrow> job_finished j \<or> polls h < K"
          using e unfolding jobs_end_def by blast
        ultimately show ?thesis using h' j by (auto simp: moves_def polls_def)
      qed (use h' advances_moves in auto)
    qed
  qed
  show ?thesis
    unfolding observe_def wp_attempt
    by (rule getExecutorJob_wp [OF a site]) (simp_all add: gone failed watched)
qed

text \<open>The whole of \<open>handleApproved\<close>.\<close>

lemma handleApproved_wp:
  assumes a: "answers W sr0" and e: "jobs_end W K" and sr: "executing R sr" and v: "version_after sr0 h = sr"
  shows "wp (handleApproved W R cached) (\<lambda>r h'. moves R K sr h (version_after sr0 h') h') h"
proof -
  let ?h = "h @ [GetSR False (Namespace cached) (Name cached) (Inr sr)]"
  have v': "version_after sr0 ?h = sr" by (simp add: v stored_by_def)
  have get: "w_get_sr W h False (Namespace cached) (Name cached) = Inr sr" using answersD(1) [OF a] v by simp
  have ret: "moves R K sr h sr h'" if "over sr" for h' using that sr by (simp add: moves_def advances_def)
  have run: "wp (run_approved W R sr) (\<lambda>r h'. moves R K sr h (version_after sr0 h') h') ?h" if ap: "Phase (Status sr) = Approved"
  proof -
    have sr2: "executing R sr" "\<not> over sr" using sr ap by (simp_all add: over_def)
    have "executeAutoApprovedPlaybook W R sr = State_Monad.return None"
      using sr by (auto simp: executing_def auto_playbook_def executeAutoApprovedPlaybook_def)
    moreover have "wp (add_finalizer W sr) (\<lambda>r h'. moves R K sr h (version_after sr0 h') h') ?h" if "needs_finalizer R sr"
      by (rule wp_mono [OF add_finalizer_wp [OF a sr2 that] advances_moves])
    moreover have "wp (mint_names W sr) (\<lambda>r h'. moves R K sr h (version_after sr0 h') h') ?h"
      if "\<not> needs_finalizer R sr" "ExecutorJobName (Status sr) = ''''"
      by (rule wp_mono [OF mint_names_wp [OF a sr2 that] advances_moves])
    moreover have "wp (launch W R sr) (\<lambda>r h'. moves R K sr h (version_after sr0 h') h') ?h"
      if "\<not> needs_finalizer R sr" "ExecutorJobName (Status sr) \<noteq> ''''" "ExecutorJobUID (Status sr) = ''''"
      by (rule wp_mono [OF launch_wp [OF a sr2 that] advances_moves])
    moreover have "wp (observe W R sr) (\<lambda>r h'. moves R K sr h (version_after sr0 h') h') ?h"
      if "ExecutorJobUID (Status sr) \<noteq> ''''"
      by (rule wp_mono [OF observe_wp [OF a e sr2 v' that] moves_from]) (assumption, simp add: polls_def)
    ultimately show ?thesis by (simp add: run_approved_def)
  qed
  have "over sr \<or> Phase (Status sr) = Approved" using sr by (auto simp: executing_def over_def)
  then show ?thesis
    unfolding handleApproved_def using run ret by (auto simp: prims get v stored_by_def over_def)
qed
lemma Reconcile_wp:
  assumes a: "answers W sr0" and e: "jobs_end W K" and sr: "executing R (version_after sr0 h)"
  shows "wp (Reconcile W R ns nm) (\<lambda>r h'. moves R K (version_after sr0 h) h (version_after sr0 h') h') h"
proof -
  let ?sr = "version_after sr0 h"
  obtain c where c: "w_get_sr W h True ns nm = Inr c" "DeletionTimestamp c = None" "Phase (Status c) \<in> {Approved, Phase (Status ?sr)}"
    using answersD(2) [OF a] by blast
  let ?h = "h @ [GetSR True ns nm (Inr c)]"
  have same: "version_after sr0 ?h = ?sr" by (simp add: stored_by_def)
  have run: "wp (handleApproved W R c) (\<lambda>r h'. moves R K ?sr h (version_after sr0 h') h') ?h"
    by (rule wp_mono [OF handleApproved_wp [OF a e sr same] moves_from]) (assumption, simp add: polls_def)
  have ret: "moves R K ?sr h ?sr ?h" if "over ?sr" using that sr by (simp add: moves_def advances_def)
  have "Phase (Status ?sr) \<in> {Approved, Executed, Failed}" using sr by (simp add: executing_def)
  then show ?thesis
    unfolding Reconcile_def
    using c(2,3) run ret by (auto simp: prims c(1) dispatch_def stored_by_def over_def)
qed

section \<open>Runs one after the other\<close>

definition rounds :: "world \<Rightarrow> reconciler \<Rightarrow> string \<Rightarrow> string \<Rightarrow> nat \<Rightarrow> hist \<Rightarrow> hist" where
  "rounds W R ns nm k h = ((\<lambda>h. snd (run_state (Reconcile W R ns nm) h)) ^^ k) h"

text \<open>The work left, and the polls left.\<close>

definition left_over :: "reconciler \<Rightarrow> nat \<Rightarrow> sudo_request \<Rightarrow> hist \<Rightarrow> nat" where
  "left_over R K sr h = (if over sr then 0 else remaining R sr + (K - polls h))"

lemma Reconcile_moves:
  assumes a: "answers W sr0" and e: "jobs_end W K" and sr: "executing R (version_after sr0 h)"
    and h': "h' = snd (run_state (Reconcile W R ns nm) h)"
  shows "executing R (version_after sr0 h')" and "left_over R K (version_after sr0 h') h' \<le> left_over R K (version_after sr0 h) h - 1"
proof -
  have m: "moves R K (version_after sr0 h) h (version_after sr0 h') h'"
    using Reconcile_wp [OF a e sr, of ns nm] by (simp add: wp_def h' case_prod_beta)
  then show "executing R (version_after sr0 h')" by (simp add: moves_def advances_def)
  obtain t where "h' = h @ t" using emits_calls(3) [OF Reconcile_emits, of W R ns nm h] h' by auto
  then have "polls h \<le> polls h'" by (simp add: polls_mono)
  then show "left_over R K (version_after sr0 h') h' \<le> left_over R K (version_after sr0 h) h - 1"
    using m remaining_positive [of R "version_after sr0 h"] remaining_positive [of R "version_after sr0 h'"]
    by (auto simp: moves_def advances_def left_over_def)
qed

lemma rounds_left:
  assumes "answers W sr0" and "jobs_end W K" and "executing R (version_after sr0 h)"
  shows "executing R (version_after sr0 (rounds W R ns nm k h)) \<and>
    left_over R K (version_after sr0 (rounds W R ns nm k h)) (rounds W R ns nm k h) \<le> left_over R K (version_after sr0 h) h - k"
proof (induction k)
  case 0
  then show ?case using assms(3) by (simp add: rounds_def)
next
  case (Suc k)
  let ?h = "rounds W R ns nm k h"
  have s: "rounds W R ns nm (Suc k) h = snd (run_state (Reconcile W R ns nm) ?h)" by (simp add: rounds_def)
  note r = Reconcile_moves [OF assms(1,2) conjunct1 [OF Suc.IH] s]
  show ?case using r(1) order_trans [OF r(2) diff_le_mono [OF conjunct2 [OF Suc.IH]]] by simp
qed

lemma approved_done:
  assumes "answers W sr0" and "jobs_end W K" and "executing R (version_after sr0 h)" and "4 + K \<le> k"
  shows "over (version_after sr0 (rounds W R ns nm k h))"
proof -
  have "left_over R K (version_after sr0 h) h \<le> 4 + K" by (auto simp: left_over_def remaining_def)
  then have "left_over R K (version_after sr0 (rounds W R ns nm k h)) (rounds W R ns nm k h) = 0"
    using rounds_left [OF assms(1-3), of ns nm k] assms(4) by simp
  then show ?thesis
    using remaining_positive [of R "version_after sr0 (rounds W R ns nm k h)"] by (auto simp: left_over_def split: if_splits)
qed

section \<open>The property\<close>

text \<open>
  C4: An approved request that runs the executor is executed or failed after at most 4 + K
  reconciliations, in a cluster that answers and in which a Job is seen unfinished at most K times:
  wherever earlier reconciliations have left it (with or without finalizer, names, Job, recorded UID,
  captured outcome), whatever the pods, their logs and the clock say, and although cached reads lag.
\<close>

theorem approved_requests_finish:
  assumes "answers W sr0" and "jobs_end W K" and "executing R (version_after sr0 h)" and "4 + K \<le> k"
  shows "Phase (Status (version_after sr0 (rounds W R ns nm k h))) \<in> {Executed, Failed}"
  using approved_done [OF assms, of ns nm] by (simp add: over_def)

text \<open>A cluster that stores what is written, whose Jobs are seen running twice.\<close>

definition created :: "hist \<Rightarrow> job option" where
  "created h = foldl (\<lambda>j c. case c of CreateJob obj (Inr s) \<Rightarrow> Some s | _ \<Rightarrow> j) None h"

definition live_world :: "sudo_request \<Rightarrow> world" where
  "live_world sr0 = (world_of sr0)\<lparr>
     w_get_sr := \<lambda>h cached ns n. Inr (if cached then (version_after sr0 h)\<lparr>DeletionTimestamp := None\<rparr> else version_after sr0 h),
     w_get_job := \<lambda>h ns n. case created h of
         None \<Rightarrow> Inl (ApiError NotFound n)
       | Some j \<Rightarrow> Inr (j\<lparr>j_UID := ''j1'', j_DeletionTimestamp := None, j_Succeeded := (if polls h < 2 then 0 else 1)\<rparr>)\<rparr>"

lemma live_world_answers: "answers (live_world sr0) sr0"
  unfolding answers_def
  by (intro conjI allI)
     (simp_all add: live_world_def world_of_def versioned_def is_not_found_def split: option.split)

lemma live_jobs_end: "jobs_end (live_world sr0) 2"
  by (auto simp: jobs_end_def live_world_def job_finished_def split: option.split)

lemma sample_executing: "executing sample_reconciler approved_request"
  by (simp add: executing_def auto_playbook_def approved_request_def samples decodePodExtras_def decode_field_def)

theorem approved_requests_finish_witness:
  "\<not> over approved_request \<and> Phase (Status (version_after approved_request
     (rounds (live_world approved_request) sample_reconciler ''ctl'' ''r1'' 6 []))) \<in> {Executed, Failed}"
  using approved_requests_finish [OF live_world_answers live_jobs_end, of sample_reconciler approved_request "[]" 6] sample_executing
  by (simp add: over_def approved_request_def)

end
