(* ===== verification/Process.thy ===== *)
theory Process
  imports Wiring Samples
begin

text \<open>
  \<^verbatim>\<open>main.go\<close> after the set-up: the handler of the server with its request log, and the
  life of the process, whose two goroutines and main function end together.
\<close>

section \<open>Response writers\<close>

text \<open>
  What a handler does to its \<^verbatim>\<open>http.ResponseWriter\<close>, headers aside.  The writer of
  \<^verbatim>\<open>net/http\<close> sends the first status it is given, or 200 with the first byte or flush; a
  later status is dropped, and a handler that sends none is answered with 200.
\<close>

datatype writer_call = WriteHeader nat | WriteBody string | FlushBody

record response =
  rs_status :: "nat option"
  rs_body :: string
  rs_flushed :: nat

definition fresh_response :: response where
  "fresh_response = \<lparr>rs_status = None, rs_body = '''', rs_flushed = 0\<rparr>"

definition send_status :: "nat \<Rightarrow> response \<Rightarrow> response" where
  "send_status code r = (if rs_status r = None then r\<lparr>rs_status := Some code\<rparr> else r)"

primrec net_call :: "writer_call \<Rightarrow> response \<Rightarrow> response" where
  "net_call (WriteHeader code) r = send_status code r"
| "net_call (WriteBody b) r = (let r = send_status 200 r in r\<lparr>rs_body := rs_body r @ b\<rparr>)"
| "net_call FlushBody r = (let r = send_status 200 r in r\<lparr>rs_flushed := length (rs_body r)\<rparr>)"

definition sent_status :: "response \<Rightarrow> nat" where
  "sent_status r = (case rs_status r of None \<Rightarrow> 200 | Some code \<Rightarrow> code)"

text \<open>A writer that passes everything on.\<close>

locale response_writer =
  fixes call :: "writer_call \<Rightarrow> 's \<Rightarrow> 's" and inner :: "'s \<Rightarrow> response"
  assumes passes_on: "inner (call c s) = net_call c (inner s)"
begin

lemma passes_all: "inner (fold call cs s) = fold net_call cs (inner s)"
  by (induction cs arbitrary: s) (simp_all add: passes_on)

end

interpretation net_writer: response_writer net_call "\<lambda>r. r"
  by unfold_locales simp

section \<open>The request log\<close>

record logging_writer =
  lw_status :: nat
  lw_response :: response

text \<open>\<open>WriteHeader\<close> and \<open>Flush\<close> are those of the wrappers; \<open>Write\<close> is the embedded writer's.\<close>

primrec logging_call :: "writer_call \<Rightarrow> logging_writer \<Rightarrow> logging_writer" where
  "logging_call (WriteHeader code) l =
     (let l = l\<lparr>lw_status := code\<rparr> in l\<lparr>lw_response := net_call (WriteHeader code) (lw_response l)\<rparr>)"
| "logging_call (WriteBody b) l = l\<lparr>lw_response := net_call (WriteBody b) (lw_response l)\<rparr>"
| "logging_call FlushBody l = l\<lparr>lw_response := net_call FlushBody (lw_response l)\<rparr>"

interpretation logging: response_writer logging_call lw_response
proof
  show "lw_response (logging_call c s) = net_call c (lw_response s)" for c s
    by (cases c) (simp_all add: Let_def)
qed

text \<open>The wrapper with \<open>Flush\<close> is used exactly for a writer that can stream.\<close>

datatype wrapper = LoggingWriter | LoggingFlusherWriter

definition wrapper_for :: "bool \<Rightarrow> wrapper" where
  "wrapper_for canFlush = (if canFlush then LoggingFlusherWriter else LoggingWriter)"

primrec is_flusher :: "wrapper \<Rightarrow> bool" where
  "is_flusher LoggingWriter = False"
| "is_flusher LoggingFlusherWriter = True"

text \<open>
  The calls a handler makes for its reply.  \<open>en\<close> are the pieces that a JSON encoder or an HTML template
  writes, possibly none; \<open>sse\<close> is an event as a frame of the stream.
\<close>

fun reply_calls :: "(reply \<Rightarrow> string list) \<Rightarrow> (event \<Rightarrow> string) \<Rightarrow> reply \<Rightarrow> writer_call list" where
  "reply_calls en sse (HttpError code msg) = [WriteHeader code, WriteBody (msg @ [newline])]"
| "reply_calls en sse OkReply = [WriteHeader 200, WriteBody ''ok'']"
| "reply_calls en sse (DuplicateReply msg uid) = WriteHeader 409 # map WriteBody (en (DuplicateReply msg uid))"
| "reply_calls en sse (OutputReply out) = [WriteBody out]"
| "reply_calls en sse (StreamReply events) = WriteHeader 200 # concat (map (\<lambda>e. [WriteBody (sse e), FlushBody]) events)"
| "reply_calls en sse (ResultPage code v) =
     (if code = 200 then [] else [WriteHeader code]) @ map WriteBody (en (ResultPage code v))"
| "reply_calls en sse r = map WriteBody (en r)"

primrec reply_status :: "reply \<Rightarrow> nat" where
  "reply_status (HttpError code msg) = code"
| "reply_status OkReply = 200"
| "reply_status (CreatedReply cr) = 200"
| "reply_status (DuplicateReply msg uid) = 409"
| "reply_status (CatalogReply d ps) = 200"
| "reply_status (StatusReply sp) = 200"
| "reply_status (OutputReply out) = 200"
| "reply_status (StreamReply es) = 200"
| "reply_status (IndexPage u m p q) = 200"
| "reply_status (ApprovePage c v) = 200"
| "reply_status (ResultPage code v) = code"

record log_entry =
  le_method :: string
  le_path :: string
  le_status :: nat
  le_duration :: int

definition withLogging :: "world \<Rightarrow> (http_request \<Rightarrow> reply prog) \<Rightarrow> (reply \<Rightarrow> writer_call list) \<Rightarrow> http_request \<Rightarrow>
    (response \<times> log_entry) prog" where
  "withLogging W handler calls_of req = do {
     start \<leftarrow> now W;
     r \<leftarrow> handler (req\<lparr>rq_CanFlush := is_flusher (wrapper_for (rq_CanFlush req))\<rparr>);
     let lrw = fold logging_call (calls_of r) \<lparr>lw_status = 200, lw_response = fresh_response\<rparr>;
     t \<leftarrow> now W;
     State_Monad.return (lw_response lrw, \<lparr>le_method = rq_Method req, le_path = rq_Path req,
       le_status = lw_status lrw, le_duration = time_sub t start\<rparr>) }"

text \<open>A reply gives its status at most once, first; then the log and the wire agree.\<close>

primrec body_only :: "writer_call \<Rightarrow> bool" where
  "body_only (WriteHeader code) = False"
| "body_only (WriteBody b) = True"
| "body_only FlushBody = True"

lemma bodies:
  assumes "list_all body_only cs"
  shows "lw_status (fold logging_call cs l) = lw_status l"
    and "rs_status r \<noteq> None \<Longrightarrow> sent_status (fold net_call cs r) = sent_status r"
    and "rs_status r = None \<Longrightarrow> sent_status (fold net_call cs r) = 200"
proof -
  have s: "body_only c \<Longrightarrow> lw_status (logging_call c l) = lw_status l"
    "body_only c \<Longrightarrow> sent_status (net_call c r) = sent_status r" for c l r
    by (cases c; simp add: sent_status_def send_status_def Let_def)+
  show "lw_status (fold logging_call cs l) = lw_status l"
    using assms by (induction cs arbitrary: l) (simp_all add: s)
  have "sent_status (fold net_call cs r) = sent_status r"
    using assms by (induction cs arbitrary: r) (simp_all add: s)
  then show "rs_status r \<noteq> None \<Longrightarrow> sent_status (fold net_call cs r) = sent_status r"
    "rs_status r = None \<Longrightarrow> sent_status (fold net_call cs r) = 200"
    by (simp_all add: sent_status_def)
qed

lemma reply_calls_shape:
  "reply_calls en sse r = WriteHeader (reply_status r) # tl (reply_calls en sse r) \<and> list_all body_only (tl (reply_calls en sse r)) \<or>
   reply_status r = 200 \<and> list_all body_only (reply_calls en sse r)"
  by (cases r) (auto simp: list_all_iff)

lemma reply_status_logged:
  "lw_status (fold logging_call (reply_calls en sse r) \<lparr>lw_status = 200, lw_response = fresh_response\<rparr>) = reply_status r"
  "sent_status (fold net_call (reply_calls en sse r) fresh_response) = reply_status r"
proof -
  have f: "rs_status fresh_response = None" "rs_status (send_status c fresh_response) = Some c"
    "sent_status (send_status c fresh_response) = c" for c
    by (simp_all add: fresh_response_def send_status_def sent_status_def)
  note shape = reply_calls_shape [of en sse r]
  show "lw_status (fold logging_call (reply_calls en sse r) \<lparr>lw_status = 200, lw_response = fresh_response\<rparr>) = reply_status r"
    using shape
  proof (elim disjE conjE)
    assume c: "reply_calls en sse r = WriteHeader (reply_status r) # tl (reply_calls en sse r)"
      and b: "list_all body_only (tl (reply_calls en sse r))"
    show ?thesis by (subst c) (simp add: bodies(1) [OF b])
  qed (simp add: bodies(1))
  show "sent_status (fold net_call (reply_calls en sse r) fresh_response) = reply_status r"
    using shape
  proof (elim disjE conjE)
    assume c: "reply_calls en sse r = WriteHeader (reply_status r) # tl (reply_calls en sse r)"
      and b: "list_all body_only (tl (reply_calls en sse r))"
    show ?thesis by (subst c) (simp add: bodies(2) [OF b] f)
  qed (simp add: bodies(3) f)
qed

text \<open>
  The request log changes nothing and tells the truth.  Around any request to the API it reads
  the clock twice and leaves the calls of the handler as they are; the client receives byte for byte
  what the handler wrote, with the status of the reply, and that status is the one logged; and the
  handler can stream exactly when the connection can.
\<close>

lemma logging_is_transparent:
  "\<exists>r start end_time. run_state (ServeHTTP W A req) (h @ [Now start]) = (r, h @ [Now start] @ calls (ServeHTTP W A req) (h @ [Now start])) \<and>
     calls (withLogging W (ServeHTTP W A) (reply_calls en sse) req) h =
       [Now start] @ calls (ServeHTTP W A req) (h @ [Now start]) @ [Now end_time] \<and>
     outcome (withLogging W (ServeHTTP W A) (reply_calls en sse) req) h =
       (fold net_call (reply_calls en sse r) fresh_response,
        \<lparr>le_method = rq_Method req, le_path = rq_Path req, le_status = reply_status r, le_duration = time_sub end_time start\<rparr>) \<and>
     sent_status (fst (outcome (withLogging W (ServeHTTP W A) (reply_calls en sse) req) h)) = reply_status r"
proof -
  let ?m = "withLogging W (ServeHTTP W A) (reply_calls en sse) req" and ?h = "h @ [Now (w_now W h)]"
  have same: "req\<lparr>rq_CanFlush := is_flusher (wrapper_for (rq_CanFlush req))\<rparr> = req"
    by (cases "rq_CanFlush req") (simp_all add: wrapper_for_def)
  obtain r h' where s: "run_state (ServeHTTP W A req) ?h = (r, h')" by fastforce
  have h': "h' = ?h @ calls (ServeHTTP W A req) ?h"
    using emits_calls(3) [OF ServeHTTP_emits [OF order_refl], of W A req ?h] s by simp
  have m: "run_state ?m h = ((fold net_call (reply_calls en sse r) fresh_response,
      \<lparr>le_method = rq_Method req, le_path = rq_Path req, le_status = reply_status r,
       le_duration = time_sub (w_now W h') (w_now W h)\<rparr>), h' @ [Now (w_now W h')])"
    using s by (simp add: withLogging_def same prims run_bind logging.passes_all reply_status_logged Let_def)
  show ?thesis
    by (rule exI [of _ r], rule exI [of _ "w_now W h"], rule exI [of _ "w_now W h'"])
       (use s h' m in \<open>simp add: calls_def outcome_def reply_status_logged\<close>)
qed

section \<open>The life of the process\<close>

text \<open>
  A goroutine runs until its server returns; with an error it cancels the shared context first, and
  the deferred \<open>wg.Done()\<close> is its last step.  Main starts both, waits for the context, shuts the HTTP
  server down (within 15 seconds) and waits for both.
\<close>

datatype goroutine = NotStarted | Running | Erring | Returning | Finished

datatype main_at = StartHttp | StartManager | AwaitContext | ShuttingDown | Joining | Exited

record process =
  pr_done :: bool
  pr_closing :: bool
  pr_wg :: nat
  pr_http :: goroutine
  pr_mgr :: goroutine
  pr_main :: main_at

definition set_up :: process where
  "set_up = \<lparr>pr_done = False, pr_closing = False, pr_wg = 0, pr_http = NotStarted, pr_mgr = NotStarted, pr_main = StartHttp\<rparr>"

text \<open>
  The steps of the program itself.  \<open>ListenAndServe\<close> returns \<open>ErrServerClosed\<close> once the server is being
  shut down, \<open>mgr.Start\<close> returns once its context is done.
\<close>

inductive own_step :: "process \<Rightarrow> process \<Rightarrow> bool" where
  start_http: "pr_main s = StartHttp \<Longrightarrow>
     own_step s (s\<lparr>pr_wg := pr_wg s + 1, pr_http := Running, pr_main := StartManager\<rparr>)"
| start_manager: "pr_main s = StartManager \<Longrightarrow>
     own_step s (s\<lparr>pr_wg := pr_wg s + 1, pr_mgr := Running, pr_main := AwaitContext\<rparr>)"
| http_closed: "pr_http s = Running \<Longrightarrow> pr_closing s \<Longrightarrow> own_step s (s\<lparr>pr_http := Returning\<rparr>)"
| http_cancels: "pr_http s = Erring \<Longrightarrow> own_step s (s\<lparr>pr_done := True, pr_http := Returning\<rparr>)"
| http_ends: "pr_http s = Returning \<Longrightarrow> own_step s (s\<lparr>pr_wg := pr_wg s - 1, pr_http := Finished\<rparr>)"
| manager_stops: "pr_mgr s = Running \<Longrightarrow> pr_done s \<Longrightarrow> own_step s (s\<lparr>pr_mgr := Returning\<rparr>)"
| manager_cancels: "pr_mgr s = Erring \<Longrightarrow> own_step s (s\<lparr>pr_done := True, pr_mgr := Returning\<rparr>)"
| manager_ends: "pr_mgr s = Returning \<Longrightarrow> own_step s (s\<lparr>pr_wg := pr_wg s - 1, pr_mgr := Finished\<rparr>)"
| shut_down: "pr_main s = AwaitContext \<Longrightarrow> pr_done s \<Longrightarrow> own_step s (s\<lparr>pr_closing := True, pr_main := ShuttingDown\<rparr>)"
| shut: "pr_main s = ShuttingDown \<Longrightarrow> own_step s (s\<lparr>pr_main := Joining\<rparr>)"
| join: "pr_main s = Joining \<Longrightarrow> pr_wg s = 0 \<Longrightarrow> own_step s (s\<lparr>pr_main := Exited\<rparr>)"

text \<open>An error of a server, and SIGINT or SIGTERM: they may come at any time, or never.\<close>

inductive failure :: "process \<Rightarrow> process \<Rightarrow> bool" where
  http_fails: "pr_http s = Running \<Longrightarrow> failure s (s\<lparr>pr_http := Erring\<rparr>)"
| manager_fails: "pr_mgr s = Running \<Longrightarrow> failure s (s\<lparr>pr_mgr := Erring\<rparr>)"

definition signalled :: "process \<Rightarrow> process" where
  "signalled s = s\<lparr>pr_done := True\<rparr>"

inductive runs_to :: "process \<Rightarrow> bool" where
  set_up: "runs_to set_up"
| own: "runs_to s \<Longrightarrow> own_step s t \<Longrightarrow> runs_to t"
| fails: "runs_to s \<Longrightarrow> failure s t \<Longrightarrow> runs_to t"
| signal: "runs_to s \<Longrightarrow> runs_to (signalled s)"

inductive_cases own_stepE: "own_step s t"
inductive_cases failureE: "failure s t"

text \<open>The wait group counts the live goroutines; neither ends, and nothing is shut down, before the context is done.\<close>

definition counted :: "goroutine \<Rightarrow> nat" where
  "counted g = (if g = NotStarted \<or> g = Finished then 0 else 1)"

definition ended :: "goroutine \<Rightarrow> bool" where
  "ended g \<longleftrightarrow> g = Returning \<or> g = Finished"

definition process_ok :: "process \<Rightarrow> bool" where
  "process_ok s \<longleftrightarrow> pr_wg s = counted (pr_http s) + counted (pr_mgr s) \<and>
     (pr_http s = NotStarted \<longleftrightarrow> pr_main s = StartHttp) \<and>
     (pr_mgr s = NotStarted \<longleftrightarrow> pr_main s \<in> {StartHttp, StartManager}) \<and>
     (pr_closing s \<longleftrightarrow> pr_main s \<in> {ShuttingDown, Joining, Exited}) \<and>
     (ended (pr_http s) \<or> ended (pr_mgr s) \<or> pr_closing s \<longrightarrow> pr_done s) \<and>
     (pr_main s = Exited \<longrightarrow> pr_http s = Finished \<and> pr_mgr s = Finished)"

lemma runs_to_ok: "runs_to s \<Longrightarrow> process_ok s"
proof (induction rule: runs_to.induct)
  case set_up
  show ?case by (simp add: process_ok_def set_up_def counted_def ended_def)
next
  case (own s t)
  from own(2) own.IH show ?case
    by (elim own_stepE) (auto simp: process_ok_def counted_def ended_def split: if_splits)
next
  case (fails s t)
  from fails(2) fails.IH show ?case
    by (elim failureE) (auto simp: process_ok_def counted_def ended_def split: if_splits)
next
  case (signal s)
  then show ?case by (auto simp: process_ok_def signalled_def)
qed

text \<open>What is left of the process: every step, failures included, brings the end nearer.\<close>

primrec goroutine_left :: "goroutine \<Rightarrow> nat" where
  "goroutine_left NotStarted = 4"
| "goroutine_left Running = 3"
| "goroutine_left Erring = 2"
| "goroutine_left Returning = 1"
| "goroutine_left Finished = 0"

primrec main_left :: "main_at \<Rightarrow> nat" where
  "main_left StartHttp = 5"
| "main_left StartManager = 4"
| "main_left AwaitContext = 3"
| "main_left ShuttingDown = 2"
| "main_left Joining = 1"
| "main_left Exited = 0"

definition process_left :: "process \<Rightarrow> nat" where
  "process_left s = goroutine_left (pr_http s) + goroutine_left (pr_mgr s) + main_left (pr_main s)"

text \<open>A step, after any number of signals.\<close>

definition work_step :: "process \<Rightarrow> process \<Rightarrow> bool" where
  "work_step s t \<longleftrightarrow> (\<exists>s'. (s' = s \<or> s' = signalled s) \<and> (own_step s' t \<or> failure s' t))"

lemma own_step_left: "process_ok s \<Longrightarrow> own_step s t \<Longrightarrow> process_left t < process_left s"
  by (elim own_stepE) (auto simp: process_ok_def process_left_def)

lemma failure_left: "failure s t \<Longrightarrow> process_left t < process_left s"
  by (elim failureE) (auto simp: process_left_def)

lemma work_step_runs:
  assumes "runs_to s" and "work_step s t"
  shows "runs_to t" and "process_left t < process_left s"
proof -
  from assms(2) obtain s' where s': "s' = s \<or> s' = signalled s" and t: "own_step s' t \<or> failure s' t"
    by (auto simp: work_step_def)
  have r: "runs_to s'" and l: "process_left s' = process_left s"
    using s' assms(1) signal [OF assms(1)] by (auto simp: signalled_def process_left_def)
  show "runs_to t" using r t by (auto intro: own fails)
  show "process_left t < process_left s"
    using t own_step_left [OF runs_to_ok [OF r]] failure_left [of s' t] l by auto
qed

lemma work_steps_run:
  assumes "runs_to s" and "(work_step ^^ n) s t"
  shows "runs_to t \<and> process_left t + n \<le> process_left s"
  using assms(2)
proof (induction n arbitrary: t)
  case (Suc n)
  then obtain u where u: "(work_step ^^ n) s u" "work_step u t" by auto
  from Suc.IH [OF u(1)] work_step_runs [OF _ u(2)] show ?case by fastforce
qed (use assms(1) in simp)

definition serving :: "process \<Rightarrow> bool" where
  "serving s \<longleftrightarrow> pr_main s = AwaitContext \<and> pr_http s = Running \<and> pr_mgr s = Running \<and> \<not> pr_done s \<and> \<not> pr_closing s"

lemma stuck_iff:
  assumes "process_ok s"
  shows "(\<exists>t. own_step s t) \<longleftrightarrow> \<not> (pr_main s = Exited \<or> serving s)"
proof
  assume "\<exists>t. own_step s t"
  then obtain t where "own_step s t" by blast
  then show "\<not> (pr_main s = Exited \<or> serving s)"
    using assms
    by cases (auto simp: process_ok_def serving_def)
next
  assume n: "\<not> (pr_main s = Exited \<or> serving s)"
  have w: "pr_wg s = 0" if "pr_http s = Finished" "pr_mgr s = Finished"
    using assms that by (simp add: process_ok_def counted_def)
  show "\<exists>t. own_step s t"
  proof (cases "pr_main s")
    case StartHttp then show ?thesis by (blast intro: start_http)
  next
    case StartManager then show ?thesis by (blast intro: start_manager)
  next
    case AwaitContext
    with assms have c: "pr_http s \<noteq> NotStarted" "pr_mgr s \<noteq> NotStarted" "\<not> pr_closing s"
      "pr_done s \<or> \<not> ended (pr_http s) \<and> \<not> ended (pr_mgr s)" by (auto simp: process_ok_def)
    have g: "g = NotStarted \<or> ended g \<or> g = Running \<or> g = Erring" for g by (cases g) (simp_all add: ended_def)
    have "pr_done s \<or> pr_http s = Erring \<or> pr_mgr s = Erring"
      using n c g [of "pr_http s"] g [of "pr_mgr s"] AwaitContext by (simp add: serving_def) blast
    then show ?thesis using AwaitContext by (blast intro: shut_down http_cancels manager_cancels)
  next
    case ShuttingDown then show ?thesis by (blast intro: shut)
  next
    case Joining
    with assms have c: "pr_closing s" "pr_done s" "pr_http s \<noteq> NotStarted" "pr_mgr s \<noteq> NotStarted" by (auto simp: process_ok_def)
    have "\<exists>t. own_step s t" if "pr_http s \<noteq> Finished"
      using that c(3) http_closed [OF _ c(1)] http_cancels http_ends by (cases "pr_http s") blast+
    moreover have "\<exists>t. own_step s t" if "pr_mgr s \<noteq> Finished"
      using that c(4) manager_stops [OF _ c(2)] manager_cancels manager_ends by (cases "pr_mgr s") blast+
    ultimately show ?thesis using join [OF Joining w] by blast
  qed (use n in simp)
qed

text \<open>Neither server ends before the context is done; main returns only when both have.\<close>

lemma servers_end_together:
  assumes "runs_to s"
  shows "pr_done s \<or> \<not> ended (pr_http s) \<and> \<not> ended (pr_mgr s) \<and> \<not> pr_closing s"
    and "pr_main s = Exited \<Longrightarrow> pr_http s = Finished \<and> pr_mgr s = Finished \<and> pr_wg s = 0"
  using runs_to_ok [OF assms] by (auto simp: process_ok_def counted_def)

section \<open>The property of the process\<close>

text \<open>
  C26: the process ends as one, and always ends.  Whatever signals and failures come, in whatever order
  the goroutines and main take their steps: after a signal or the failure of either server it stops by
  itself, it never waits for ever, and it takes at most 13 steps in all.  It can go on exactly when main
  has not returned and it is not serving, with both servers running and nothing asked to stop.  While
  the context is not done neither goroutine has ended, and when main has returned both have.
\<close>

theorem process_always_ends:
  assumes "runs_to s" and "(work_step ^^ n) s t"
  shows "n \<le> 13 \<and> ((\<exists>u. own_step t u) \<longleftrightarrow> pr_main t \<noteq> Exited \<and> \<not> serving t) \<and>
    (if pr_done t then True else \<not> ended (pr_http t) \<and> \<not> ended (pr_mgr t) \<and> \<not> pr_closing t) \<and>
    (if pr_main t = Exited then pr_http t = Finished \<and> pr_mgr t = Finished \<and> pr_wg t = 0 else True)"
proof -
  have "goroutine_left g \<le> 4" "main_left m \<le> 5" for g m by (cases g; simp) (cases m; simp)
  from this(1) [of "pr_http s"] this(1) [of "pr_mgr s"] this(2) [of "pr_main s"] have "process_left s \<le> 13"
    by (simp add: process_left_def)
  then show ?thesis
    using work_steps_run [OF assms] stuck_iff [OF runs_to_ok, of t] servers_end_together [of t] by auto
qed

text \<open>A process whose HTTP server fails at once.\<close>

definition failed_process :: process where
  "failed_process = \<lparr>pr_done = True, pr_closing = True, pr_wg = 0, pr_http = Finished, pr_mgr = Finished, pr_main = Exited\<rparr>"

lemma work_own: "own_step s t \<Longrightarrow> work_step s t" and work_fails: "failure s t \<Longrightarrow> work_step s t"
  by (auto simp: work_step_def)

lemma failed_run: "(work_step ^^ 10) set_up failed_process"
proof -
  note first = relpowp_Suc_I2 [where P = work_step]
  have "(work_step ^^ (Suc (Suc (Suc (Suc (Suc (Suc (Suc (Suc (Suc (Suc 0))))))))))) set_up failed_process"
    unfolding set_up_def
    apply (rule first, rule work_own, rule start_http, simp)
    apply (rule first, rule work_own, rule start_manager, simp)
    apply (rule first, rule work_fails, rule http_fails, simp)
    apply (rule first, rule work_own, rule http_cancels, simp)
    apply (rule first, rule work_own, rule http_ends, simp)
    apply (rule first, rule work_own, rule shut_down, simp, simp)
    apply (rule first, rule work_own, rule manager_stops, simp, simp)
    apply (rule first, rule work_own, rule manager_ends, simp)
    apply (rule first, rule work_own, rule shut, simp)
    apply (rule first, rule work_own, rule join, simp, simp)
    apply (simp add: failed_process_def)
    done
  then show ?thesis by (simp only: numeral_eq_Suc pred_numeral_simps BitM.simps)
qed

theorem process_always_ends_witness:
  "(10::nat) \<le> 13 \<and> (work_step ^^ 10) set_up failed_process \<and> \<not> (\<exists>u. own_step failed_process u)"
  using process_always_ends [OF runs_to.set_up failed_run] failed_run by (simp add: failed_process_def)

end
