(* ===== verification/Spec2Isabelle.thy ===== *)
theory Spec2Isabelle
  imports Submissions StatusProperties Copies Progress Process
begin

text \<open>
  sudo-service, a Kubernetes controller that runs a privileged shell command for a requester once a
  human (or a configured policy) has approved it.  A \<open>SudoRequest\<close> object carries the command; the
  controller validates it, parks it with an approval token, notifies a human, launches one executor
  Job per approved request, captures its output and records the outcome in the status of the object.
  An HTTP API takes submissions and resubmissions of service accounts, shows them their requests, and
  lets administrators decide; a collector expires what is overdue.

  \<^bold>\<open>Parts and theories\<close>
  \<^item> \<open>Types\<close>, \<open>Errors\<close>, \<open>Objects\<close>: the resource (types.go), the errors as values with their texts, and
    the fields of the objects of the API server the code reads or writes.
  \<^item> \<open>Copies\<close>: the deep copies of types.go over an explicit store.  Everywhere else a request is a value;
    that a change of a copy is not seen through the original is what this theory proves.
  \<^item> \<open>Decode\<close> (decode.go), \<open>Profiles\<close> (profiles.go) over the matcher of \<open>Regex\<close>, \<open>Validation\<close>
    (validation.go), \<open>AutoApprove\<close> (auto_approve.go), \<open>Review\<close> (review.go): the pure checks and
    renderings.
  \<^item> \<open>Executor\<close> (the rendering half of executor.go), \<open>Jobs\<close> and \<open>Output\<close> (its operations),
    \<open>Playbooks\<close> (playbooks.go), \<open>Notify\<close> (pushover.go), \<open>Summarizer\<close> (summarizer.go), \<open>Broadcaster\<close>
    (broadcaster.go).
  \<^item> \<open>StatusWrites\<close> and \<open>Reconciler\<close> (reconciler.go): \<open>updateStatus\<close>, \<open>markFailed\<close>, then \<open>handleNew\<close>,
    \<open>handlePending\<close>, \<open>handleApproved\<close>, the deletion path, \<open>Reconcile\<close>, and the decisions \<open>Approve\<close>,
    \<open>Deny\<close>, \<open>VerifyApprovalToken\<close>.
  \<^item> \<open>Collector\<close> (gc.go), \<open>Auth\<close> (auth.go), \<open>Retry\<close> (retry.go: fingerprint, duplicates, the one successor
    of a request), \<open>Http\<close> and \<open>Api\<close> (api.go: a handler is a program that returns the reply it writes;
    \<open>ServeHTTP\<close> is the table of routes).
  \<^item> \<open>Clients\<close> (the constructors of auth.go, pushover.go and summarizer.go, and logs.go), \<open>Wiring\<close>
    (main.go: configuration, rule files, and the reconciler, API and collector built from them) and
    \<open>Process\<close> (main.go: the request log, and the goroutines, signals and shutdown of the process, as
    a step relation whose runs take at most 13 steps).

  \<^bold>\<open>Effects\<close>
  Theory \<open>Kube\<close>: every effect of the program is a call (read, write, delete, clock, randomness, model,
  message, event, token review, access review, ID token).  A program is a state monad over the list of
  the calls made so far, newest last; a \<open>world\<close> is any function from that history to the answers, so
  the other writers of the API server, its conflicts and its failures are all behaviours of some
  world, and nothing is assumed about it.  \<open>calls P h\<close> are the calls \<open>P\<close> makes after the history \<open>h\<close>,
  \<open>outcome P h\<close> its result.  A theorem of the form \<open>calls P h = u @ c # v \<Longrightarrow> \<dots>\<close> therefore speaks of
  every call \<open>c\<close> of every run, and of what the run had been shown before it.  Libraries the code calls
  (JSON decoders, the shell parser, URL parser, SHA-256, YAML) are the fields of the record \<open>lib\<close>
  (theory \<open>Decode\<close>); no law is assumed of them.  All loops recurse on lists, except the matcher of
  \<open>Regex\<close>, whose fuel is the length of the text and which never needs more, and the conflict retry, on
  the number of attempts the client library is configured with.  The loop of the collector recurses on
  the list of its wake-ups, and a stream on the events its subscriber receives.

  \<^bold>\<open>Groups of lemmas\<close>
  \<^item> Each component theory ends with the lemmas that characterise it: what validation accepts, what the
    rendering produces, what a capture keeps, the laws of the hub, who a decision rests on.
  \<^item> \<open>emits P m Q h\<close> (theory \<open>Kube\<close>) says that every call the program \<open>m\<close> makes after \<open>h\<close> satisfies \<open>P\<close> of
    the calls before it, and that its result satisfies \<open>Q\<close>; one \<open>\<dots>_emits\<close> lemma per operation,
    composed as the code composes them (\<open>NewRequests\<close>, \<open>PendingRequests\<close>, \<open>ApprovedRequests\<close>,
    \<open>Lifecycle\<close>, \<open>Decisions\<close>, \<open>Collector\<close>, \<open>Retry\<close>, and \<open>Requests\<close> for the handlers of the API).
  \<^item> Locales: \<open>identity_keeping\<close> (theory \<open>StatusWrites\<close>), the mutations of \<open>updateStatus\<close> that write
    the Job name, the Job UID and the successor UID of a status at most once and keep its image, with its extensions
    \<open>status_mutation\<close> and \<open>phase_setting\<close> for what they do to the phase; \<open>decision\<close> (theory
    \<open>Decisions\<close>), the two decisions of a human; \<open>status_writer\<close> (theory \<open>Store\<close>), what the reconciler,
    the API and the collector each promise of their status writes; \<open>response_writer\<close>
    (theory \<open>Process\<close>), a writer that passes everything on; \<open>deep_copier\<close> (theory \<open>Copies\<close>), what
    a deep copy promises, which is also the contract assumed of the copies of the library.  Each is
    interpreted on the code's own operations.
  \<^item> \<open>controller_step\<close> and \<open>human_step\<close> (theory \<open>Lifecycle\<close>) are the phase machine: NoPhase to Pending,
    Approved or Denied; Pending to Expired; Approved to Executed or Failed; by a human, Pending to
    Approved or Denied.
  \<^item> \<open>Store\<close> composes everything that writes a status: \<open>evolves\<close> generates the stored versions of one
    request from accepted optimistic writes of \<open>Reconcile\<close>, \<open>ServeHTTP\<close> and the collector, and the
    phases of the versions refine \<open>lifecycle_step\<close>, and the identities in them are written once
    (\<open>writes_once\<close>), so that all runs start the same Job.  It assumes of the API server what optimistic
    concurrency promises (a write is accepted on the latest resource version only, versions are
    distinct) and that reads show stored versions, however old; for the phases, requests with a playbook are excluded,
    because the approval of a playbook can overwrite a decision (\<open>StatusProperties\<close>).
  \<^item> \<open>Submissions\<close> composes the creations of the API, one after the other, with such histories
    (\<open>population\<close>): the requests created never hold two live equivalent ones of one requester, because
    a fingerprint is that of the whole history (the recorded image is the one the spec resolves to,
    \<open>keeps_image\<close>), a decision is final, and the call before a creation is the list that showed no
    duplicate (\<open>just_checked\<close>).  It assumes one process (the mutex is held from that list to the creation) and an
    uncached list, which shows some version of every request created before.
  \<^item> \<open>Progress\<close> composes the runs of \<open>Reconcile\<close> one after the other: in a cluster that answers
    (\<open>answers\<close>) and whose Jobs are seen unfinished at most \<open>K\<close> times, \<open>4 + K\<close> runs end an approved
    request, 4 for the finalizer, the names, the Job with its UID, and the outcome.
  \<^item> \<open>ApiProperties\<close> and \<open>StatusProperties\<close> hold the properties of the API, of resubmission, of the
    collector and of the status update; this theory those of the reconciler, of the pure components,
    and of the assembled program.
  \<^item> \<open>Samples\<close> and \<open>HttpSamples\<close> hold the concrete requests and worlds on which the witnesses run the
    code.

  \<^bold>\<open>Not modelled\<close>
  The metrics handler, scheme registration (types.go) and the watch set-up (\<open>SetupWithManager\<close>), HTML
  templates, JSON and SSE framing, cookie attributes, the text of the model's system prompt, logging
  to the console.  Of the mutex of the API (\<open>requestMu\<close>) only what it is for is modelled, the order of
  list and creation in \<open>Submissions\<close>; elsewhere the world may answer anything between two calls of a
  run.
\<close>

section \<open>Execution\<close>

text \<open>
  C1: an executor Job is created only for a request that an uncached read, made in the same run, has
  just shown to be approved, whose minted Job name is already stored and for which no Job UID is
  recorded; the Job is exactly the rendering of that request, no Job exists under the name, and every
  Secret a request without cluster-admin refers to was read and is not a service-account token.
\<close>

theorem job_created_only_when_approved:
  assumes "calls (Reconcile W R ns nm) h = u @ CreateJob j r # v"
  shows "\<exists>sr cur. GetSR True ns nm (Inr sr) \<in> set u \<and> approved_now sr (set u) cur \<and>
    \<not> auto_playbook cur \<and> launchable R cur \<and> may_create R cur (set u) j"
  by (rule Reconcile_handler [OF assms]) (use handler_CreateJob in fastforce)+

theorem job_created_only_when_approved_witness:
  "\<exists>u j r v sr cur. run (world_of approved_request) sample_reconciler = u @ CreateJob j r # v \<and>
    approved_now sr (set u) cur \<and> launchable sample_reconciler cur \<and> may_create sample_reconciler cur (set u) j"
proof -
  have "list_ex (\<lambda>c. case c of CreateJob j r \<Rightarrow> True | _ \<Rightarrow> False) (run (world_of approved_request) sample_reconciler)"
    by code_simp
  then obtain u j r v where c: "run (world_of approved_request) sample_reconciler = u @ CreateJob j r # v"
    by (elim makes) (auto split: call.splits)
  from job_created_only_when_approved [OF c] c show ?thesis by blast
qed

text \<open>
  C2: every status write of a run of Reconcile stores an object the run was shown by the API server,
  changed in its status only; the phase is either kept, or a step of the phase machine from a phase
  the run was shown.
\<close>

theorem status_writes_follow_lifecycle:
  assumes "calls (Reconcile W R ns nm) h = u @ UpdateStatus obj r # v"
  shows "\<exists>src base. seen (set u) src \<and> seen (set u) base \<and> same_request obj base \<and>
    (Phase (Status obj) = Phase (Status base) \<or> controller_step (Phase (Status src)) (Phase (Status obj)))"
proof (rule Reconcile_handler [OF assms])
  fix sr
  assume "GetSR True ns nm (Inr sr) \<in> set u" "handler_call R sr (length h) (h @ u) (UpdateStatus obj r)"
  then show ?thesis using handler_UpdateStatus [of R sr "length h" "h @ u" obj r] seenI(1) by (fastforce simp: lawful_write_def)
qed simp

theorem status_writes_follow_lifecycle_witness:
  "\<exists>u obj r v src base. run (world_of sample_request) sample_reconciler = u @ UpdateStatus obj r # v \<and>
    Phase (Status obj) = Pending \<and> seen (set u) src \<and> same_request obj base \<and>
    (Phase (Status base) = Pending \<or> controller_step (Phase (Status src)) Pending)"
proof -
  obtain u obj r v where c: "run (world_of sample_request) sample_reconciler = u @ UpdateStatus obj r # v"
      "Phase (Status obj) = Pending"
    using sample_new_run by (elim stores_first) auto
  from status_writes_follow_lifecycle [OF c(1)] c show ?thesis by metis
qed

text \<open>
  C3: a run that moves a request to Executed or Failed has read it as approved uncached; unless its
  playbook was approved without a human, no workload can be left under the minted name (there is no
  name, no such Job, its deletion was accepted, or the recorded Job has finished), and the outcome is
  a failure, or the exit code and output captured from a pod controlled by the recorded Job, or, when
  the Job is gone, the exit code an earlier run recorded; Executed exactly for exit code 0.
\<close>

theorem final_phase_is_justified:
  assumes "calls (Reconcile W R ns nm) h = u @ UpdateStatus obj r # v"
    and "Phase (Status obj) \<in> {Executed, Failed}" and "enters (set u) obj"
  shows "\<exists>sr cur. GetSR True ns nm (Inr sr) \<in> set u \<and> approved_now sr (set u) cur \<and>
    (auto_playbook cur \<or> final_outcome R cur (set u) obj)"
proof (rule Reconcile_handler [OF assms(1)])
  fix sr
  assume sr: "GetSR True ns nm (Inr sr) \<in> set u" and c: "handler_call R sr (length h) (h @ u) (UpdateStatus obj r)"
  from sr have "seen (set u) sr" by (rule seenI(1))
  with handler_final [OF c] assms(2,3) sr show ?thesis by fastforce
qed simp

theorem final_phase_is_justified_witness:
  "\<exists>u obj r v cur. run finished_world sample_reconciler = u @ UpdateStatus obj r # v \<and>
    Phase (Status obj) = Executed \<and> (auto_playbook cur \<or> final_outcome sample_reconciler cur (set u) obj)"
proof -
  have "list_ex (stores Executed) (run finished_world sample_reconciler)"
    "list_all (not_shown Executed) (takeWhile (\<lambda>c. \<not> stores Executed c) (run finished_world sample_reconciler))"
    by code_simp+
  then obtain u obj r v where c: "run finished_world sample_reconciler = u @ UpdateStatus obj r # v"
      "Phase (Status obj) = Executed" "enters (set u) obj"
    by (rule stores_first)
  from final_phase_is_justified [OF c(1) _ c(3)] c show ?thesis by auto
qed

text \<open>A run only reads a request in a terminal phase (or one the program does not know), and is done.\<close>

lemma terminal_requests_untouched:
  assumes "w_get_sr W h True ns nm = Inr sr" and "DeletionTimestamp sr = None" and "terminal (Phase (Status sr))"
  shows "run_state (Reconcile W R ns nm) h = (Inr done_result, h @ [GetSR True ns nm (Inr sr)])"
  using assms
  by (auto simp: Reconcile_def dispatch_def terminal_def runs split: phase.split)

text \<open>
  C16: the notification carries, in its link, the token whose hash the request's status committed to,
  read from the Secret the status names; it is sent only for a request read as pending and younger
  than the pending limit.
\<close>

theorem notification_carries_committed_token:
  assumes "calls (Reconcile W R ns nm) h = u @ PostMessage form r # v"
  shows "\<exists>sr cur. GetSR True ns nm (Inr sr) \<in> set u \<and> Phase (Status sr) = Pending \<and>
    live (set u) sr \<and> in_hand sr (set u) cur \<and> carries_committed_token R cur (set u) form"
proof (rule Reconcile_handler [OF assms])
  fix sr
  assume sr: "GetSR True ns nm (Inr sr) \<in> set u" and c: "handler_call R sr (length h) (h @ u) (PostMessage form r)"
  from handler_PostMessage [OF c] sr show ?thesis by (auto intro: approval_sent_carries)
qed simp

theorem notification_carries_committed_token_witness:
  "\<exists>u form r v cur. run pending_world sample_reconciler = u @ PostMessage form r # v \<and>
    carries_committed_token sample_reconciler cur (set u) form"
proof -
  have "list_ex (\<lambda>c. case c of PostMessage form r \<Rightarrow> True | _ \<Rightarrow> False) (run pending_world sample_reconciler)"
    by code_simp
  then obtain u form r v where c: "run pending_world sample_reconciler = u @ PostMessage form r # v"
    by (elim makes) (auto split: call.splits)
  from notification_carries_committed_token [OF c] c show ?thesis by blast
qed

text \<open>
  C25: an event that announces a phase is published only after a write was accepted, in the same run,
  of an object with that UID, and the phase is the one written or the one the API server stored.
\<close>

theorem phases_published_after_write:
  assumes "calls (Reconcile W R ns nm) h = u @ PublishEvent uid e # v"
  shows "\<exists>obj stored. UpdateStatus obj (Inr stored) \<in> set u \<and> uid = UID stored \<and> e_Type e = ''phase'' \<and>
    (e_Phase e = Phase (Status obj) \<or> e_Phase e = Phase (Status stored))"
proof (rule Reconcile_handler [OF assms])
  fix sr
  assume c: "handler_call R sr (length h) (h @ u) (PublishEvent uid e)"
  from handler_PublishEvent [OF c] show ?thesis by (auto simp: published_def)
qed simp

theorem phases_published_after_write_witness:
  "\<exists>u uid e v obj stored. run finished_world sample_reconciler = u @ PublishEvent uid e # v \<and>
    UpdateStatus obj (Inr stored) \<in> set u \<and> uid = UID stored"
proof -
  have "list_ex (\<lambda>c. case c of PublishEvent uid e \<Rightarrow> True | _ \<Rightarrow> False) (run finished_world sample_reconciler)"
    by code_simp
  then obtain u uid e v where c: "run finished_world sample_reconciler = u @ PublishEvent uid e # v"
    by (elim makes) (auto split: call.splits)
  from phases_published_after_write [OF c] c show ?thesis by blast
qed

text \<open>
  C17: a run that moves a request to Pending was given one without a phase that passes every check,
  has already stored the Secret with the plaintext token, and commits in the same write to the hash
  of that token, its expiry, and the name under which the Secret was stored.
\<close>

theorem pending_commits_to_stored_token:
  assumes "calls (Reconcile W R ns nm) h = u @ UpdateStatus obj r # v"
    and "Phase (Status obj) = Pending" and "enters (set u) obj"
  shows "\<exists>sr token t sec. GetSR True ns nm (Inr sr) \<in> set u \<and> Phase (Status sr) = NoPhase \<and> accepted_new R sr \<and>
    CreateSecret (token_secret sr token (t + ApprovalTokenTTL * second)) (Inr sec) \<in> set u \<and>
    ApprovalTokenHash (Status obj) = sha256_hex (rc_lib R) token \<and>
    ApprovalTokenExpiresAt (Status obj) = Some (t + ApprovalTokenTTL * second) \<and>
    ApprovalTokenSecretName (Status obj) = s_Name sec"
proof (rule Reconcile_handler [OF assms(1)])
  fix sr
  assume sr: "GetSR True ns nm (Inr sr) \<in> set u" and c: "handler_call R sr (length h) (h @ u) (UpdateStatus obj r)"
  have "seen (set u) sr" using sr by (rule seenI(1))
  with handler_admits [OF c] assms(2,3) have ph: "Phase (Status sr) = NoPhase" and w: "new_write R sr (set u) obj" by auto
  from new_write_phases(2) [OF w assms(2)] have "accepted_new R sr" "parked R (set u) sr obj" by auto
  with sr ph show ?thesis by (fastforce simp: parked_def pending_status_def)
qed simp

theorem pending_commits_to_stored_token_witness:
  "\<exists>u obj r v sr token t sec. run (world_of sample_request) sample_reconciler = u @ UpdateStatus obj r # v \<and>
    CreateSecret (token_secret sr token t) (Inr sec) \<in> set u \<and>
    ApprovalTokenHash (Status obj) = sha256_hex (rc_lib sample_reconciler) token"
proof -
  from sample_new_run obtain u obj r v where c: "run (world_of sample_request) sample_reconciler = u @ UpdateStatus obj r # v"
      "Phase (Status obj) = Pending" "enters (set u) obj"
    by (rule stores_first)
  from pending_commits_to_stored_token [OF c] c(1) show ?thesis by blast
qed



text \<open>
  C13: a Job is deleted only if it is the executor's: a run for a request that is being deleted, and
  still has the finalizer, deletes only the Job it has read at the minted name; a run for an approved
  request deletes only a Job it has read at that name or created itself, except for the automatic
  playbook, which deletes only the terminal Job whose UID was recorded when it was approved, under
  that UID as a precondition.
\<close>

theorem deleted_jobs_are_the_requests_own:
  assumes "calls (Reconcile W R ns nm) h = u @ DeleteJob jns jnm uid r # v"
  shows "\<exists>sr. GetSR True ns nm (Inr sr) \<in> set u \<and>
    (\<exists>j. jns = j_Namespace j \<and> jnm = j_Name j \<and>
      (DeletionTimestamp sr \<noteq> None \<and> executorCleanupFinalizer \<in> set (Finalizers sr) \<and> job_read R sr (set u) j \<or>
       (\<exists>cur. approved_now sr (set u) cur \<and>
         (if auto_playbook cur then target_checked R cur (set u) j \<and> uid = Some (PlaybookTargetUID (Status cur))
          else job_read R cur (set u) j \<or> created_here R cur (set u) j))))"
proof (rule Reconcile_handler [OF assms])
  fix sr
  assume sr: "GetSR True ns nm (Inr sr) \<in> set u" and c: "handler_call R sr (length h) (h @ u) (DeleteJob jns jnm uid r)"
  from handler_DeleteJob [OF c] sr show ?thesis by (fastforce simp: target_checked_def)
qed simp

theorem deleted_jobs_are_the_requests_own_witness:
  "\<exists>u jns jnm r v sr cur j. run playbook_world sample_reconciler = u @ DeleteJob jns jnm (Some ''j1'') r # v \<and>
    approved_now sr (set u) cur \<and> auto_playbook cur \<and> target_checked sample_reconciler cur (set u) j"
proof -
  have "list_ex (\<lambda>c. case c of DeleteJob jns jnm uid r \<Rightarrow> uid = Some ''j1'' | _ \<Rightarrow> False) (run playbook_world sample_reconciler)"
    by code_simp
  then obtain u jns jnm r v where c: "run playbook_world sample_reconciler = u @ DeleteJob jns jnm (Some ''j1'') r # v"
    by (elim makes) (auto split: call.splits)
  have "list_all (\<lambda>c. case c of GetSR b ns nm (Inr sr) \<Rightarrow> DeletionTimestamp sr = None \<and> auto_playbook sr | _ \<Rightarrow> True)
      (run playbook_world sample_reconciler)"
    by code_simp
  then have shown: "DeletionTimestamp sr = None \<and> auto_playbook sr" if "GetSR b ns nm (Inr sr) \<in> set u" for b ns nm sr
    using that unfolding c list_all_append by (auto simp: list_all_iff)
  from deleted_jobs_are_the_requests_own [OF c] obtain sr j where
    s: "GetSR True ''ctl'' ''r1'' (Inr sr) \<in> set u"
      "DeletionTimestamp sr \<noteq> None \<or> (\<exists>cur. approved_now sr (set u) cur \<and>
         (if auto_playbook cur then target_checked sample_reconciler cur (set u) j
          else job_read sample_reconciler cur (set u) j \<or> created_here sample_reconciler cur (set u) j))"
    by (metis (no_types, lifting))
  from s shown [OF s(1)] obtain cur where cur: "approved_now sr (set u) cur"
    "auto_playbook cur \<longrightarrow> target_checked sample_reconciler cur (set u) j" by (auto split: if_splits)
  moreover from cur(1) shown have "auto_playbook cur" by (auto simp: approved_now_def)
  ultimately show ?thesis using c by blast
qed

text \<open>
  C20: the cleanup finalizer is taken off a request that is being deleted only when no workload of it
  can be left, by an update that changes nothing else; it is put on only for an approved request whose
  executor runs in another namespace and which does not have it.
\<close>

theorem finalizer_guards_the_workload:
  assumes "calls (Reconcile W R ns nm) h = u @ UpdateSR obj r # v"
  shows "\<exists>sr. GetSR True ns nm (Inr sr) \<in> set u \<and>
    (DeletionTimestamp sr \<noteq> None \<and> obj = remove_finalizer sr \<and> job_settled R sr (set u) \<or>
     (\<exists>cur. approved_now sr (set u) cur \<and> executorNamespace cur (controllerNamespace R) \<noteq> controllerNamespace R \<and>
       executorCleanupFinalizer \<notin> set (Finalizers cur) \<and>
       obj = cur\<lparr>Finalizers := Finalizers cur @ [executorCleanupFinalizer]\<rparr>))"
proof (rule Reconcile_handler [OF assms])
  fix sr
  assume sr: "GetSR True ns nm (Inr sr) \<in> set u" and c: "handler_call R sr (length h) (h @ u) (UpdateSR obj r)"
  from handler_UpdateSR [OF c] sr show ?thesis by (auto simp: needs_finalizer_def)
qed simp

theorem finalizer_guards_the_workload_witness:
  "\<exists>u obj r v sr. run deleting_world sample_reconciler = u @ UpdateSR obj r # v \<and>
    GetSR True ''ctl'' ''r1'' (Inr sr) \<in> set u \<and>
    (obj = remove_finalizer sr \<and> job_settled sample_reconciler sr (set u) \<or> (\<exists>cur. approved_now sr (set u) cur))"
proof -
  have "list_ex (\<lambda>c. case c of UpdateSR obj r \<Rightarrow> True | _ \<Rightarrow> False) (run deleting_world sample_reconciler)"
    by code_simp
  then obtain u obj r v where c: "run deleting_world sample_reconciler = u @ UpdateSR obj r # v"
    by (elim makes) (auto split: call.splits)
  from finalizer_guards_the_workload [OF c] c show ?thesis by blast
qed



section \<open>Decisions of a human\<close>

text \<open>
  C18: Approve and Deny write only a request with that UID that the list shows as pending; the write is
  the step of the machine from Pending to Approved or Denied, records who decided (and the reason of a
  denial) and burns the token; an approval clears the marks of the automatic playbook, so a human
  never selects that path.
\<close>

theorem decisions_only_of_pending:
  assumes "calls (if approving then Approve W R uid who else Deny W R uid who reason) h = u @ UpdateStatus obj r # v"
  shows "\<exists>sr. listed R uid (set u) sr \<and> same_request obj sr \<and> human_step (Phase (Status sr)) (Phase (Status obj)) \<and>
    ApprovalTokenHash (Status obj) = '''' \<and> ApprovalTokenExpiresAt (Status obj) = None \<and>
    ApprovalTokenSecretName (Status obj) = '''' \<and>
    (if approving
     then Phase (Status obj) = Approved \<and> ApprovedBy (Status obj) = who \<and> \<not> PlaybookAutoApproved (Status obj)
     else Phase (Status obj) = Denied \<and> DeniedBy (Status obj) = who \<and> DenialReason (Status obj) = reason)"
proof (cases approving)
  case True
  with approve.decided_write assms obtain sr t where
    "listed R uid (set u) sr" "Phase (Status sr) = Pending" "obj = Status_update (approved_status t who) sr"
    unfolding Approve_decide by fastforce
  with True show ?thesis by (intro exI [of _ sr]) (simp add: approved_status_def burn_token_def)
next
  case False
  with deny.decided_write assms obtain sr t where
    "listed R uid (set u) sr" "Phase (Status sr) = Pending" "obj = Status_update (denied_by_status t who reason) sr"
    unfolding Deny_decide by fastforce
  with False show ?thesis by (intro exI [of _ sr]) (simp add: denied_by_status_def burn_token_def)
qed

lemma sample_decision:
  "list_ex (\<lambda>c. case c of UpdateStatus obj r \<Rightarrow> True | _ \<Rightarrow> False) (calls (Approve pending_world sample_reconciler ''u1'' ''bob'') [])"
  "list_ex (\<lambda>c. case c of UpdateStatus obj r \<Rightarrow> True | _ \<Rightarrow> False) (calls (Deny pending_world sample_reconciler ''u1'' ''bob'' ''no'') [])"
  by code_simp+

theorem decisions_only_of_pending_witness:
  "(\<exists>u obj r v. calls (Approve pending_world sample_reconciler ''u1'' ''bob'') [] = u @ UpdateStatus obj r # v \<and>
      Phase (Status obj) = Approved \<and> ApprovedBy (Status obj) = ''bob'' \<and> ApprovalTokenHash (Status obj) = '''') \<and>
   (\<exists>u obj r v. calls (Deny pending_world sample_reconciler ''u1'' ''bob'' ''no'') [] = u @ UpdateStatus obj r # v \<and>
      Phase (Status obj) = Denied \<and> DenialReason (Status obj) = ''no'')"
proof -
  obtain u obj r v where a: "calls (Approve pending_world sample_reconciler ''u1'' ''bob'') [] = u @ UpdateStatus obj r # v"
    using sample_decision(1) by (elim makes) (auto split: call.splits)
  obtain u' obj' r' v' where d: "calls (Deny pending_world sample_reconciler ''u1'' ''bob'' ''no'') [] = u' @ UpdateStatus obj' r' # v'"
    using sample_decision(2) by (elim makes) (auto split: call.splits)
  have "Phase (Status obj) = Approved \<and> ApprovedBy (Status obj) = ''bob'' \<and> ApprovalTokenHash (Status obj) = ''''"
    using decisions_only_of_pending [where approving = True, unfolded if_True, OF a] by blast
  moreover have "Phase (Status obj') = Denied \<and> DenialReason (Status obj') = ''no''"
    using decisions_only_of_pending [where approving = False, unfolded if_False, OF d] by blast
  ultimately show ?thesis using a d by blast
qed



section \<open>Components\<close>


text \<open>
  C30: the executor Job runs with the cluster-admin service account exactly when cluster-admin is
  enabled, which only happens in the controller namespace, and otherwise as the default service
  account with no token mounted; it is never retried, lives between two minutes and an hour after it
  finished, and every container runs as non-root under the hardened security context and within the
  stamped resources.
\<close>

theorem executor_job_locked_down:
  assumes "j = buildExecutorJob L rules sr (executorNamespace sr cns) nm x cns" and "p = j_PodSpec j"
  shows "j_Name j = nm \<and> j_BackoffLimit j = Some 0 \<and>
    (\<exists>ttl. j_TTLSecondsAfterFinished j = Some ttl \<and> 120 \<le> ttl \<and> ttl \<le> 3600) \<and>
    (if clusterAdminEnabled sr cns then ps_ServiceAccountName p = ExecutorSAName \<and> j_Namespace j = cns
     else ps_ServiceAccountName p = ''default'' \<and> ps_AutomountServiceAccountToken p = Some False) \<and>
    (j_Owners j = (if j_Namespace j = cns then [ownerRef sr] else [])) \<and>
    ps_RestartPolicy p = ''Never'' \<and> ps_RunAsNonRoot p = Some True \<and>
    (\<forall>c\<in>set (ps_InitContainers p @ ps_Containers p).
       c_SecurityContext c = Some hardenedContainerSecurityContext \<and> c_Resources c = executorResources)"
  using job_ttl_bounds(2) [of sr] clusterAdmin_namespace [of sr cns] executor_pod_hardened [of _ L rules sr x cns]
  unfolding assms job_ttl_bounds(1)
  by (simp add: buildExecutorJob_def executor_pod_sel(4,5) executor_pod_settings executorServiceAccount_def)

theorem executor_job_locked_down_witness:
  "ps_ServiceAccountName (j_PodSpec (executor_job sample_reconciler (away_request True) sample_extras)) = ''default'' \<and>
   ps_AutomountServiceAccountToken (j_PodSpec (executor_job sample_reconciler (away_request True) sample_extras)) = Some False \<and>
   ps_ServiceAccountName (j_PodSpec (executor_job sample_reconciler (away_request False) sample_extras)) = ExecutorSAName"
  using executor_job_locked_down [OF refl refl, of sample_lib "[]" "away_request True" "''ctl''" "''''" sample_extras]
    executor_job_locked_down [OF refl refl, of sample_lib "[]" "away_request False" "''ctl''" "''''" sample_extras]
  by (simp add: executor_job_def away_request_def clusterAdminEnabled_def executorNamespace_def samples
      controllerNamespace_def configuredControllerNamespace_def)

text \<open>
  C31: in the pod of a validated request whose volume names are distinct, the volumes keep distinct
  names and in every container, the executor and the init containers, each mount refers to a volume of
  the pod and no path is mounted twice, whatever scratch space and stdin payload were added.
\<close>

theorem executor_pod_mounts_consistent:
  assumes "validateSpecExtras L sr cns = None" and "decodePodExtras L sr = Inr x"
    and "distinct (map v_Name (px_Volumes x))"
  shows "pod_volumes_ok (j_PodSpec (buildExecutorJob L rules sr ns nm x cns))"
proof -
  have "extras_ok sr x" using assms(1,2) by (auto simp: validateSpecExtras_None spec_ok_def)
  then show ?thesis
    using executor_pod_volumes_distinct [of sr x L rules cns] executor_pod_mounts_ok [of sr x _ L rules cns] assms(3)
    by (simp add: pod_volumes_ok_def buildExecutorJob_def)
qed

theorem executor_pod_mounts_consistent_witness:
  "pod_volumes_ok (j_PodSpec (buildExecutorJob sample_lib [] sample_request ''ctl'' ''n'' sample_extras ''ctl''))"
  by (rule executor_pod_mounts_consistent)
     (simp_all add: validateSpecExtras_None spec_ok_def extras_ok_def samples decodePodExtras_def decode_field_def sample_extras_def)

text \<open>
  C36: what a capture keeps of a log stream is its longest prefix within the limit, with the length
  and digest of the whole stream; a stream that ends in an error is not reported at all.
\<close>

theorem capture_is_bounded_prefix:
  "consumePodLogs L (chunks, err) =
     (case err of
        Some e \<Rightarrow> Inl e
      | None \<Rightarrow> Inr (take MaxOutputBytes (concat chunks), int (length (concat chunks)), sha256_hex L (concat chunks)))"
  by (rule consumePodLogs_eq)


text \<open>
  C39: whatever the interleaving of subscribers, readers and publishers that have left the lock, a
  subscriber of one request holds, and will be offered, only events of that request.
\<close>

theorem subscribers_are_isolated:
  assumes "hub_reach s" and "c \<in> set (subscribers (hub s) uid)" and "e \<in> set (queue_of (hub s) c)"
  shows "e_UID e = uid"
  using hub_reach_isolated [OF assms(1)] assms(2,3) by (auto simp: isolated_def)

theorem subscribers_are_isolated_witness:
  "\<exists>s e. hub_reach s \<and> 0 \<in> set (subscribers (hub s) ''u1'') \<and> queue_of (hub s) 0 = [e] \<and> e_UID e = ''u1''"
proof -
  let ?b = "snd (Subscribe ''u1'' NewBroadcaster)"
  let ?e = "(zero_event ''phase'' Pending)\<lparr>e_UID := ''u1''\<rparr>"
  let ?s = "\<lparr>hub = send ?e 0 ?b, inflight = [(?e, [])]\<rparr>"
  have "hub_reach \<lparr>hub = NewBroadcaster, inflight = []\<rparr>" by (rule hub_init)
  then have "hub_reach \<lparr>hub = ?b, inflight = []\<rparr>"
    using hub_next [OF _ hub_step.subscribe [of "\<lparr>hub = NewBroadcaster, inflight = []\<rparr>" "''u1''"]] by simp
  moreover have "snapshot ''u1'' ?b = [0]" by code_simp
  ultimately have "hub_reach \<lparr>hub = ?b, inflight = [(?e, [0])]\<rparr>"
    using hub_next [OF _ hub_step.publish [of "\<lparr>hub = ?b, inflight = []\<rparr>" "''u1''" "zero_event ''phase'' Pending"]] by simp
  then have r: "hub_reach ?s"
    using hub_next [OF _ hub_step.offer [of "\<lparr>hub = ?b, inflight = [(?e, [0])]\<rparr>" "[]" ?e "[]" 0 "[]" "[]"]] by simp
  have "0 \<in> set (subscribers (hub ?s) ''u1'')" "queue_of (hub ?s) 0 = [?e]" by code_simp+
  with r subscribers_are_isolated [OF r, of 0 "''u1''" ?e] show ?thesis by auto
qed

text \<open>
  C40: a subscriber that does not read yet receives, complete and in order, the first events published
  for its request, as long as they fit its buffer of eight.
\<close>

theorem buffered_events_arrive_in_order:
  assumes "hub_ok b" and "Subscribe uid b = (ch, b')" and "length es \<le> 8"
  shows "queue_of (fold (Publish uid) es b') ch = map (\<lambda>e. e\<lparr>e_UID := uid\<rparr>) es"
  using assms by (rule Subscribe_then_publishes)

theorem buffered_events_arrive_in_order_witness:
  "queue_of (fold (Publish ''u1'') [zero_event ''phase'' Pending, zero_event ''output'' Executed]
       (snd (Subscribe ''u1'' NewBroadcaster))) 0 =
     [(zero_event ''phase'' Pending)\<lparr>e_UID := ''u1''\<rparr>, (zero_event ''output'' Executed)\<lparr>e_UID := ''u1''\<rparr>]"
proof -
  have "Subscribe ''u1'' NewBroadcaster = (0, snd (Subscribe ''u1'' NewBroadcaster))"
    by (simp add: Subscribe_def NewBroadcaster_def Let_def)
  from buffered_events_arrive_in_order [OF hub_ok_New this, of "[zero_event ''phase'' Pending, zero_event ''output'' Executed]"]
  show ?thesis by simp
qed

section \<open>The assembled program\<close>

lemma http_create_accepted:
  assumes "main_setup L F P env = Inr sys"
    and "calls (ServeHTTP W (sy_api sys) req) h = u @ CreateSR gen obj r # v"
  shows "accepted_new (sy_reconciler sys) obj"
  using http_create [OF assms(2)] namespaces_agree [OF assms(1)]
  by (intro submission_accepted) simp

text \<open>
  C14: the gate of the API and the gate of the reconciler agree.  In a program that main has set up,
  whatever request the HTTP API creates, submitted or resubmitted, passes every check of the
  reconciler, and no run of it on an object with that spec ever moves the object to Denied.
\<close>

theorem admitted_over_http_never_rejected:
  assumes "main_setup L F P env = Inr sys"
    and "calls (ServeHTTP W (sy_api sys) req) h = u @ CreateSR gen obj r # v"
    and "calls (Reconcile W' (sy_reconciler sys) ns nm) h' = u' @ UpdateStatus obj' r' # v'"
    and "Spec obj' = Spec obj" and "enters (set u') obj'"
  shows "accepted_new (sy_reconciler sys) obj \<and> Phase (Status obj') \<noteq> Denied"
proof (rule Reconcile_handler [OF assms(3)])
  fix sr
  assume sr: "GetSR True ns nm (Inr sr) \<in> set u'" "handler_call (sy_reconciler sys) sr (length h') (h' @ u') (UpdateStatus obj' r')"
  have ok: "accepted_new (sy_reconciler sys) obj" by (rule http_create_accepted [OF assms(1,2)])
  have "Phase (Status obj') \<noteq> Denied"
  proof
    assume d: "Phase (Status obj') = Denied"
    with handler_admits [OF sr(2)] assms(5) sr(1) have w: "new_write (sy_reconciler sys) sr (set u') obj'"
      by (auto intro: seenI(1))
    then have "\<not> accepted_new (sy_reconciler sys) sr" "Spec obj' = Spec sr" using d
      by (auto simp: new_write_def parked_def set_playbook_approved_def auto_approved_status_def pending_status_def same_request_def derived_def)
    then show False using ok accepted_new_spec [of sr obj "sy_reconciler sys"] assms(4) by simp
  qed
  with ok show ?thesis by simp
qed simp

definition sample_env :: environment where
  "sample_env k = (case map_of [(''POD_NAMESPACE'', ''ctl''), (''PUSHOVER_TOKEN'', ''pt''), (''PUSHOVER_USER_KEY'', ''pu''),
     (''PUBLIC_BASE_URL'', ''https://sudo''), (''ADMIN_GROUP'', ''admins'')] k of Some v \<Rightarrow> v | None \<Rightarrow> '''')"

definition no_files :: files where
  "no_files = \<lparr>fl_read = \<lambda>path. Inl (True, ''no such file''), fl_rules = \<lambda>s. Inr [], fl_playbooks = \<lambda>s. Inr []\<rparr>"

text \<open>A cluster whose clients are numbers, and whose identity provider is its issuer.\<close>

definition sample_platform :: "(nat, nat, string) platform" where
  "sample_platform = \<lparr>pf_config = \<lambda>n. Inr n, pf_clientset = \<lambda>n. Inr n, pf_logs = \<lambda>cs ns pod c. Inr ([], None),
     pf_manager = \<lambda>n ns. None, pf_provider = \<lambda>issuer. Inr issuer, pf_reconciler = None, pf_runnable = None\<rparr>"

lemma sample_setup:
  "\<exists>sys. main_setup sample_lib no_files sample_platform sample_env = Inr sys \<and> sy_reconciler sys = sample_reconciler \<and>
     sy_gc_namespace sys = ''ctl'' \<and> sy_api sys = sample_api \<and> jv_audience (sy_verifier sys) = ''sudo-service''"
  by (simp add: main_setup_def loadConfig_def config_of_def getenv_def sample_env_def Let_def configuredControllerNamespace_def
      sample_lib_def LoadAutoApproveConfig_def LoadPlaybookConfig_def assemble_def sample_reconciler_def sample_api_def
      NewSummarizer_def NewPushoverClient_def main_clients_def NewJWTVerifier_def NewTokenReviewer_def
      NewRequesterAuthorizer_def sample_platform_def)

theorem admitted_over_http_never_rejected_witness:
  "\<exists>u gen obj r v u' obj' r' v'.
     served (world_of failed_request) (by_requester ''POST'' ''/requests'') = u @ CreateSR gen obj r # v \<and>
     run (world_of sample_request) sample_reconciler = u' @ UpdateStatus obj' r' # v' \<and> Spec obj' = Spec obj \<and>
     accepted_new sample_reconciler obj \<and> Phase (Status obj') \<noteq> Denied"
proof -
  obtain sys where m: "main_setup sample_lib no_files sample_platform sample_env = Inr sys"
    "sy_reconciler sys = sample_reconciler" "sy_api sys = sample_api"
    using sample_setup by blast
  from create_run obtain u gen obj r v where
    c: "served (world_of failed_request) (by_requester ''POST'' ''/requests'') = u @ CreateSR gen obj r # v" "Spec obj = sample_spec"
    by (elim makes) (auto split: call.splits)
  from sample_first_write obtain u' c' v' where
    w: "run (world_of sample_request) sample_reconciler = u' @ c' # v'" "writes_to sample_request Pending c'"
      "list_all (shows_only sample_request) u'"
    by (rule makes_first)
  then obtain obj' r' where o: "c' = UpdateStatus obj' r'" "Phase (Status obj') = Pending" "same_request obj' sample_request"
    by (auto simp: writes_to_def split: call.splits)
  have spec: "Spec obj' = Spec obj" using o(3) c(2) by (simp add: same_request_def sample_request_def)
  have new: "enters (set u') obj'"
    using shows_only_seen [OF w(3)] o(2) by (force simp: enters_def sample_request_def zero_status_def)
  have s: "calls (ServeHTTP (world_of failed_request) (sy_api sys) (by_requester ''POST'' ''/requests'')) [] = u @ CreateSR gen obj r # v"
    using c(1) m(3) by simp
  have t: "calls (Reconcile (world_of sample_request) (sy_reconciler sys) ''ctl'' ''r1'') [] = u' @ UpdateStatus obj' r' # v'"
    using w(1) o(1) m(2) by simp
  have "run (world_of sample_request) sample_reconciler = u' @ UpdateStatus obj' r' # v'" using w(1) o(1) by simp
  moreover have "accepted_new sample_reconciler obj \<and> Phase (Status obj') \<noteq> Denied"
    using admitted_over_http_never_rejected [OF m(1) s t spec new] m(2) by simp
  ultimately show ?thesis using c(1) spec by blast
qed

text \<open>
  C32: what main sets up is well formed.  The reconciler, the HTTP API, the collector and the
  authorizer work in one namespace, whose name is a valid label; the group of the administrators and
  the credentials of the notification service are not empty; ID tokens are checked for a non-empty
  audience, by the provider of the configured issuer; the endpoint of the review aid has no trailing
  slash; duplicates are searched with uncached reads; and every playbook rule in force has passed its
  validation.
\<close>

theorem started_program_is_well_formed:
  assumes "main_setup L F P env = Inr sys"
  shows "serverNamespace (sy_api sys) = controllerNamespace (sy_reconciler sys) \<and>
    configuredControllerNamespace (sy_gc_namespace sys) = controllerNamespace (sy_reconciler sys) \<and>
    configuredControllerNamespace (az_ControllerNamespace (sy_authorizer sys)) = controllerNamespace (sy_reconciler sys) \<and>
    dns1123_label L (controllerNamespace (sy_reconciler sys)) = [] \<and>
    as_Reconciler (sy_api sys) = sy_reconciler sys \<and> as_APIReader (sy_api sys) \<and> as_AdminGroup (sy_api sys) \<noteq> '''' \<and>
    po_Token (rc_Pushover (sy_reconciler sys)) \<noteq> '''' \<and> po_UserKey (rc_Pushover (sy_reconciler sys)) \<noteq> '''' \<and>
    jv_audience (sy_verifier sys) \<noteq> '''' \<and> pf_provider P (cf_KeycloakIssuer (sy_config sys)) = Inr (jv_provider (sy_verifier sys)) \<and>
    (case sy_summarizer sys of
       None \<Rightarrow> rc_Summarizer (sy_reconciler sys) = None
     | Some m \<Rightarrow> rc_Summarizer (sy_reconciler sys) = Some (sm_Model m) \<and> sm_APIKey m \<noteq> '''' \<and> sm_Model m \<noteq> '''' \<and>
         \<not> suffix ''/'' (sm_BaseURL m)) \<and>
    (case rc_Playbooks (sy_reconciler sys) of
       None \<Rightarrow> False
     | Some rules \<Rightarrow> list_all (\<lambda>rule. validateTerminalJobCleanupRule L rule = None) rules)"
proof (rule main_setupD [OF assms])
  fix rules playbooks verifier reviewer authorizer
  assume sys: "sys = assemble L (config_of env) rules playbooks verifier reviewer authorizer"
    and m: "cf_PushoverToken (config_of env) \<noteq> ''''" "cf_PushoverUserKey (config_of env) \<noteq> ''''"
      "dns1123_label L (cf_ControllerNamespace (config_of env)) = []"
    and load: "LoadPlaybookConfig L (read_file F) (fl_playbooks F) (cf_PlaybookConfigPath (config_of env)) = Inr playbooks"
    and clients: "main_clients P (config_of env) = Inr (verifier, reviewer, authorizer)"
  have "cf_AdminGroup (config_of env) \<noteq> ''''" "cf_KeycloakAudience (config_of env) \<noteq> ''''"
    by (simp_all add: config_of_def getenv_def)
  moreover have "list_all (\<lambda>rule. validateTerminalJobCleanupRule L rule = None) playbooks"
    using LoadPlaybookConfig_valid [OF load] by (simp add: list_all_iff)
  moreover have "configuredControllerNamespace (cf_ControllerNamespace (config_of env)) = controllerNamespace (sy_reconciler sys)"
    using namespaces_agree [OF assms] by (simp add: sys assemble_def Let_def)
  ultimately show ?thesis
    using namespaces_agree [OF assms] m main_clientsD [OF clients] NewSummarizer_some
    by (simp add: sys assemble_def Let_def NewPushoverClient_def split: option.split)
qed

theorem started_program_is_well_formed_witness:
  "\<exists>sys. main_setup sample_lib no_files sample_platform sample_env = Inr sys \<and> serverNamespace (sy_api sys) = ''ctl'' \<and>
    as_AdminGroup (sy_api sys) \<noteq> '''' \<and> jv_audience (sy_verifier sys) \<noteq> '''' \<and> controllerNamespace (sy_reconciler sys) = ''ctl''"
proof -
  obtain sys where m: "main_setup sample_lib no_files sample_platform sample_env = Inr sys" "sy_api sys = sample_api"
    using sample_setup by blast
  from started_program_is_well_formed [OF m(1)] m show ?thesis by (simp add: sample_api_sel(2))
qed

end
